(* ===== verification/Py_Errors.thy ===== *)
theory Py_Errors
  imports Py_Prelude
begin

text \<open>
  Exceptions as values. The hierarchy of \<open>shared/exceptions.py\<close> is one constructor with a
  kind, a message and a context; an exception of the Python library is its class name and its
  text. A call that may raise returns a value of type \<open>'a res\<close>, \<open>Inl\<close> for the exception;
  a method that also changes an object returns the result and the new object, so that an
  exception keeps the changes made before it.
\<close>

datatype error_kind = KBuncker | KConfig | KCrypto | KStore | KResolver | KRegistry | KTransfer

datatype exc =
    BunckerError error_kind string dict
  | AuthError int string string
  | PyError string string

type_synonym 'a res = "exc + 'a"

abbreviation "ConfigError m c \<equiv> BunckerError KConfig m c"
abbreviation "CryptoError m c \<equiv> BunckerError KCrypto m c"
abbreviation "StoreError m c \<equiv> BunckerError KStore m c"
abbreviation "ResolverError m c \<equiv> BunckerError KResolver m c"
abbreviation "RegistryError m c \<equiv> BunckerError KRegistry m c"
abbreviation "TransferError m c \<equiv> BunckerError KTransfer m c"

fun rbind :: "'a res \<Rightarrow> ('a \<Rightarrow> 'b res) \<Rightarrow> 'b res" where
  "rbind (Inl e) f = Inl e"
| "rbind (Inr x) f = f x"

fun rmap :: "('a \<Rightarrow> 'b res) \<Rightarrow> 'a list \<Rightarrow> 'b list res" where
  "rmap f [] = Inr []"
| "rmap f (x # xs) = rbind (f x) (\<lambda>y. rbind (rmap f xs) (\<lambda>ys. Inr (y # ys)))"

lemma rbind_Inr_iff: "rbind r f = Inr y \<longleftrightarrow> (\<exists>x. r = Inr x \<and> f x = Inr y)"
  by (cases r) auto

lemma rbind_Inl_iff: "rbind r f = Inl e \<longleftrightarrow> r = Inl e \<or> (\<exists>x. r = Inr x \<and> f x = Inl e)"
  by (cases r) auto

lemma rbind_split: "P (rbind r f) \<longleftrightarrow> (\<forall>e. r = Inl e \<longrightarrow> P (Inl e)) \<and> (\<forall>x. r = Inr x \<longrightarrow> P (f x))"
  by (cases r) auto

lemma rmap_Inr_length: "rmap f xs = Inr ys \<Longrightarrow> length ys = length xs"
  by (induction xs arbitrary: ys) (auto simp: rbind_Inr_iff)

lemma rmap_map: "(\<And>x. x \<in> set xs \<Longrightarrow> f x = Inr (g x)) \<Longrightarrow> rmap f xs = Inr (map g xs)"
  by (induction xs) auto

text \<open>\<open>d[k]\<close> on a dictionary, and \<open>d.get (k)\<close>, which gives \<open>None\<close>.\<close>

definition key_error :: "string \<Rightarrow> exc" where
  "key_error k = PyError ''KeyError'' ([CHR 0x27] @ k @ [CHR 0x27])"

definition dindex :: "(string \<times> 'v) list \<Rightarrow> string \<Rightarrow> 'v res" where
  "dindex d k = (case dget d k of None \<Rightarrow> Inl (key_error k) | Some v \<Rightarrow> Inr v)"

definition attr_error :: "pyval \<Rightarrow> string \<Rightarrow> exc" where
  "attr_error v m = PyError ''AttributeError''
     ([CHR 0x27] @ type_name v @ [CHR 0x27] @ '' object has no attribute '' @ [CHR 0x27] @ m @ [CHR 0x27])"

definition type_error :: "string \<Rightarrow> exc" where
  "type_error m = PyError ''TypeError'' m"

definition value_error :: "string \<Rightarrow> exc" where
  "value_error m = PyError ''ValueError'' m"

text \<open>What a call outside the model is read as.\<close>

definition not_modelled :: exc where
  "not_modelled = PyError ''NotModelled'' []"

lemma dindex_Some [simp]: "dget d k = Some v \<Longrightarrow> dindex d k = Inr v"
  by (simp add: dindex_def)

lemma dindex_Inr_iff: "dindex d k = Inr v \<longleftrightarrow> dget d k = Some v"
  by (simp add: dindex_def split: option.splits)

text \<open>
  \<open>v[k]\<close> and \<open>v.get (k, w)\<close> where \<open>v\<close> is a value read from a document: anything but a
  dictionary raises.
\<close>

definition vindex :: "pyval \<Rightarrow> string \<Rightarrow> pyval res" where
  "vindex v k = (case v of
       PDict d \<Rightarrow> dindex d k
     | PList xs \<Rightarrow> Inl (type_error ''list indices must be integers or slices, not str'')
     | PStr s \<Rightarrow> Inl (type_error (''string indices must be integers, not '' @ [CHR 0x27] @ ''str'' @ [CHR 0x27]))
     | _ \<Rightarrow> Inl (type_error ([CHR 0x27] @ type_name v @ [CHR 0x27] @ '' object is not subscriptable'')))"

definition vget :: "pyval \<Rightarrow> string \<Rightarrow> pyval \<Rightarrow> pyval res" where
  "vget v k w = (case v of PDict d \<Rightarrow> Inr (dget_or d k w) | _ \<Rightarrow> Inl (attr_error v ''get''))"

lemma vindex_PDict [simp]: "vindex (PDict d) k = dindex d k"
  by (simp add: vindex_def)

lemma vget_PDict [simp]: "vget (PDict d) k w = Inr (dget_or d k w)"
  by (simp add: vget_def)

section \<open>The text of an exception\<close>

definition hex_digit :: "nat \<Rightarrow> char" where
  "hex_digit n = (if n < 10 then char_of (48 + n) else char_of (87 + n))"

definition hex_byte :: "char \<Rightarrow> string" where
  "hex_byte c = [hex_digit (code c div 16), hex_digit (code c mod 16)]"

definition hex_str :: "bytes \<Rightarrow> string" where
  "hex_str bs = concat (map hex_byte bs)"

definition repr_char :: "char \<Rightarrow> char \<Rightarrow> string" where
  "repr_char q c = (let n = code c in
     if c = q \<or> n = 92 then [CHR 0x5C, c]
     else if n = 9 then [CHR 0x5C, CHR ''t'']
     else if n = 10 then [CHR 0x5C, CHR ''n'']
     else if n = 13 then [CHR 0x5C, CHR ''r'']
     else if n < 32 \<or> (127 \<le> n \<and> n \<le> 160) \<or> n = 173 then [CHR 0x5C, CHR ''x''] @ hex_byte c
     else [c])"

definition repr_str :: "string \<Rightarrow> string" where
  "repr_str s =
     (let q = (if CHR 0x27 \<in> set s \<and> CHR 0x22 \<notin> set s then CHR 0x22 else CHR 0x27)
      in [q] @ concat (map (repr_char q) s) @ [q])"

fun repr :: "pyval \<Rightarrow> string" where
  "repr PNone = ''None''"
| "repr (PBool b) = (if b then ''True'' else ''False'')"
| "repr (PInt i) = int_str i"
| "repr (PFloat f) = f"
| "repr (PStr s) = repr_str s"
| "repr (PList xs) = ''['' @ join '', '' (map repr xs) @ '']''"
| "repr (PDict d) = ''{'' @ join '', '' (map (\<lambda>(k, v). repr_str k @ '': '' @ repr v) d) @ ''}''"

definition str_of :: "pyval \<Rightarrow> string" where
  "str_of v = (case v of PStr s \<Rightarrow> s | _ \<Rightarrow> repr v)"

text \<open>\<open>BunckerError.__str__\<close>: the context is shown when there is one.\<close>

fun exc_str :: "exc \<Rightarrow> string" where
  "exc_str (BunckerError k m c) = (if c \<noteq> [] then m @ '' ('' @ repr (PDict c) @ '')'' else m)"
| "exc_str (AuthError s m c) = m"
| "exc_str (PyError t m) = m"

end
