(* ===== verification/Py_Json.thy ===== *)
theory Py_Json
  imports Py_Errors "HOL-Library.List_Lexorder" "HOL-Library.Char_ord"
begin

text \<open>
  \<open>json.dumps\<close> with its default separators: strings are escaped to printable ASCII, keys are
  sorted by code point on request, floats are written as their literal.
\<close>

definition json_escape :: "char \<Rightarrow> string" where
  "json_escape c = (let n = code c in
     if n = 34 \<or> n = 92 then [CHR 0x5C, c]
     else if n = 10 then [CHR 0x5C, CHR ''n'']
     else if n = 13 then [CHR 0x5C, CHR ''r'']
     else if n = 9 then [CHR 0x5C, CHR ''t'']
     else if n = 8 then [CHR 0x5C, CHR ''b'']
     else if n = 12 then [CHR 0x5C, CHR ''f'']
     else if 32 \<le> n \<and> n \<le> 126 then [c]
     else [CHR 0x5C, CHR ''u'', CHR ''0'', CHR ''0''] @ hex_byte c)"

definition json_string :: "string \<Rightarrow> string" where
  "json_string s = [CHR 0x22] @ concat (map json_escape s) @ [CHR 0x22]"

fun json_dumps :: "bool \<Rightarrow> pyval \<Rightarrow> string" where
  "json_dumps sk PNone = ''null''"
| "json_dumps sk (PBool b) = (if b then ''true'' else ''false'')"
| "json_dumps sk (PInt i) = int_str i"
| "json_dumps sk (PFloat f) = f"
| "json_dumps sk (PStr s) = json_string s"
| "json_dumps sk (PList xs) = ''['' @ join '', '' (map (json_dumps sk) xs) @ '']''"
| "json_dumps sk (PDict d) =
     (let items = map (\<lambda>(k, v). (k, json_dumps sk v)) d;
          items = (if sk then sort_key fst items else items)
      in ''{'' @ join '', '' (map (\<lambda>(k, t). json_string k @ '': '' @ t) items) @ ''}'')"

text \<open>With \<open>indent=2\<close>: one element or item per line, \<open>k\<close> levels deep.\<close>

definition newline :: "nat \<Rightarrow> string" where
  "newline k = CHR 0x0A # replicate (2 * k) CHR '' ''"

fun json_pretty :: "nat \<Rightarrow> pyval \<Rightarrow> string" where
  "json_pretty k (PList xs) =
     (if xs = [] then ''[]''
      else ''['' @ newline (Suc k) @ join ('','' @ newline (Suc k)) (map (json_pretty (Suc k)) xs) @ newline k @ '']'')"
| "json_pretty k (PDict d) =
     (if d = [] then ''{}''
      else ''{'' @ newline (Suc k) @ join ('','' @ newline (Suc k)) (map (\<lambda>(key, v). json_string key @ '': '' @ json_pretty (Suc k) v) d)
        @ newline k @ ''}'')"
| "json_pretty k v = json_dumps False v"

text \<open>
  With sorted keys the text depends on the dictionary's contents only, not on the order in
  which they were inserted.
\<close>

lemma sort_key_perm:
  fixes xs ys :: "(string \<times> 'v) list"
  assumes "distinct (map fst xs)" "distinct (map fst ys)" "set xs = set ys"
  shows "sort_key fst xs = sort_key fst ys"
proof -
  let ?a = "sort_key fst xs" and ?b = "sort_key fst ys"
  have x: "distinct xs \<and> inj_on fst (set xs)" using assms(1) unfolding distinct_map .
  have y: "distinct ys \<and> inj_on fst (set ys)" using assms(2) unfolding distinct_map .
  have "distinct (map fst ?a)" unfolding distinct_map distinct_sort set_sort by (rule x)
  moreover have "distinct (map fst ?b)" unfolding distinct_map distinct_sort set_sort by (rule y)
  moreover have "sorted (map fst ?a)" "sorted (map fst ?b)" by simp_all
  moreover have "set (map fst ?a) = set (map fst ?b)" using assms(3) by simp
  ultimately have "map fst ?a = map fst ?b" by (intro sorted_distinct_set_unique)
  moreover have "inj_on fst (set ?a \<union> set ?b)" unfolding set_sort using x assms(3) by simp
  ultimately show ?thesis by (rule map_inj_on)
qed

lemma json_dumps_order:
  assumes "distinct (dkeys d)" "distinct (dkeys e)" "set d = set e"
  shows "json_dumps True (PDict d) = json_dumps True (PDict e)"
proof -
  let ?f = "\<lambda>(k, v). (k, json_dumps True v)"
  have m: "map fst (map ?f x) = map fst x" for x :: dict by (induction x) auto
  have "sort_key fst (map ?f d) = sort_key fst (map ?f e)"
    by (rule sort_key_perm) (simp_all only: m assms set_map)
  then show ?thesis by simp
qed

text \<open>The text is ASCII, so its UTF-8 encoding is the text itself, provided the float literals are.\<close>

fun plain_floats :: "pyval \<Rightarrow> bool" where
  "plain_floats (PFloat f) = list_all (\<lambda>c. code c < 128) f"
| "plain_floats (PList xs) = list_all plain_floats xs"
| "plain_floats (PDict d) = list_all (\<lambda>(k, v). plain_floats v) d"
| "plain_floats _ = True"

end
