(* ===== verification/Sha256.thy ===== *)
theory Sha256
  imports Py_Errors "HOL-Library.Word"
begin

text \<open>
  The functions of Python's \<open>hashlib\<close> and \<open>hmac\<close> the program uses, after FIPS 180-4 and
  RFC 2104: SHA-256, its hexadecimal digest, and HMAC-SHA256. The theorems of the
  development need of them that they are functions, and of how many and which characters a
  digest consists.
\<close>

unbundle bit_operations_syntax

section \<open>SHA-256\<close>

type_synonym w32 = "32 word"

text \<open>The tables of constants, as lines of hexadecimal words.\<close>

definition hex_word :: "string \<Rightarrow> w32" where
  "hex_word s = foldl (\<lambda>v c. 16 * v + word_of_nat (if code c < 58 then code c - 48 else code c - 87)) 0 s"

definition hex_words :: "string list \<Rightarrow> w32 list" where
  "hex_words rows = map hex_word (concat (map split_ws rows))"

definition sha_k :: "w32 list" where
  "sha_k = hex_words [
    ''428a2f98 71374491 b5c0fbcf e9b5dba5 3956c25b 59f111f1 923f82a4 ab1c5ed5'',
    ''d807aa98 12835b01 243185be 550c7dc3 72be5d74 80deb1fe 9bdc06a7 c19bf174'',
    ''e49b69c1 efbe4786 0fc19dc6 240ca1cc 2de92c6f 4a7484aa 5cb0a9dc 76f988da'',
    ''983e5152 a831c66d b00327c8 bf597fc7 c6e00bf3 d5a79147 06ca6351 14292967'',
    ''27b70a85 2e1b2138 4d2c6dfc 53380d13 650a7354 766a0abb 81c2c92e 92722c85'',
    ''a2bfe8a1 a81a664b c24b8b70 c76c51a3 d192e819 d6990624 f40e3585 106aa070'',
    ''19a4c116 1e376c08 2748774c 34b0bcb5 391c0cb3 4ed8aa4a 5b9cca4f 682e6ff3'',
    ''748f82ee 78a5636f 84c87814 8cc70208 90befffa a4506ceb bef9a3f7 c67178f2'']"

definition sha_init :: "w32 list" where
  "sha_init = hex_words [''6a09e667 bb67ae85 3c6ef372 a54ff53a 510e527f 9b05688c 1f83d9ab 5be0cd19'']"

definition rotr32 :: "nat \<Rightarrow> w32 \<Rightarrow> w32" where
  "rotr32 n x = (drop_bit n x OR push_bit (32 - n) x)"

definition be_word :: "bytes \<Rightarrow> w32" where
  "be_word bs = foldl (\<lambda>acc c. push_bit 8 acc OR word_of_nat (code c)) 0 bs"

text \<open>The \<open>n\<close> bytes of a number, most significant first (\<open>int.to_bytes (n, "big")\<close>).\<close>

fun be_bytes :: "nat \<Rightarrow> int \<Rightarrow> bytes" where
  "be_bytes 0 v = []"
| "be_bytes (Suc n) v = be_bytes n (v div 256) @ [char_of (nat (v mod 256))]"

definition word_bytes :: "w32 \<Rightarrow> bytes" where
  "word_bytes w = be_bytes 4 (uint w)"

fun chunks_of :: "nat \<Rightarrow> 'a list \<Rightarrow> 'a list list" where
  "chunks_of n xs = (if n = 0 \<or> xs = [] then [] else take n xs # chunks_of n (drop n xs))"

declare chunks_of.simps [simp del]

definition sha_pad :: "bytes \<Rightarrow> bytes" where
  "sha_pad m = m @ CHR 0x80 # replicate ((119 - length m mod 64) mod 64) CHR 0x00 @ be_bytes 8 (8 * int (length m))"

text \<open>The message schedule, newest word first.\<close>

fun sha_sched :: "nat \<Rightarrow> w32 list \<Rightarrow> w32 list" where
  "sha_sched 0 ws = ws"
| "sha_sched (Suc n) ws =
     (let a = ws ! 14; b = ws ! 1;
          s0 = rotr32 7 a XOR rotr32 18 a XOR drop_bit 3 a;
          s1 = rotr32 17 b XOR rotr32 19 b XOR drop_bit 10 b
      in sha_sched n ((ws ! 15 + s0 + ws ! 6 + s1) # ws))"

fun sha_round :: "w32 list \<Rightarrow> w32 \<times> w32 \<Rightarrow> w32 list" where
  "sha_round [a, b, c, d, e, f, g, h] (k, w) =
     (let s1 = rotr32 6 e XOR rotr32 11 e XOR rotr32 25 e;
          ch = (e AND f) XOR (NOT e AND g);
          t1 = h + s1 + ch + k + w;
          s0 = rotr32 2 a XOR rotr32 13 a XOR rotr32 22 a;
          maj = (a AND b) XOR (a AND c) XOR (b AND c)
      in [t1 + s0 + maj, a, b, c, d + t1, e, f, g])"
| "sha_round st _ = st"

definition sha_block :: "w32 list \<Rightarrow> bytes \<Rightarrow> w32 list" where
  "sha_block st blk =
     (let ws = rev (sha_sched 48 (rev (map be_word (chunks_of 4 blk))))
      in map2 (+) st (foldl sha_round st (zip sha_k ws)))"

definition sha256 :: "bytes \<Rightarrow> bytes" where
  "sha256 m = concat (map word_bytes (foldl sha_block sha_init (chunks_of 64 (sha_pad m))))"

definition sha256_hex :: "bytes \<Rightarrow> string" where
  "sha256_hex m = hex_str (sha256 m)"

section \<open>HMAC\<close>

definition hmac_key_block :: "bytes \<Rightarrow> bytes" where
  "hmac_key_block k = (let k' = (if 64 < length k then sha256 k else k)
     in k' @ replicate (64 - length k') CHR 0x00)"

definition xor_bytes :: "nat \<Rightarrow> bytes \<Rightarrow> bytes" where
  "xor_bytes n bs = map (\<lambda>c. char_of (code c XOR n)) bs"

definition hmac_sha256 :: "bytes \<Rightarrow> bytes \<Rightarrow> bytes" where
  "hmac_sha256 k m = (let kb = hmac_key_block k
     in sha256 (xor_bytes 0x5c kb @ sha256 (xor_bytes 0x36 kb @ m)))"

section \<open>Shape of the results\<close>

lemma length_be_bytes [simp]: "length (be_bytes n v) = n"
  by (induction n v rule: be_bytes.induct) auto

lemma length_word_bytes [simp]: "length (word_bytes w) = 4"
  by (simp add: word_bytes_def)

lemma length_sha_round: "length st = 8 \<Longrightarrow> length (sha_round st kw) = 8"
  by (cases "(st, kw)" rule: sha_round.cases) (auto simp: Let_def)

lemma length_foldl_round: "length st = 8 \<Longrightarrow> length (foldl sha_round st kws) = 8"
  by (induction kws arbitrary: st) (auto simp: length_sha_round)

lemma length_sha_block: "length st = 8 \<Longrightarrow> length (sha_block st blk) = 8"
  by (simp add: sha_block_def Let_def length_foldl_round)

lemma length_foldl_block: "length st = 8 \<Longrightarrow> length (foldl sha_block st bs) = 8"
  by (induction bs arbitrary: st) (auto simp: length_sha_block)

lemma length_concat_const: "(\<And>x. length (f x) = n) \<Longrightarrow> length (concat (map f xs)) = n * length xs"
  by (induction xs) auto

lemma length_sha256 [simp]: "length (sha256 m) = 32"
proof -
  have "length sha_init = 8" by code_simp
  then show ?thesis
    by (simp add: sha256_def length_concat_const[of word_bytes 4] length_foldl_block)
qed

lemma length_hex_str [simp]: "length (hex_str bs) = 2 * length bs"
  by (simp add: hex_str_def length_concat_const[of hex_byte 2] hex_byte_def)

lemma length_sha256_hex [simp]: "length (sha256_hex m) = 64"
  by (simp add: sha256_hex_def)

definition hex_chars :: "char list" where
  "hex_chars = ''0123456789abcdef''"

lemma hex_digit_nth: "n < 16 \<Longrightarrow> hex_digit n = hex_chars ! n"
proof -
  have "\<forall>i \<in> set [0..<16]. hex_digit i = hex_chars ! i" by code_simp
  then show "n < 16 \<Longrightarrow> hex_digit n = hex_chars ! n" by simp
qed

lemma hex_digit_in: "n < 16 \<Longrightarrow> hex_digit n \<in> set hex_chars"
  using nth_mem[of n hex_chars] by (simp add: hex_digit_nth hex_chars_def)

lemma code_less: "code c < 256"
  by (simp add: code_def)

lemma set_hex_byte: "set (hex_byte c) \<subseteq> set hex_chars"
  using code_less[of c] by (auto simp: hex_byte_def intro!: hex_digit_in)

lemma set_hex_str: "set (hex_str bs) \<subseteq> set hex_chars"
  using set_hex_byte by (fastforce simp: hex_str_def)

lemma set_sha256_hex: "set (sha256_hex m) \<subseteq> set hex_chars"
  by (simp add: sha256_hex_def set_hex_str)

text \<open>A digest never starts with the prefix the program puts before it.\<close>

lemma hex_not_prefix: "\<not> startswith (hex_str bs) ''sha256:''"
proof
  assume "startswith (hex_str bs) ''sha256:''"
  then obtain t where "hex_str bs = ''sha256:'' @ t" by (auto dest: startswithE)
  then have "CHR '':'' \<in> set (hex_str bs)" by simp
  with set_hex_str have "CHR '':'' \<in> set hex_chars" by blast
  then show False by (simp add: hex_chars_def)
qed

lemma removeprefix_hex [simp]: "removeprefix (sha256_hex m) ''sha256:'' = sha256_hex m"
  by (simp add: sha256_hex_def hex_not_prefix)

end
