(* ===== verification/Py_Time.thy ===== *)
theory Py_Time
  imports Py_Errors
begin

text \<open>
  Python's \<open>datetime\<close> as the program uses it. An instant in UTC is the number of microseconds
  since the start of year 1, up to the end of year 9999. \<open>isoformat\<close> writes it, and
  \<open>fromisoformat\<close> reads a text the way Python 3.11 and later do: a date with dashes or without, alone or before
  any separator and a time of day, with colons or without, to the hour, the minute, the second or a fraction of
  it, with \<open>Z\<close>, an offset or neither. The dates of the week calendar, and the times that some releases accept
  and others refuse, end in \<open>not_modelled\<close>.
\<close>

type_synonym instant = nat

definition is_leap :: "nat \<Rightarrow> bool" where
  "is_leap y = (y mod 4 = 0 \<and> (y mod 100 \<noteq> 0 \<or> y mod 400 = 0))"

definition year_days :: "nat \<Rightarrow> nat" where
  "year_days y = (if is_leap y then 366 else 365)"

definition month_days :: "nat \<Rightarrow> nat \<Rightarrow> nat" where
  "month_days y m =
     (if m = 2 then (if is_leap y then 29 else 28) else if m \<in> {4, 6, 9, 11} then 30 else 31)"

text \<open>Days before the first of January of year \<open>y\<close>, and before the first of month \<open>m\<close> in it.\<close>

fun days_before_year :: "nat \<Rightarrow> nat" where
  "days_before_year 0 = 0"
| "days_before_year (Suc y) = (if y = 0 then 0 else days_before_year y + year_days y)"

fun days_before_month :: "nat \<Rightarrow> nat \<Rightarrow> nat" where
  "days_before_month y 0 = 0"
| "days_before_month y (Suc m) = (if m = 0 then 0 else days_before_month y m + month_days y m)"

text \<open>The year and month of a day, by stepping from year \<open>y\<close> and month \<open>m\<close> on.\<close>

function find_year :: "nat \<Rightarrow> nat \<Rightarrow> nat \<times> nat" where
  "find_year y d = (if d < year_days y then (y, d) else find_year (Suc y) (d - year_days y))"
  by pat_completeness auto
termination
  by (relation "measure snd") (auto simp: year_days_def)

declare find_year.simps [simp del]

function find_month :: "nat \<Rightarrow> nat \<Rightarrow> nat \<Rightarrow> nat \<times> nat" where
  "find_month y m d =
     (if m = 12 \<or> d < month_days y m then (m, d) else find_month y (Suc m) (d - month_days y m))"
  by pat_completeness auto
termination
  by (relation "measure (\<lambda>(y, m, d). d)") (auto simp: month_days_def split: if_splits)

declare find_month.simps [simp del]

definition day_us :: nat where
  "day_us = 86400000000"

text \<open>The largest instant: 3652059 days, the years 1 to 9999.\<close>

definition max_instant :: nat where
  "max_instant = 3652059 * 86400000000"

fun pad :: "nat \<Rightarrow> nat \<Rightarrow> string" where
  "pad 0 n = []"
| "pad (Suc k) n = pad k (n div 10) @ [digit_char (n mod 10)]"

definition digits_val :: "string \<Rightarrow> nat" where
  "digits_val s = foldl (\<lambda>v c. 10 * v + (code c - 48)) 0 s"

definition iso_time :: "nat \<Rightarrow> string" where
  "iso_time u = pad 2 (u div 3600000000) @ '':'' @ pad 2 (u div 60000000 mod 60) @ '':''
     @ pad 2 (u div 1000000 mod 60) @ (if u mod 1000000 = 0 then '''' else ''.'' @ pad 6 (u mod 1000000))"

definition isoformat :: "instant \<Rightarrow> string" where
  "isoformat t =
     (let (y, d) = find_year 1 (t div day_us);
          (m, d') = find_month y 1 d
      in pad 4 y @ ''-'' @ pad 2 m @ ''-'' @ pad 2 (d' + 1) @ ''T'' @ iso_time (t mod day_us) @ ''+00:00'')"

definition field :: "nat \<Rightarrow> nat \<Rightarrow> string \<Rightarrow> nat option" where
  "field i k s = (let w = take k (drop i s)
     in if length w = k \<and> list_all is_digit w then Some (digits_val w) else None)"

definition char_at :: "nat \<Rightarrow> char \<Rightarrow> string \<Rightarrow> bool" where
  "char_at i c s = (take 1 (drop i s) = [c])"

definition iso_error :: exc where
  "iso_error = value_error ''Invalid isoformat string''"

text \<open>The date: its day from the start of year 1, and where its text ends.\<close>

definition read_date :: "string \<Rightarrow> (nat \<times> nat) res" where
  "read_date s =
     (case field 0 4 s of
        None \<Rightarrow> Inl iso_error
      | Some y \<Rightarrow>
          let dash = char_at 4 CHR ''-'' s in
          if char_at (if dash then 5 else 4) CHR ''W'' s then Inl not_modelled
          else case (if dash then (field 5 2 s, if char_at 7 CHR ''-'' s then field 8 2 s else None)
                     else (field 4 2 s, field 6 2 s)) of
            (Some m, Some d) \<Rightarrow>
              if 1 \<le> y \<and> 1 \<le> m \<and> m \<le> 12 \<and> 1 \<le> d \<and> d \<le> month_days y m
              then Inr (days_before_year y + days_before_month y m + (d - 1), if dash then 10 else 8)
              else Inl iso_error
          | _ \<Rightarrow> Inl iso_error)"

text \<open>The next two digits of a time, after a colon or without it, and its fraction of a second in microseconds.\<close>

definition clock_part :: "bool \<Rightarrow> string \<Rightarrow> (nat \<times> string) option" where
  "clock_part colon s =
     (if colon then (if char_at 0 CHR '':'' s then map_option (\<lambda>v. (v, drop 3 s)) (field 1 2 s) else None)
      else map_option (\<lambda>v. (v, drop 2 s)) (field 0 2 s))"

definition clock_fraction :: "string \<Rightarrow> nat option" where
  "clock_fraction s =
     (if s = [] then Some 0
      else if hd s \<in> {CHR ''.'', CHR '',''} \<and> tl s \<noteq> [] \<and> list_all is_digit (tl s)
        then Some (digits_val (take 6 (tl s @ ''000000'')))
      else None)"

text \<open>
  Hours, minutes, seconds and microseconds. A text that does not start with two digits is refused by every
  release; the rest of what is not of this form is accepted by some.
\<close>

definition read_clock :: "string \<Rightarrow> (nat \<times> nat \<times> nat \<times> nat) res" where
  "read_clock s =
     (case field 0 2 s of
        None \<Rightarrow> Inl iso_error
      | Some h \<Rightarrow>
          let colon = char_at 2 CHR '':'' s; r = drop 2 s in
          if r = [] then Inr (h, 0, 0, 0)
          else case clock_part colon r of
            None \<Rightarrow> Inl not_modelled
          | Some (m, r) \<Rightarrow>
              if r = [] then Inr (h, m, 0, 0)
              else case clock_part colon r of
                None \<Rightarrow> Inl not_modelled
              | Some (sec, r) \<Rightarrow> (case clock_fraction r of None \<Rightarrow> Inl not_modelled | Some f \<Rightarrow> Inr (h, m, sec, f)))"

definition clock_us :: "nat \<Rightarrow> nat \<Rightarrow> nat \<Rightarrow> nat \<Rightarrow> nat" where
  "clock_us h m sec f = ((h * 60 + m) * 60 + sec) * 1000000 + f"

text \<open>The offset from UTC in microseconds; \<open>None\<close> is a time without one.\<close>

definition read_zone :: "string \<Rightarrow> int option res" where
  "read_zone s =
     (case s of
        [] \<Rightarrow> Inr None
      | c # s \<Rightarrow>
          if c = CHR ''Z'' then (if s = [] then Inr (Some 0) else Inl iso_error)
          else rbind (read_clock s) (\<lambda>(h, m, sec, f).
            if 24 \<le> h then Inl iso_error
            else if 60 \<le> m \<or> 60 \<le> sec then Inl not_modelled
            else Inr (Some ((if c = CHR ''-'' then -1 else 1) * int (clock_us h m sec f)))))"

definition zone_mark :: "char \<Rightarrow> bool" where
  "zone_mark c = (c \<in> {CHR ''+'', CHR ''-'', CHR ''Z''})"

definition read_time :: "string \<Rightarrow> (nat \<times> int option) res" where
  "read_time s =
     rbind (read_clock (takeWhile (\<lambda>c. \<not> zone_mark c) s)) (\<lambda>(h, m, sec, f).
     rbind (read_zone (dropWhile (\<lambda>c. \<not> zone_mark c) s)) (\<lambda>off.
     if h = 24 then Inl not_modelled
     else if 24 < h \<or> 60 \<le> m \<or> 60 \<le> sec then Inl iso_error
     else Inr (clock_us h m sec f, off)))"

text \<open>A parsed date: the local time and its offset; an aware one stands for an instant.\<close>

definition fromisoformat :: "string \<Rightarrow> (nat \<times> int option) res" where
  "fromisoformat s =
     rbind (read_date s) (\<lambda>(day, end_of_date).
     case drop end_of_date s of
       [] \<Rightarrow> Inr (day * day_us, None)
     | separator # rest \<Rightarrow>
         if 128 \<le> code separator then Inl not_modelled
         else if rest = [] then Inr (day * day_us, None)
         else rbind (read_time rest) (\<lambda>(us, off). Inr (day * day_us + us, off)))"

text \<open>
  Comparing or subtracting an aware instant and a parsed date: a date without an offset raises.
\<close>

definition naive_error :: exc where
  "naive_error = type_error ''can't compare offset-naive and offset-aware datetimes''"

definition utc_of :: "nat \<times> int option \<Rightarrow> int res" where
  "utc_of p = (case snd p of None \<Rightarrow> Inl naive_error | Some off \<Rightarrow> Inr (int (fst p) - off))"

definition from_iso_utc :: "string \<Rightarrow> int res" where
  "from_iso_utc s = rbind (fromisoformat s) utc_of"

text \<open>\<open>now - timedelta (days=n)\<close>, and \<open>(now - then).days\<close>, the floor of the difference.\<close>

definition overflow_error :: exc where
  "overflow_error = PyError ''OverflowError'' ''date value out of range''"

definition minus_days :: "instant \<Rightarrow> int \<Rightarrow> int res" where
  "minus_days now n =
     (if n < -999999999 \<or> 999999999 < n then Inl overflow_error
      else let t = int now - n * int day_us
           in if t < 0 \<or> int max_instant \<le> t then Inl overflow_error else Inr t)"

definition age_days :: "instant \<Rightarrow> int \<Rightarrow> int" where
  "age_days now t = (int now - t) div int day_us"

section \<open>Reading back what was written\<close>

lemma length_pad [simp]: "length (pad k n) = k"
  by (induction k n rule: pad.induct) auto

lemma code_digit_char: "n < 10 \<Longrightarrow> code (digit_char n) = n + 48"
  by (simp add: digit_char_def code_def)

lemma pad_digits [simp]: "list_all is_digit (pad k n)"
  by (induction k n rule: pad.induct) (auto simp: is_digit_def code_digit_char)

lemma digits_val_pad [simp]: "n < 10 ^ k \<Longrightarrow> digits_val (pad k n) = n"
proof (induction k n rule: pad.induct)
  case (1 n)
  then show ?case by (simp add: digits_val_def)
next
  case (2 k n)
  then have "digits_val (pad k (n div 10)) = n div 10" by (simp add: less_mult_imp_div_less mult.commute)
  then show ?case by (simp add: digits_val_def code_digit_char)
qed

lemma find_year_days:
  "find_year y d = (y', d') \<Longrightarrow> 1 \<le> y \<Longrightarrow>
     days_before_year y + d = days_before_year y' + d' \<and> d' < year_days y' \<and> y \<le> y'"
proof (induction y d arbitrary: y' d' rule: find_year.induct)
  case (1 y d)
  show ?case
  proof (cases "d < year_days y")
    case True
    with 1(2) show ?thesis by (simp add: find_year.simps)
  next
    case False
    with 1(2) have "find_year (Suc y) (d - year_days y) = (y', d')" by (simp add: find_year.simps)
    from 1(1)[OF False this] False 1(3) show ?thesis by auto
  qed
qed

lemma find_month_days:
  "find_month y m d = (m', d') \<Longrightarrow> 1 \<le> m \<Longrightarrow> m \<le> 12 \<Longrightarrow> d + days_before_month y m < year_days y \<Longrightarrow>
     days_before_month y m + d = days_before_month y m' + d' \<and> d' < month_days y m' \<and> 1 \<le> m' \<and> m' \<le> 12"
proof (induction y m d arbitrary: m' d' rule: find_month.induct)
  case (1 y m d)
  have total: "days_before_month y 12 + month_days y 12 = year_days y"
    by (simp add: numeral_eq_Suc month_days_def year_days_def)
  show ?case
  proof (cases "m = 12 \<or> d < month_days y m")
    case True
    with 1(2) have "m' = m" "d' = d" by (simp_all add: find_month.simps)
    with True 1 total show ?thesis by auto
  next
    case False
    with 1(2) have f: "find_month y (Suc m) (d - month_days y m) = (m', d')" by (simp add: find_month.simps)
    have "d - month_days y m + days_before_month y (Suc m) < year_days y" using False 1(3,5) by auto
    with 1(1)[OF False f] False 1(3,4) show ?thesis by auto
  qed
qed

lemma days_before_year_mono: "y \<le> y' \<Longrightarrow> days_before_year y \<le> days_before_year y'"
proof (induction y' rule: dec_induct)
  case (step n)
  then show ?case by auto
qed simp

lemma days_before_year_closed:
  "days_before_year (Suc n) + n div 100 = 365 * n + n div 4 + n div 400"
proof (induction n)
  case (Suc n)
  have "Suc n mod 400 mod 100 = Suc n mod 100" "Suc n mod 100 mod 4 = Suc n mod 4"
    by (rule mod_mod_cancel, simp)+
  then have "Suc n mod 400 = 0 \<Longrightarrow> Suc n mod 100 = 0" "Suc n mod 100 = 0 \<Longrightarrow> Suc n mod 4 = 0" by auto
  with Suc show ?case by (simp add: div_Suc year_days_def is_leap_def)
qed simp

lemma days_before_10000: "days_before_year 10000 = 3652059"
  using days_before_year_closed[of 9999] by (simp del: days_before_year.simps)

lemma year_below_10000:
  "days_before_year y + d < 3652059 \<Longrightarrow> y < 10000"
proof (rule ccontr)
  assume "days_before_year y + d < 3652059" "\<not> y < 10000"
  then show False using days_before_year_mono[of 10000 y] days_before_10000 by simp
qed

lemma iso_time_parts:
  assumes "u < day_us"
  shows "u div 3600000000 < 24"
    and "((u div 3600000000 * 60 + u div 60000000 mod 60) * 60 + u div 1000000 mod 60) * 1000000 + u mod 1000000 = u"
proof -
  show "u div 3600000000 < 24" using assms by (simp add: day_us_def less_mult_imp_div_less)
  have e: "u div 60000000 = u div 1000000 div 60" "u div 3600000000 = u div 1000000 div 60 div 60"
    by (simp_all add: div_mult2_eq[symmetric])
  show "((u div 3600000000 * 60 + u div 60000000 mod 60) * 60 + u div 1000000 mod 60) * 1000000 + u mod 1000000 = u"
    unfolding e by (simp only: div_mult_mod_eq)
qed

lemma iso_fields:
  fixes rest :: string
  assumes "y < 10000" "m < 100" "d < 100"
    and s: "s = pad 4 y @ ''-'' @ pad 2 m @ ''-'' @ pad 2 d @ rest"
  shows "field 0 4 s = Some y" "field 5 2 s = Some m" "field 8 2 s = Some d" "char_at 4 CHR ''-'' s" "char_at 7 CHR ''-'' s"
    "drop 10 s = rest"
  using assms(1-3) unfolding s by (simp_all add: field_def char_at_def drop_Cons' del: pad.simps)

lemma iso_no_week:
  "\<not> char_at 5 CHR ''W'' (pad 4 y @ ''-'' @ pad 2 m @ rest)"
proof -
  have "pad 2 m = [digit_char (m div 10 mod 10), digit_char (m mod 10)]" by (simp add: numeral_2_eq_2)
  moreover have "digit_char (n mod 10) \<noteq> CHR ''W''" for n
    by (rule notI, drule arg_cong[where f = code]) (simp add: code_digit_char, simp add: code_def)
  ultimately show ?thesis by (simp add: char_at_def drop_Cons')
qed

lemma takeWhile_all:
  "list_all P w \<Longrightarrow> \<not> P c \<Longrightarrow> takeWhile P (w @ c # s) = w \<and> dropWhile P (w @ c # s) = c # s"
  by (induction w) auto

lemma pad_unmarked [simp]: "list_all (\<lambda>c. \<not> zone_mark c) (pad k n)"
proof -
  have "is_digit c \<Longrightarrow> \<not> zone_mark c" for c by (auto simp: zone_mark_def is_digit_def code_def)
  then show ?thesis using pad_digits[of k n] by (auto simp: list_all_iff simp del: pad_digits)
qed

lemma zone_mark_punct: "\<not> zone_mark CHR '':''" "\<not> zone_mark CHR ''.''"
  by code_simp+

lemma read_clock_iso:
  assumes "h < 100" "i < 100" "sec < 100" "f < 1000000"
  shows "read_clock (pad 2 h @ '':'' @ pad 2 i @ '':'' @ pad 2 sec @ (if f = 0 then '''' else ''.'' @ pad 6 f)) = Inr (h, i, sec, f)"
proof -
  have "pad 6 f \<noteq> []" using length_pad[of 6 f] by force
  with assms show ?thesis
    by (simp add: read_clock_def clock_part_def clock_fraction_def field_def char_at_def drop_Cons' Let_def del: pad.simps)
qed

lemma read_time_iso:
  assumes "h < 24" "i < 60" "sec < 60" "f < 1000000"
  shows "read_time (pad 2 h @ '':'' @ pad 2 i @ '':'' @ pad 2 sec @ (if f = 0 then '''' else ''.'' @ pad 6 f) @ ''+00:00'')
    = Inr (clock_us h i sec f, Some 0)"
proof -
  define w where "w = pad 2 h @ '':'' @ pad 2 i @ '':'' @ pad 2 sec @ (if f = 0 then '''' else ''.'' @ pad 6 f)"
  have "list_all (\<lambda>c. \<not> zone_mark c) w" unfolding w_def using zone_mark_punct by (simp del: pad.simps)
  then have t: "takeWhile (\<lambda>c. \<not> zone_mark c) (w @ CHR ''+'' # ''00:00'') = w
      \<and> dropWhile (\<lambda>c. \<not> zone_mark c) (w @ CHR ''+'' # ''00:00'') = CHR ''+'' # ''00:00''"
    by (rule takeWhile_all) (simp add: zone_mark_def)
  have z: "read_zone (CHR ''+'' # ''00:00'') = Inr (Some 0)"
    by (simp add: read_zone_def read_clock_def clock_part_def field_def char_at_def is_digit_def digits_val_def code_def clock_us_def)
  have c: "read_clock w = Inr (h, i, sec, f)" unfolding w_def by (rule read_clock_iso) (use assms in auto)
  have "read_time (w @ CHR ''+'' # ''00:00'') = Inr (clock_us h i sec f, Some 0)"
    unfolding read_time_def t[THEN conjunct1] t[THEN conjunct2] c z using assms by simp
  then show ?thesis by (simp only: w_def append_assoc)
qed

lemma month_days_le: "month_days y m \<le> 31"
  by (simp add: month_days_def)

text \<open>Reading an instant back gives the instant.\<close>

theorem fromisoformat_isoformat:
  assumes t: "t < max_instant"
  shows "fromisoformat (isoformat t) = Inr (t, Some 0)"
proof -
  obtain y d where yd: "find_year 1 (t div day_us) = (y, d)" by fastforce
  obtain m d' where md: "find_month y 1 d = (m, d')" by fastforce
  define u where "u = t mod day_us"
  have u: "u < day_us" by (simp add: u_def day_us_def)
  from find_year_days[OF yd] have Y: "t div day_us = days_before_year y + d" "d < year_days y" "1 \<le> y"
    by auto
  from find_month_days[OF md] Y(2) have M: "d = days_before_month y m + d'" "d' < month_days y m" "1 \<le> m" "m \<le> 12"
    by auto
  have "t div day_us < 3652059" using t by (simp add: max_instant_def day_us_def less_mult_imp_div_less)
  with Y have y: "y < 10000" by (auto intro: year_below_10000)
  have d': "d' + 1 < 100" "d' + 1 \<le> month_days y m" using M(2) month_days_le[of y m] by auto
  define time where "time = pad 2 (u div 3600000000) @ '':'' @ pad 2 (u div 60000000 mod 60) @ '':''
      @ pad 2 (u div 1000000 mod 60) @ (if u mod 1000000 = 0 then '''' else ''.'' @ pad 6 (u mod 1000000)) @ ''+00:00''"
  have s: "isoformat t = pad 4 y @ ''-'' @ pad 2 m @ ''-'' @ pad 2 (d' + 1) @ ''T'' @ time"
    unfolding isoformat_def yd Let_def prod.case md iso_time_def time_def u_def by (simp only: append_assoc)
  have h: "u div 3600000000 < 24" by (rule iso_time_parts(1)[OF u])
  have m: "m < 100" using M by simp
  note F = iso_fields[OF y m d'(1) s]
  have w: "\<not> char_at 5 CHR ''W'' (isoformat t)" unfolding s by (rule iso_no_week)
  have date: "read_date (isoformat t) = Inr (t div day_us, 10)"
    unfolding read_date_def F option.case prod.case Let_def using M d' Y w F(4,5) by simp
  have clock: "read_time time = Inr (clock_us (u div 3600000000) (u div 60000000 mod 60) (u div 1000000 mod 60) (u mod 1000000), Some 0)"
    unfolding time_def by (rule read_time_iso) (use h in auto)
  have us: "t div day_us * day_us + clock_us (u div 3600000000) (u div 60000000 mod 60) (u div 1000000 mod 60) (u mod 1000000) = t"
    using iso_time_parts(2)[OF u] by (simp add: u_def clock_us_def)
  have "time \<noteq> []" by (simp add: time_def)
  then show ?thesis
    unfolding fromisoformat_def date rbind.simps prod.case F(6) using us by (simp add: clock code_def)
qed

text \<open>The other forms of the same instant, and what is no date.\<close>

lemma fromisoformat_forms:
  "fromisoformat ''0001-01-02'' = Inr (86400000000, None)"
  "fromisoformat ''00010102T00:01Z'' = Inr (86460000000, Some 0)"
  "fromisoformat ''0001-01-02 000000,25-01:30'' = Inr (86400250000, Some (- 5400000000))"
  "fromisoformat ''0001-02-29'' = Inl iso_error"
  "fromisoformat ''0001-01-02T1:00'' = Inl iso_error"
  "fromisoformat ''0001-W01-2'' = Inl not_modelled"
  by (simp_all add: fromisoformat_def read_date_def read_time_def read_zone_def read_clock_def clock_part_def clock_fraction_def
    field_def char_at_def zone_mark_def is_digit_def digits_val_def code_def clock_us_def day_us_def month_days_def is_leap_def)

lemma from_iso_utc_isoformat [simp]: "t < max_instant \<Longrightarrow> from_iso_utc (isoformat t) = Inr (int t)"
  by (simp add: from_iso_utc_def fromisoformat_isoformat utc_of_def)

end
