(* ===== verification/Py_Files.thy ===== *)
theory Py_Files
  imports Sha256 Py_Time
begin

text \<open>
  Files as the program sees them. A directory is a list of named entries in the order the
  operating system lists them, which no theorem fixes. An entry of a blob directory is a
  regular file, a directory, or a symbolic link to a regular file or to nothing. A JSON file
  is represented by the value it parses to, or marked as not parsing. The name of an entry is
  a plain file name: the program joins digests, tags and the like to a directory, and names
  that are themselves paths are outside the model. Failures of the operating system other than
  the ones written out (a full disk, permissions) are not modelled.
\<close>

datatype node = RegFile bytes | SubDir | SymLink "bytes option"

datatype jfile = JsonFile pyval | BadJson | JsonDir

type_synonym blob_dir = "(string \<times> node) list"
type_synonym json_dir = "(string \<times> jfile) list"

text \<open>\<open>exists\<close>, \<open>is_file\<close>, \<open>stat\<close> and reading follow links; \<open>is_symlink\<close> does not.\<close>

fun node_bytes :: "node \<Rightarrow> bytes option" where
  "node_bytes (RegFile b) = Some b"
| "node_bytes SubDir = None"
| "node_bytes (SymLink t) = t"

definition is_file :: "node \<Rightarrow> bool" where
  "is_file n = (node_bytes n \<noteq> None)"

definition node_exists :: "node \<Rightarrow> bool" where
  "node_exists n = (n = SubDir \<or> is_file n)"

definition entry_exists :: "blob_dir \<Rightarrow> string \<Rightarrow> bool" where
  "entry_exists d name = (case dget d name of None \<Rightarrow> False | Some n \<Rightarrow> node_exists n)"

definition file_bytes :: "blob_dir \<Rightarrow> string \<Rightarrow> bytes option" where
  "file_bytes d name = Option.bind (dget d name) node_bytes"

text \<open>
  \<open>os.write\<close> transfers at most 0x7ffff000 bytes in one call on Linux and returns how many;
  the callers ignore the number.
\<close>

definition max_rw_count :: nat where
  "max_rw_count = 0x7ffff000"

definition os_write :: "bytes \<Rightarrow> bytes" where
  "os_write data = take max_rw_count data"

definition json_decode_error :: exc where
  "json_decode_error = PyError ''JSONDecodeError'' ''Expecting value''"

definition is_a_directory_error :: exc where
  "is_a_directory_error = PyError ''IsADirectoryError'' ''Is a directory''"

fun read_json :: "jfile \<Rightarrow> pyval res" where
  "read_json (JsonFile v) = Inr v"
| "read_json BadJson = Inl json_decode_error"
| "read_json JsonDir = Inl is_a_directory_error"

lemma os_write_id [simp]: "length data \<le> max_rw_count \<Longrightarrow> os_write data = data"
  by (simp add: os_write_def)

lemma is_file_RegFile [simp]: "is_file (RegFile b)" "node_exists (RegFile b)" "\<not> is_file SubDir" "node_exists SubDir"
  by (simp_all add: is_file_def node_exists_def)

lemma file_bytes_update:
  "file_bytes (dset d name n) name' = (if name' = name then node_bytes n else file_bytes d name')"
  by (simp add: file_bytes_def)

lemma entry_exists_update:
  "entry_exists (dset d name n) name' = (if name' = name then node_exists n else entry_exists d name')"
  by (simp add: entry_exists_def)

lemma file_bytes_exists: "file_bytes d name = Some b \<Longrightarrow> entry_exists d name"
  by (auto simp: file_bytes_def entry_exists_def node_exists_def is_file_def split: option.splits bind_splits)

section \<open>Operations on parsed values\<close>

definition vset :: "pyval \<Rightarrow> string \<Rightarrow> pyval \<Rightarrow> pyval res" where
  "vset v k w = (case v of
       PDict d \<Rightarrow> Inr (PDict (dset d k w))
     | PList xs \<Rightarrow> Inl (type_error ''list indices must be integers or slices, not str'')
     | _ \<Rightarrow> Inl (type_error ([CHR 0x27] @ type_name v @ [CHR 0x27] @ '' object does not support item assignment'')))"

lemma vset_PDict [simp]: "vset (PDict d) k w = Inr (PDict (dset d k w))"
  by (simp add: vset_def)

definition not_iterable :: "pyval \<Rightarrow> exc" where
  "not_iterable v = type_error ([CHR 0x27] @ type_name v @ [CHR 0x27] @ '' object is not iterable'')"

text \<open>\<open>for x in v\<close> and \<open>k in v\<close>.\<close>

definition viter :: "pyval \<Rightarrow> pyval list res" where
  "viter v = (case v of
       PList xs \<Rightarrow> Inr xs
     | PDict d \<Rightarrow> Inr (map (\<lambda>p. PStr (fst p)) d)
     | PStr s \<Rightarrow> Inr (map (\<lambda>c. PStr [c]) s)
     | _ \<Rightarrow> Inl (not_iterable v))"

definition vin :: "string \<Rightarrow> pyval \<Rightarrow> bool res" where
  "vin k v = (case v of
       PList xs \<Rightarrow> Inr (PStr k \<in> set xs)
     | PDict d \<Rightarrow> Inr (dget d k \<noteq> None)
     | PStr s \<Rightarrow> Inr (str_in k s)
     | _ \<Rightarrow> Inl (type_error (''argument of type '' @ [CHR 0x27] @ type_name v @ [CHR 0x27] @ '' is not iterable'')))"

text \<open>\<open>len (v)\<close>.\<close>

definition vlen :: "pyval \<Rightarrow> nat res" where
  "vlen v = (case v of PList xs \<Rightarrow> Inr (length xs) | PDict d \<Rightarrow> Inr (length d) | PStr s \<Rightarrow> Inr (length s)
     | _ \<Rightarrow> Inl (type_error (''object of type '' @ [CHR 0x27] @ type_name v @ [CHR 0x27] @ '' has no len()'')))"

lemma viter_PList [simp]: "viter (PList xs) = Inr xs"
  by (simp add: viter_def)

lemma vin_PDict [simp]: "vin k (PDict d) = Inr (dget d k \<noteq> None)"
  and vin_PList [simp]: "vin k (PList xs) = Inr (PStr k \<in> set xs)"
  by (simp_all add: vin_def)

definition vappend :: "pyval \<Rightarrow> pyval \<Rightarrow> pyval res" where
  "vappend v x = (case v of PList xs \<Rightarrow> Inr (PList (xs @ [x])) | _ \<Rightarrow> Inl (attr_error v ''append''))"

text \<open>Adding integers; arithmetic on floats is not modelled and counts as a type error.\<close>

definition vadd :: "pyval \<Rightarrow> int \<Rightarrow> int res" where
  "vadd v n = (case as_int v of Some i \<Rightarrow> Inr (i + n)
     | None \<Rightarrow> Inl (type_error (''unsupported operand type(s) for +: '' @ [CHR 0x27] @ type_name v @ [CHR 0x27] @ '' and '' @ [CHR 0x27] @ ''int'' @ [CHR 0x27])))"

lemma vappend_PList [simp]: "vappend (PList xs) x = Inr (PList (xs @ [x]))"
  by (simp add: vappend_def)

lemma vadd_PInt [simp]: "vadd (PInt i) n = Inr (i + n)"
  by (simp add: vadd_def)

definition hashable :: "pyval \<Rightarrow> bool" where
  "hashable v = (case v of PList _ \<Rightarrow> False | PDict _ \<Rightarrow> False | _ \<Rightarrow> True)"

definition check_hash :: "pyval \<Rightarrow> unit res" where
  "check_hash v = (if hashable v then Inr ()
     else Inl (type_error (''unhashable type: '' @ [CHR 0x27] @ type_name v @ [CHR 0x27])))"

lemma check_hash_PStr [simp]: "check_hash (PStr s) = Inr ()"
  by (simp add: check_hash_def hashable_def)

text \<open>\<open>datetime.fromisoformat\<close> of a value, as an instant.\<close>

definition viso :: "pyval \<Rightarrow> int res" where
  "viso v = (case v of PStr s \<Rightarrow> from_iso_utc s | _ \<Rightarrow> Inl (type_error ''fromisoformat: argument must be str''))"

lemma viso_isoformat [simp]: "t < max_instant \<Longrightarrow> viso (PStr (isoformat t)) = Inr (int t)"
  by (simp add: viso_def)

end
