(* ===== verification/Py_Codec.thy ===== *)
theory Py_Codec
  imports Sha256
begin

text \<open>
  Python's text and number codecs as the program uses them: UTF-8 for code points below 256,
  universal newlines, \<open>int.from_bytes\<close>, and the lenient Base64 decoder of \<open>binascii\<close>.
\<close>

section \<open>Text\<close>

definition encode_char :: "char \<Rightarrow> bytes" where
  "encode_char c = (let n = code c in if n < 128 then [c] else [char_of (192 + n div 64), char_of (128 + n mod 64)])"

definition py_encode :: "string \<Rightarrow> bytes" where
  "py_encode s = concat (map encode_char s)"

definition unicode_error :: exc where
  "unicode_error = PyError ''UnicodeDecodeError'' ''codec can't decode bytes''"

fun py_decode :: "bytes \<Rightarrow> string res" where
  "py_decode [] = Inr []"
| "py_decode (b # bs) =
     (if code b < 128 then rbind (py_decode bs) (\<lambda>s. Inr (b # s))
      else (case bs of
          [] \<Rightarrow> Inl unicode_error
        | c # cs \<Rightarrow>
            if (code b = 194 \<or> code b = 195) \<and> 128 \<le> code c \<and> code c < 192
            then rbind (py_decode cs) (\<lambda>s. Inr (char_of ((code b - 192) * 64 + (code c - 128)) # s))
            else Inl unicode_error))"

fun universal_newlines :: "string \<Rightarrow> string" where
  "universal_newlines [] = []"
| "universal_newlines (c # cs) =
     (if c = CHR 0x0D
      then CHR 0x0A # (case cs of [] \<Rightarrow> [] | d # ds \<Rightarrow> universal_newlines (if d = CHR 0x0A then ds else cs))
      else c # universal_newlines cs)"

definition read_text :: "bytes \<Rightarrow> string res" where
  "read_text bs = rbind (py_decode bs) (\<lambda>s. Inr (universal_newlines s))"

definition is_ascii :: "string \<Rightarrow> bool" where
  "is_ascii s = list_all (\<lambda>c. code c < 128) s"

definition bytes_space :: "char \<Rightarrow> bool" where
  "bytes_space c = (code c = 32 \<or> (9 \<le> code c \<and> code c \<le> 13))"

lemma code_char_of [simp]: "n < 256 \<Longrightarrow> code (char_of n) = n"
  by (simp add: code_def)

lemma char_of_code [simp]: "char_of (code c) = c"
  by (simp add: code_def)

lemma py_encode_Nil [simp]: "py_encode [] = []"
  and py_encode_Cons: "py_encode (c # s) = encode_char c @ py_encode s"
  by (simp_all add: py_encode_def)

lemma py_encode_ascii [simp]: "is_ascii s \<Longrightarrow> py_encode s = s"
  by (induction s) (auto simp: is_ascii_def py_encode_def encode_char_def Let_def)

theorem py_decode_encode [simp]: "py_decode (py_encode s) = Inr s"
proof (induction s)
  case (Cons c s)
  have c: "code c < 256" by (rule code_less)
  show ?case
  proof (cases "code c < 128")
    case True
    then show ?thesis using Cons by (simp add: py_encode_Cons encode_char_def Let_def)
  next
    case False
    then have q: "code c div 64 = 2 \<or> code c div 64 = 3" using c by auto
    have e: "char_of (code c div 64 * 64 + code c mod 64) = c"
      by (simp only: div_mult_mod_eq char_of_code)
    have "code c div 64 = 2 \<Longrightarrow> char_of (128 + code c mod 64) = c" using e by (simp only:) simp
    moreover have "code c div 64 = 3 \<Longrightarrow> char_of (192 + code c mod 64) = c" using e by (simp only:) simp
    ultimately show ?thesis
      using False q Cons by (auto simp: py_encode_Cons encode_char_def Let_def)
  qed
qed simp

lemma universal_newlines_id: "CHR 0x0D \<notin> set s \<Longrightarrow> universal_newlines s = s"
  by (induction s rule: universal_newlines.induct) auto

section \<open>Numbers\<close>

definition int_from_be :: "bytes \<Rightarrow> int" where
  "int_from_be bs = foldl (\<lambda>v c. v * 256 + int (code c)) 0 bs"

lemma int_from_be_snoc [simp]: "int_from_be (bs @ [c]) = int_from_be bs * 256 + int (code c)"
  by (simp add: int_from_be_def)

lemma int_from_be_bounds: "0 \<le> int_from_be bs \<and> int_from_be bs < 256 ^ length bs"
proof (induction bs rule: rev_induct)
  case Nil
  then show ?case by (simp add: int_from_be_def)
next
  case (snoc c bs)
  have "int (code c) < 256" using code_less[of c] by simp
  then have "int_from_be bs * 256 + int (code c) < (int_from_be bs + 1) * 256" by simp
  also have "\<dots> \<le> 256 ^ length bs * 256" using snoc by simp
  finally show ?case using snoc by simp
qed

lemma int_from_be_bytes: "int_from_be (be_bytes n v) = v mod 256 ^ n"
proof (induction n v rule: be_bytes.induct)
  case (1 v)
  then show ?case by (simp add: int_from_be_def)
next
  case (2 n v)
  have "int (code (char_of (nat (v mod 256)))) = v mod 256" by simp
  moreover have "v mod (256 * 256 ^ n) = v div 256 mod 256 ^ n * 256 + v mod 256"
    by (simp add: zmod_zmult2_eq)
  ultimately show ?case using 2 by simp
qed

section \<open>Base64\<close>

definition b64_alphabet :: string where
  "b64_alphabet = ''ABCDEFGHIJKLMNOPQRSTUVWXYZabcdefghijklmnopqrstuvwxyz0123456789+/''"

definition b64_char :: "nat \<Rightarrow> char" where
  "b64_char n = b64_alphabet ! n"

fun b64encode :: "bytes \<Rightarrow> string" where
  "b64encode [] = []"
| "b64encode [a] = (let x = code a in [b64_char (x div 4), b64_char (x mod 4 * 16), CHR ''='', CHR ''=''])"
| "b64encode [a, b] = (let x = code a; y = code b in
     [b64_char (x div 4), b64_char (x mod 4 * 16 + y div 16), b64_char (y mod 16 * 4), CHR ''=''])"
| "b64encode (a # b # c # bs) = (let x = code a; y = code b; z = code c in
     [b64_char (x div 4), b64_char (x mod 4 * 16 + y div 16), b64_char (y mod 16 * 4 + z div 64), b64_char (z mod 64)]
     @ b64encode bs)"

text \<open>The position of a character in the alphabet, 64 for none.\<close>

definition b64_value :: "char \<Rightarrow> nat" where
  "b64_value c = length (takeWhile (\<lambda>x. x \<noteq> c) b64_alphabet)"

definition b64_error :: exc where
  "b64_error = PyError ''Error'' ''Incorrect padding''"

fun b64_loop :: "nat \<Rightarrow> nat \<Rightarrow> nat \<Rightarrow> string \<Rightarrow> bytes res" where
  "b64_loop q left pads [] = (if q = 0 then Inr [] else Inl b64_error)"
| "b64_loop q left pads (c # cs) =
     (if c = CHR ''='' then
        (if 2 \<le> q then (if 4 \<le> q + (pads + 1) then Inr [] else b64_loop q left (pads + 1) cs)
         else b64_loop q left pads cs)
      else let v = b64_value c in
        if 64 \<le> v then b64_loop q left pads cs
        else if q = 0 then b64_loop 1 v 0 cs
        else if q = 1 then rbind (b64_loop 2 (v mod 16) 0 cs) (\<lambda>r. Inr (char_of (left * 4 + v div 16) # r))
        else if q = 2 then rbind (b64_loop 3 (v mod 4) 0 cs) (\<lambda>r. Inr (char_of (left * 16 + v div 4) # r))
        else rbind (b64_loop 0 0 0 cs) (\<lambda>r. Inr (char_of (left * 64 + v) # r)))"

definition b64decode :: "string \<Rightarrow> bytes res" where
  "b64decode s = b64_loop 0 0 0 s"

lemma b64_value_char [simp]: "n < 64 \<Longrightarrow> b64_value (b64_char n) = n"
proof -
  have "list_all (\<lambda>n. b64_value (b64_char n) = n) [0..<64]" by code_simp
  then show "n < 64 \<Longrightarrow> b64_value (b64_char n) = n" by (simp add: list_all_iff)
qed

lemma b64_char_not_pad [simp]: "n < 64 \<Longrightarrow> b64_char n \<noteq> CHR ''=''"
proof -
  have "list_all (\<lambda>n. b64_char n \<noteq> CHR ''='') [0..<64]" by code_simp
  then show "n < 64 \<Longrightarrow> b64_char n \<noteq> CHR ''=''" by (simp add: list_all_iff)
qed

text \<open>One step of the decoder on a character of the alphabet.\<close>

lemma b64_step:
  assumes "v < 64"
  shows "b64_loop 0 l p (b64_char v # cs) = b64_loop (Suc 0) v 0 cs"
    and "b64_loop (Suc 0) l p (b64_char v # cs) = rbind (b64_loop 2 (v mod 16) 0 cs) (\<lambda>r. Inr (char_of (l * 4 + v div 16) # r))"
    and "b64_loop 2 l p (b64_char v # cs) = rbind (b64_loop 3 (v mod 4) 0 cs) (\<lambda>r. Inr (char_of (l * 16 + v div 4) # r))"
    and "b64_loop 3 l p (b64_char v # cs) = rbind (b64_loop 0 0 0 cs) (\<lambda>r. Inr (char_of (l * 64 + v) # r))"
  using assms by (simp_all add: Let_def)

lemma b64_end:
  "b64_loop 0 l p [] = Inr []"
  "b64_loop 2 l 0 ''=='' = Inr []"
  "b64_loop 3 l 0 ''='' = Inr []"
  by simp_all

text \<open>Groups of six bits put bytes back together.\<close>

lemma six_bits:
  fixes x y z :: nat
  assumes "x < 256" "y < 256" "z < 256"
  shows "x div 4 < 64" "x mod 4 * 16 < 64" "x mod 4 * 16 + y div 16 < 64" "y mod 16 * 4 < 64"
    "y mod 16 * 4 + z div 64 < 64" "z mod 64 < 64"
    "(x mod 4 * 16) div 16 = x mod 4" "x div 4 * 4 + x mod 4 = x"
    "(x mod 4 * 16 + y div 16) div 16 = x mod 4" "(x mod 4 * 16 + y div 16) mod 16 = y div 16"
    "(y mod 16 * 4) div 4 = y mod 16" "y div 16 * 16 + y mod 16 = y"
    "(y mod 16 * 4 + z div 64) div 4 = y mod 16" "(y mod 16 * 4 + z div 64) mod 4 = z div 64"
    "z div 64 * 64 + z mod 64 = z" "y div 16 mod 16 = y div 16" "z div 64 mod 4 = z div 64"
  using assms by auto

lemmas six_bits_code = six_bits[OF code_less code_less code_less]

theorem b64decode_encode [simp]: "b64decode (b64encode bs) = Inr bs"
  unfolding b64decode_def
proof (induction bs rule: b64encode.induct)
  case 1
  then show ?case by simp
next
  case (2 a)
  show ?case by (simp add: b64_step b64_end six_bits_code Let_def del: b64_loop.simps)
next
  case (3 a b)
  show ?case by (simp add: b64_step b64_end six_bits_code Let_def del: b64_loop.simps)
next
  case (4 a b c bs)
  then show ?case by (simp add: b64_step b64_end six_bits_code Let_def del: b64_loop.simps)
qed

end
