(* ===== verification/Py_Json_Loads.thy ===== *)
theory Py_Json_Loads
  imports Py_Json Py_Files Py_Codec
begin

text \<open>
  \<open>json.loads\<close>: the decoder of the standard library as a function on the text. Objects are
  read into dictionaries, where a later key replaces an earlier one; integers of more than
  4300 digits are refused, as \<open>int\<close> does; a float keeps its literal. A character beyond code
  point 255 is outside the model and read as an error of the decoder. The recursion runs on
  fuel; the text bounds how much is needed.
\<close>

section \<open>The scanner\<close>

definition is_json_space :: "char \<Rightarrow> bool" where
  "is_json_space c = (code c \<in> {9, 10, 13, 32})"

definition skip_ws :: "string \<Rightarrow> string" where
  "skip_ws s = dropWhile is_json_space s"

definition hex_value :: "char \<Rightarrow> nat option" where
  "hex_value c = (let n = code c in
     if 48 \<le> n \<and> n \<le> 57 then Some (n - 48)
     else if 97 \<le> n \<and> n \<le> 102 then Some (n - 87)
     else if 65 \<le> n \<and> n \<le> 70 then Some (n - 55) else None)"

fun hex4 :: "string \<Rightarrow> nat option" where
  "hex4 (a # b # c # d # cs) =
     (case (hex_value a, hex_value b, hex_value c, hex_value d) of
        (Some w, Some x, Some y, Some z) \<Rightarrow> Some (((w * 16 + x) * 16 + y) * 16 + z)
      | _ \<Rightarrow> None)"
| "hex4 _ = None"

definition unescape :: "char \<Rightarrow> char option" where
  "unescape c =
     (if c \<in> {CHR 0x22, CHR 0x5C, CHR ''/''} then Some c
      else if c = CHR ''b'' then Some (CHR 0x08)
      else if c = CHR ''f'' then Some (CHR 0x0C)
      else if c = CHR ''n'' then Some (CHR 0x0A)
      else if c = CHR ''r'' then Some (CHR 0x0D)
      else if c = CHR ''t'' then Some (CHR 0x09)
      else None)"

text \<open>A string literal, its opening quote already read.\<close>

function scan_string :: "string \<Rightarrow> (string \<times> string) res" where
  "scan_string [] = Inl json_decode_error"
| "scan_string (c # cs) =
     (if c = CHR 0x22 then Inr ([], cs)
      else if c = CHR 0x5C then
        (case cs of
           [] \<Rightarrow> Inl json_decode_error
         | d # ds \<Rightarrow>
             if d = CHR ''u'' then
               (case hex4 ds of
                  None \<Rightarrow> Inl json_decode_error
                | Some n \<Rightarrow> if n < 256 then rbind (scan_string (drop 4 ds)) (\<lambda>(s, r). Inr (char_of n # s, r)) else Inl unicode_error)
             else (case unescape d of
                     None \<Rightarrow> Inl json_decode_error
                   | Some e \<Rightarrow> rbind (scan_string ds) (\<lambda>(s, r). Inr (e # s, r))))
      else if code c < 32 then Inl json_decode_error
      else rbind (scan_string cs) (\<lambda>(s, r). Inr (c # s, r)))"
  by pat_completeness auto
termination by (relation "measure length") auto

definition exponent :: "string \<Rightarrow> string" where
  "exponent s =
     (let sign = take 1 (drop 1 s); sign = (if sign \<in> {''+'', ''-''} then sign else []);
          ds = takeWhile is_digit (drop (1 + length sign) s) in
      if take 1 s \<in> {''e'', ''E''} \<and> ds \<noteq> [] then take 1 s @ sign @ ds else [])"

definition fraction :: "string \<Rightarrow> string" where
  "fraction s =
     (let ds = takeWhile is_digit (drop 1 s) in if take 1 s = ''.'' \<and> ds \<noteq> [] then ''.'' @ ds else [])"

definition int_limit :: nat where
  "int_limit = 4300"

definition json_number :: "string \<Rightarrow> (pyval \<times> string) res" where
  "json_number s =
     (let neg = startswith s ''-''; t = (if neg then drop 1 s else s); ds = takeWhile is_digit t in
      if ds = [] then Inl json_decode_error
      else
        let whole = (if hd ds = CHR ''0'' then ''0'' else ds); r = drop (length whole) t;
            frac = fraction r; r = drop (length frac) r;
            ex = exponent r; r = drop (length ex) r in
        if frac = [] \<and> ex = [] then
          (if int_limit < length whole then Inl (value_error ''Exceeds the limit for integer string conversion'')
           else Inr (PInt (if neg then - int (digits_val whole) else int (digits_val whole)), r))
        else Inr (PFloat ((if neg then ''-'' else []) @ whole @ frac @ ex), r))"

definition constants :: "(string \<times> pyval) list" where
  "constants = [(''null'', PNone), (''true'', PBool True), (''false'', PBool False),
     (''NaN'', PFloat ''NaN''), (''Infinity'', PFloat ''Infinity''), (''-Infinity'', PFloat ''-Infinity'')]"

definition json_constant :: "string \<Rightarrow> (pyval \<times> string) option" where
  "json_constant s = map_option (\<lambda>(k, v). (v, drop (length k) s)) (find (\<lambda>(k, v). startswith s k) constants)"

definition out_of_fuel :: exc where
  "out_of_fuel = PyError ''OutOfFuel'' []"

text \<open>A key with its colon.\<close>

definition json_key :: "string \<Rightarrow> (string \<times> string) res" where
  "json_key s =
     (if \<not> startswith s [CHR 0x22] then Inl json_decode_error
      else rbind (scan_string (drop 1 s)) (\<lambda>(k, r). let r = skip_ws r in
        if startswith r '':'' then Inr (k, skip_ws (drop 1 r)) else Inl json_decode_error))"

fun json_value :: "nat \<Rightarrow> string \<Rightarrow> (pyval \<times> string) res"
  and json_elems :: "nat \<Rightarrow> string \<Rightarrow> (pyval list \<times> string) res"
  and json_pairs :: "nat \<Rightarrow> dict \<Rightarrow> string \<Rightarrow> (dict \<times> string) res" where
  "json_value 0 s = Inl out_of_fuel"
| "json_value (Suc n) s =
     (if startswith s [CHR 0x22] then rbind (scan_string (drop 1 s)) (\<lambda>(t, r). Inr (PStr t, r))
      else if startswith s ''['' then
        (let r = skip_ws (drop 1 s) in
         if startswith r '']'' then Inr (PList [], drop 1 r)
         else rbind (json_elems n r) (\<lambda>(vs, r). Inr (PList vs, r)))
      else if startswith s ''{'' then
        (let r = skip_ws (drop 1 s) in
         if startswith r ''}'' then Inr (PDict [], drop 1 r)
         else rbind (json_pairs n [] r) (\<lambda>(d, r). Inr (PDict d, r)))
      else (case json_constant s of Some vr \<Rightarrow> Inr vr | None \<Rightarrow> json_number s))"
| "json_elems 0 s = Inl out_of_fuel"
| "json_elems (Suc n) s =
     rbind (json_value n s) (\<lambda>(v, r). let r = skip_ws r in
       if startswith r '']'' then Inr ([v], drop 1 r)
       else if startswith r '','' then rbind (json_elems n (skip_ws (drop 1 r))) (\<lambda>(vs, r). Inr (v # vs, r))
       else Inl json_decode_error)"
| "json_pairs 0 d s = Inl out_of_fuel"
| "json_pairs (Suc n) d s =
     rbind (json_key s) (\<lambda>(k, s). rbind (json_value n s) (\<lambda>(v, r). let r = skip_ws r; d = dset d k v in
       if startswith r ''}'' then Inr (d, drop 1 r)
       else if startswith r '','' then json_pairs n d (skip_ws (drop 1 r))
       else Inl json_decode_error))"

definition json_fuel :: "string \<Rightarrow> nat" where
  "json_fuel s = 2 * length s + 2"

definition json_loads :: "string \<Rightarrow> pyval res" where
  "json_loads s =
     rbind (json_value (json_fuel s) (skip_ws s)) (\<lambda>(v, r).
     if skip_ws r = [] then Inr v else Inl json_decode_error)"

text \<open>
  Of bytes: UTF-8, with or without its mark. The other encodings \<open>loads\<close> detects, by their marks or by
  NUL bytes among the first two, are outside the model.
\<close>

definition other_encoding :: "bytes \<Rightarrow> bool" where
  "other_encoding bs =
     (take 2 bs \<in> {[CHR 0xFE, CHR 0xFF], [CHR 0xFF, CHR 0xFE]} \<or> ((length bs = 2 \<or> 4 \<le> length bs) \<and> CHR 0x00 \<in> set (take 2 bs)))"

definition json_loads_bytes :: "bytes \<Rightarrow> pyval res" where
  "json_loads_bytes bs =
     (if other_encoding bs then Inl not_modelled
      else if startswith bs [CHR 0xEF, CHR 0xBB, CHR 0xBF] then rbind (py_decode (drop 3 bs)) json_loads
      else rbind (py_decode bs) json_loads)"

section \<open>The fuel is enough\<close>

lemma length_skip_ws: "length (skip_ws s) \<le> length s"
  by (simp add: skip_ws_def length_dropWhile_le)

lemma skip_ws_drop: "length (skip_ws (drop 1 r)) \<le> length r - 1"
  using length_skip_ws[of "drop 1 r"] by simp

lemma scan_string_shorter: "scan_string s = Inr (t, r) \<Longrightarrow> length r < length s"
proof (induction s arbitrary: t r rule: scan_string.induct)
  case (2 c cs)
  show ?case
  proof (cases "c = CHR 0x22 \<or> c \<noteq> CHR 0x5C")
    case True
    with 2 show ?thesis by (fastforce simp: rbind_Inr_iff split: if_splits)
  next
    case False
    with 2 show ?thesis by (fastforce simp: rbind_Inr_iff split: if_splits list.splits option.splits)
  qed
qed simp

lemma scan_string_fuel: "scan_string s \<noteq> Inl out_of_fuel"
proof (induction s rule: scan_string.induct)
  case (2 c cs)
  show ?case
  proof (cases "c = CHR 0x22 \<or> c \<noteq> CHR 0x5C")
    case True
    with 2 show ?thesis by (auto simp: rbind_Inl_iff json_decode_error_def out_of_fuel_def)
  next
    case False
    with 2 show ?thesis
      by (auto simp: rbind_Inl_iff json_decode_error_def unicode_error_def out_of_fuel_def split: list.splits option.splits)
  qed
qed (simp add: json_decode_error_def out_of_fuel_def)

lemma json_number_shorter: "json_number s = Inr (v, r) \<Longrightarrow> length r < length s"
  by (cases s) (auto simp: json_number_def Let_def split: if_splits)

lemma json_number_fuel: "json_number s \<noteq> Inl out_of_fuel"
  by (auto simp: json_number_def Let_def json_decode_error_def value_error_def out_of_fuel_def)

lemma json_constant_shorter: "json_constant s = Some (v, r) \<Longrightarrow> length r < length s"
  by (auto simp: json_constant_def constants_def startswith_iff split: if_splits)

lemma startswith1: "startswith s [c] \<Longrightarrow> length (drop 1 s) < length s"
  by (cases s) simp_all

lemma skip_ws_less: "startswith s [c] \<Longrightarrow> length (skip_ws (drop 1 s)) < length s"
  using length_skip_ws[of "drop 1 s"] startswith1[of s c] by linarith

lemma json_key_shorter:
  assumes "json_key s = Inr (k, r)"
  shows "length r < length s"
proof -
  from assms obtain r1 where s: "startswith s [CHR 0x22]" "scan_string (drop 1 s) = Inr (k, r1)" "r = skip_ws (drop 1 (skip_ws r1))"
    by (auto simp: json_key_def rbind_Inr_iff Let_def split: if_splits)
  then show ?thesis
    using skip_ws_drop[of "skip_ws r1"] length_skip_ws[of r1] scan_string_shorter[OF s(2)] by simp
qed

lemma json_key_fuel: "json_key s \<noteq> Inl out_of_fuel"
  using scan_string_fuel[of "drop 1 s"]
  by (auto simp: json_key_def rbind_Inl_iff Let_def json_decode_error_def out_of_fuel_def)

lemma json_shorter:
  "json_value n s = Inr (v, r) \<Longrightarrow> length r < length s"
  "json_elems n s = Inr (vs, r) \<Longrightarrow> length r < length s"
  "json_pairs n d s = Inr (d', r) \<Longrightarrow> length r < length s"
proof (induction n s and n s and n d s arbitrary: v r and vs r and d' r rule: json_value_json_elems_json_pairs.induct)
  case (2 n s)
  let ?r = "skip_ws (drop 1 s)"
  consider (str) "startswith s [CHR 0x22]" | (list) "\<not> startswith s [CHR 0x22]" "startswith s ''[''"
    | (dict) "\<not> startswith s [CHR 0x22]" "\<not> startswith s ''[''" "startswith s ''{''"
    | (other) "\<not> startswith s [CHR 0x22]" "\<not> startswith s ''[''" "\<not> startswith s ''{''" by blast
  then show ?case
  proof cases
    case str
    with 2(3) show ?thesis using startswith1[OF str] by (auto simp: rbind_Inr_iff dest!: scan_string_shorter)
  next
    case list
    have "length r \<le> length ?r" using 2(1)[OF list refl] 2(3) list
      by (fastforce simp: rbind_Inr_iff Let_def split: if_splits)
    then show ?thesis using skip_ws_less[OF list(2)] by linarith
  next
    case dict
    have "length r \<le> length ?r" using 2(2)[OF dict refl] 2(3) dict
      by (fastforce simp: rbind_Inr_iff Let_def split: if_splits)
    then show ?thesis using skip_ws_less[OF dict(3)] by linarith
  next
    case other
    with 2(3) show ?thesis by (auto dest: json_number_shorter json_constant_shorter split: option.splits)
  qed
next
  case (4 n s)
  from 4(3) obtain v r1 where v: "json_value n s = Inr (v, r1)" by (auto simp: rbind_Inr_iff)
  let ?r = "skip_ws r1"
  have "length ?r < length s" using 4(1)[OF v] length_skip_ws[of r1] by linarith
  moreover have "length r \<le> length ?r"
  proof (cases "startswith ?r '']''")
    case False
    with 4(3) v obtain vs' where c: "startswith ?r '',''" and e: "json_elems n (skip_ws (drop 1 ?r)) = Inr (vs', r)"
      by (auto simp: rbind_Inr_iff Let_def split: if_splits)
    from 4(2)[OF refl False c e] skip_ws_drop[of ?r] show ?thesis by linarith
  qed (use 4(3) v in auto)
  ultimately show ?case by linarith
next
  case (6 n d s)
  from 6(3) obtain k s' v r1 where k: "json_key s = Inr (k, s')" "json_value n s' = Inr (v, r1)"
    by (auto simp: rbind_Inr_iff)
  let ?r = "skip_ws r1"
  have "length ?r < length s" using 6(1)[OF k(2)] length_skip_ws[of r1] json_key_shorter[OF k(1)] by linarith
  moreover have "length r \<le> length ?r"
  proof (cases "startswith ?r ''}''")
    case False
    with 6(3) k have c: "startswith ?r '',''" and e: "json_pairs n (dset d k v) (skip_ws (drop 1 ?r)) = Inr (d', r)"
      by (auto simp: rbind_Inr_iff Let_def split: if_splits)
    from 6(2)[OF refl refl False c e] skip_ws_drop[of ?r] show ?thesis by linarith
  qed (use 6(3) k in auto)
  ultimately show ?case by linarith
qed (simp_all add: out_of_fuel_def)

lemma rbind_not_Inl: "rbind x f \<noteq> Inl e \<Longrightarrow> x \<noteq> Inl e"
  by auto

declare json_value.simps [simp del] json_elems.simps [simp del] json_pairs.simps [simp del]

lemma json_step:
  "json_value n s \<noteq> Inl out_of_fuel \<Longrightarrow> json_value (Suc n) s = json_value n s"
  "json_elems n s \<noteq> Inl out_of_fuel \<Longrightarrow> json_elems (Suc n) s = json_elems n s"
  "json_pairs n d s \<noteq> Inl out_of_fuel \<Longrightarrow> json_pairs (Suc n) d s = json_pairs n d s"
proof (induction n s and n s and n d s rule: json_value_json_elems_json_pairs.induct)
  case (2 n s)
  let ?r = "skip_ws (drop 1 s)"
  show ?case
  proof (cases "startswith s [CHR 0x22]")
    case a: False
    show ?thesis
    proof (cases "startswith s ''[''")
      case b: True
      have "\<not> startswith ?r '']'' \<Longrightarrow> json_elems (Suc n) ?r = json_elems n ?r"
        using 2(1)[OF a b refl] 2(3) a b by (auto simp: json_value.simps Let_def dest: rbind_not_Inl)
      then show ?thesis using a b
        by (cases "startswith ?r '']''") (simp_all add: Let_def json_value.simps)
    next
      case b: False
      have "startswith s ''{'' \<Longrightarrow> \<not> startswith ?r ''}'' \<Longrightarrow> json_pairs (Suc n) [] ?r = json_pairs n [] ?r"
        using 2(2)[OF a b _ refl] 2(3) a b by (auto simp: json_value.simps Let_def dest: rbind_not_Inl)
      then show ?thesis using a b
        by (cases "startswith s ''{''"; cases "startswith ?r ''}''") (simp_all add: Let_def json_value.simps)
    qed
  qed (simp add: json_value.simps)
next
  case (4 n s)
  have v: "json_value (Suc n) s = json_value n s" using 4(1,3) by (auto simp: json_elems.simps dest: rbind_not_Inl)
  show ?case
  proof (cases "json_value n s")
    case (Inr z)
    then obtain w r where z: "json_value n s = Inr (w, r)" by (cases z) simp
    let ?r = "skip_ws r"
    have "\<not> startswith ?r '']'' \<Longrightarrow> startswith ?r '','' \<Longrightarrow>
        json_elems (Suc n) (skip_ws (drop 1 ?r)) = json_elems n (skip_ws (drop 1 ?r))"
      using 4(2)[OF refl, of r] 4(3) z by (auto simp: json_elems.simps Let_def dest: rbind_not_Inl)
    then show ?thesis
      unfolding json_elems.simps(2)[of "Suc n"] json_elems.simps(2)[of n] v z
      by (simp add: Let_def)
  qed (simp add: v json_elems.simps)
next
  case (6 n d s)
  show ?case
  proof (cases "json_key s")
    case (Inr y)
    then obtain k s' where y: "json_key s = Inr (k, s')" by (cases y) simp
    have v: "json_value (Suc n) s' = json_value n s'" using 6(1)[of s'] 6(3) y by (auto simp: json_pairs.simps dest: rbind_not_Inl)
    show ?thesis
    proof (cases "json_value n s'")
      case (Inr z)
      then obtain w r where z: "json_value n s' = Inr (w, r)" by (cases z) simp
      let ?r = "skip_ws r"
      have "\<not> startswith ?r ''}'' \<Longrightarrow> startswith ?r '','' \<Longrightarrow>
          json_pairs (Suc n) (dset d k w) (skip_ws (drop 1 ?r)) = json_pairs n (dset d k w) (skip_ws (drop 1 ?r))"
        using 6(2)[OF refl refl, of r k w] 6(3) y z by (auto simp: json_pairs.simps Let_def dest: rbind_not_Inl)
      then show ?thesis
        unfolding json_pairs.simps(2)[of "Suc n"] json_pairs.simps(2)[of n] y
        by (simp add: v z Let_def)
    qed (simp add: v y json_pairs.simps)
  qed (simp add: json_pairs.simps)
qed (simp_all add: json_value.simps json_elems.simps json_pairs.simps)

lemma json_enough:
  "2 * length s < n \<Longrightarrow> json_value n s \<noteq> Inl out_of_fuel"
  "2 * length s + 1 < n \<Longrightarrow> json_elems n s \<noteq> Inl out_of_fuel"
  "2 * length s + 1 < n \<Longrightarrow> json_pairs n d s \<noteq> Inl out_of_fuel"
proof (induction n s and n s and n d s rule: json_value_json_elems_json_pairs.induct)
  case (2 n s)
  let ?r = "skip_ws (drop 1 s)"
  have r: "startswith s [c] \<Longrightarrow> 2 * length ?r + 1 < n" for c using skip_ws_less[of s c] 2(3) by simp
  have e: "json_decode_error \<noteq> out_of_fuel" by (simp add: json_decode_error_def out_of_fuel_def)
  show ?case using 2(1)[OF _ _ refl _ r] 2(2)[OF _ _ _ refl _ r] scan_string_fuel json_number_fuel
    by (auto simp: json_value.simps Let_def rbind_Inl_iff split: option.splits)
next
  case (4 n s)
  show ?case
  proof
    assume a: "json_elems (Suc n) s = Inl out_of_fuel"
    have "json_value n s \<noteq> Inl out_of_fuel" using 4(1,3) by simp
    with a obtain v r where v: "json_value n s = Inr (v, r)" "\<not> startswith (skip_ws r) '']''" "startswith (skip_ws r) '',''"
      "json_elems n (skip_ws (drop 1 (skip_ws r))) = Inl out_of_fuel"
      by (auto simp: json_elems.simps rbind_Inl_iff Let_def json_decode_error_def out_of_fuel_def split: if_splits)
    then show False
      using 4(2)[OF refl v(2,3)] 4(3) json_shorter(1)[OF v(1)] skip_ws_drop[of "skip_ws r"] length_skip_ws[of r] startswith1[OF v(3)]
      by simp
  qed
next
  case (6 n d s)
  show ?case
  proof
    assume a: "json_pairs (Suc n) d s = Inl out_of_fuel"
    then obtain k s' where k: "json_key s = Inr (k, s')" 
      using json_key_fuel[of s] by (auto simp: json_pairs.simps rbind_Inl_iff)
    have "json_value n s' \<noteq> Inl out_of_fuel" using 6(1,3) json_key_shorter[OF k] by simp
    with a k obtain v r where v: "json_value n s' = Inr (v, r)" "\<not> startswith (skip_ws r) ''}''" "startswith (skip_ws r) '',''"
      "json_pairs n (dset d k v) (skip_ws (drop 1 (skip_ws r))) = Inl out_of_fuel"
      by (auto simp: json_pairs.simps rbind_Inl_iff Let_def json_decode_error_def out_of_fuel_def split: if_splits)
    then show False
      using 6(2)[OF refl refl v(2,3)] 6(3) json_shorter(1)[OF v(1)] json_key_shorter[OF k] skip_ws_drop[of "skip_ws r"]
        length_skip_ws[of r] startswith1[OF v(3)] by simp
  qed
qed simp_all

lemma json_more: "json_value n s \<noteq> Inl out_of_fuel \<Longrightarrow> json_value (n + m) s = json_value n s"
  by (induction m) (simp_all add: json_step)

text \<open>What the decoder returns with any fuel that suffices it returns with the fuel it is given.\<close>

lemma json_fuel_any:
  assumes "json_value n s = Inr x" "2 * length s < m"
  shows "json_value m s = Inr x"
proof -
  have "json_value (n + m) s = Inr x" using json_more[of n s m] assms(1) by simp
  moreover have "json_value (m + n) s = json_value m s" using json_more json_enough(1)[OF assms(2)] by blast
  ultimately show ?thesis by (simp add: add.commute)
qed

section \<open>Reading back what was written\<close>

lemma hex_value_digit: "n < 16 \<Longrightarrow> hex_value (hex_digit n) = Some n"
  by (auto simp: hex_value_def hex_digit_def)

lemma hex4_byte: "hex4 (CHR ''0'' # CHR ''0'' # hex_byte c @ t) = Some (code c)"
proof -
  have "code c div 16 < 16" "code c mod 16 < 16" using code_less[of c] by auto
  moreover have "hex_value CHR ''0'' = Some 0" by code_simp
  ultimately show ?thesis by (simp add: hex_byte_def hex_value_digit)
qed

lemma char_eq: "code c = n \<Longrightarrow> c = char_of n"
  by (metis char_of_code)

lemma control_chars:
  "char_of (34 :: nat) = CHR 0x22" "char_of (92 :: nat) = CHR 0x5C" "char_of (10 :: nat) = CHR 0x0A" "char_of (13 :: nat) = CHR 0x0D"
  "char_of (9 :: nat) = CHR 0x09" "char_of (8 :: nat) = CHR 0x08" "char_of (12 :: nat) = CHR 0x0C"
  by code_simp+

lemma scan_escape: "scan_string (json_escape c @ t) = rbind (scan_string t) (\<lambda>(s, r). Inr (c # s, r))"
proof -
  let ?n = "code c"
  consider "?n = 34" | "?n = 92" | "?n = 10" | "?n = 13" | "?n = 9" | "?n = 8" | "?n = 12"
    | (plain) "32 \<le> ?n" "?n \<le> 126" "?n \<noteq> 34" "?n \<noteq> 92"
    | (hex) "?n < 32 \<or> 126 < ?n" "?n \<notin> {10, 13, 9, 8, 12}" by fastforce
  then show ?thesis
  proof cases
    case plain
    then have "c \<noteq> CHR 0x22" "c \<noteq> CHR 0x5C" by (auto simp: code_def)
    with plain show ?thesis by (simp add: json_escape_def Let_def)
  next
    case hex
    then have "json_escape c = CHR 0x5C # CHR ''u'' # CHR ''0'' # CHR ''0'' # hex_byte c" by (auto simp: json_escape_def Let_def)
    moreover have "drop 4 (CHR ''0'' # CHR ''0'' # hex_byte c @ t) = t" by (simp add: hex_byte_def)
    ultimately show ?thesis using hex4_byte[of c t] code_less[of c] by simp
  qed (drule char_eq, simp add: json_escape_def unescape_def control_chars code_def)+
qed

lemma scan_json_string: "scan_string (concat (map json_escape s) @ CHR 0x22 # r) = Inr (s, r)"
  by (induction s) (simp_all add: scan_escape del: scan_string.simps(2), simp)

lemma digits_val_snoc: "digits_val (ds @ [d]) = 10 * digits_val ds + (code d - 48)"
  by (simp add: digits_val_def)

lemma digit_facts: "n < 10 \<Longrightarrow> is_digit (digit_char n) \<and> code (digit_char n) = 48 + n"
  by (simp add: is_digit_def digit_char_def)

lemma nat_str_digits: "list_all is_digit (nat_str n) \<and> nat_str n \<noteq> [] \<and> digits_val (nat_str n) = n"
proof (induction n rule: nat_str.induct)
  case (1 n)
  show ?case
  proof (cases "n < 10")
    case True
    then show ?thesis using digit_facts[of n] by (simp add: nat_str.simps[of n] digits_val_def)
  next
    case False
    moreover have "n mod 10 < 10" by simp
    ultimately show ?thesis using 1[OF False] digit_facts[of "n mod 10"] by (simp add: nat_str.simps[of n] digits_val_snoc)
  qed
qed

lemma nat_str_zero: "hd (nat_str n) = CHR ''0'' \<Longrightarrow> n = 0"
proof (induction n rule: nat_str.induct)
  case (1 n)
  show ?case
  proof (cases "n < 10")
    case True
    with 1(2) have "code (digit_char n) = code CHR ''0''" by (simp add: nat_str.simps[of n])
    with digit_facts[OF True] show ?thesis by (simp add: code_def)
  next
    case False
    with 1 nat_str_digits[of "n div 10"] show ?thesis by (simp add: nat_str.simps[of n])
  qed
qed

text \<open>What may follow a number without becoming part of it.\<close>

definition number_end :: "string \<Rightarrow> bool" where
  "number_end r = (r = [] \<or> (\<not> is_digit (hd r) \<and> hd r \<notin> {CHR ''.'', CHR ''e'', CHR ''E''}))"

lemma number_end_parts: "number_end r \<Longrightarrow> takeWhile is_digit r = [] \<and> fraction r = [] \<and> exponent r = []"
  by (cases r) (auto simp: number_end_def fraction_def exponent_def Let_def)

lemma json_number_digits:
  assumes "number_end r" "list_all is_digit ds" "ds \<noteq> []" "hd ds = CHR ''0'' \<Longrightarrow> ds = ''0''" "length ds \<le> int_limit"
  shows "json_number (ds @ r) = Inr (PInt (int (digits_val ds)), r)"
    and "json_number (CHR ''-'' # ds @ r) = Inr (PInt (- int (digits_val ds)), r)"
proof -
  note e = number_end_parts[OF assms(1)]
  have t: "takeWhile is_digit (ds @ r) = ds" using assms(2) e by (simp add: takeWhile_append2 list_all_iff)
  have w: "(if hd ds = CHR ''0'' then ''0'' else ds) = ds" using assms(4) by simp
  have n: "\<not> startswith (ds @ r) ''-''" using assms(2,3) by (cases ds) (auto simp: is_digit_def code_def)
  have d: "drop (length ds) (ds @ r) = r" by simp
  show "json_number (ds @ r) = Inr (PInt (int (digits_val ds)), r)"
    using assms(3,5) e unfolding json_number_def Let_def if_not_P[OF n] t w d by (simp add: n)
  show "json_number (CHR ''-'' # ds @ r) = Inr (PInt (- int (digits_val ds)), r)"
  proof -
    have h: "startswith (CHR ''-'' # ds @ r) ''-''" "drop 1 (CHR ''-'' # ds @ r) = ds @ r" by simp_all
    show ?thesis using assms(3,5) e unfolding json_number_def Let_def if_P[OF h(1)] h(2) t w d by (simp add: h(1))
  qed
qed

lemma json_number_int:
  assumes "number_end r" "length (nat_str (nat \<bar>i\<bar>)) \<le> int_limit"
  shows "json_number (int_str i @ r) = Inr (PInt i, r)"
proof -
  let ?d = "nat_str (nat \<bar>i\<bar>)"
  have d: "list_all is_digit ?d" "?d \<noteq> []" using nat_str_digits by blast+
  have "hd ?d = CHR ''0'' \<Longrightarrow> ?d = ''0''"
    using nat_str_zero[of "nat \<bar>i\<bar>"] by (simp add: nat_str.simps[of 0] digit_char_def)
  from json_number_digits[OF assms(1) d(1,2) this assms(2)] show ?thesis
    by (cases "i < 0") (simp_all add: int_str_def nat_str_digits)
qed

text \<open>The values whose text reads back as themselves: no floats, no repeated keys, no oversized integers.\<close>

fun wf_json :: "pyval \<Rightarrow> bool" where
  "wf_json (PFloat f) = False"
| "wf_json (PInt i) = (length (nat_str (nat \<bar>i\<bar>)) \<le> int_limit)"
| "wf_json (PList xs) = list_all wf_json xs"
| "wf_json (PDict d) = (distinct (dkeys d) \<and> list_all (\<lambda>(k, v). wf_json v) d)"
| "wf_json _ = True"

definition reads_as :: "string \<Rightarrow> pyval \<Rightarrow> bool" where
  "reads_as t v = (\<forall>r. number_end r \<longrightarrow> (\<exists>n. json_value n (t @ r) = Inr (v, r)))"

lemma reads_asD: "reads_as t v \<Longrightarrow> number_end r \<Longrightarrow> \<exists>n. json_value n (t @ r) = Inr (v, r)"
  by (simp add: reads_as_def)

definition number_start :: "string \<Rightarrow> bool" where
  "number_start s = (case s of [] \<Rightarrow> False | c # cs \<Rightarrow> is_digit c \<or> (c = CHR ''-'' \<and> cs \<noteq> [] \<and> is_digit (hd cs)))"

lemma json_value_start:
  assumes "number_start s"
  shows "json_value (Suc n) s = json_number s"
proof -
  obtain c cs where s: "s = c # cs" using assms by (cases s) (simp_all add: number_start_def)
  have c: "is_digit c \<or> (c = CHR ''-'' \<and> cs \<noteq> [] \<and> is_digit (hd cs))" using assms by (simp add: number_start_def s)
  have "\<not> startswith s [x]" if "x \<in> {CHR 0x22, CHR ''['', CHR ''{''}" for x
    using c that by (auto simp: s is_digit_def code_def)
  moreover have "json_constant s = None"
  proof -
    have n: "\<not> is_digit x" if "x \<in> {CHR ''n'', CHR ''t'', CHR ''f'', CHR ''N'', CHR ''I'', CHR ''-''}" for x
      using that by (auto simp: is_digit_def code_def)
    have "c \<noteq> CHR ''n'' \<and> c \<noteq> CHR ''t'' \<and> c \<noteq> CHR ''f'' \<and> c \<noteq> CHR ''N'' \<and> c \<noteq> CHR ''I''" using c n by auto
    moreover have "\<not> startswith s ''-Infinity''" using c n by (cases cs) (auto simp: s)
    ultimately show ?thesis by (simp add: json_constant_def constants_def s)
  qed
  ultimately show ?thesis by (simp add: json_value.simps)
qed

lemma int_str_start: "number_start (int_str i @ r)"
proof -
  obtain d ds where d: "nat_str (nat \<bar>i\<bar>) = d # ds" "is_digit d"
    using nat_str_digits[of "nat \<bar>i\<bar>"] by (cases "nat_str (nat \<bar>i\<bar>)") auto
  then show ?thesis by (cases "i < 0") (simp_all add: int_str_def number_start_def)
qed

lemma skip_ws_id: "s \<noteq> [] \<Longrightarrow> \<not> is_json_space (hd s) \<Longrightarrow> skip_ws s = s"
  by (cases s) (simp_all add: skip_ws_def)

lemma json_more_parts:
  "json_elems n s = Inr x \<Longrightarrow> json_elems (n + m) s = Inr x"
  "json_pairs n d s = Inr y \<Longrightarrow> json_pairs (n + m) d s = Inr y"
  by (induction m) (simp_all add: json_step)

lemma json_value_mono: "json_value n s = Inr x \<Longrightarrow> n \<le> m \<Longrightarrow> json_value m s = Inr x"
  using json_more[of n s "m - n"] by simp

lemma json_parts_mono:
  "json_elems n s = Inr x \<Longrightarrow> n \<le> m \<Longrightarrow> json_elems m s = Inr x"
  "json_pairs n d s = Inr y \<Longrightarrow> n \<le> m \<Longrightarrow> json_pairs m d s = Inr y"
  using json_more_parts(1)[of n s x "m - n"] json_more_parts(2)[of n d s y "m - n"] by simp_all

text \<open>How a written value starts.\<close>

definition value_start :: "string \<Rightarrow> bool" where
  "value_start t = (t \<noteq> [] \<and> \<not> is_json_space (hd t) \<and> hd t \<notin> {CHR '']'', CHR ''}''})"

lemma value_start_append: "value_start t \<Longrightarrow> value_start (t @ r) \<and> skip_ws (t @ r) = t @ r
    \<and> \<not> startswith (t @ r) '']'' \<and> \<not> startswith (t @ r) ''}''"
  by (cases t) (auto simp: value_start_def skip_ws_def)

lemma spaces: "is_json_space CHR '' ''" "\<not> is_json_space CHR '',''" "\<not> is_json_space CHR '':''" "\<not> is_json_space CHR '']''"
  "\<not> is_json_space CHR ''}''" "\<not> is_json_space CHR 0x22" "\<not> is_json_space CHR ''[''" "\<not> is_json_space CHR ''{''"
  "\<not> is_json_space CHR ''n''" "\<not> is_json_space CHR ''t''" "\<not> is_json_space CHR ''f''" "\<not> is_json_space CHR ''-''"
  by code_simp+

lemma skip_spaces [simp]: "skip_ws (CHR '' '' # s) = skip_ws s" "skip_ws (CHR '','' # s) = CHR '','' # s"
  "skip_ws (CHR '':'' # s) = CHR '':'' # s" "skip_ws (CHR '']'' # s) = CHR '']'' # s" "skip_ws (CHR ''}'' # s) = CHR ''}'' # s"
  "skip_ws (CHR 0x22 # s) = CHR 0x22 # s"
  by (simp_all add: skip_ws_def spaces)

lemma dumps_start: "wf_json v \<Longrightarrow> value_start (json_dumps sk v)"
proof (cases v)
  case (PInt i)
  obtain d ds where d: "nat_str (nat \<bar>i\<bar>) = d # ds" "is_digit d"
    using nat_str_digits[of "nat \<bar>i\<bar>"] by (cases "nat_str (nat \<bar>i\<bar>)") auto
  then have "\<not> is_json_space d" "d \<notin> {CHR '']'', CHR ''}''}" by (auto simp: is_digit_def is_json_space_def code_def)
  then show ?thesis using d PInt by (cases "i < 0") (simp_all add: int_str_def value_start_def spaces)
qed (auto simp: value_start_def json_string_def spaces Let_def)

text \<open>Between the elements of a list there may be white space.\<close>

definition blank :: "string \<Rightarrow> bool" where
  "blank s = list_all is_json_space s"

lemma skip_blank: "blank w \<Longrightarrow> skip_ws (w @ s) = skip_ws s"
  by (induction w) (auto simp: blank_def skip_ws_def)

lemma number_ends: "number_end (CHR '','' # r)" "number_end []" "blank w \<Longrightarrow> c \<in> {CHR '','', CHR '']'', CHR ''}''} \<Longrightarrow> number_end (w @ c # r)"
proof -
  have d: "\<not> is_digit CHR '',''" "\<not> is_digit CHR '']''" "\<not> is_digit CHR ''}''" by code_simp+
  then show "number_end (CHR '','' # r)" "number_end []" by (simp_all add: number_end_def)
  have "is_json_space x \<Longrightarrow> \<not> is_digit x \<and> x \<notin> {CHR ''.'', CHR ''e'', CHR ''E''}" for x
    by (auto simp: is_json_space_def is_digit_def code_def)
  then show "blank w \<Longrightarrow> c \<in> {CHR '','', CHR '']'', CHR ''}''} \<Longrightarrow> number_end (w @ c # r)"
    using d by (cases w) (auto simp: number_end_def blank_def)
qed

lemma reads_elems:
  assumes "xs \<noteq> []" "\<And>x. x \<in> set xs \<Longrightarrow> reads_as (t x) x \<and> value_start (t x)" and ws: "blank w" "blank w'"
  shows "\<exists>n. json_elems n (join (CHR '','' # w) (map t xs) @ w' @ CHR '']'' # r) = Inr (xs, r)"
  using assms(1,2)
proof (induction xs rule: list_nonempty_induct)
  case (single x)
  then obtain n where "json_value n (t x @ w' @ CHR '']'' # r) = Inr (x, w' @ CHR '']'' # r)"
    using reads_asD[OF _ number_ends(3)[OF ws(2)]] by fastforce
  then have "json_elems (Suc n) (t x @ w' @ CHR '']'' # r) = Inr ([x], r)" by (simp add: json_elems.simps skip_blank[OF ws(2)])
  then show ?case by auto
next
  case (cons x xs)
  define u where "u = join (CHR '','' # w) (map t xs) @ w' @ CHR '']'' # r"
  obtain n where n: "json_elems n u = Inr (xs, r)" using cons by (fastforce simp: u_def)
  obtain m where m: "json_value m (t x @ CHR '','' # w @ u) = Inr (x, CHR '','' # w @ u)"
    using cons(3)[of x] reads_asD[OF _ number_ends(1)] by fastforce
  have u: "skip_ws u = u"
    using cons(1,3) value_start_append unfolding u_def by (cases xs; cases "tl xs") auto
  have "json_elems (Suc (m + n)) (t x @ CHR '','' # w @ u) = Inr (x # xs, r)"
    using json_value_mono[OF m, of "m + n"] json_parts_mono(1)[OF n, of "m + n"] by (simp add: json_elems.simps skip_blank[OF ws(1)] u)
  then show ?case using cons(1) by (auto simp: join_Cons u_def)
qed

lemma dset_new: "k \<notin> set (dkeys d) \<Longrightarrow> dset d k v = d @ [(k, v)]"
  by (induction d) auto

lemma json_key_string: "json_key (json_string k @ CHR '':'' # CHR '' '' # s) = Inr (k, skip_ws s)"
  by (simp add: json_key_def json_string_def scan_json_string)

lemma reads_pairs:
  assumes "d \<noteq> []" "\<And>k v. (k, v) \<in> set d \<Longrightarrow> reads_as (t v) v \<and> value_start (t v)"
    and "distinct (dkeys (acc @ d))" and ws: "blank w" "blank w'"
  shows "\<exists>n. json_pairs n acc (join (CHR '','' # w) (map (\<lambda>(k, v). json_string k @ '': '' @ t v) d) @ w' @ CHR ''}'' # r) = Inr (acc @ d, r)"
  using assms(1-3)
proof (induction d arbitrary: acc rule: list_nonempty_induct)
  case (single p)
  obtain k v where p: "p = (k, v)" by fastforce
  then obtain n where n: "json_value n (t v @ w' @ CHR ''}'' # r) = Inr (v, w' @ CHR ''}'' # r)"
    using single reads_asD[OF _ number_ends(3)[OF ws(2)]] by fastforce
  have "skip_ws (t v @ w' @ CHR ''}'' # r) = t v @ w' @ CHR ''}'' # r"
    using single(1)[of k v] p value_start_append by (metis list.set_intros(1))
  then have "json_pairs (Suc n) acc (json_string k @ CHR '':'' # CHR '' '' # t v @ w' @ CHR ''}'' # r) = Inr (acc @ [p], r)"
    using single(2) n by (simp add: json_pairs.simps json_key_string p dset_new skip_blank[OF ws(2)])
  then show ?case by (auto simp: p)
next
  case (cons p d)
  obtain k v where p: "p = (k, v)" by fastforce
  define u where "u = join (CHR '','' # w) (map (\<lambda>(k, v). json_string k @ '': '' @ t v) d) @ w' @ CHR ''}'' # r"
  have "distinct (dkeys ((acc @ [p]) @ d))" using cons(4) by simp
  then obtain n where n: "json_pairs n (acc @ [p]) u = Inr (acc @ p # d, r)" using cons(2)[of "acc @ [p]"] cons(3) by (fastforce simp: u_def)
  obtain m where m: "json_value m (t v @ CHR '','' # w @ u) = Inr (v, CHR '','' # w @ u)"
    using cons(3)[of k v] p reads_asD[OF _ number_ends(1)] by fastforce
  have u: "skip_ws u = u" using cons(1) by (cases d; cases "tl d") (auto simp: u_def json_string_def split: prod.splits)
  have v: "skip_ws (t v @ CHR '','' # w @ u) = t v @ CHR '','' # w @ u"
    using cons(3)[of k v] p value_start_append by (metis list.set_intros(1))
  have "json_pairs (Suc (m + n)) acc (json_string k @ CHR '':'' # CHR '' '' # t v @ CHR '','' # w @ u) = Inr (acc @ p # d, r)"
    using json_value_mono[OF m, of "m + n"] json_parts_mono(2)[OF n, of "m + n"] cons(4)
    by (simp add: json_pairs.simps json_key_string u v p dset_new skip_blank[OF ws(1)])
  then show ?case using cons(1) by (auto simp: join_Cons p u_def)
qed

lemma reads_simple:
  "reads_as ''null'' PNone" "reads_as ''true'' (PBool True)" "reads_as ''false'' (PBool False)" "reads_as (json_string k) (PStr k)"
proof -
  have "json_value (Suc 0) (''null'' @ r) = Inr (PNone, r)" "json_value (Suc 0) (''true'' @ r) = Inr (PBool True, r)"
    "json_value (Suc 0) (''false'' @ r) = Inr (PBool False, r)" "json_value (Suc 0) (json_string k @ r) = Inr (PStr k, r)" for r
    by (simp_all add: json_value.simps json_constant_def constants_def json_string_def scan_json_string)
  then show "reads_as ''null'' PNone" "reads_as ''true'' (PBool True)" "reads_as ''false'' (PBool False)" "reads_as (json_string k) (PStr k)"
    unfolding reads_as_def by blast+
qed

lemma reads_int:
  assumes "wf_json (PInt i)"
  shows "reads_as (int_str i) (PInt i)"
proof -
  have "json_value (Suc 0) (int_str i @ r) = Inr (PInt i, r)" if "number_end r" for r
    using json_number_int[OF that, of i] assms json_value_start[OF int_str_start] by simp
  then show ?thesis unfolding reads_as_def by auto
qed

lemma reads_empty: "reads_as ''[]'' (PList [])" "reads_as ''{}'' (PDict [])"
proof -
  have "json_value (Suc 0) (''[]'' @ r) = Inr (PList [], r)" "json_value (Suc 0) (''{}'' @ r) = Inr (PDict [], r)" for r
    by (simp_all add: json_value.simps)
  then show "reads_as ''[]'' (PList [])" "reads_as ''{}'' (PDict [])" unfolding reads_as_def by blast+
qed

lemma reads_list:
  assumes "xs \<noteq> []" "\<And>x. x \<in> set xs \<Longrightarrow> reads_as (t x) x \<and> value_start (t x)" "blank w" "blank w'" "blank w''"
  shows "reads_as (CHR ''['' # w'' @ join (CHR '','' # w) (map t xs) @ w' @ '']'') (PList xs)"
  unfolding reads_as_def
proof (intro allI impI)
  fix r assume "number_end r"
  define u where "u = join (CHR '','' # w) (map t xs) @ w' @ CHR '']'' # r"
  obtain n where n: "json_elems n u = Inr (xs, r)" using reads_elems[OF assms(1,2,3,4)] unfolding u_def by blast
  have "skip_ws u = u \<and> \<not> startswith u '']''"
    using assms(1,2) value_start_append unfolding u_def by (cases xs; cases "tl xs") auto
  then have "json_value (Suc n) (CHR ''['' # w'' @ u) = Inr (PList xs, r)" using n by (simp add: json_value.simps skip_blank[OF assms(5)])
  then show "\<exists>n. json_value n ((CHR ''['' # w'' @ join (CHR '','' # w) (map t xs) @ w' @ '']'') @ r) = Inr (PList xs, r)"
    by (auto simp: u_def)
qed

lemma reads_dict:
  assumes "d \<noteq> []" "\<And>k v. (k, v) \<in> set d \<Longrightarrow> reads_as (t v) v \<and> value_start (t v)" "distinct (dkeys d)"
    "blank w" "blank w'" "blank w''"
  shows "reads_as (CHR ''{'' # w'' @ join (CHR '','' # w) (map (\<lambda>(k, v). json_string k @ '': '' @ t v) d) @ w' @ ''}'') (PDict d)"
  unfolding reads_as_def
proof (intro allI impI)
  fix r assume "number_end r"
  define u where "u = join (CHR '','' # w) (map (\<lambda>(k, v). json_string k @ '': '' @ t v) d) @ w' @ CHR ''}'' # r"
  obtain n where n: "json_pairs n [] u = Inr (d, r)"
    using reads_pairs[where t = t and acc = "[]", OF assms(1,2)] assms(3-5) unfolding u_def by fastforce
  have "skip_ws u = u \<and> \<not> startswith u ''}''"
    using assms(1) by (cases d; cases "tl d") (auto simp: u_def json_string_def split: prod.splits)
  then have "json_value (Suc n) (CHR ''{'' # w'' @ u) = Inr (PDict d, r)" using n by (simp add: json_value.simps skip_blank[OF assms(6)])
  then show "\<exists>n. json_value n ((CHR ''{'' # w'' @ join (CHR '','' # w) (map (\<lambda>(k, v). json_string k @ '': '' @ t v) d) @ w' @ ''}'') @ r) = Inr (PDict d, r)"
    by (auto simp: u_def)
qed

lemma wf_dict_values: "wf_json (PDict d) \<Longrightarrow> (k, v) \<in> set d \<Longrightarrow> wf_json v"
  by (auto simp: list_all_iff)

theorem reads_dumps: "wf_json v \<Longrightarrow> reads_as (json_dumps False v) v"
proof (induction v)
  case (PList xs)
  show ?case
  proof (cases "xs = []")
    case False
    have "reads_as (json_dumps False x) x \<and> value_start (json_dumps False x)" if "x \<in> set xs" for x
      using PList that dumps_start by (simp add: list_all_iff)
    from reads_list[OF False this, of "'' ''" "[]" "[]"] show ?thesis by (simp add: blank_def spaces)
  qed (simp add: reads_empty)
next
  case (PDict d)
  show ?case
  proof (cases "d = []")
    case False
    have x: "reads_as (json_dumps False v) v \<and> value_start (json_dumps False v)" if "(k, v) \<in> set d" for k v
      using PDict that dumps_start by (fastforce simp: list_all_iff snds.simps)
    have t: "json_dumps False (PDict d) = CHR ''{'' # [] @ join (CHR '','' # '' '') (map (\<lambda>(k, v). json_string k @ '': '' @ json_dumps False v) d) @ [] @ ''}''"
      by (simp add: split_def comp_def)
    have b: "blank '' ''" "blank []" by (simp_all add: blank_def spaces)
    show ?thesis unfolding t by (rule reads_dict[where t = "json_dumps False"]) (use False x b PDict in auto)
  qed (simp add: reads_empty)
qed (auto simp: reads_simple reads_int)

lemma newline_space: "is_json_space CHR 0x0A"
  by code_simp

lemma blank_newline [simp]: "blank (newline k)"
  by (simp add: blank_def newline_def list_all_iff spaces newline_space)

lemma pretty_start: "wf_json v \<Longrightarrow> value_start (json_pretty k v)"
proof (cases v)
  case (PInt i)
  then show "wf_json v \<Longrightarrow> ?thesis" using dumps_start[of v False] by simp
qed (auto simp: value_start_def spaces json_string_def)

theorem reads_pretty: "wf_json v \<Longrightarrow> reads_as (json_pretty k v) v"
proof (induction v arbitrary: k)
  case (PList xs)
  show ?case
  proof (cases "xs = []")
    case False
    have "reads_as (json_pretty (Suc k) x) x \<and> value_start (json_pretty (Suc k) x)" if "x \<in> set xs" for x
      using PList that pretty_start by (simp add: list_all_iff)
    from reads_list[OF False this, of "newline (Suc k)" "newline k" "newline (Suc k)"] False show ?thesis by simp
  qed (simp add: reads_empty)
next
  case (PDict d)
  show ?case
  proof (cases "d = []")
    case False
    have x: "reads_as (json_pretty (Suc k) v) v \<and> value_start (json_pretty (Suc k) v)" if "(key, v) \<in> set d" for key v
      using PDict that pretty_start by (fastforce simp: list_all_iff snds.simps)
    have "reads_as (CHR ''{'' # newline (Suc k) @ join (CHR '','' # newline (Suc k)) (map (\<lambda>(key, v). json_string key @ '': '' @ json_pretty (Suc k) v) d)
        @ newline k @ ''}'') (PDict d)"
      by (rule reads_dict[where t = "json_pretty (Suc k)"]) (use False x PDict in auto)
    then show ?thesis using False by simp
  qed (simp add: reads_empty)
qed (auto simp: reads_simple reads_int)

lemma json_loads_reads:
  assumes "reads_as t v" "value_start t"
  shows "json_loads t = Inr v"
proof -
  obtain n where "json_value n (t @ []) = Inr (v, [])" using reads_asD[OF assms(1) number_ends(2)] by blast
  then have n: "json_value n t = Inr (v, [])" by (simp only: append_Nil2)
  have "skip_ws t = t" using value_start_append[OF assms(2), of "[]"] by (simp only: append_Nil2)
  moreover have "json_value (json_fuel t) t = Inr (v, [])" by (rule json_fuel_any[OF n]) (simp add: json_fuel_def)
  ultimately show ?thesis by (simp add: json_loads_def) (simp add: skip_ws_def)
qed

theorem json_loads_dumps: "wf_json v \<Longrightarrow> json_loads (json_dumps False v) = Inr v"
  by (rule json_loads_reads[OF reads_dumps dumps_start])

theorem json_loads_pretty: "wf_json v \<Longrightarrow> json_loads (json_pretty k v) = Inr v"
  by (rule json_loads_reads[OF reads_pretty pretty_start])

text \<open>Of the encoded text.\<close>

lemma json_loads_bytes_encode: "\<not> other_encoding (py_encode s) \<Longrightarrow> json_loads_bytes (py_encode s) = json_loads s"
proof -
  assume o: "\<not> other_encoding (py_encode s)"
  have "\<not> startswith (py_encode s) [CHR 0xEF, CHR 0xBB, CHR 0xBF]"
  proof (cases s)
    case (Cons c t)
    have e: "code CHR 0xEF = 239" by (simp add: code_def)
    have "192 + code c div 64 < 239" using code_less[of c] by auto
    then have "code (char_of (192 + code c div 64)) \<noteq> code CHR 0xEF" unfolding e by simp
    then have "char_of (192 + code c div 64) \<noteq> CHR 0xEF" by metis
    moreover have "code c < 128 \<Longrightarrow> c \<noteq> CHR 0xEF" using e by auto
    ultimately show ?thesis by (auto simp: Cons py_encode_Cons encode_char_def Let_def)
  qed simp
  with o show ?thesis by (simp add: json_loads_bytes_def)
qed

lemma dumps_dict_start: "\<exists>r. json_dumps False (PDict d) = CHR ''{'' # CHR ''}'' # r \<or> json_dumps False (PDict d) = CHR ''{'' # CHR 0x22 # r"
proof (cases d)
  case (Cons x xs)
  obtain k v where x: "x = (k, v)" by (cases x)
  show ?thesis by (cases xs) (auto simp: Cons x Let_def json_string_def)
qed simp

lemma json_loads_bytes_dumps: "wf_json (PDict d) \<Longrightarrow> json_loads_bytes (py_encode (json_dumps False (PDict d))) = Inr (PDict d)"
proof -
  assume wf: "wf_json (PDict d)"
  have e: "code CHR ''{'' < 128" "code CHR ''}'' < 128" "code CHR 0x22 < 128" by code_simp+
  obtain r where "json_dumps False (PDict d) = CHR ''{'' # CHR ''}'' # r \<or> json_dumps False (PDict d) = CHR ''{'' # CHR 0x22 # r"
    using dumps_dict_start by blast
  then have "\<not> other_encoding (py_encode (json_dumps False (PDict d)))"
    by (auto simp: other_encoding_def py_encode_Cons encode_char_def e)
  from json_loads_bytes_encode[OF this] json_loads_dumps[OF wf] show ?thesis by (rule trans)
qed

end
