(* ===== verification/Py_Json_File.thy ===== *)
theory Py_Json_File
  imports Py_Json_Loads
begin

text \<open>
  JSON files: \<open>json.loads (path.read_text (encoding="utf-8"))\<close> of the bytes of a file, and the texts
  \<open>json.dumps\<close> writes, which are read back.
\<close>

definition is_json_error :: "exc \<Rightarrow> bool" where
  "is_json_error e = (case e of PyError t m \<Rightarrow> t = ''JSONDecodeError'' | _ \<Rightarrow> False)"

definition load_text :: "bytes \<Rightarrow> pyval res" where
  "load_text b = rbind (read_text b) json_loads"

text \<open>
  The text of a value holds no control character, and with an indent only line feeds: reading it as
  text changes nothing, and without an indent it is one line.
\<close>

definition control :: "char \<Rightarrow> bool" where
  "control c = (code c < 32)"

lemma not_control_chars:
  "\<not> control CHR 0x5C" "\<not> control CHR ''n''" "\<not> control CHR ''r''" "\<not> control CHR ''t''" "\<not> control CHR ''b''"
  "\<not> control CHR ''f''" "\<not> control CHR ''u''" "\<not> control CHR ''0''" "\<forall>y \<in> set hex_chars. \<not> control y"
  by code_simp+

lemma no_control_escape: "control x \<Longrightarrow> x \<notin> set (json_escape c)"
proof -
  assume x: "control x"
  have h: "x \<notin> set (hex_byte c)" using set_hex_str[of "[c]"] x not_control_chars(9) by (auto simp: hex_str_def)
  have n: "code c = n \<Longrightarrow> 32 \<le> n \<Longrightarrow> x \<noteq> c" for n using x by (auto simp: control_def)
  have "x \<notin> {CHR 0x5C, CHR ''n'', CHR ''r'', CHR ''t'', CHR ''b'', CHR ''f'', CHR ''u'', CHR ''0''}"
    using x not_control_chars by blast
  with h n[OF refl] show ?thesis unfolding json_escape_def Let_def by (simp split: if_splits)
qed

lemma no_control_string: "control x \<Longrightarrow> x \<notin> set (json_string s)"
  using no_control_escape by (auto simp: json_string_def control_def code_def)

lemma no_control_int: "control x \<Longrightarrow> x \<notin> set (int_str i)"
proof -
  assume x: "control x"
  have "\<not> is_digit x" using x by (auto simp: is_digit_def control_def code_def)
  then have "x \<notin> set (nat_str n)" for n using nat_str_digits[of n] by (auto simp: list_all_iff)
  then show ?thesis using x by (auto simp: int_str_def control_def code_def)
qed

lemma notin_join: "\<forall>w \<in> set ws. c \<notin> set w \<Longrightarrow> c \<notin> set sep \<Longrightarrow> c \<notin> set (join sep ws)"
  using set_join[of sep ws] by auto

lemma no_control_dumps: "control x \<Longrightarrow> wf_json v \<Longrightarrow> x \<notin> set (json_dumps False v)"
proof (induction v)
  case (PList xs)
  then have "x \<notin> set (join '', '' (map (json_dumps False) xs))"
    by (intro notin_join) (auto simp: list_all_iff control_def code_def)
  then show ?case using PList.prems(1) by (auto simp: control_def code_def)
next
  case (PDict d)
  have "x \<notin> set (json_dumps False v)" if "(key, v) \<in> set d" for key v
    using PDict that by (fastforce simp: list_all_iff snds.simps)
  then have "x \<notin> set (join '', '' (map (\<lambda>(k, t). json_string k @ '': '' @ t) (map (\<lambda>(k, v). (k, json_dumps False v)) d)))"
    using PDict.prems(1) no_control_string by (intro notin_join) (auto simp: control_def code_def)
  then show ?case using PDict.prems(1) by (auto simp: Let_def control_def code_def)
qed (auto simp: no_control_string no_control_int control_def code_def)

lemma control_cr: "control CHR 0x0D" "control CHR 0x0A"
  by code_simp+

lemma no_cr_dumps: "wf_json v \<Longrightarrow> CHR 0x0D \<notin> set (json_dumps False v)"
  by (rule no_control_dumps[OF control_cr(1)])

lemma no_cr_pretty: "wf_json v \<Longrightarrow> CHR 0x0D \<notin> set (json_pretty k v)"
proof (induction v arbitrary: k)
  case (PList xs)
  then have "CHR 0x0D \<notin> set (join ('','' @ newline (Suc k)) (map (json_pretty (Suc k)) xs))"
    by (intro notin_join) (auto simp: list_all_iff newline_def)
  then show ?case by (auto simp: newline_def)
next
  case (PDict d)
  have "CHR 0x0D \<notin> set (json_pretty (Suc k) v)" if "(key, v) \<in> set d" for key v
    using PDict that by (fastforce simp: list_all_iff snds.simps)
  then have "CHR 0x0D \<notin> set (join ('','' @ newline (Suc k)) (map (\<lambda>(key, v). json_string key @ '': '' @ json_pretty (Suc k) v) d))"
    by (intro notin_join) (auto simp: newline_def no_control_string[OF control_cr(1)])
  then show ?case by (auto simp: newline_def)
qed (auto simp: no_control_string[OF control_cr(1)] no_control_int[OF control_cr(1)])

lemma load_text_dumps: "wf_json v \<Longrightarrow> load_text (py_encode (json_dumps False v)) = Inr v"
  by (simp add: load_text_def read_text_def universal_newlines_id no_cr_dumps json_loads_dumps)

lemma load_text_pretty: "wf_json v \<Longrightarrow> load_text (py_encode (json_pretty k v)) = Inr v"
  by (simp add: load_text_def read_text_def universal_newlines_id no_cr_pretty json_loads_pretty)

lemma pretty_dict_start:
  "\<exists>r. json_pretty k (PDict d) = CHR ''{'' # CHR ''}'' # r \<or> json_pretty k (PDict d) = CHR ''{'' # CHR 0x0A # r"
  by (auto simp: newline_def)

lemma json_loads_bytes_pretty: "wf_json (PDict d) \<Longrightarrow> json_loads_bytes (py_encode (json_pretty k (PDict d))) = Inr (PDict d)"
proof -
  assume wf: "wf_json (PDict d)"
  have e: "code CHR ''{'' < 128" "code CHR ''}'' < 128" "code CHR 0x0A < 128" by code_simp+
  obtain r where "json_pretty k (PDict d) = CHR ''{'' # CHR ''}'' # r \<or> json_pretty k (PDict d) = CHR ''{'' # CHR 0x0A # r"
    using pretty_dict_start by blast
  then have "\<not> other_encoding (py_encode (json_pretty k (PDict d)))"
    by (auto simp: other_encoding_def py_encode_Cons encode_char_def e simp del: json_pretty.simps)
  from json_loads_bytes_encode[OF this] json_loads_pretty[OF wf] show ?thesis by (rule trans)
qed

text \<open>Integers of at most 4300 digits are what they read as.\<close>

lemma length_nat_str: "n < 10 ^ Suc k \<Longrightarrow> length (nat_str n) \<le> Suc k"
proof (induction k arbitrary: n)
  case (Suc k)
  then have "length (nat_str (n div 10)) \<le> Suc k" by auto
  then show ?case by (subst nat_str.simps) simp
qed (subst nat_str.simps, simp)

lemma wf_small_int: "\<bar>i\<bar> < 10 ^ 18 \<Longrightarrow> wf_json (PInt i)"
  using length_nat_str[of "nat \<bar>i\<bar>" 17] by (simp add: int_limit_def nat_less_iff)

lemma set_dset: "set (dset d k v) \<subseteq> insert (k, v) (set d)"
  by (induction d) auto

lemma wf_dset: "wf_json (PDict d) \<Longrightarrow> wf_json v \<Longrightarrow> wf_json (PDict (dset d k v))"
  using set_dset[of k v d] by (auto simp: list_all_iff)

end
