(* ===== verification/Config.thy ===== *)
theory Config
  imports Py_Json_File
begin

text \<open>
  \<open>buncker/config.py\<close> and \<open>buncker_fetch/config.py\<close>: the configuration of both sides. A
  configuration is a dictionary; what \<open>load_config\<close> reads is the contents of its file, \<open>None\<close> when
  there is none, and what \<open>save_config\<close> writes is the new contents. The copy of the defaults is
  shallow, which no caller can observe. The warnings about unknown keys are left out, not the
  failure of looking for them.
\<close>

declare map_of_eq_Some_iff [simp del]

section \<open>Updating a dictionary\<close>

text \<open>
  \<open>d.update (v)\<close>: a dictionary gives its items, anything else has to be a sequence of pairs. A key
  that is no string is outside the model.
\<close>

definition dmerge :: "dict \<Rightarrow> dict \<Rightarrow> dict" where
  "dmerge d e = foldl (\<lambda>d (k, v). dset d k v) d e"

fun update_pairs :: "nat \<Rightarrow> dict \<Rightarrow> pyval list \<Rightarrow> dict res" where
  "update_pairs i d [] = Inr d"
| "update_pairs i d (x # xs) =
     (case viter x of
        Inl e \<Rightarrow> Inl (type_error (''cannot convert dictionary update sequence element #'' @ nat_str i @ '' to a sequence''))
      | Inr ys \<Rightarrow>
          if length ys \<noteq> 2 then
            Inl (value_error (''dictionary update sequence element #'' @ nat_str i @ '' has length '' @ nat_str (length ys) @ ''; 2 is required''))
          else (case ys ! 0 of
                  PStr k \<Rightarrow> update_pairs (Suc i) (dset d k (ys ! 1)) xs
                | k \<Rightarrow> rbind (check_hash k) (\<lambda>_. Inl not_modelled)))"

definition dict_update :: "dict \<Rightarrow> pyval \<Rightarrow> dict res" where
  "dict_update d v = (case v of PDict e \<Rightarrow> Inr (dmerge d e) | _ \<Rightarrow> rbind (viter v) (update_pairs 0 d))"

lemma dkeys_dset: "dkeys (dset d k v) = (if k \<in> set (dkeys d) then dkeys d else dkeys d @ [k])"
  by (rule update_keys)

text \<open>Updating keeps the keys there are, in their order, and adds the new ones behind them.\<close>

definition extends :: "dict \<Rightarrow> dict \<Rightarrow> bool" where
  "extends d e = (distinct (dkeys e) \<and> (\<exists>ks. dkeys e = dkeys d @ ks))"

lemma extends_refl: "distinct (dkeys d) \<Longrightarrow> extends d d"
  by (simp add: extends_def)

lemma extends_dset: "extends d e \<Longrightarrow> extends d (dset e k v)"
  by (auto simp: extends_def dkeys_dset)

lemma extends_dmerge: "extends d e \<Longrightarrow> extends d (dmerge e f)"
  unfolding dmerge_def by (induction f arbitrary: e) (auto simp: extends_dset)

lemma extends_pairs: "update_pairs i e xs = Inr r \<Longrightarrow> extends d e \<Longrightarrow> extends d r"
  by (induction i e xs rule: update_pairs.induct)
    (auto simp: rbind_Inr_iff extends_dset split: sum.splits if_splits pyval.splits)

lemma extends_update: "dict_update d v = Inr r \<Longrightarrow> distinct (dkeys d) \<Longrightarrow> extends d r"
  by (cases v) (auto simp: dict_update_def rbind_Inr_iff extends_dmerge extends_refl intro: extends_pairs)

lemma extends_key: "extends d e \<Longrightarrow> k \<in> set (dkeys d) \<Longrightarrow> \<exists>v. dget e k = Some v"
  by (metis UnCI extends_def map_of_eq_None_iff option.exhaust set_append set_map)

lemma dget_dmerge:
  "distinct (dkeys e) \<Longrightarrow> dget (dmerge d e) k = (case dget e k of Some v \<Rightarrow> Some v | None \<Rightarrow> dget d k)"
proof (induction e arbitrary: d)
  case (Cons x e)
  obtain a b where x: "x = (a, b)" by (cases x)
  have "dget (dmerge (dset d a b) e) k = (case dget e k of Some v \<Rightarrow> Some v | None \<Rightarrow> dget (dset d a b) k)"
    using Cons by simp
  moreover have "dmerge d (x # e) = dmerge (dset d a b) e" by (simp add: dmerge_def x)
  moreover have "dget e a = None" using Cons.prems by (simp add: x map_of_eq_None_iff)
  ultimately show ?case by (auto simp: x split: option.splits)
qed (simp add: dmerge_def)

text \<open>A dictionary that extends another overwrites it.\<close>

lemma dset_middle: "k \<notin> set (dkeys a) \<Longrightarrow> dset (a @ (k, w) # d) k v = a @ (k, v) # d"
  by (induction a) auto

lemma dmerge_prefix:
  "dkeys c = dkeys d @ ks \<Longrightarrow> distinct (dkeys (a @ c)) \<Longrightarrow> dmerge (a @ d) c = a @ c"
proof (induction c arbitrary: a d ks)
  case (Cons x c)
  obtain k v where x: "x = (k, v)" by (cases x)
  have ka: "k \<notin> set (dkeys a)" using Cons.prems(2) by (auto simp: x)
  have s: "dmerge (a @ d) (x # c) = dmerge (dset (a @ d) k v) c" by (simp add: dmerge_def x)
  show ?case
  proof (cases d)
    case Nil
    then have "dset (a @ d) k v = (a @ [x]) @ []" using ka by (simp add: dset_new x)
    moreover have "dmerge ((a @ [x]) @ []) c = (a @ [x]) @ c"
      by (rule Cons.IH) (use Cons.prems Nil in auto)
    ultimately show ?thesis using s by simp
  next
    case (Cons y d')
    then have y: "y = (k, snd y)" using Cons.prems(1) by (cases y) (simp add: x)
    then have "dset (a @ d) k v = (a @ [x]) @ d'" using dset_middle[OF ka, where w = "snd y" and d = d' and v = v] Cons x by simp
    moreover have "dmerge ((a @ [x]) @ d') c = (a @ [x]) @ c"
      by (rule Cons.IH) (use Cons.prems Cons in auto)
    ultimately show ?thesis using s by simp
  qed
qed (simp add: dmerge_def)

lemma dmerge_extends: "extends d c \<Longrightarrow> dmerge d c = c"
  using dmerge_prefix[of c d _ "[]"] by (auto simp: extends_def)

section \<open>The daemon's configuration\<close>

definition DEFAULTS :: dict where
  "DEFAULTS =
     [(''source_id'', PStr []), (''bind'', PStr ''127.0.0.1''), (''port'', PInt 5000), (''store_path'', PStr ''/var/lib/buncker''),
      (''max_workers'', PInt 16), (''tls'', PBool False), (''crypto'', PDict []), (''private_registries'', PList []),
      (''gc'', PDict [(''inactive_days_threshold'', PInt 90)]), (''manifest_ttl'', PInt 30), (''log_level'', PStr ''INFO''),
      (''transfer_path'', PStr [])]"

text \<open>The context of the error lists the levels in the order of the set; here in the order written.\<close>

definition LOG_LEVELS :: "string list" where
  "LOG_LEVELS = [''DEBUG'', ''INFO'', ''WARNING'', ''ERROR'', ''CRITICAL'']"

text \<open>\<open>isinstance (v, int)\<close> and the bounds, of which the upper one may be missing.\<close>

definition int_between :: "int \<Rightarrow> int option \<Rightarrow> pyval \<Rightarrow> bool" where
  "int_between lo hi v =
     (case as_int v of None \<Rightarrow> False | Some i \<Rightarrow> lo \<le> i \<and> (case hi of None \<Rightarrow> True | Some h \<Rightarrow> i \<le> h))"

definition check_field :: "bool \<Rightarrow> string \<Rightarrow> dict \<Rightarrow> unit res" where
  "check_field ok m ctx = (if ok then Inr () else Inl (ConfigError m ctx))"

definition validate_config :: "dict \<Rightarrow> unit res" where
  "validate_config config =
     (let port = dget_or config ''port'' PNone in
      rbind (check_field (int_between 0 (Some 65535) port) (''Invalid port: '' @ str_of port @ '' (must be 0-65535)'') [(''port'', port)]) (\<lambda>_.
      let max_workers = dget_or config ''max_workers'' PNone in
      rbind (check_field (int_between 1 None max_workers) (''Invalid max_workers: '' @ str_of max_workers @ '' (must be >= 1)'')
               [(''max_workers'', max_workers)]) (\<lambda>_.
      let store_path = dget_or config ''store_path'' PNone in
      rbind (check_field (truthy store_path \<and> as_str store_path \<noteq> None) ''store_path must be a non-empty string''
               [(''store_path'', store_path)]) (\<lambda>_.
      let manifest_ttl = dget_or config ''manifest_ttl'' (PInt 30) in
      rbind (check_field (int_between 0 None manifest_ttl) (''Invalid manifest_ttl: '' @ str_of manifest_ttl @ '' (must be >= 0)'')
               [(''manifest_ttl'', manifest_ttl)]) (\<lambda>_.
      let log_level = dget_or config ''log_level'' (PStr ''INFO'') in
      rbind (check_hash log_level) (\<lambda>_.
      rbind (check_field (log_level \<in> set (map PStr LOG_LEVELS)) (''Invalid log_level: '' @ str_of log_level)
               [(''log_level'', log_level), (''valid'', PList (map PStr LOG_LEVELS))]) (\<lambda>_.
      rbind (case dget_or config ''gc'' (PDict []) of
               PDict gc \<Rightarrow>
                 (let threshold = dget_or gc ''inactive_days_threshold'' (PInt 90) in
                  check_field (int_between 1 None threshold)
                    (''Invalid gc.inactive_days_threshold: '' @ str_of threshold @ '' (must be >= 1)'')
                    [(''inactive_days_threshold'', threshold)])
             | _ \<Rightarrow> Inr ()) (\<lambda>_.
      let transfer_path = dget_or config ''transfer_path'' (PStr []) in
      check_field (truthy transfer_path \<longrightarrow> as_str transfer_path \<noteq> None) ''transfer_path must be a string''
        [(''transfer_path'', transfer_path)]))))))))"

text \<open>The contents of the file: JSON, or an error that names the file.\<close>

definition read_config :: "string \<Rightarrow> bytes \<Rightarrow> pyval res" where
  "read_config config_path raw =
     (case load_text raw of
        Inl e \<Rightarrow>
          Inl (if is_json_error e
               then ConfigError (''Invalid JSON in config file: '' @ config_path) [(''path'', PStr config_path), (''error'', PStr (exc_str e))]
               else e)
      | Inr v \<Rightarrow> Inr v)"

definition load_config :: "string \<Rightarrow> bytes option \<Rightarrow> dict res" where
  "load_config config_path raw =
     rbind (case raw of
              None \<Rightarrow> Inr DEFAULTS
            | Some b \<Rightarrow>
                rbind (read_config config_path b) (\<lambda>v.
                rbind (viter v) (\<lambda>ks.
                rbind (rmap check_hash ks) (\<lambda>_. dict_update DEFAULTS v)))) (\<lambda>config.
     rbind (validate_config config) (\<lambda>_. Inr config))"

definition save_config :: "dict \<Rightarrow> bytes" where
  "save_config config = py_encode (json_pretty 0 (PDict config))"

section \<open>The online side's configuration\<close>

definition FETCH_DEFAULTS :: dict where
  "FETCH_DEFAULTS = [(''derived_key_check'', PStr []), (''salt'', PStr []), (''registries'', PDict []), (''transfer_path'', PStr [])]"

definition fetch_load_config :: "string \<Rightarrow> bytes option \<Rightarrow> dict res" where
  "fetch_load_config config_path raw =
     (case raw of
        None \<Rightarrow> Inr FETCH_DEFAULTS
      | Some b \<Rightarrow> rbind (read_config config_path b) (dict_update FETCH_DEFAULTS))"

definition fetch_save_config :: "dict \<Rightarrow> bytes" where
  "fetch_save_config config = py_encode (json_pretty 0 (PDict config))"

definition fetch_validate_config :: "dict \<Rightarrow> unit res" where
  "fetch_validate_config config =
     (if \<not> truthy (dget_or config ''salt'' PNone) then
        Inl (ConfigError (''No salt in config. Run '' @ [CHR 0x27] @ ''buncker-fetch pair'' @ [CHR 0x27] @ '' first.'') [])
      else if \<not> truthy (dget_or config ''derived_key_check'' PNone) then
        Inl (ConfigError (''No derived_key_check in config. Run '' @ [CHR 0x27] @ ''buncker-fetch pair'' @ [CHR 0x27] @ '' first.'') [])
      else Inr ())"

section \<open>What a loaded configuration is\<close>

definition int_field :: "dict \<Rightarrow> string \<Rightarrow> int option" where
  "int_field c k = Option.bind (dget c k) as_int"

text \<open>
  The fields the validation looks at. It says nothing of the others: \<open>source_id\<close>, \<open>bind\<close>, \<open>tls\<close>,
  \<open>crypto\<close>, \<open>private_registries\<close>, a \<open>gc\<close> that is no object, and every field without a default.
\<close>

definition checked_fields :: "dict \<Rightarrow> bool" where
  "checked_fields c =
     ((\<exists>p. int_field c ''port'' = Some p \<and> 0 \<le> p \<and> p \<le> 65535)
      \<and> (\<exists>w. int_field c ''max_workers'' = Some w \<and> 1 \<le> w)
      \<and> (\<exists>s. dget c ''store_path'' = Some (PStr s) \<and> s \<noteq> [])
      \<and> (\<exists>t. int_field c ''manifest_ttl'' = Some t \<and> 0 \<le> t)
      \<and> (\<exists>l. dget c ''log_level'' = Some (PStr l) \<and> l \<in> set LOG_LEVELS)
      \<and> (\<forall>g v. dget c ''gc'' = Some (PDict g) \<longrightarrow> dget g ''inactive_days_threshold'' = Some v \<longrightarrow> (\<exists>n. as_int v = Some n \<and> 1 \<le> n))
      \<and> (\<exists>v. dget c ''transfer_path'' = Some v \<and> (truthy v \<longrightarrow> (\<exists>s. v = PStr s))))"

lemma int_between_iff:
  "int_between lo hi v \<longleftrightarrow> (\<exists>i. as_int v = Some i \<and> lo \<le> i \<and> (\<forall>h. hi = Some h \<longrightarrow> i \<le> h))"
  by (auto simp: int_between_def split: option.splits)

lemma check_field_Inr [simp]: "check_field ok m c = Inr u \<longleftrightarrow> ok"
  by (simp add: check_field_def)

lemma as_str_iff: "as_str v = Some s \<longleftrightarrow> v = PStr s"
  by (cases v) auto

lemma default_keys: "distinct (dkeys DEFAULTS)" "distinct (dkeys FETCH_DEFAULTS)"
  by (simp_all add: DEFAULTS_def FETCH_DEFAULTS_def)

lemma default_key: "k \<in> set (dkeys DEFAULTS) \<Longrightarrow> extends DEFAULTS c \<Longrightarrow> \<exists>v. dget c k = Some v"
  by (rule extends_key)

lemma dget_or_Some: "dget c k = Some v \<Longrightarrow> dget_or c k w = v"
  by (simp add: dget_or_def)

lemma validate_iff:
  assumes e: "extends DEFAULTS c"
  shows "validate_config c = Inr () \<longleftrightarrow> checked_fields c"
proof -
  have k: "\<exists>v. dget c k = Some v"
    if "k \<in> {''port'', ''max_workers'', ''store_path'', ''manifest_ttl'', ''log_level'', ''gc'', ''transfer_path''}" for k
    by (rule default_key[OF _ e]) (use that in \<open>auto simp: DEFAULTS_def\<close>)
  obtain p where v1: "dget c ''port'' = Some p" using k by blast
  obtain w where v2: "dget c ''max_workers'' = Some w" using k by blast
  obtain s where v3: "dget c ''store_path'' = Some s" using k by blast
  obtain t where v4: "dget c ''manifest_ttl'' = Some t" using k by blast
  obtain l where v5: "dget c ''log_level'' = Some l" using k by blast
  obtain g where v6: "dget c ''gc'' = Some g" using k by blast
  obtain r where v7: "dget c ''transfer_path'' = Some r" using k by blast
  note v = v1 v2 v3 v4 v5 v6 v7
  note o = v[THEN dget_or_Some]
  have u: "rbind (x :: unit res) f = Inr () \<longleftrightarrow> x = Inr () \<and> f () = Inr ()" for x f by (cases x) auto
  have a: "truthy s \<and> as_str s \<noteq> None \<longleftrightarrow> (\<exists>q. s = PStr q \<and> q \<noteq> [])" by (cases s) simp_all
  have b: "check_hash l = Inr () \<and> l \<in> set (map PStr LOG_LEVELS) \<longleftrightarrow> (\<exists>q. l = PStr q \<and> q \<in> set LOG_LEVELS)" by auto
  have d: "(case g of PDict gc \<Rightarrow> check_field (int_between 1 None (dget_or gc ''inactive_days_threshold'' (PInt 90))) (m gc) (x gc) | _ \<Rightarrow> Inr ()) = Inr ()
      \<longleftrightarrow> (\<forall>h v. g = PDict h \<longrightarrow> dget h ''inactive_days_threshold'' = Some v \<longrightarrow> (\<exists>n. as_int v = Some n \<and> 1 \<le> n))" for m x
    by (cases g) (auto simp: int_between_iff dget_or_def split: option.splits)
  have f: "(truthy r \<longrightarrow> as_str r \<noteq> None) \<longleftrightarrow> (truthy r \<longrightarrow> (\<exists>q. r = PStr q))" by (cases r) simp_all
  show ?thesis
    unfolding validate_config_def Let_def o u d
    unfolding check_field_Inr a f checked_fields_def int_field_def v bind.simps int_between_iff using b by auto
qed

lemma loaded_extends: "load_config p raw = Inr c \<Longrightarrow> extends DEFAULTS c"
  by (auto simp: load_config_def rbind_Inr_iff extends_refl default_keys split: option.splits intro: extends_update)

lemma loaded_valid: "load_config p raw = Inr c \<Longrightarrow> validate_config c = Inr ()"
  by (auto simp: load_config_def rbind_Inr_iff)

lemma loaded_checked: "load_config p raw = Inr c \<Longrightarrow> checked_fields c"
  using validate_iff[OF loaded_extends] loaded_valid by blast

lemma load_object:
  assumes "load_text raw = Inr (PDict d)"
  shows "load_config path (Some raw) = Inr c \<longleftrightarrow> c = dmerge DEFAULTS d \<and> checked_fields c"
proof -
  have "rmap check_hash (map (\<lambda>p. PStr (fst p)) d) = Inr (map (\<lambda>_. ()) (map (\<lambda>p. PStr (fst p)) d))"
    by (rule rmap_map) auto
  then have l: "load_config path (Some raw) = rbind (validate_config (dmerge DEFAULTS d)) (\<lambda>_. Inr (dmerge DEFAULTS d))"
    by (simp add: load_config_def read_config_def assms dict_update_def viter_def)
  have "extends DEFAULTS (dmerge DEFAULTS d)" by (rule extends_dmerge[OF extends_refl[OF default_keys(1)]])
  from validate_iff[OF this] show ?thesis unfolding l by (cases "validate_config (dmerge DEFAULTS d)") auto
qed

text \<open>
  C32. What loading a configuration checks, and all it checks. A configuration that loads has every field with a
  default, and the port, the number of workers, the store's path, the age limit of manifests, the log level, the transfer path and, if \<open>gc\<close> is
  an object, its threshold, each of its type and in its range. A file with an object loads exactly when
  the object over the defaults has these, whatever its other fields hold.
\<close>

theorem load_config_typed:
  "(load_config path file = Inr c \<longrightarrow> extends DEFAULTS c \<and> checked_fields c)
   \<and> (\<forall>raw d. file = Some raw \<longrightarrow> load_text raw = Inr (PDict d) \<longrightarrow>
        (load_config path file = Inr c \<longleftrightarrow> c = dmerge DEFAULTS d \<and> checked_fields c))"
  using loaded_extends loaded_checked load_object by blast

definition demo_config :: bytes where
  "demo_config = ''{\"port\": 8443, \"tls\": true}''"

lemma demo_config_value: "load_text demo_config = Inr (PDict [(''port'', PInt 8443), (''tls'', PBool True)])"
  unfolding load_text_def read_text_def demo_config_def by code_simp

lemma default_valid: "validate_config DEFAULTS = Inr ()"
  by (simp add: validate_config_def DEFAULTS_def dget_or_def int_between_def check_field_def LOG_LEVELS_def Let_def)

definition demo_loaded :: dict where
  "demo_loaded = dmerge DEFAULTS [(''port'', PInt 8443), (''tls'', PBool True)]"

lemma demo_config_loads: "load_config ''config.json'' (Some demo_config) = Inr demo_loaded"
proof -
  have "validate_config demo_loaded = Inr ()"
    by (simp add: validate_config_def demo_loaded_def dmerge_def DEFAULTS_def dget_or_def int_between_def check_field_def LOG_LEVELS_def Let_def)
  then show ?thesis
    by (simp add: load_config_def read_config_def demo_config_value viter_def dict_update_def flip: demo_loaded_def)
qed

theorem load_config_typed_witness: "checked_fields demo_loaded \<and> demo_loaded = dmerge DEFAULTS [(''port'', PInt 8443), (''tls'', PBool True)]"
  using load_config_typed[of "''config.json''" "Some demo_config" demo_loaded] demo_config_loads demo_config_value by blast

text \<open>An address that is a number and keys that are a list are not noticed.\<close>

definition odd_config :: bytes where
  "odd_config = ''{\"bind\": 5, \"crypto\": []}''"

lemma unchecked_fields_load:
  "\<exists>c. load_config ''config.json'' (Some odd_config) = Inr c \<and> dget c ''bind'' = Some (PInt 5) \<and> dget c ''crypto'' = Some (PList [])"
proof -
  have "load_text odd_config = Inr (PDict [(''bind'', PInt 5), (''crypto'', PList [])])"
    unfolding load_text_def read_text_def odd_config_def by code_simp
  moreover have "checked_fields (dmerge DEFAULTS [(''bind'', PInt 5), (''crypto'', PList [])])"
    by (simp add: checked_fields_def int_field_def dmerge_def DEFAULTS_def LOG_LEVELS_def)
  ultimately show ?thesis by (intro exI[of _ "dmerge DEFAULTS [(''bind'', PInt 5), (''crypto'', PList [])]"])
    (simp add: load_object, simp add: dmerge_def DEFAULTS_def)
qed

text \<open>Changing fields of a loaded configuration and saving it gives a file that loads as changed.\<close>

lemma saved_loads:
  assumes "extends DEFAULTS c" "wf_json (PDict c)" "validate_config c = Inr ()"
  shows "load_config path (Some (save_config c)) = Inr c"
proof -
  have "load_text (save_config c) = Inr (PDict c)" unfolding save_config_def by (rule load_text_pretty[OF assms(2)])
  moreover have "rmap check_hash (map (\<lambda>p. PStr (fst p)) c) = Inr (map (\<lambda>_. ()) (map (\<lambda>p. PStr (fst p)) c))"
    by (rule rmap_map) auto
  ultimately show ?thesis
    using assms by (simp add: load_config_def read_config_def dict_update_def dmerge_extends viter_def)
qed

text \<open>
  C33. What the setup commands do to a configuration survives a restart: a loaded configuration,
  changed and saved, loads again as exactly that configuration if it is still valid.
\<close>

theorem config_roundtrip:
  assumes "load_config path raw = Inr c" and "c' = dmerge c changes"
    and "wf_json (PDict c')" and "validate_config c' = Inr ()"
  shows "load_config path (Some (save_config c')) = Inr c'"
  by (rule saved_loads) (use assms extends_dmerge[OF loaded_extends[OF assms(1)]] in auto)

theorem config_roundtrip_witness:
  "load_config ''config.json'' (Some (save_config (dmerge demo_loaded [(''api'', PDict [(''enabled'', PBool True)])])))
     = Inr (dmerge demo_loaded [(''api'', PDict [(''enabled'', PBool True)])])"
  by (rule config_roundtrip[OF demo_config_loads refl])
    (simp_all add: demo_loaded_def dmerge_def DEFAULTS_def wf_small_int validate_config_def dget_or_def int_between_def check_field_def
      LOG_LEVELS_def Let_def del: wf_json.simps(2))

lemma fetch_loaded_extends: "fetch_load_config p raw = Inr c \<Longrightarrow> extends FETCH_DEFAULTS c"
  by (auto simp: fetch_load_config_def rbind_Inr_iff extends_refl default_keys split: option.splits intro: extends_update)

lemma fetch_saved_loads:
  assumes "extends FETCH_DEFAULTS c" "wf_json (PDict c)"
  shows "fetch_load_config path (Some (fetch_save_config c)) = Inr c"
  using assms load_text_pretty[OF assms(2), of 0]
  by (simp add: fetch_load_config_def fetch_save_config_def read_config_def dict_update_def dmerge_extends)

end
