(* ===== verification/Auth.thy ===== *)
theory Auth
  imports Py_Errors Py_Codec
begin

text \<open>
  \<open>buncker/auth.py\<close>: the access levels of the endpoints and the bearer-token check. The tokens are
  the dictionary loaded from the token file; \<open>Server_Setup\<close> has the files of tokens and certificates,
  \<open>Certificates\<close> the certificates themselves.
\<close>

section \<open>Levels\<close>

datatype level = Local | Readonly | Admin

fun rank :: "level \<Rightarrow> nat" where
  "rank Local = 0"
| "rank Readonly = 1"
| "rank Admin = 2"

lemma rank_inject: "rank a = rank b \<longleftrightarrow> a = b"
  by (cases a; cases b) simp_all

instantiation level :: linorder
begin

definition less_eq_level :: "level \<Rightarrow> level \<Rightarrow> bool" where
  "less_eq_level a b = (rank a \<le> rank b)"

definition less_level :: "level \<Rightarrow> level \<Rightarrow> bool" where
  "less_level a b = (rank a < rank b)"

instance
  by standard (auto simp: less_eq_level_def less_level_def rank_inject)

end

section \<open>Operations\<close>

definition READONLY_ENDPOINTS :: "(string \<times> string) list" where
  "READONLY_ENDPOINTS = [(''/admin/status'', ''GET''), (''/admin/health'', ''GET''), (''/admin/logs'', ''GET''),
     (''/admin/gc/report'', ''GET'')]"

definition ADMIN_ENDPOINTS :: "(string \<times> string) list" where
  "ADMIN_ENDPOINTS = [(''/admin/analyze'', ''POST''), (''/admin/generate-manifest'', ''POST''), (''/admin/import'', ''POST''),
     (''/admin/import'', ''PUT''), (''/admin/gc/impact'', ''POST''), (''/admin/gc/execute'', ''POST'')]"

definition get_required_level :: "string \<Rightarrow> string \<Rightarrow> level option" where
  "get_required_level path meth =
     (if (path, meth) \<in> set READONLY_ENDPOINTS then Some Readonly
      else if (path, meth) \<in> set ADMIN_ENDPOINTS then Some Admin
      else if startswith path ''/admin/'' then Some Admin
      else None)"

text \<open>\<open>hmac.compare_digest\<close> of two strings takes ASCII only.\<close>

definition compare_digest :: "string \<Rightarrow> pyval \<Rightarrow> bool res" where
  "compare_digest a v =
     (case v of
        PStr b \<Rightarrow> if is_ascii a \<and> is_ascii b then Inr (a = b)
                  else Inl (type_error ''comparing strings with non-ASCII characters is not supported'')
      | _ \<Rightarrow> Inl (type_error ''unsupported operand types(s) or combination of types''))"

definition auth_required :: exc where
  "auth_required = AuthError 401 ''Authentication required'' ''AUTH_REQUIRED''"

text \<open>The token check, for an endpoint that requires a level.\<close>

definition check_token :: "string \<Rightarrow> dict \<Rightarrow> level \<Rightarrow> level res" where
  "check_token auth_header tokens required =
     (if \<not> startswith auth_header ''Bearer '' then Inl auth_required
      else
        let token = drop 7 auth_header in
        if token = [] then Inl auth_required
        else
          rbind (compare_digest token (dget_or tokens ''admin'' (PStr ''''))) (\<lambda>is_admin.
          if is_admin then Inr Admin
          else
            rbind (compare_digest token (dget_or tokens ''readonly'' (PStr ''''))) (\<lambda>is_readonly.
            if is_readonly then
              (if required = Admin then Inl (AuthError 403 ''Insufficient permissions'' ''FORBIDDEN'') else Inr Readonly)
            else Inl auth_required)))"

text \<open>The request's path, method and \<open>Authorization\<close> header, empty when there is none.\<close>

definition authenticate_request ::
  "string \<Rightarrow> string \<Rightarrow> string \<Rightarrow> dict option \<Rightarrow> bool \<Rightarrow> bool \<Rightarrow> level res" where
  "authenticate_request raw_path meth auth_header tokens api_enabled oci_restrict =
     (let path = before CHR ''?'' raw_path in
      if startswith path ''/v2'' \<and> \<not> oci_restrict then Inr Local
      else
        let required = (if startswith path ''/v2'' then Some Readonly else get_required_level path meth) in
        case tokens of
          None \<Rightarrow> Inr Local
        | Some ts \<Rightarrow>
            if \<not> api_enabled then Inr Local
            else (case required of None \<Rightarrow> Inr Local | Some r \<Rightarrow> check_token auth_header ts r))"

section \<open>The contract\<close>

text \<open>
  What the request handler relies on: a request for an endpoint that requires a level is granted
  only that level or a higher one, and only to a caller whose credential the policy knows.
\<close>

locale access_policy =
  fixes grant :: "string \<Rightarrow> string \<Rightarrow> string \<Rightarrow> level res"
    and required :: "string \<Rightarrow> string \<Rightarrow> level option"
    and credential :: "string \<Rightarrow> level \<Rightarrow> bool"
  assumes granted_level: "required path meth = Some r \<Longrightarrow> grant path meth h = Inr l \<Longrightarrow> r \<le> l"
    and granted_credential: "required path meth = Some r \<Longrightarrow> grant path meth h = Inr l \<Longrightarrow> credential h l"
    and credential_rank: "credential h l \<Longrightarrow> Local < l"
begin

lemma never_local: "required path meth = Some r \<Longrightarrow> grant path meth h \<noteq> Inr Local"
  using granted_credential credential_rank by blast

end

definition token_of :: "dict \<Rightarrow> level \<Rightarrow> pyval option" where
  "token_of tokens l = (case l of Local \<Rightarrow> None | Readonly \<Rightarrow> dget tokens ''readonly'' | Admin \<Rightarrow> dget tokens ''admin'')"

definition holds_token :: "dict \<Rightarrow> string \<Rightarrow> level \<Rightarrow> bool" where
  "holds_token tokens h l =
     (\<exists>t. h = ''Bearer '' @ t \<and> t \<noteq> [] \<and> token_of tokens l = Some (PStr t))"

lemma compare_digest_true: "compare_digest a v = Inr True \<Longrightarrow> v = PStr a"
  by (auto simp: compare_digest_def split: pyval.splits if_splits)

lemma token_match:
  "compare_digest t (dget_or d k (PStr '''')) = Inr b \<Longrightarrow> b \<Longrightarrow> t \<noteq> [] \<Longrightarrow> dget d k = Some (PStr t)"
  using compare_digest_true[of t "dget_or d k (PStr '''')"] by (auto simp: dget_or_def split: option.splits)

lemma check_token_ok:
  assumes "check_token h ts r = Inr l"
  shows "holds_token ts h l \<and> (l = Admin \<or> (l = Readonly \<and> r \<noteq> Admin))"
proof -
  let ?t = "drop 7 h"
  have s: "startswith h ''Bearer ''" "?t \<noteq> []" using assms by (auto simp: check_token_def Let_def split: if_splits)
  then have h: "h = ''Bearer '' @ ?t" by (auto dest!: startswithE)
  from assms s obtain a where a: "compare_digest ?t (dget_or ts ''admin'' (PStr '''')) = Inr a"
    by (auto simp: check_token_def Let_def rbind_Inr_iff)
  show ?thesis
  proof (cases a)
    case True
    from token_match[OF a True s(2)] have "dget ts ''admin'' = Some (PStr ?t)" .
    then have "holds_token ts h Admin" using h s(2) unfolding holds_token_def token_of_def by auto
    moreover have "l = Admin" using assms s a True by (simp add: check_token_def Let_def)
    ultimately show ?thesis by simp
  next
    case False
    with assms s a obtain b where b: "compare_digest ?t (dget_or ts ''readonly'' (PStr '''')) = Inr b" "b"
      "r \<noteq> Admin" "l = Readonly"
      by (auto simp: check_token_def Let_def rbind_Inr_iff split: if_splits)
    from token_match[OF b(1,2) s(2)] have "dget ts ''readonly'' = Some (PStr ?t)" .
    then have "holds_token ts h Readonly" using h s(2) unfolding holds_token_def token_of_def by auto
    with b show ?thesis by simp
  qed
qed

text \<open>The level an endpoint requires when authentication is on.\<close>

definition required_level :: "bool \<Rightarrow> string \<Rightarrow> string \<Rightarrow> level option" where
  "required_level oci_restrict raw_path meth =
     (let path = before CHR ''?'' raw_path in
      if startswith path ''/v2'' then (if oci_restrict then Some Readonly else None) else get_required_level path meth)"

lemma authenticate_required:
  "required_level oci p m = Some r \<Longrightarrow> authenticate_request p m h (Some ts) True oci = check_token h ts r"
  by (auto simp: required_level_def authenticate_request_def Let_def split: if_splits)

interpretation tokens: access_policy
  "\<lambda>path meth h. authenticate_request path meth h (Some ts) True oci" "required_level oci" "holds_token ts" for ts oci
proof
  fix path meth r h l
  assume "required_level oci path meth = Some r" "authenticate_request path meth h (Some ts) True oci = Inr l"
  then have c: "check_token h ts r = Inr l" by (simp add: authenticate_required)
  from check_token_ok[OF c] show "holds_token ts h l" by blast
  from check_token_ok[OF c] show "r \<le> l" by (cases r; cases l) (auto simp: less_eq_level_def)
next
  fix h l
  show "holds_token ts h l \<Longrightarrow> Local < l"
    by (cases l) (auto simp: holds_token_def token_of_def less_level_def)
qed

text \<open>
  With authentication on, a request for an endpoint that requires a level is granted only when
  its bearer token is the configured one of the granted level, and that level is at least the required one.
\<close>

theorem authenticate_sound:
  assumes "required_level oci path meth = Some r" "authenticate_request path meth h (Some ts) True oci = Inr l"
  shows "r \<le> l \<and> (\<exists>t. h = ''Bearer '' @ t \<and> t \<noteq> [] \<and> token_of ts l = Some (PStr t))"
  using tokens.granted_level[OF assms] tokens.granted_credential[OF assms] by (simp only: holds_token_def)

theorem authenticate_sound_witness:
  "authenticate_request ''/admin/status?n=1'' ''GET'' ''Bearer ab'' (Some [(''readonly'', PStr ''ab'')]) True False = Inr Readonly
   \<and> Readonly \<le> Readonly"
proof
  show a: "authenticate_request ''/admin/status?n=1'' ''GET'' ''Bearer ab'' (Some [(''readonly'', PStr ''ab'')]) True False = Inr Readonly"
    by code_simp
  have r: "required_level False ''/admin/status?n=1'' ''GET'' = Some Readonly" by code_simp
  from authenticate_sound[OF r a] show "Readonly \<le> Readonly" by blast
qed

text \<open>A token with a character beyond ASCII ends the request with an exception instead of a refusal.\<close>

lemma non_ascii_token_raises:
  assumes "t \<noteq> []" "\<not> is_ascii t"
  shows "\<exists>m. check_token (''Bearer '' @ t) ts r = Inl (PyError ''TypeError'' m)"
proof -
  have "compare_digest t v = Inl (type_error ''comparing strings with non-ASCII characters is not supported'')
      \<or> compare_digest t v = Inl (type_error ''unsupported operand types(s) or combination of types'')" for v
    using assms(2) by (cases v) (auto simp: compare_digest_def)
  from this[of "dget_or ts ''admin'' (PStr '''')"] show ?thesis
    using assms(1) by (auto simp: check_token_def type_error_def)
qed

end
