(* ===== verification/Rate_Limiter.thy ===== *)
theory Rate_Limiter
  imports Py_Prelude
begin

text \<open>
  \<open>buncker/server.py\<close>: the sliding-window rate limiter. The monotonic clock is an integer in
  any resolution. A call reads the clock before it takes the lock: \<open>is_allowed\<close> is what it does under
  the lock with the time it has read, and returns the decision and the new limiter. A run lists the
  calls in the order in which they took the lock, which need not be the order of the times they read.
\<close>

record rate_limiter =
  rl_max :: nat
  rl_window :: int
  rl_hits :: "(string \<times> int list) list"

definition RATE_LIMIT_WINDOW :: int where
  "RATE_LIMIT_WINDOW = 60"

definition RATE_LIMIT_MAX :: nat where
  "RATE_LIMIT_MAX = 60"

definition new_limiter :: "nat \<Rightarrow> int \<Rightarrow> rate_limiter" where
  "new_limiter max_requests window = \<lparr>rl_max = max_requests, rl_window = window, rl_hits = []\<rparr>"

definition is_allowed :: "rate_limiter \<Rightarrow> int \<Rightarrow> string \<Rightarrow> bool \<times> rate_limiter" where
  "is_allowed rl now ip =
     (let q = dropWhile (\<lambda>t. t \<le> now - rl_window rl) (dget_or (rl_hits rl) ip []) in
      if rl_max rl \<le> length q then (False, rl\<lparr>rl_hits := dset (rl_hits rl) ip q\<rparr>)
      else (True, rl\<lparr>rl_hits := dset (rl_hits rl) ip (q @ [now])\<rparr>))"

text \<open>A run: the calls, with the times they read and in the order of the lock, and their decisions.\<close>

fun run_limiter :: "rate_limiter \<Rightarrow> (int \<times> string) list \<Rightarrow> (int \<times> string \<times> bool) list" where
  "run_limiter rl [] = []"
| "run_limiter rl ((now, ip) # calls) =
     (let (ok, rl') = is_allowed rl now ip in (now, ip, ok) # run_limiter rl' calls)"

definition granted :: "string \<Rightarrow> (int \<times> string \<times> bool) list \<Rightarrow> int list" where
  "granted ip log = map fst (filter (\<lambda>(t, i, ok). i = ip \<and> ok) log)"

section \<open>Calls in order\<close>

text \<open>The queue of an address, and the times of a list that lie in the window that ends at \<open>T\<close>.\<close>

definition queue :: "rate_limiter \<Rightarrow> string \<Rightarrow> int list" where
  "queue rl ip = dget_or (rl_hits rl) ip []"

definition in_window :: "int \<Rightarrow> int \<Rightarrow> int list \<Rightarrow> int list" where
  "in_window w T ts = filter (\<lambda>t. T - w < t \<and> t \<le> T) ts"

lemma is_allowed_fields:
  "rl_max (snd (is_allowed rl now ip)) = rl_max rl" "rl_window (snd (is_allowed rl now ip)) = rl_window rl"
  by (simp_all add: is_allowed_def Let_def)

lemma is_allowed_queue:
  "queue (snd (is_allowed rl now ip)) ip' =
     (if ip' = ip then dropWhile (\<lambda>t. t \<le> now - rl_window rl) (queue rl ip) @ (if fst (is_allowed rl now ip) then [now] else [])
      else queue rl ip')"
  by (simp add: is_allowed_def Let_def queue_def dget_or_update)

lemma is_allowed_iff:
  "fst (is_allowed rl now ip) \<longleftrightarrow> length (dropWhile (\<lambda>t. t \<le> now - rl_window rl) (queue rl ip)) < rl_max rl"
  by (auto simp: is_allowed_def Let_def queue_def)

lemma length_filter_le_imp: "(\<And>x. P x \<Longrightarrow> Q x) \<Longrightarrow> length (filter P xs) \<le> length (filter Q xs)"
  by (induction xs) (auto intro: le_SucI)

lemma dropWhile_sorted:
  fixes ts :: "int list"
  shows "sorted ts \<Longrightarrow> dropWhile (\<lambda>t. t \<le> x) ts = filter (\<lambda>t. x < t) ts"
proof (induction ts)
  case (Cons t ts)
  show ?case
  proof (cases "t \<le> x")
    case True
    then show ?thesis using Cons by simp
  next
    case False
    then have "\<forall>u \<in> set ts. x < u" using Cons.prems by fastforce
    then show ?thesis using False by (simp add: filter_id_conv)
  qed
qed simp

text \<open>The past of a run: \<open>past\<close> was granted before, the queue holds what of it is in the window.\<close>

definition queue_ok :: "rate_limiter \<Rightarrow> string \<Rightarrow> int \<Rightarrow> int list \<Rightarrow> bool" where
  "queue_ok rl ip now past =
     (sorted past \<and> (\<forall>t \<in> set past. t \<le> now) \<and> (\<exists>x \<le> now - rl_window rl. queue rl ip = filter (\<lambda>t. x < t) past)
      \<and> (\<forall>T. length (in_window (rl_window rl) T past) \<le> rl_max rl))"

lemma queue_ok_step:
  assumes ok: "queue_ok rl ip now past" and "now \<le> now'" and w: "0 < rl_window rl"
  shows "queue_ok (snd (is_allowed rl now' ip')) ip now'
    (past @ (if ip' = ip \<and> fst (is_allowed rl now' ip') then [now'] else []))"
proof -
  from ok obtain x where x: "x \<le> now - rl_window rl" "queue rl ip = filter (\<lambda>t. x < t) past"
    and past: "sorted past" "\<forall>t \<in> set past. t \<le> now" and bound: "\<forall>T. length (in_window (rl_window rl) T past) \<le> rl_max rl"
    by (auto simp: queue_ok_def)
  let ?y = "now' - rl_window rl" and ?rl = "snd (is_allowed rl now' ip')"
  have xy: "x \<le> ?y" using x(1) assms(2) by simp
  show ?thesis
  proof (cases "ip' = ip")
    case False
    then have "queue ?rl ip = queue rl ip" by (simp add: is_allowed_queue)
    with False x past bound assms(2) show ?thesis
      by (auto simp: queue_ok_def is_allowed_fields intro!: exI[of _ x])
  next
    case ip: True
    have d: "dropWhile (\<lambda>t. t \<le> ?y) (queue rl ip) = filter (\<lambda>t. ?y < t) past"
    proof -
      have "sorted (filter (\<lambda>t. x < t) past)" using past(1) by (rule sorted_filter[of id, simplified])
      then show ?thesis unfolding x(2) using xy by (subst dropWhile_sorted) (auto intro: filter_cong)
    qed
    show ?thesis
    proof (cases "fst (is_allowed rl now' ip')")
      case False
      with ip d have "queue ?rl ip = filter (\<lambda>t. ?y < t) past" by (simp add: is_allowed_queue)
      with False past bound assms(2) show ?thesis by (auto simp: queue_ok_def is_allowed_fields)
    next
      case True
      then have few: "length (filter (\<lambda>t. ?y < t) past) < rl_max rl" using ip d by (simp add: is_allowed_iff)
      have q: "queue ?rl ip = filter (\<lambda>t. ?y < t) past @ [now']" using True ip d by (simp add: is_allowed_queue)
      have "length (in_window (rl_window rl) T (past @ [now'])) \<le> rl_max rl" for T
      proof (cases "T < now'")
        case True
        then have "in_window (rl_window rl) T (past @ [now']) = in_window (rl_window rl) T past" by (simp add: in_window_def)
        with bound show ?thesis by simp
      next
        case False
        then have "length (in_window (rl_window rl) T past) \<le> length (filter (\<lambda>t. ?y < t) past)"
          unfolding in_window_def by (intro length_filter_le_imp) auto
        with few show ?thesis by (simp add: in_window_def)
      qed
      moreover have "queue ?rl ip = filter (\<lambda>t. ?y < t) (past @ [now'])" using q w by simp
      moreover have "sorted (past @ [now'])" using past assms(2) by (force simp: sorted_append)
      moreover have "\<forall>t \<in> set (past @ [now']). t \<le> now'" using past(2) assms(2) by auto
      moreover have e: "past @ (if ip' = ip \<and> fst (is_allowed rl now' ip') then [now'] else []) = past @ [now']"
        using True ip by simp
      ultimately show ?thesis unfolding queue_ok_def is_allowed_fields e by blast
    qed
  qed
qed

section \<open>Calls that overtake each other\<close>

text \<open>
  Without an order on the readings the queue is what is left of the past behind the entries evicted
  from its head. No evicted entry is younger than the window before the latest reading \<open>m\<close>, and
  later readings are at most \<open>d\<close> older than \<open>m\<close>.
\<close>

definition late_ok :: "rate_limiter \<Rightarrow> string \<Rightarrow> int \<Rightarrow> int \<Rightarrow> int list \<Rightarrow> bool" where
  "late_ok rl ip d m past =
     (\<exists>n. queue rl ip = drop n past \<and> (\<forall>t \<in> set (take n past). t \<le> m - rl_window rl)
       \<and> (\<forall>T. length (in_window (rl_window rl - d) T past) \<le> rl_max rl))"

lemma dropWhile_drop: "dropWhile P xs = drop (length (takeWhile P xs)) xs"
  by (induction xs) simp_all

lemma late_ok_step:
  assumes ok: "late_ok rl ip d m past" and x: "m - d \<le> x" and "0 \<le> d"
  shows "late_ok (snd (is_allowed rl x ip')) ip d (max m x)
    (past @ (if ip' = ip \<and> fst (is_allowed rl x ip') then [x] else []))"
proof -
  let ?w = "rl_window rl" and ?rl = "snd (is_allowed rl x ip')" and ?old = "\<lambda>t. t \<le> x - rl_window rl"
  from ok obtain n where q: "queue rl ip = drop n past" "\<forall>t \<in> set (take n past). t \<le> m - ?w"
    and bound: "\<forall>T. length (in_window (?w - d) T past) \<le> rl_max rl" by (auto simp: late_ok_def)
  show ?thesis
  proof (cases "ip' = ip")
    case False
    with q bound show ?thesis by (auto simp: late_ok_def is_allowed_queue is_allowed_fields intro!: exI[of _ n])
  next
    case ip: True
    define k where "k = n + length (takeWhile ?old (drop n past))"
    have d: "dropWhile ?old (queue rl ip) = drop k past" by (simp add: q(1) k_def dropWhile_drop add.commute)
    have "take k past = take n past @ takeWhile ?old (drop n past)"
      by (simp add: k_def take_add takeWhile_eq_take[symmetric])
    then have evicted: "\<forall>t \<in> set (take k past). t \<le> max m x - ?w" using q(2) by (auto dest!: set_takeWhileD)
    show ?thesis
    proof (cases "fst (is_allowed rl x ip')")
      case False
      with ip d evicted bound show ?thesis by (auto simp: late_ok_def is_allowed_queue is_allowed_fields intro!: exI[of _ k])
    next
      case True
      then have few: "length (drop k past) < rl_max rl" using ip d by (simp add: is_allowed_iff)
      have "length (in_window (?w - d) T (past @ [x])) \<le> rl_max rl" for T
      proof (cases "T - (?w - d) < x \<and> x \<le> T")
        case False
        then have "in_window (?w - d) T (past @ [x]) = in_window (?w - d) T past" by (auto simp: in_window_def)
        with bound show ?thesis by simp
      next
        case inside: True
        have "in_window (?w - d) T (take k past) = []"
          using evicted inside x \<open>0 \<le> d\<close> by (force simp: in_window_def filter_empty_conv)
        then have "in_window (?w - d) T past = in_window (?w - d) T (drop k past)"
          unfolding in_window_def by (metis append_take_drop_id filter_append self_append_conv2)
        then have "length (in_window (?w - d) T past) \<le> length (drop k past)" by (metis in_window_def length_filter_le)
        with few inside show ?thesis by (simp add: in_window_def)
      qed
      moreover have "queue ?rl ip = drop (min k (length past)) (past @ [x])"
        using True ip d by (cases "k \<le> length past") (simp_all add: is_allowed_queue)
      moreover have "take (min k (length past)) (past @ [x]) = take k past" by (cases "k \<le> length past") simp_all
      moreover have "past @ (if ip' = ip \<and> fst (is_allowed rl x ip') then [x] else []) = past @ [x]" using True ip by simp
      ultimately show ?thesis unfolding late_ok_def is_allowed_fields using evicted by metis
    qed
  qed
qed

lemma run_limiter_late:
  "late_ok rl ip d m past \<Longrightarrow> 0 \<le> d \<Longrightarrow> \<forall>x \<in> set (map fst calls). m - d \<le> x \<Longrightarrow> sorted_wrt (\<lambda>a b. a - d \<le> b) (map fst calls) \<Longrightarrow>
     length (in_window (rl_window rl - d) T (past @ granted ip (run_limiter rl calls))) \<le> rl_max rl"
proof (induction calls arbitrary: rl m past)
  case Nil
  then show ?case by (auto simp: late_ok_def granted_def)
next
  case (Cons c calls)
  obtain x ip' where c: "c = (x, ip')" by (cases c)
  obtain ok rl' where r: "is_allowed rl x ip' = (ok, rl')" by fastforce
  have q: "late_ok rl' ip d (max m x) (past @ (if ip' = ip \<and> ok then [x] else []))"
    using late_ok_step[OF Cons.prems(1) _ Cons.prems(2), of x ip'] Cons.prems(3) by (simp add: r c)
  have f: "rl_window rl' = rl_window rl" "rl_max rl' = rl_max rl"
    using is_allowed_fields[of rl x ip'] by (simp_all add: r)
  have g: "granted ip (run_limiter rl (c # calls)) = (if ip' = ip \<and> ok then [x] else []) @ granted ip (run_limiter rl' calls)"
    by (simp add: c r granted_def)
  have "\<forall>y \<in> set (map fst calls). max m x - d \<le> y" using Cons.prems(3,4) by (auto simp: c max_def)
  from Cons.IH[OF q Cons.prems(2) this] Cons.prems(4) f show ?case by (simp add: g)
qed

text \<open>A call that waited for the lock: when it got it, the time it had read before, its address.\<close>

definition waited :: "int \<Rightarrow> int \<times> int \<times> string \<Rightarrow> bool" where
  "waited d c = (case c of (entered, now, ip) \<Rightarrow> now \<le> entered \<and> entered \<le> now + d)"

text \<open>
  C19. However the calls of concurrent requests interleave, when none waits longer than \<open>d\<close> between reading the
  clock and taking the lock, no address is granted more than the limit within any span of time that is
  \<open>d\<close> shorter than the window, by the times the calls have read. Where calls do not overtake each other,
  with \<open>d\<close> zero, the span is the window.
\<close>

theorem rate_limit_bound:
  assumes "sorted (map fst calls)" "list_all (waited d) calls" "0 \<le> d"
  shows "length (in_window (w - d) T (granted ip (run_limiter (new_limiter mx w) (map snd calls)))) \<le> mx"
proof -
  have "sorted_wrt (\<lambda>a b. a - d \<le> b) (map (\<lambda>c. fst (snd c)) calls)"
    using assms(1,2) by (induction calls) (fastforce simp: waited_def list_all_iff)+
  then have s: "sorted_wrt (\<lambda>a b. a - d \<le> b) (map fst (map snd calls))" by (simp add: comp_def)
  show ?thesis
  proof (cases calls)
    case Nil
    then show ?thesis by (simp add: granted_def in_window_def)
  next
    case (Cons c cs)
    have "late_ok (new_limiter mx w) ip d (fst (snd c)) []"
      by (simp add: late_ok_def new_limiter_def queue_def dget_or_def in_window_def)
    moreover have "\<forall>x \<in> set (map fst (map snd calls)). fst (snd c) - d \<le> x" using s assms(3) by (auto simp: Cons)
    ultimately show ?thesis using run_limiter_late[of "new_limiter mx w" ip d _ "[]" "map snd calls" T] s assms(3)
      by (simp add: new_limiter_def)
  qed
qed

definition demo_calls :: "(int \<times> int \<times> string) list" where
  "demo_calls = [(50, 50, ''a''), (50, 50, ''a''), (660, 660, ''a''), (660, 649, ''a''), (661, 661, ''a'')]"

theorem rate_limit_bound_witness:
  "length (in_window (600 - 11) 649 (granted ''a'' (run_limiter (new_limiter 2 600) (map snd demo_calls)))) \<le> 2
   \<and> granted ''a'' (run_limiter (new_limiter 2 600) (map snd demo_calls)) = [50, 50, 660, 649]"
proof
  show "length (in_window (600 - 11) 649 (granted ''a'' (run_limiter (new_limiter 2 600) (map snd demo_calls)))) \<le> 2"
    by (rule rate_limit_bound) (simp_all add: waited_def demo_calls_def)
qed code_simp

text \<open>
  The shorter span is needed: of two calls the later to read the clock takes the lock first and evicts what
  is still in the window of the other, which is granted as the third of two.
\<close>

lemma overtaken_call_exceeds_limit:
  "length (in_window 600 649 (granted ''a'' (run_limiter (new_limiter 2 600) (map snd demo_calls)))) = 3"
  by code_simp

section \<open>Single addresses\<close>

text \<open>An address is not limited by the calls of others: its decisions are those of its own calls.\<close>

lemma run_limiter_alone:
  "queue rl ip = queue rl' ip \<Longrightarrow> rl_max rl = rl_max rl' \<Longrightarrow> rl_window rl = rl_window rl' \<Longrightarrow>
     granted ip (run_limiter rl calls) = granted ip (run_limiter rl' (filter (\<lambda>c. snd c = ip) calls))"
proof (induction calls arbitrary: rl rl')
  case (Cons c calls)
  obtain now i where c: "c = (now, i)" by (cases c)
  have a: "fst (is_allowed rl now ip) = fst (is_allowed rl' now ip)"
    using Cons.prems by (simp add: is_allowed_iff)
  show ?case
  proof (cases "i = ip")
    case True
    have "queue (snd (is_allowed rl now ip)) ip = queue (snd (is_allowed rl' now ip)) ip"
      using Cons.prems a by (simp add: is_allowed_queue)
    from Cons.IH[OF this] a True Cons.prems show ?thesis
      by (simp add: c granted_def case_prod_beta is_allowed_fields)
  next
    case False
    have "queue (snd (is_allowed rl now i)) ip = queue rl' ip"
      using Cons.prems False by (simp add: is_allowed_queue)
    from Cons.IH[OF this] False Cons.prems show ?thesis
      by (simp add: c granted_def case_prod_beta is_allowed_fields)
  qed
qed (simp add: granted_def)

section \<open>The decision\<close>

text \<open>Calls in the order of their readings: the queue after a run holds what was granted since the window before the last call.\<close>

lemma run_limiter_last:
  "queue_ok rl ip now past \<Longrightarrow> 0 < rl_window rl \<Longrightarrow> sorted (now # map fst calls @ [T]) \<Longrightarrow>
     \<exists>log. run_limiter rl (calls @ [(T, ip)]) =
       log @ [(T, ip, length (in_window (rl_window rl) T (past @ granted ip (run_limiter rl calls))) < rl_max rl)]"
proof (induction calls arbitrary: rl now past)
  case Nil
  then obtain x where x: "x \<le> now - rl_window rl" "queue rl ip = filter (\<lambda>t. x < t) past" "sorted past" "\<forall>t \<in> set past. t \<le> now" "now \<le> T"
    by (auto simp: queue_ok_def)
  have "sorted (filter (\<lambda>t. x < t) past)" using x(3) by (rule sorted_filter[of id, simplified])
  then have "dropWhile (\<lambda>t. t \<le> T - rl_window rl) (queue rl ip) = in_window (rl_window rl) T past"
    unfolding x(2) using x(1,4,5) by (subst dropWhile_sorted) (force simp: in_window_def intro: filter_cong)+
  then have "fst (is_allowed rl T ip) \<longleftrightarrow> length (in_window (rl_window rl) T past) < rl_max rl" by (simp add: is_allowed_iff)
  then show ?case by (simp add: case_prod_beta granted_def)
next
  case (Cons c calls)
  obtain now' ip' where c: "c = (now', ip')" by (cases c)
  obtain ok rl' where r: "is_allowed rl now' ip' = (ok, rl')" by fastforce
  from Cons.prems c have t: "now \<le> now'" "sorted (now' # map fst calls @ [T])" by auto
  have q: "queue_ok rl' ip now' (past @ (if ip' = ip \<and> ok then [now'] else []))"
    using queue_ok_step[OF Cons.prems(1) t(1) Cons.prems(2), of ip'] by (simp add: r)
  have f: "rl_window rl' = rl_window rl" "rl_max rl' = rl_max rl"
    using is_allowed_fields[of rl now' ip'] by (simp_all add: r)
  have g: "granted ip (run_limiter rl (c # calls)) = (if ip' = ip \<and> ok then [now'] else []) @ granted ip (run_limiter rl' calls)"
    by (simp add: c r granted_def)
  obtain log where "run_limiter rl' (calls @ [(T, ip)]) =
      log @ [(T, ip, length (in_window (rl_window rl) T (past @ granted ip (run_limiter rl (c # calls)))) < rl_max rl)]"
    using Cons.IH[OF q _ t(2)] Cons.prems(2) f by (auto simp: g)
  then have "run_limiter rl ((c # calls) @ [(T, ip)]) =
      ((now', ip', ok) # log) @ [(T, ip, length (in_window (rl_window rl) T (past @ granted ip (run_limiter rl (c # calls)))) < rl_max rl)]"
    by (simp add: c r)
  then show ?case by blast
qed

text \<open>In the order of the readings, a call is granted exactly when fewer calls than the limit were granted within the window that ends at it.\<close>

lemma rate_limit_decides:
  assumes "0 < w" "sorted (map fst calls @ [T])"
  shows "\<exists>log. run_limiter (new_limiter mx w) (calls @ [(T, ip)]) =
    log @ [(T, ip, length (in_window w T (granted ip (run_limiter (new_limiter mx w) calls))) < mx)]"
proof -
  define now where "now = (case calls of [] \<Rightarrow> T | c # cs \<Rightarrow> fst c)"
  have "queue_ok (new_limiter mx w) ip now []"
    by (auto simp: queue_ok_def new_limiter_def queue_def dget_or_def in_window_def)
  moreover have "sorted (now # map fst calls @ [T])" using assms(2) by (cases calls) (auto simp: now_def)
  ultimately show ?thesis
    using run_limiter_last[of "new_limiter mx w" ip now "[]" calls T] assms(1) by (simp add: new_limiter_def)
qed

text \<open>
  In the order of the readings, an address that was granted nothing for the length of the window is
  granted its next call, whatever it and the others did before.
\<close>

theorem rate_limit_recovers:
  assumes "0 < w" "0 < mx" "sorted (map fst calls @ [T])"
    and "\<forall>t \<in> set (granted ip (run_limiter (new_limiter mx w) calls)). t \<le> T - w"
  shows "\<exists>log. run_limiter (new_limiter mx w) (calls @ [(T, ip)]) = log @ [(T, ip, True)]"
proof -
  have "in_window w T (granted ip (run_limiter (new_limiter mx w) calls)) = []"
    using assms(4) by (force simp: in_window_def filter_empty_conv)
  with rate_limit_decides[OF assms(1,3), of mx ip] assms(2) show ?thesis by simp
qed

theorem rate_limit_recovers_witness:
  "\<exists>log. run_limiter (new_limiter 2 60) ([(1, ''a''), (2, ''a''), (3, ''a''), (61, ''b'')] @ [(62, ''a'')]) = log @ [(62, ''a'', True)]"
proof (rule rate_limit_recovers)
  have "granted ''a'' (run_limiter (new_limiter 2 60) [(1, ''a''), (2, ''a''), (3, ''a''), (61, ''b'')]) = [1, 2]" by code_simp
  then show "\<forall>t \<in> set (granted ''a'' (run_limiter (new_limiter 2 60) [(1, ''a''), (2, ''a''), (3, ''a''), (61, ''b'')])). t \<le> 62 - 60" by simp
qed simp_all

end
