(* ===== verification/Py_Url.thy ===== *)
theory Py_Url
  imports Py_Errors
begin

text \<open>
  \<open>urllib.parse.urlparse (url).path\<close>, as the standard library of Python 3.11 and later computes
  it: leading control characters and spaces are stripped, tabs and line breaks are removed,
  then the scheme, the network location, the fragment, the query and the parameters are cut
  off. A network location in brackets must hold an address; which addresses are valid is the
  argument \<open>bracket_ok\<close>. No character below code point 256 decomposes into a delimiter, so the
  check of the normal form never fails.
\<close>

definition is_alpha :: "char \<Rightarrow> bool" where
  "is_alpha c = (let n = code c in (65 \<le> n \<and> n \<le> 90) \<or> (97 \<le> n \<and> n \<le> 122))"

definition is_scheme_char :: "char \<Rightarrow> bool" where
  "is_scheme_char c = (is_alpha c \<or> is_digit c \<or> c \<in> set ''+-.'')"

definition url_clean :: "string \<Rightarrow> string" where
  "url_clean url = filter (\<lambda>c. code c \<notin> {9, 10, 13}) (lstrip_by (\<lambda>c. code c \<le> 32) url)"

definition split_scheme :: "string \<Rightarrow> string \<times> string" where
  "split_scheme url =
     (let s = before CHR '':'' url in
      if CHR '':'' \<in> set url \<and> s \<noteq> [] \<and> is_alpha (hd s) \<and> list_all is_scheme_char s
      then (lower s, after CHR '':'' url) else ('''', url))"

definition split_netloc :: "(string \<Rightarrow> bool) \<Rightarrow> string \<Rightarrow> string res" where
  "split_netloc bracket_ok url =
     (if startswith url ''//'' then
        (let netloc = takeWhile (\<lambda>c. c \<notin> set ''/?#'') (drop 2 url); rest = dropWhile (\<lambda>c. c \<notin> set ''/?#'') (drop 2 url);
             l = CHR ''['' \<in> set netloc; r = CHR '']'' \<in> set netloc in
         if l \<noteq> r then Inl (value_error ''Invalid IPv6 URL'')
         else if l \<and> \<not> bracket_ok netloc then Inl (value_error ''Invalid IPv6 URL'')
         else Inr rest)
      else Inr url)"

definition uses_params :: "string list" where
  "uses_params = ['''', ''ftp'', ''hdl'', ''prospero'', ''http'', ''imap'', ''https'', ''shttp'', ''rtsp'', ''rtsps'',
     ''rtspu'', ''sip'', ''sips'', ''mms'', ''sftp'', ''tel'']"

text \<open>Without the parameters of the last segment.\<close>

definition cut_params :: "string \<Rightarrow> string" where
  "cut_params url =
     (let n = nat (rfind CHR ''/'' url); tail = drop n url
      in take n url @ takeWhile (\<lambda>c. c \<noteq> CHR '';'') tail)"

definition url_path :: "(string \<Rightarrow> bool) \<Rightarrow> string \<Rightarrow> string res" where
  "url_path bracket_ok url =
     (let (scheme, rest) = split_scheme (url_clean url) in
      rbind (split_netloc bracket_ok rest) (\<lambda>rest.
      let path = before CHR ''?'' (before CHR ''#'' rest)
      in Inr (if scheme \<in> set uses_params then cut_params path else path)))"

text \<open>A path the parser leaves alone.\<close>

definition plain_path :: "string \<Rightarrow> bool" where
  "plain_path p = (startswith p ''/'' \<and> \<not> startswith p ''//''
     \<and> list_all (\<lambda>c. 32 < code c \<and> c \<notin> set ''?#;'') p)"

lemma before_id: "c \<notin> set s \<Longrightarrow> before c s = s"
  by (auto simp: before_def takeWhile_eq_all_conv)

lemma url_path_plain:
  assumes "plain_path p"
  shows "url_path ok p = Inr p"
proof -
  obtain cs where p: "p = CHR ''/'' # cs" using assms by (cases p) (auto simp: plain_path_def)
  have c: "\<forall>x \<in> set p. 32 < code x" "CHR ''?'' \<notin> set p" "CHR ''#'' \<notin> set p" "CHR '';'' \<notin> set p"
    using assms by (auto simp: plain_path_def list_all_iff)
  have "url_clean p = p"
    using c(1) by (auto simp: url_clean_def lstrip_by_def p filter_id_conv)
  moreover have "split_scheme p = ('''', p)"
  proof -
    have "is_alpha CHR ''/'' = False" by code_simp
    then show ?thesis by (simp add: split_scheme_def p before_def Let_def)
  qed
  moreover have "split_netloc ok p = Inr p" using assms by (simp add: split_netloc_def plain_path_def)
  moreover have "cut_params p = p"
  proof -
    have "takeWhile (\<lambda>c. c \<noteq> CHR '';'') (drop n p) = drop n p" for n
      using c(4) by (auto simp: takeWhile_eq_all_conv dest: in_set_dropD)
    then show ?thesis unfolding cut_params_def Let_def by (simp only: append_take_drop_id)
  qed
  ultimately show ?thesis using c by (simp add: url_path_def before_id uses_params_def)
qed

text \<open>A tab behind the first slash is removed by the parser.\<close>

lemma url_path_tab:
  assumes "plain_path (CHR ''/'' # cs)"
  shows "url_path ok (CHR ''/'' # CHR 0x09 # cs) = Inr (CHR ''/'' # cs)"
proof -
  have "url_clean (CHR ''/'' # CHR 0x09 # cs) = url_clean (CHR ''/'' # cs)"
    by (simp add: url_clean_def lstrip_by_def code_def)
  then show ?thesis using url_path_plain[OF assms, of ok] by (simp add: url_path_def)
qed

end
