(* ===== verification/Handler_Routes.thy ===== *)
theory Handler_Routes
  imports Auth Rate_Limiter Py_Url
begin

text \<open>
  \<open>buncker/handler.py\<close>: the front of the request handler. A WSGI environment becomes a
  request; the method's router checks the rate limits and the caller and picks the endpoint.
  What the endpoints do is not part of this theory: a router's result is the endpoint with its
  arguments and the level the caller was granted, or the reason of a refusal.
\<close>

section \<open>Requests\<close>

type_synonym environ = "(string \<times> string) list"

record http_request =
  rq_path :: string
  rq_command :: string
  rq_client :: string
  rq_environ :: environ

definition make_request :: "environ \<Rightarrow> http_request res" where
  "make_request environ =
     (let path_info = dget_or environ ''PATH_INFO'' ''/''; query = dget_or environ ''QUERY_STRING'' '''' in
      rbind (dindex environ ''REQUEST_METHOD'') (\<lambda>command.
      Inr \<lparr>rq_path = (if query \<noteq> '''' then path_info @ ''?'' @ query else path_info), rq_command = command,
           rq_client = dget_or environ ''REMOTE_ADDR'' ''127.0.0.1'', rq_environ = environ\<rparr>))"

definition header_get :: "environ \<Rightarrow> string \<Rightarrow> string option \<Rightarrow> string option" where
  "header_get environ key dflt =
     (if lower key = ''content-type'' then (case dget environ ''CONTENT_TYPE'' of Some v \<Rightarrow> Some v | None \<Rightarrow> dflt)
      else if lower key = ''content-length'' then
        (let val = dget_or environ ''CONTENT_LENGTH'' '''' in if val \<noteq> '''' then Some val else dflt)
      else (case dget environ (''HTTP_'' @ replace_char CHR ''-'' CHR ''_'' (upper key)) of Some v \<Rightarrow> Some v | None \<Rightarrow> dflt))"

definition authorization :: "http_request \<Rightarrow> string" where
  "authorization rq = (case header_get (rq_environ rq) ''Authorization'' (Some '''') of Some h \<Rightarrow> h | None \<Rightarrow> '''')"

record server_state =
  sv_api_tokens :: "dict option"
  sv_api_enabled :: bool
  sv_oci_restrict :: bool
  sv_rate :: rate_limiter
  sv_oci_rate :: rate_limiter

section \<open>Checks\<close>

text \<open>Why a request is refused: the rate limits, or the error of the authentication.\<close>

datatype refusal = TooManyRequests | TooManyPulls | BadCredentials nat string string

datatype verdict = Granted level | Refused refusal

definition check_auth :: "server_state \<Rightarrow> int \<Rightarrow> http_request \<Rightarrow> verdict res \<times> server_state" where
  "check_auth sv now rq =
     (let (ok, rl) = is_allowed (sv_rate sv) now (rq_client rq); sv = sv\<lparr>sv_rate := rl\<rparr> in
      if \<not> ok then (Inr (Refused TooManyRequests), sv)
      else
        (case authenticate_request (rq_path rq) (rq_command rq) (authorization rq) (sv_api_tokens sv)
                (sv_api_enabled sv) (sv_oci_restrict sv) of
           Inr l \<Rightarrow> (Inr (Granted l), sv)
         | Inl (AuthError status m c) \<Rightarrow> (Inr (Refused (BadCredentials (nat status) m c)), sv)
         | Inl e \<Rightarrow> (Inl e, sv)))"

definition check_oci_rate_limit :: "server_state \<Rightarrow> int \<Rightarrow> http_request \<Rightarrow> bool \<times> server_state" where
  "check_oci_rate_limit sv now rq =
     (let (ok, rl) = is_allowed (sv_oci_rate sv) now (rq_client rq) in (ok, sv\<lparr>sv_oci_rate := rl\<rparr>))"

section \<open>Routes\<close>

datatype route =
    Rejected refusal | NotFound
  | V2Root | ManifestRoute string string | BlobRoute string string
  | AdminStatus | AdminHealth | AdminGcReport | AdminLogs
  | AdminAnalyze | AdminGenerateManifest | AdminImport | AdminImportPut | AdminGcImpact | AdminGcExecute

text \<open>The last occurrence of a separator with text on both sides, as the greedy \<open>(.+)sep(.+)\<close> finds it.\<close>

fun find_last :: "string \<Rightarrow> string \<Rightarrow> string \<Rightarrow> (string \<times> string) option" where
  "find_last sep pre [] = None"
| "find_last sep pre (c # cs) =
     (case find_last sep (pre @ [c]) cs of
        Some r \<Rightarrow> Some r
      | None \<Rightarrow>
          if pre \<noteq> [] \<and> startswith (c # cs) sep \<and> length sep < length (c # cs)
          then Some (pre, drop (length sep) (c # cs)) else None)"

definition match_manifest_route :: "string \<Rightarrow> (string \<times> string) option" where
  "match_manifest_route path =
     (if startswith path ''/v2/'' then find_last ''/manifests/'' [] (drop 4 path) else None)"

definition is_digest :: "string \<Rightarrow> bool" where
  "is_digest d = (startswith d ''sha256:'' \<and> length d = 71 \<and> list_all (\<lambda>c. c \<in> set hex_chars) (drop 7 d))"

definition match_blob_route :: "string \<Rightarrow> (string \<times> string) option" where
  "match_blob_route path =
     (let rest = drop 4 path; n = length rest - 78; name = take n rest; digest = drop (n + 7) rest in
      if startswith path ''/v2/'' \<and> name \<noteq> [] \<and> startswith (drop n rest) ''/blobs/'' \<and> is_digest digest
      then Some (name, digest) else None)"

definition is_v2_root :: "string \<Rightarrow> bool" where
  "is_v2_root path = (path = ''/v2'' \<or> path = ''/v2/'')"

definition oci_route :: "string \<Rightarrow> route" where
  "oci_route path =
     (case match_manifest_route path of
        Some (name, reference) \<Rightarrow> ManifestRoute name reference
      | None \<Rightarrow> (case match_blob_route path of Some (name, digest) \<Rightarrow> BlobRoute name digest | None \<Rightarrow> NotFound))"

text \<open>A guard in front of the rest of a router: the level granted, \<open>Local\<close> when no check was made.\<close>

definition guarded ::
  "bool \<Rightarrow> server_state \<Rightarrow> int \<Rightarrow> http_request \<Rightarrow> (level \<Rightarrow> server_state \<Rightarrow> (route \<times> level) res \<times> server_state) \<Rightarrow>
   (route \<times> level) res \<times> server_state" where
  "guarded needed sv now rq k =
     (if \<not> needed then k Local sv
      else (case check_auth sv now rq of
              (Inl e, sv) \<Rightarrow> (Inl e, sv)
            | (Inr (Refused refusal), sv) \<Rightarrow> (Inr (Rejected refusal, Local), sv)
            | (Inr (Granted l), sv) \<Rightarrow> k l sv))"

definition oci_limited :: "string \<Rightarrow> server_state \<Rightarrow> int \<Rightarrow> http_request \<Rightarrow> level \<Rightarrow> (route \<times> level) res \<times> server_state" where
  "oci_limited path sv now rq l =
     (if startswith path ''/v2/'' then
        (let (ok, sv) = check_oci_rate_limit sv now rq in
         if ok then (Inr (oci_route path, l), sv) else (Inr (Rejected TooManyPulls, l), sv))
      else (Inr (oci_route path, l), sv))"

definition admin_get_route :: "string \<Rightarrow> route option" where
  "admin_get_route path =
     (if path = ''/admin/status'' then Some AdminStatus
      else if path = ''/admin/health'' then Some AdminHealth
      else if path = ''/admin/gc/report'' then Some AdminGcReport
      else if path = ''/admin/logs'' then Some AdminLogs
      else None)"

definition admin_post_route :: "string \<Rightarrow> route" where
  "admin_post_route path =
     (if path = ''/admin/analyze'' then AdminAnalyze
      else if path = ''/admin/generate-manifest'' then AdminGenerateManifest
      else if path = ''/admin/import'' then AdminImport
      else if path = ''/admin/gc/impact'' then AdminGcImpact
      else if path = ''/admin/gc/execute'' then AdminGcExecute
      else NotFound)"

definition do_GET :: "(string \<Rightarrow> bool) \<Rightarrow> server_state \<Rightarrow> int \<Rightarrow> http_request \<Rightarrow> (route \<times> level) res \<times> server_state" where
  "do_GET bracket_ok sv now rq =
     (case url_path bracket_ok (rq_path rq) of
        Inl e \<Rightarrow> (Inl e, sv)
      | Inr path \<Rightarrow>
          guarded (startswith path ''/v2'' \<and> sv_oci_restrict sv) sv now rq (\<lambda>l sv.
          if is_v2_root path then (Inr (V2Root, l), sv)
          else
            guarded (startswith path ''/admin/'') sv now rq (\<lambda>l' sv.
            let l = (if startswith path ''/admin/'' then l' else l) in
            case admin_get_route path of
              Some r \<Rightarrow> (Inr (r, l), sv)
            | None \<Rightarrow> oci_limited path sv now rq l)))"

definition do_HEAD :: "(string \<Rightarrow> bool) \<Rightarrow> server_state \<Rightarrow> int \<Rightarrow> http_request \<Rightarrow> (route \<times> level) res \<times> server_state" where
  "do_HEAD bracket_ok sv now rq =
     (case url_path bracket_ok (rq_path rq) of
        Inl e \<Rightarrow> (Inl e, sv)
      | Inr path \<Rightarrow>
          guarded (startswith path ''/v2'' \<and> sv_oci_restrict sv) sv now rq (\<lambda>l sv.
          if is_v2_root path then (Inr (V2Root, l), sv) else oci_limited path sv now rq l))"

definition do_POST :: "(string \<Rightarrow> bool) \<Rightarrow> server_state \<Rightarrow> int \<Rightarrow> http_request \<Rightarrow> (route \<times> level) res \<times> server_state" where
  "do_POST bracket_ok sv now rq =
     (case url_path bracket_ok (rq_path rq) of
        Inl e \<Rightarrow> (Inl e, sv)
      | Inr path \<Rightarrow>
          guarded (startswith path ''/admin/'') sv now rq (\<lambda>l sv. (Inr (admin_post_route path, l), sv)))"

definition do_PUT :: "(string \<Rightarrow> bool) \<Rightarrow> server_state \<Rightarrow> int \<Rightarrow> http_request \<Rightarrow> (route \<times> level) res \<times> server_state" where
  "do_PUT bracket_ok sv now rq =
     (case url_path bracket_ok (rq_path rq) of
        Inl e \<Rightarrow> (Inl e, sv)
      | Inr path \<Rightarrow>
          guarded (startswith path ''/admin/'') sv now rq (\<lambda>l sv.
          (Inr (if path = ''/admin/import'' then AdminImportPut else NotFound, l), sv)))"

definition dispatch :: "(string \<Rightarrow> bool) \<Rightarrow> server_state \<Rightarrow> int \<Rightarrow> http_request \<Rightarrow> (route \<times> level) res \<times> server_state" where
  "dispatch bracket_ok sv now rq =
     (if rq_command rq = ''GET'' then do_GET bracket_ok sv now rq
      else if rq_command rq = ''HEAD'' then do_HEAD bracket_ok sv now rq
      else if rq_command rq = ''POST'' then do_POST bracket_ok sv now rq
      else if rq_command rq = ''PUT'' then do_PUT bracket_ok sv now rq
      else (Inr (NotFound, Local), sv))"

end
