(* ===== verification/Blob_Store.thy ===== *)
theory Blob_Store
  imports Py_Files
begin

text \<open>
  \<open>buncker/store.py\<close>: the blob store. The state is the contents of its directories
  (\<open>blobs/sha256\<close>, \<open>meta/sha256\<close>, \<open>manifests\<close>), the two layout files, and the digests of the
  last garbage collection report. A method takes the store and the current time and returns
  its result and the new store. Logging is not modelled.
\<close>

section \<open>State\<close>

record store =
  st_path :: string
  st_blobs :: blob_dir
  st_meta :: json_dir
  st_manifests :: "(string list \<times> jfile) list option"
  st_oci_layout :: "string option"
  st_index :: "string option"
  st_gc_report :: "pyval list option"

definition OCI_LAYOUT :: string where
  "OCI_LAYOUT = ''{\"imageLayoutVersion\": \"1.0.0\"}''"

definition EMPTY_INDEX :: string where
  "EMPTY_INDEX = ''{\"schemaVersion\": 2, \"manifests\": []}''"

text \<open>\<open>Store (path)\<close> on what the disk holds: layout files are written where missing.\<close>

definition store_init :: "store \<Rightarrow> store" where
  "store_init disk = disk\<lparr>
     st_oci_layout := (case st_oci_layout disk of None \<Rightarrow> Some OCI_LAYOUT | Some t \<Rightarrow> Some t),
     st_index := (case st_index disk of None \<Rightarrow> Some EMPTY_INDEX | Some t \<Rightarrow> Some t),
     st_gc_report := None\<rparr>"

definition empty_disk :: "string \<Rightarrow> store" where
  "empty_disk path = \<lparr>st_path = path, st_blobs = [], st_meta = [], st_manifests = None,
     st_oci_layout = None, st_index = None, st_gc_report = None\<rparr>"

definition strip_prefix :: "string \<Rightarrow> string" where
  "strip_prefix digest = removeprefix digest ''sha256:''"

definition blob_path :: "store \<Rightarrow> string \<Rightarrow> string" where
  "blob_path s digest_hex = st_path s @ ''/blobs/sha256/'' @ digest_hex"

definition sidecar_name :: "string \<Rightarrow> string" where
  "sidecar_name digest_hex = digest_hex @ ''.json''"

section \<open>Blob operations\<close>

definition touch_sidecar :: "instant \<Rightarrow> pyval \<Rightarrow> pyval res" where
  "touch_sidecar now meta =
     rbind (vset meta ''last_requested'' (PStr (isoformat now))) (\<lambda>m.
     rbind (vget m ''request_count'' (PInt 0)) (\<lambda>c.
     rbind (vadd c 1) (\<lambda>n.
     vset m ''request_count'' (PInt n))))"

definition add_image_ref :: "string option \<Rightarrow> pyval \<Rightarrow> pyval res" where
  "add_image_ref image_ref meta =
     (case image_ref of
        None \<Rightarrow> Inr meta
      | Some r \<Rightarrow>
          if r = '''' then Inr meta
          else
            rbind (vget meta ''image_refs'' (PList [])) (\<lambda>refs.
            rbind (vin r refs) (\<lambda>known.
            if known then Inr meta
            else
              rbind (vindex meta ''image_refs'') (\<lambda>rs.
              rbind (vappend rs (PStr r)) (\<lambda>rs'. vset meta ''image_refs'' rs')))))"

definition new_sidecar :: "instant \<Rightarrow> string \<Rightarrow> int \<Rightarrow> string \<Rightarrow> string option \<Rightarrow> pyval" where
  "new_sidecar now digest_hex nbytes media_type image_ref =
     PDict [(''digest'', PStr (''sha256:'' @ digest_hex)),
            (''size'', PInt nbytes),
            (''media_type'', PStr media_type),
            (''image_refs'', PList (case image_ref of None \<Rightarrow> [] | Some r \<Rightarrow> if r = '''' then [] else [PStr r])),
            (''first_imported'', PStr (isoformat now)),
            (''last_requested'', PStr (isoformat now)),
            (''request_count'', PInt 0),
            (''gc_status'', PStr ''active'')]"

definition write_sidecar ::
  "store \<Rightarrow> instant \<Rightarrow> string \<Rightarrow> int \<Rightarrow> string \<Rightarrow> string option \<Rightarrow> unit res \<times> store" where
  "write_sidecar s now digest_hex nbytes media_type image_ref =
     (let name = sidecar_name digest_hex;
          meta = (case dget (st_meta s) name of
             Some f \<Rightarrow>
               rbind (read_json f) (\<lambda>m. rbind (add_image_ref image_ref m) (touch_sidecar now))
           | None \<Rightarrow> Inr (new_sidecar now digest_hex nbytes media_type image_ref))
      in case meta of
           Inl e \<Rightarrow> (Inl e, s)
         | Inr m \<Rightarrow> (Inr (), s\<lparr>st_meta := dset (st_meta s) name (JsonFile m)\<rparr>))"

definition import_blob ::
  "store \<Rightarrow> instant \<Rightarrow> bytes \<Rightarrow> string \<Rightarrow> string \<Rightarrow> string option \<Rightarrow> string res \<times> store" where
  "import_blob s now data expected_digest media_type image_ref =
     (let digest_hex = strip_prefix expected_digest;
          actual = sha256_hex data in
      if actual \<noteq> digest_hex then
        (Inl (StoreError (''Digest mismatch: expected '' @ digest_hex @ '', got '' @ actual)
                [(''expected'', PStr digest_hex), (''actual'', PStr actual)]), s)
      else case dget (st_blobs s) digest_hex of
        Some (SymLink t) \<Rightarrow>
          (Inl (StoreError (''Symlink at blob path rejected: '' @ blob_path s digest_hex)
                  [(''digest'', PStr expected_digest)]), s)
      | _ \<Rightarrow>
          let s1 = (if entry_exists (st_blobs s) digest_hex then s
                    else s\<lparr>st_blobs := dset (st_blobs s) digest_hex (RegFile (os_write data))\<rparr>)
          in case write_sidecar s1 now digest_hex (int (length data)) media_type image_ref of
               (Inl e, s2) \<Rightarrow> (Inl e, s2)
             | (Inr _, s2) \<Rightarrow> (Inr (blob_path s2 digest_hex), s2))"

definition has_blob :: "store \<Rightarrow> string \<Rightarrow> bool" where
  "has_blob s digest = entry_exists (st_blobs s) (strip_prefix digest)"

definition get_blob :: "store \<Rightarrow> string \<Rightarrow> string res" where
  "get_blob s digest =
     (if \<not> entry_exists (st_blobs s) (strip_prefix digest)
      then Inl (StoreError (''Blob not found: '' @ digest) [(''digest'', PStr digest)])
      else Inr (blob_path s (strip_prefix digest)))"

definition list_missing :: "store \<Rightarrow> string list \<Rightarrow> string list" where
  "list_missing s digests = filter (\<lambda>d. \<not> has_blob s d) digests"

section \<open>Sidecar operations\<close>

definition update_metadata :: "store \<Rightarrow> instant \<Rightarrow> string \<Rightarrow> string \<Rightarrow> unit res \<times> store" where
  "update_metadata s now digest event =
     (let name = sidecar_name (strip_prefix digest) in
      case dget (st_meta s) name of
        None \<Rightarrow> (Inl (StoreError (''Sidecar not found for digest: '' @ digest)
                       [(''digest'', PStr digest), (''event'', PStr event)]), s)
      | Some f \<Rightarrow>
          (case rbind (read_json f) (touch_sidecar now) of
             Inl e \<Rightarrow> (Inl e, s)
           | Inr m \<Rightarrow> (Inr (), s\<lparr>st_meta := dset (st_meta s) name (JsonFile m)\<rparr>)))"

definition get_metadata :: "store \<Rightarrow> string \<Rightarrow> pyval res" where
  "get_metadata s digest =
     (case dget (st_meta s) (sidecar_name (strip_prefix digest)) of
        None \<Rightarrow> Inl (StoreError (''Sidecar not found for digest: '' @ digest) [(''digest'', PStr digest)])
      | Some f \<Rightarrow> read_json f)"

section \<open>Garbage collection\<close>

text \<open>One sidecar of the scan: the candidate it gives, if any.\<close>

definition gc_candidate :: "int \<Rightarrow> jfile \<Rightarrow> pyval list res" where
  "gc_candidate cutoff f =
     rbind (read_json f) (\<lambda>meta.
     rbind (vindex meta ''last_requested'') (\<lambda>l.
     rbind (viso l) (\<lambda>last.
     if last < cutoff then
       rbind (vindex meta ''digest'') (\<lambda>dg.
       rbind (vindex meta ''size'') (\<lambda>sz.
       rbind (vget meta ''image_refs'' (PList [])) (\<lambda>refs.
       Inr [PDict [(''digest'', dg), (''size'', sz), (''last_requested'', l), (''image_refs'', refs)]])))
     else Inr [])))"

definition gc_report :: "store \<Rightarrow> instant \<Rightarrow> int \<Rightarrow> pyval list res \<times> store" where
  "gc_report s now inactive_days =
     (case rbind (minus_days now inactive_days) (\<lambda>cutoff.
           rbind (rmap (\<lambda>(n, f). gc_candidate cutoff f) (filter (\<lambda>(n, f). endswith n ''.json'') (st_meta s))) (\<lambda>cs.
           let candidates = concat cs in
           rbind (rmap (\<lambda>c. rbind (vindex c ''digest'') (\<lambda>d. rbind (check_hash d) (\<lambda>_. Inr d))) candidates) (\<lambda>ds.
           Inr (candidates, ds)))) of
        Inl e \<Rightarrow> (Inl e, s)
      | Inr (candidates, ds) \<Rightarrow> (Inr candidates, s\<lparr>st_gc_report := Some ds\<rparr>))"

text \<open>The digests a manifest needs: its config's, then its layers'.\<close>

definition needed_digests :: "pyval \<Rightarrow> pyval list res" where
  "needed_digests manifest =
     rbind (vget manifest ''config'' (PDict [])) (\<lambda>config.
     rbind (vin ''digest'' config) (\<lambda>has.
     rbind (if has then rbind (vindex config ''digest'') (\<lambda>d. Inr [d]) else Inr []) (\<lambda>cfg.
     rbind (vget manifest ''layers'' (PList [])) (\<lambda>ls.
     rbind (viter ls) (\<lambda>layers.
     rbind (rmap (\<lambda>layer. rbind (vin ''digest'' layer) (\<lambda>h.
              if h then rbind (vindex layer ''digest'') (\<lambda>d. Inr [d]) else Inr [])) layers) (\<lambda>lds.
     Inr (cfg @ concat lds)))))))"

definition in_digests :: "string list \<Rightarrow> pyval \<Rightarrow> bool" where
  "in_digests digests d = (case d of PStr x \<Rightarrow> x \<in> set digests | _ \<Rightarrow> False)"

text \<open>Registry, repository, tag and platform of a manifest path; all empty but the second when it is short.\<close>

definition manifest_coords :: "string list \<Rightarrow> string \<times> string \<times> string \<times> string" where
  "manifest_coords parts =
     (if 4 \<le> length parts then
        (parts ! 0,
         join ''/'' (drop 1 (take (length parts - 2) parts)),
         parts ! (length parts - 2),
         replace_char CHR ''-'' CHR ''/'' (str_replace ''.json'' '''' (last parts)))
      else ('''', join ''/'' parts, '''', ''''))"

definition impact_image :: "string list \<Rightarrow> string \<times> string" where
  "impact_image parts =
     (let (registry, repository, tag, platform) = manifest_coords parts in
      (if tag \<noteq> '''' then registry @ ''/'' @ repository @ '':'' @ tag else join ''/'' parts, platform))"

definition meta_size :: "store \<Rightarrow> string \<Rightarrow> int \<Rightarrow> int res" where
  "meta_size s d acc =
     (case get_metadata s d of
        Inl (BunckerError KStore m c) \<Rightarrow> Inr acc
      | Inl e \<Rightarrow> Inl e
      | Inr meta \<Rightarrow> rbind (vget meta ''size'' (PInt 0)) (\<lambda>sz. vadd sz acc))"

fun affected_size :: "store \<Rightarrow> pyval list \<Rightarrow> int \<Rightarrow> int res" where
  "affected_size s [] acc = Inr acc"
| "affected_size s (d # ds) acc =
     (case d of PStr x \<Rightarrow> rbind (meta_size s x acc) (affected_size s ds) | _ \<Rightarrow> affected_size s ds acc)"

definition impact_entry :: "store \<Rightarrow> string list \<Rightarrow> string list \<times> jfile \<Rightarrow> pyval list res" where
  "impact_entry s digests entry =
     (case entry of
        (parts, JsonFile manifest) \<Rightarrow>
          rbind (needed_digests manifest) (\<lambda>needed.
          rbind (rmap check_hash needed) (\<lambda>_.
          let affected = filter (in_digests digests) needed in
          if affected = [] then Inr []
          else
            rbind (affected_size s affected 0) (\<lambda>missing_size.
            Inr [PDict [
              (''image'', PStr (fst (impact_image parts))),
              (''platform'', PStr (snd (impact_image parts))),
              (''missing_blobs'', PList affected),
              (''missing_count'', PInt (int (length affected))),
              (''total_blobs'', PInt (int (length needed))),
              (''missing_size'', PInt missing_size)]])))
      | _ \<Rightarrow> Inr [])"

definition gc_impact_report :: "store \<Rightarrow> string list \<Rightarrow> pyval list res" where
  "gc_impact_report s digests =
     (case st_manifests s of
        None \<Rightarrow> Inr []
      | Some ms \<Rightarrow>
          rbind (rmap (impact_entry s digests) (filter (\<lambda>(parts, f). parts \<noteq> [] \<and> endswith (last parts) ''.json'') ms))
            (\<lambda>es. Inr (concat es)))"

text \<open>The deletion of one blob and its sidecar: the size freed.\<close>

definition delete_blob :: "store \<Rightarrow> string \<Rightarrow> nat res \<times> store" where
  "delete_blob s digest_hex =
     (let sz = (case file_bytes (st_blobs s) digest_hex of Some b \<Rightarrow> length b | None \<Rightarrow> 0) in
      if dget (st_blobs s) digest_hex = Some SubDir then (Inl is_a_directory_error, s)
      else
        let s1 = (if entry_exists (st_blobs s) digest_hex then s\<lparr>st_blobs := ddel (st_blobs s) digest_hex\<rparr> else s) in
        case dget (st_meta s1) (sidecar_name digest_hex) of
          None \<Rightarrow> (Inr sz, s1)
        | Some JsonDir \<Rightarrow> (Inl is_a_directory_error, s1)
        | Some _ \<Rightarrow> (Inr sz, s1\<lparr>st_meta := ddel (st_meta s1) (sidecar_name digest_hex)\<rparr>))"

fun gc_delete_loop :: "pyval list \<Rightarrow> string list \<Rightarrow> nat \<Rightarrow> nat \<Rightarrow> store \<Rightarrow> (nat \<times> nat) res \<times> store" where
  "gc_delete_loop report [] count bytes_freed s = (Inr (count, bytes_freed), s)"
| "gc_delete_loop report (digest # digests) count bytes_freed s =
     (if PStr digest \<notin> set report
      then (Inl (StoreError (''Digest '' @ digest @ '' not in latest GC report'') [(''digest'', PStr digest)]), s)
      else case delete_blob s (strip_prefix digest) of
        (Inl e, s') \<Rightarrow> (Inl e, s')
      | (Inr sz, s') \<Rightarrow> gc_delete_loop report digests (count + 1) (bytes_freed + sz) s')"

definition gc_execute :: "store \<Rightarrow> string list \<Rightarrow> string \<Rightarrow> (nat \<times> nat) res \<times> store" where
  "gc_execute s digests operator =
     (case st_gc_report s of
        None \<Rightarrow> (Inl (StoreError ''No GC report available - run gc_report() first'' []), s)
      | Some report \<Rightarrow> gc_delete_loop report digests 0 0 s)"

section \<open>Integrity verification\<close>

record verify_report =
  v_total :: nat
  v_ok :: nat
  v_corrupted :: nat
  v_corrupted_digests :: "string list"

definition checked_blobs :: "store \<Rightarrow> (string \<times> bytes) list" where
  "checked_blobs s =
     concat (map (\<lambda>(n, nd). case node_bytes nd of
        Some b \<Rightarrow> if startswith n ''.'' then [] else [(n, b)] | None \<Rightarrow> []) (st_blobs s))"

definition verify_store :: "store \<Rightarrow> verify_report" where
  "verify_store s =
     (let bs = checked_blobs s;
          bad = filter (\<lambda>(n, b). sha256_hex b \<noteq> n) bs
      in \<lparr>v_total = length bs, v_ok = length (filter (\<lambda>(n, b). sha256_hex b = n) bs),
          v_corrupted = length bad, v_corrupted_digests = map (\<lambda>(n, b). ''sha256:'' @ n) bad\<rparr>)"

end
