(* ===== verification/Manifest_Cache.thy ===== *)
theory Manifest_Cache
  imports Blob_Store Py_Json
begin

text \<open>
  \<open>buncker/registry_client.py\<close>: the cache of image manifests, in the \<open>manifests\<close> directory of
  the store. An entry is a path relative to that directory, as the list of its components, and
  a JSON file or a directory; directories are entries of their own. Paths that leave the
  directory (an absolute component) are kept as such, behind a component \<open>/\<close>, and name no entry.
\<close>

type_synonym man_dir = "(string list \<times> jfile) list"

section \<open>Paths\<close>

text \<open>\<open>base / s\<close>: the components of \<open>s\<close>, without the empty ones and the dots.\<close>

definition path_parts :: "string \<Rightarrow> string list" where
  "path_parts s = filter (\<lambda>p. p \<noteq> '''' \<and> p \<noteq> ''.'') (split_on CHR ''/'' s)"

definition path_join :: "string list \<Rightarrow> string \<Rightarrow> string list" where
  "path_join base s = (if startswith s ''/'' then ''/'' # path_parts s else base @ path_parts s)"

definition platform_safe :: "string \<Rightarrow> string" where
  "platform_safe platform = replace_char CHR ''/'' CHR ''-'' platform"

definition cache_dir_of :: "string \<Rightarrow> string \<Rightarrow> string \<Rightarrow> string list" where
  "cache_dir_of registry repository tag = path_join (path_join (path_join [] registry) repository) tag"

definition cache_path_of :: "string \<Rightarrow> string \<Rightarrow> string \<Rightarrow> string \<Rightarrow> string list" where
  "cache_path_of registry repository tag platform =
     cache_dir_of registry repository tag @ [platform_safe platform @ ''.json'']"

section \<open>Writing\<close>

definition not_a_directory_error :: exc where
  "not_a_directory_error = PyError ''NotADirectoryError'' ''Not a directory''"

definition file_exists_error :: exc where
  "file_exists_error = PyError ''FileExistsError'' ''File exists''"

text \<open>\<open>mkdir (parents=True, exist_ok=True)\<close>: the missing directories are created from the top.\<close>

fun mkdirs :: "man_dir \<Rightarrow> string list \<Rightarrow> string list \<Rightarrow> man_dir res" where
  "mkdirs ms base [] = Inr ms"
| "mkdirs ms base (c # cs) =
     (case dget ms (base @ [c]) of
        None \<Rightarrow> mkdirs (dset ms (base @ [c]) JsonDir) (base @ [c]) cs
      | Some JsonDir \<Rightarrow> mkdirs ms (base @ [c]) cs
      | Some _ \<Rightarrow> Inl (if cs = [] then file_exists_error else not_a_directory_error))"

definition source_digest :: "dict \<Rightarrow> string" where
  "source_digest manifest =
     ''sha256:'' @ sha256_hex (json_dumps True (PDict (filter (\<lambda>(k, v). k \<noteq> ''_buncker'') manifest)))"

definition cached_form :: "instant \<Rightarrow> dict \<Rightarrow> dict" where
  "cached_form now manifest = dset manifest ''_buncker''
     (PDict [(''cached_at'', PStr (isoformat now)), (''source_digest'', PStr (source_digest manifest))])"

definition man_entries :: "store \<Rightarrow> man_dir" where
  "man_entries s = (case st_manifests s of None \<Rightarrow> [] | Some ms \<Rightarrow> ms)"

definition cache_manifest ::
  "store \<Rightarrow> instant \<Rightarrow> string \<Rightarrow> string \<Rightarrow> string \<Rightarrow> string \<Rightarrow> dict \<Rightarrow> string list res \<times> store" where
  "cache_manifest s now registry repository tag platform manifest =
     (let dir = cache_dir_of registry repository tag;
          path = cache_path_of registry repository tag platform
      in case mkdirs (man_entries s) [] dir of
           Inl e \<Rightarrow> (Inl e, s)
         | Inr ms \<Rightarrow>
             if dget ms path = Some JsonDir then (Inl is_a_directory_error, s\<lparr>st_manifests := Some ms\<rparr>)
             else (Inr path, s\<lparr>st_manifests := Some (dset ms path (JsonFile (PDict (cached_form now manifest))))\<rparr>))"

section \<open>Reading\<close>

definition json_entries :: "man_dir \<Rightarrow> man_dir" where
  "json_entries ms = filter (\<lambda>(parts, f). parts \<noteq> [] \<and> endswith (last parts) ''.json'') ms"

fun scan_digest :: "string \<Rightarrow> man_dir \<Rightarrow> pyval option res" where
  "scan_digest digest [] = Inr None"
| "scan_digest digest ((path, f) # es) =
     rbind (read_json f) (\<lambda>data.
     rbind (vget data ''_buncker'' (PDict [])) (\<lambda>buncker.
     rbind (vget buncker ''source_digest'' PNone) (\<lambda>d.
     if d = PStr digest then Inr (Some data) else scan_digest digest es)))"

definition lookup_by_digest :: "store \<Rightarrow> string \<Rightarrow> pyval option res" where
  "lookup_by_digest s digest =
     (case st_manifests s of None \<Rightarrow> Inr None | Some ms \<Rightarrow> scan_digest digest (json_entries ms))"

definition get_manifest :: "store \<Rightarrow> string \<Rightarrow> string \<Rightarrow> string \<Rightarrow> string \<Rightarrow> pyval option res" where
  "get_manifest s registry repository reference platform =
     (if startswith reference ''sha256:'' then lookup_by_digest s reference
      else case dget (man_entries s) (cache_path_of registry repository reference platform) of
             None \<Rightarrow> Inr None
           | Some f \<Rightarrow> rbind (read_json f) (\<lambda>m. Inr (if m = PNone then None else Some m)))"

text \<open>Staleness of one manifest: no time stamp means stale.\<close>

definition manifest_stale :: "instant \<Rightarrow> int \<Rightarrow> pyval \<Rightarrow> bool res" where
  "manifest_stale now ttl_days manifest =
     rbind (vget manifest ''_buncker'' (PDict [])) (\<lambda>buncker.
     rbind (vget buncker ''cached_at'' PNone) (\<lambda>at.
     if \<not> truthy at then Inr True
     else rbind (viso at) (\<lambda>t. Inr (ttl_days \<le> age_days now t))))"

definition is_stale ::
  "store \<Rightarrow> instant \<Rightarrow> string \<Rightarrow> string \<Rightarrow> string \<Rightarrow> string \<Rightarrow> int \<Rightarrow> bool option res" where
  "is_stale s now registry repository tag platform ttl_days =
     rbind (get_manifest s registry repository tag platform) (\<lambda>m.
     case m of
       None \<Rightarrow> Inr None
     | Some manifest \<Rightarrow> rbind (manifest_stale now ttl_days manifest) (\<lambda>b. Inr (Some b)))"

text \<open>The count skips files that do not parse and dates that are not dates.\<close>

fun count_stale_in :: "instant \<Rightarrow> int \<Rightarrow> man_dir \<Rightarrow> nat res" where
  "count_stale_in now ttl_days [] = Inr 0"
| "count_stale_in now ttl_days ((path, f) # es) =
     (case rbind (read_json f) (manifest_stale now ttl_days) of
        Inr b \<Rightarrow> rbind (count_stale_in now ttl_days es) (\<lambda>n. Inr (if b then Suc n else n))
      | Inl (PyError t m) \<Rightarrow>
          if t \<in> {''JSONDecodeError'', ''ValueError''} then count_stale_in now ttl_days es else Inl (PyError t m)
      | Inl e \<Rightarrow> Inl e)"

definition count_stale :: "store \<Rightarrow> instant \<Rightarrow> int \<Rightarrow> nat res" where
  "count_stale s now ttl_days =
     (case st_manifests s of None \<Rightarrow> Inr 0 | Some ms \<Rightarrow> count_stale_in now ttl_days (json_entries ms))"

end
