(* ===== verification/Handler_OCI.thy ===== *)
theory Handler_OCI
  imports Handler_Routes Manifest_Cache
begin

text \<open>
  \<open>buncker/handler.py\<close>: the answers of the request handler, and the endpoints of the OCI
  distribution interface: manifests and blobs. An endpoint that raises gives the exception. A blob
  is not part of the answer that announces it: the server streams it afterwards, which is an
  operation of its own.
\<close>

section \<open>Answers\<close>

record response =
  rs_status :: nat
  rs_headers :: "(string \<times> string) list"
  rs_body :: bytes
  rs_stream :: "string option"

text \<open>What is sent when a handler returns without an answer.\<close>

definition no_response :: response where
  "no_response = \<lparr>rs_status = 200, rs_headers = [], rs_body = [], rs_stream = None\<rparr>"

definition end_headers :: "(string \<times> string) list \<Rightarrow> (string \<times> string) list" where
  "end_headers hs = hs @ [(''X-Content-Type-Options'', ''nosniff''), (''X-Frame-Options'', ''DENY''), (''Cache-Control'', ''no-store'')]"

definition respond :: "nat \<Rightarrow> (string \<times> string) list \<Rightarrow> bytes \<Rightarrow> response" where
  "respond status hs body = \<lparr>rs_status = status, rs_headers = end_headers hs, rs_body = body, rs_stream = None\<rparr>"

definition json_type :: "bytes \<Rightarrow> (string \<times> string) list" where
  "json_type body = [(''Content-Type'', ''application/json''), (''Content-Length'', nat_str (length body))]"

definition send_json :: "nat \<Rightarrow> pyval \<Rightarrow> response" where
  "send_json status data = (let body = py_encode (json_dumps False data) in respond status (json_type body) body)"

definition send_oci_error :: "string \<Rightarrow> nat \<Rightarrow> string \<Rightarrow> string \<Rightarrow> response" where
  "send_oci_error command status c message =
     (let body = py_encode (json_dumps False (PDict [(''errors'', PList [PDict [(''code'', PStr c), (''message'', PStr message)]])]))
      in respond status (json_type body) (if command \<noteq> ''HEAD'' then body else []))"

definition send_admin_error :: "nat \<Rightarrow> string \<Rightarrow> string \<Rightarrow> response" where
  "send_admin_error status c message = send_json status (PDict [(''error'', PStr message), (''code'', PStr c)])"

definition send_not_found :: "string \<Rightarrow> response" where
  "send_not_found command = send_oci_error command 404 ''NOT_FOUND'' ''resource not found''"

text \<open>The answer to a refused request of the given path.\<close>

definition refuse :: "string \<Rightarrow> refusal \<Rightarrow> response" where
  "refuse path r =
     (case r of
        TooManyRequests \<Rightarrow>
          (let body = py_encode (json_dumps False (PDict [(''error'', PStr ''Too many requests''), (''code'', PStr ''RATE_LIMITED'')]))
           in respond 429 (json_type body @ [(''Retry-After'', ''60'')]) body)
      | TooManyPulls \<Rightarrow>
          (let body = py_encode (json_dumps False (PDict [(''errors'', PList [PDict [(''code'', PStr ''TOOMANYREQUESTS''),
                 (''message'', PStr ''rate limit exceeded'')]])]))
           in respond 429 (json_type body @ [(''Retry-After'', ''30'')]) body)
      | BadCredentials status message c \<Rightarrow>
          (let body = py_encode (json_dumps False (PDict [(''error'', PStr message), (''code'', PStr c)]))
           in respond status (json_type body @ (if status = 401 \<and> startswith path ''/v2''
                then [(''WWW-Authenticate'', ''Bearer realm=\"buncker\",service=\"buncker\",scope=\"repository:*:pull\"'')] else [])) body))"

definition STATUS_PHRASES :: "(nat \<times> string) list" where
  "STATUS_PHRASES = [(200, ''OK''), (400, ''Bad Request''), (401, ''Unauthorized''), (403, ''Forbidden''), (404, ''Not Found''),
     (409, ''Conflict''), (429, ''Too Many Requests''), (500, ''Internal Server Error''), (503, ''Service Unavailable''),
     (507, ''Insufficient Storage'')]"

definition status_line :: "response \<Rightarrow> string" where
  "status_line r = nat_str (rs_status r) @ '' '' @ dget_or STATUS_PHRASES (rs_status r) ''OK''"

section \<open>Names\<close>

text \<open>\<open>$\<close> matches at the end and before a line break at the end.\<close>

definition dollar :: "string \<Rightarrow> string" where
  "dollar s = (if s \<noteq> [] \<and> last s = CHR 0x0A then butlast s else s)"

definition digest_re :: "string \<Rightarrow> bool" where
  "digest_re s = is_digest (dollar s)"

definition is_tag_char :: "char \<Rightarrow> bool" where
  "is_tag_char c = (is_alpha c \<or> is_digit c \<or> c \<in> set ''._-'')"

definition tag_re :: "string \<Rightarrow> bool" where
  "tag_re s = (let t = dollar s in 1 \<le> length t \<and> length t \<le> 128 \<and> list_all is_tag_char t)"

definition split_name :: "string \<Rightarrow> string \<times> string" where
  "split_name name =
     (if CHR ''/'' \<notin> set name then (''docker.io'', ''library/'' @ name)
      else let first = before CHR ''/'' name in
        if CHR ''.'' \<in> set first \<or> CHR '':'' \<in> set first \<or> first = ''localhost'' then (first, after CHR ''/'' name)
        else (''docker.io'', name))"

text \<open>The checks give the error to send, or nothing.\<close>

definition validate_name :: "string \<Rightarrow> string \<Rightarrow> response option" where
  "validate_name command name =
     (if str_in ''..'' name \<or> startswith name ''/'' then Some (send_oci_error command 400 ''NAME_INVALID'' ''invalid repository name'')
      else None)"

definition validate_reference :: "string \<Rightarrow> string \<Rightarrow> response option" where
  "validate_reference command reference =
     (if startswith reference ''sha256:'' then
        (if \<not> digest_re reference then Some (send_oci_error command 400 ''DIGEST_INVALID'' ''invalid digest format'') else None)
      else if \<not> tag_re reference then Some (send_oci_error command 400 ''TAG_INVALID'' ''invalid tag format'')
      else None)"

section \<open>Manifests\<close>

definition handle_v2_root :: "string \<Rightarrow> response" where
  "handle_v2_root command =
     (let body = py_encode (json_dumps False (PDict [(''status'', PStr ''ok'')])) in
      respond 200 ((''Docker-Distribution-API-Version'', ''registry/2.0'') # json_type body)
        (if command \<noteq> ''HEAD'' then body else []))"

definition manifest_platforms :: "string list" where
  "manifest_platforms = [''linux/amd64'', ''linux/arm64'', ''linux/arm/v7'']"

fun lookup_platforms :: "store \<Rightarrow> string \<Rightarrow> string \<Rightarrow> string \<Rightarrow> string list \<Rightarrow> pyval option res" where
  "lookup_platforms s registry repository reference [] = Inr None"
| "lookup_platforms s registry repository reference (p # ps) =
     rbind (get_manifest s registry repository reference p) (\<lambda>m.
     case m of None \<Rightarrow> lookup_platforms s registry repository reference ps | Some v \<Rightarrow> Inr (Some v))"

definition lookup_manifest :: "store \<Rightarrow> string \<Rightarrow> string \<Rightarrow> pyval option res" where
  "lookup_manifest s name reference =
     (let (registry, repository) = split_name name in lookup_platforms s registry repository reference manifest_platforms)"

definition served_body :: "dict \<Rightarrow> bytes" where
  "served_body d = py_encode (json_dumps True (PDict (filter (\<lambda>(k, v). k \<noteq> ''_buncker'') d)))"

definition OCI_MEDIA_TYPE :: string where
  "OCI_MEDIA_TYPE = ''application/vnd.oci.image.manifest.v1+json''"

definition handle_manifest :: "store \<Rightarrow> string \<Rightarrow> string \<Rightarrow> string \<Rightarrow> bool \<Rightarrow> response res" where
  "handle_manifest s command name reference include_body =
     (case (validate_name command name, validate_reference command reference) of
        (Some r, _) \<Rightarrow> Inr r
      | (None, Some r) \<Rightarrow> Inr r
      | (None, None) \<Rightarrow>
          rbind (lookup_manifest s name reference) (\<lambda>m.
          case m of
            None \<Rightarrow> Inr (send_oci_error command 404 ''MANIFEST_UNKNOWN'' ''manifest unknown to registry'')
          | Some (PDict d) \<Rightarrow>
              (let body = served_body d in
               Inr (respond 200
                 [(''Docker-Content-Digest'', ''sha256:'' @ sha256_hex body),
                  (''Content-Type'', str_of (dget_or d ''mediaType'' (PStr OCI_MEDIA_TYPE))),
                  (''Content-Length'', nat_str (length body)), (''Docker-Distribution-API-Version'', ''registry/2.0'')]
                 (if include_body then body else [])))
          | Some v \<Rightarrow> Inl (attr_error v ''items'')))"

section \<open>Blobs\<close>

definition file_not_found_error :: exc where
  "file_not_found_error = PyError ''FileNotFoundError'' ''No such file or directory''"

definition CHUNK_SIZE :: nat where
  "CHUNK_SIZE = 1048576"

definition blob_headers :: "string \<Rightarrow> nat \<Rightarrow> (string \<times> string) list" where
  "blob_headers digest nbytes =
     [(''Docker-Content-Digest'', digest), (''Content-Type'', ''application/octet-stream''), (''Content-Length'', nat_str nbytes)]"

text \<open>The checks both methods make, and the path of the blob they then use.\<close>

definition blob_checks :: "store \<Rightarrow> string \<Rightarrow> string \<Rightarrow> string \<Rightarrow> response option" where
  "blob_checks s command name digest =
     (case validate_name command name of
        Some r \<Rightarrow> Some r
      | None \<Rightarrow>
          if \<not> digest_re digest then Some (send_oci_error command 400 ''DIGEST_INVALID'' ''invalid digest format'')
          else if \<not> has_blob s digest then Some (send_oci_error command 404 ''BLOB_UNKNOWN'' ''blob unknown to registry'')
          else None)"

text \<open>A directory of that name cannot be opened; its size is what the file system says, an argument.\<close>

definition handle_blob_get :: "store \<Rightarrow> string \<Rightarrow> string \<Rightarrow> string \<Rightarrow> response res" where
  "handle_blob_get s command name digest =
     (case blob_checks s command name digest of
        Some r \<Rightarrow> Inr r
      | None \<Rightarrow>
          rbind (get_blob s digest) (\<lambda>path.
          case file_bytes (st_blobs s) (strip_prefix digest) of
            None \<Rightarrow> Inl is_a_directory_error
          | Some data \<Rightarrow>
              if ''sha256:'' @ sha256_hex data \<noteq> digest
              then Inr (send_oci_error command 500 ''BLOB_CORRUPT'' ''blob failed integrity check'')
              else Inr ((respond 200 (blob_headers digest (length data)) [])\<lparr>rs_stream := Some digest\<rparr>)))"

definition handle_blob_head :: "nat \<Rightarrow> store \<Rightarrow> string \<Rightarrow> string \<Rightarrow> string \<Rightarrow> response res" where
  "handle_blob_head dir_size s command name digest =
     (case blob_checks s command name digest of
        Some r \<Rightarrow> Inr r
      | None \<Rightarrow>
          rbind (get_blob s digest) (\<lambda>path.
          Inr (respond 200 (blob_headers digest
            (case file_bytes (st_blobs s) (strip_prefix digest) of Some data \<Rightarrow> length data | None \<Rightarrow> dir_size)) [])))"

text \<open>
  The stream, advanced \<open>n\<close> times: the chunks it yielded, and the store. The pull is recorded when
  the stream is asked for more after the last chunk, so a client that leaves early is not counted.
\<close>

definition blob_stream :: "store \<Rightarrow> instant \<Rightarrow> string \<Rightarrow> nat \<Rightarrow> bytes list res \<times> store" where
  "blob_stream s now digest n =
     (if n = 0 then (Inr [], s)
      else case file_bytes (st_blobs s) (strip_prefix digest) of
        None \<Rightarrow> (Inl (if has_blob s digest then is_a_directory_error else file_not_found_error), s)
      | Some data \<Rightarrow>
          let chunks = chunks_of CHUNK_SIZE data in
          if n \<le> length chunks then (Inr (take n chunks), s)
          else (case update_metadata s now digest ''pull'' of
                  (Inl (BunckerError KStore m c), s) \<Rightarrow> (Inr chunks, s)
                | (Inl e, s) \<Rightarrow> (Inl e, s)
                | (Inr _, s) \<Rightarrow> (Inr chunks, s)))"

end
