(* ===== verification/Image_Ref.thy ===== *)
theory Image_Ref
  imports Py_Errors
begin

text \<open>
  \<open>buncker/resolver.py\<close>: image references. \<open>parse_image_ref\<close> splits a reference into registry,
  repository, tag and digest, \<open>build_resolved\<close> writes it in full, \<open>is_private\<close> matches a
  registry against the configured patterns.
\<close>

section \<open>Operations\<close>

definition DEFAULT_REGISTRY :: string where
  "DEFAULT_REGISTRY = ''docker.io''"

definition DEFAULT_TAG :: string where
  "DEFAULT_TAG = ''latest''"

definition normalize_registry :: "string \<Rightarrow> string \<times> string" where
  "normalize_registry name =
     (case split1 CHR ''/'' name of
        [first, rest] \<Rightarrow>
          if str_in ''.'' first \<or> str_in '':'' first \<or> first = ''localhost'' then (first, rest)
          else (DEFAULT_REGISTRY, name)
      | _ \<Rightarrow> (DEFAULT_REGISTRY, ''library/'' @ name))"

definition split_tag :: "string \<Rightarrow> string \<times> string option" where
  "split_tag raw =
     (let last_slash = rfind CHR ''/'' raw; last_colon = rfind CHR '':'' raw in
      if last_slash < last_colon then (take (nat last_colon) raw, Some (drop (nat (last_colon + 1)) raw))
      else (raw, None))"

definition parse_image_ref :: "string \<Rightarrow> string \<times> string \<times> string option \<times> string option" where
  "parse_image_ref raw =
     (if str_in ''@sha256:'' raw then
        (let (registry, repository) = normalize_registry (before CHR ''@'' raw)
         in (registry, repository, None, Some (after CHR ''@'' raw)))
      else
        (let (name, tag) = split_tag raw; (registry, repository) = normalize_registry name
         in (registry, repository, Some (case tag of None \<Rightarrow> DEFAULT_TAG | Some t \<Rightarrow> t), None)))"

fun is_private :: "string \<Rightarrow> string list \<Rightarrow> bool" where
  "is_private registry [] = False"
| "is_private registry (pattern # patterns) =
     (if endswith pattern '':*''
      then startswith registry (take (length pattern - 2) pattern) \<or> is_private registry patterns
      else registry = pattern \<or> is_private registry patterns)"

definition some_truthy :: "string option \<Rightarrow> bool" where
  "some_truthy s = (s \<noteq> None \<and> s \<noteq> Some '''')"

definition build_resolved :: "string \<Rightarrow> string \<Rightarrow> string option \<Rightarrow> string option \<Rightarrow> string" where
  "build_resolved registry repository tag digest =
     (let base = registry @ ''/'' @ repository in
      if some_truthy digest then base @ ''@'' @ the digest
      else if some_truthy tag then base @ '':'' @ the tag
      else base)"

section \<open>Facts\<close>

lemma str_in_single: "str_in [c] s \<longleftrightarrow> c \<in> set s"
  by (auto simp: str_in_iff in_set_conv_decomp)

text \<open>An explicit registry: one a name may start with.\<close>

definition explicit_registry :: "string \<Rightarrow> bool" where
  "explicit_registry r = (CHR ''/'' \<notin> set r \<and> (CHR ''.'' \<in> set r \<or> CHR '':'' \<in> set r \<or> r = ''localhost''))"

lemma normalize_explicit [simp]:
  "explicit_registry r \<Longrightarrow> normalize_registry (r @ CHR ''/'' # repo) = (r, repo)"
  by (auto simp: normalize_registry_def explicit_registry_def str_in_single)

lemma normalize_registry_explicit: "explicit_registry (fst (normalize_registry name))"
proof (cases "CHR ''/'' \<in> set name")
  case True
  then show ?thesis
    by (auto simp: normalize_registry_def split1_def explicit_registry_def str_in_single DEFAULT_REGISTRY_def)
next
  case False
  then show ?thesis by (simp add: normalize_registry_def explicit_registry_def DEFAULT_REGISTRY_def)
qed

lemma normalize_registry_set:
  "set (fst (normalize_registry name)) \<union> set (snd (normalize_registry name)) \<subseteq> set name \<union> set ''docker.io/library''"
proof -
  have parts: "x \<in> set (before c s) \<Longrightarrow> x \<in> set s" "x \<in> set (after c s) \<Longrightarrow> x \<in> set s" for c s x
    by (auto simp: before_def after_def dest: set_takeWhileD in_set_dropD set_dropWhileD)
  consider "normalize_registry name = (before CHR ''/'' name, after CHR ''/'' name)"
    | "normalize_registry name = (DEFAULT_REGISTRY, name)"
    | "normalize_registry name = (DEFAULT_REGISTRY, ''library/'' @ name)"
  proof (cases "CHR ''/'' \<in> set name")
    case True
    let ?f = "before CHR ''/'' name"
    show thesis
      by (cases "str_in ''.'' ?f \<or> str_in '':'' ?f \<or> ?f = ''localhost''")
        (rule that(1), use True in \<open>simp add: normalize_registry_def split1_def\<close>,
         rule that(2), use True in \<open>simp add: normalize_registry_def split1_def\<close>)
  next
    case False
    then show thesis by (intro that(3)) (simp add: normalize_registry_def split1_def)
  qed
  then show ?thesis
    by cases (auto simp: DEFAULT_REGISTRY_def dest: parts)
qed

lemma split_tag_append:
  assumes "CHR ''/'' \<notin> set t" "CHR '':'' \<notin> set t"
  shows "split_tag (s @ CHR '':'' # t) = (s, Some t)"
proof -
  have "rfind CHR ''/'' (s @ CHR '':'' # t) < int (length s)"
  proof (cases "CHR ''/'' \<in> set s")
    case True
    then obtain u v where s: "s = u @ CHR ''/'' # v" "CHR ''/'' \<notin> set v" by (auto dest: split_list_last)
    then have "rfind CHR ''/'' (u @ CHR ''/'' # (v @ CHR '':'' # t)) = int (length u)"
      using assms(1) by (intro rfind_append) auto
    then show ?thesis by (simp add: s)
  next
    case False
    then show ?thesis using assms(1) by simp
  qed
  with assms(2) show ?thesis by (simp add: split_tag_def nat_add_distrib)
qed

lemma split_tag_parts:
  assumes "split_tag raw = (name, tag)"
  shows "case tag of None \<Rightarrow> name = raw
    | Some t \<Rightarrow> raw = name @ CHR '':'' # t \<and> CHR ''/'' \<notin> set t \<and> CHR '':'' \<notin> set t"
proof (cases "rfind CHR ''/'' raw < rfind CHR '':'' raw")
  case False
  with assms show ?thesis by (auto simp: split_tag_def Let_def)
next
  case True
  have "CHR '':'' \<in> set raw"
  proof (rule ccontr)
    assume "CHR '':'' \<notin> set raw"
    then have "rfind CHR '':'' raw = -1" by simp
    moreover have "-1 \<le> rfind CHR ''/'' raw"
      using length_takeWhile_le[of "\<lambda>x. x \<noteq> CHR ''/''" "rev raw"] by (simp add: rfind_def)
    ultimately show False using True by simp
  qed
  then obtain u t where u: "raw = u @ CHR '':'' # t" "CHR '':'' \<notin> set t" "rfind CHR '':'' raw = int (length u)"
    using rfind_last by blast
  have "CHR ''/'' \<notin> set t"
  proof
    assume "CHR ''/'' \<in> set t"
    then obtain v w where "t = v @ CHR ''/'' # w" "CHR ''/'' \<notin> set w" by (auto dest: split_list_last)
    then have "rfind CHR ''/'' ((u @ CHR '':'' # v) @ CHR ''/'' # w) = int (length (u @ CHR '':'' # v))"
      by (intro rfind_append)
    then show False using True u \<open>t = v @ CHR ''/'' # w\<close> by simp
  qed
  with True u assms show ?thesis by (auto simp: split_tag_def Let_def nat_add_distrib)
qed

section \<open>Properties\<close>

text \<open>
  Parsing inverts writing: a reference with an explicit registry and either a tag or a SHA-256 digest
  is parsed back into the parts it was written from.
\<close>

theorem parse_build_resolved:
  assumes "explicit_registry reg" "CHR ''@'' \<notin> set (reg @ repo)"
    and "(\<exists>t. tag = Some t \<and> t \<noteq> '''' \<and> dg = None \<and> CHR ''/'' \<notin> set t \<and> CHR '':'' \<notin> set t \<and> CHR ''@'' \<notin> set t)
       \<or> (\<exists>h. tag = None \<and> dg = Some (''sha256:'' @ h))"
  shows "parse_image_ref (build_resolved reg repo tag dg) = (reg, repo, tag, dg)"
  using assms(3)
proof
  assume "\<exists>t. tag = Some t \<and> t \<noteq> '''' \<and> dg = None \<and> CHR ''/'' \<notin> set t \<and> CHR '':'' \<notin> set t \<and> CHR ''@'' \<notin> set t"
  then obtain t where t: "tag = Some t" "t \<noteq> ''''" "dg = None" "CHR ''/'' \<notin> set t" "CHR '':'' \<notin> set t" "CHR ''@'' \<notin> set t"
    by blast
  let ?s = "(reg @ CHR ''/'' # repo) @ CHR '':'' # t"
  have "CHR ''@'' \<notin> set ?s" using assms(2) t(6) by auto
  then have "\<not> str_in ''@sha256:'' ?s" unfolding str_in_iff by (metis UnCI append_Cons list.set_intros(1) set_append)
  then have "parse_image_ref ?s = (reg, repo, Some t, None)"
    using assms(1) by (simp add: parse_image_ref_def split_tag_append[OF t(4,5)] del: append_assoc)
  then show ?thesis using t by (simp add: build_resolved_def some_truthy_def)
next
  assume "\<exists>h. tag = None \<and> dg = Some (''sha256:'' @ h)"
  then obtain h where h: "tag = None" "dg = Some (''sha256:'' @ h)" by blast
  let ?s = "(reg @ CHR ''/'' # repo) @ CHR ''@'' # ''sha256:'' @ h"
  have n: "CHR ''@'' \<notin> set (reg @ CHR ''/'' # repo)" using assms(2) by auto
  have "str_in ''@sha256:'' ?s"
    using str_in_append[of "''@sha256:''" "reg @ CHR ''/'' # repo" h] by simp
  then have "parse_image_ref ?s = (reg, repo, None, Some (''sha256:'' @ h))"
    using assms(1) by (simp add: parse_image_ref_def before_append[OF n] after_append[OF n] del: append_assoc append_Cons)
  then show ?thesis using h by (simp add: build_resolved_def some_truthy_def)
qed

theorem parse_build_resolved_witness:
  "parse_image_ref (build_resolved ''ghcr.io'' ''owner/app'' (Some ''v1'') None) = (''ghcr.io'', ''owner/app'', Some ''v1'', None)"
  by (rule parse_build_resolved) (simp_all add: explicit_registry_def)

text \<open>
  Writing a parsed reference in full is stable: the full form is parsed into the same parts, so images are
  compared by their resolved reference. (An empty tag, or an at sign that starts no SHA-256 digest, is left out.)
\<close>

theorem resolved_stable:
  assumes "parse_image_ref raw = (reg, repo, tag, dg)" "tag \<noteq> Some ''''"
    and "CHR ''@'' \<in> set raw \<Longrightarrow> str_in ''@sha256:'' raw \<and> (\<exists>h. after CHR ''@'' raw = ''sha256:'' @ h)"
  shows "parse_image_ref (build_resolved reg repo tag dg) = (reg, repo, tag, dg)"
proof (cases "str_in ''@sha256:'' raw")
  case True
  then have at: "CHR ''@'' \<in> set raw" by (auto simp: str_in_iff)
  then obtain h where h: "after CHR ''@'' raw = ''sha256:'' @ h" using assms(3) by blast
  obtain reg' repo' where n: "normalize_registry (before CHR ''@'' raw) = (reg', repo')" by fastforce
  have e: "reg = reg'" "repo = repo'" "tag = None" "dg = Some (''sha256:'' @ h)"
    using assms(1) True n h by (auto simp: parse_image_ref_def)
  have "explicit_registry reg" using normalize_registry_explicit[of "before CHR ''@'' raw"] n e by simp
  moreover have "CHR ''@'' \<notin> set (reg @ repo)"
    using normalize_registry_set[of "before CHR ''@'' raw"] n e before_notin[of "CHR ''@''" raw] by auto
  ultimately show ?thesis using e by (intro parse_build_resolved) auto
next
  case False
  then have at: "CHR ''@'' \<notin> set raw" using assms(3) by blast
  obtain name t where s: "split_tag raw = (name, t)" by fastforce
  obtain reg' repo' where n: "normalize_registry name = (reg', repo')" by fastforce
  define t' where "t' = (case t of None \<Rightarrow> DEFAULT_TAG | Some x \<Rightarrow> x)"
  have e: "reg = reg'" "repo = repo'" "tag = Some t'" "dg = None"
    using assms(1) False s n by (auto simp: parse_image_ref_def t'_def)
  have "CHR ''/'' \<notin> set t' \<and> CHR '':'' \<notin> set t' \<and> CHR ''@'' \<notin> set t'" "CHR ''@'' \<notin> set name"
    using split_tag_parts[OF s] at by (auto simp: t'_def DEFAULT_TAG_def split: option.splits)
  moreover have "explicit_registry reg" using normalize_registry_explicit[of name] n e by simp
  moreover have "CHR ''@'' \<notin> set (reg @ repo)"
    using normalize_registry_set[of name] n e \<open>CHR ''@'' \<notin> set name\<close> by auto
  ultimately show ?thesis using e assms(2) by (intro parse_build_resolved) auto
qed

theorem resolved_stable_witness:
  "parse_image_ref (build_resolved ''docker.io'' ''library/nginx'' (Some ''1.25'') None) = (''docker.io'', ''library/nginx'', Some ''1.25'', None)"
  by (rule resolved_stable[where raw = "''nginx:1.25''"]) (code_simp, simp, simp)

text \<open>
  In a reference with both a tag and a digest the tag stays in the repository: the reference
  resolves to a repository no registry has.
\<close>

theorem tag_and_digest_repository:
  assumes "CHR ''/'' \<notin> set name" "CHR ''@'' \<notin> set (name @ tag)" "CHR ''/'' \<notin> set tag"
  shows "parse_image_ref (name @ '':'' @ tag @ ''@sha256:'' @ h)
     = (''docker.io'', ''library/'' @ name @ '':'' @ tag, None, Some (''sha256:'' @ h))"
proof -
  let ?n = "name @ CHR '':'' # tag"
  have n: "CHR ''@'' \<notin> set ?n" "CHR ''/'' \<notin> set ?n" using assms by auto
  have "str_in ''@sha256:'' (?n @ CHR ''@'' # ''sha256:'' @ h)"
    using str_in_append[of "''@sha256:''" ?n h] by simp
  then have "parse_image_ref (?n @ CHR ''@'' # ''sha256:'' @ h) = (''docker.io'', ''library/'' @ ?n, None, Some (''sha256:'' @ h))"
    using n(2) by (simp add: parse_image_ref_def before_append[OF n(1)] after_append[OF n(1)] normalize_registry_def
        DEFAULT_REGISTRY_def del: append_assoc append_Cons)
  then show ?thesis by simp
qed

theorem tag_and_digest_repository_witness:
  "parse_image_ref (''nginx'' @ '':'' @ ''1.25'' @ ''@sha256:'' @ ''00'')
     = (''docker.io'', ''library/'' @ ''nginx'' @ '':'' @ ''1.25'', None, Some (''sha256:'' @ ''00''))"
  by (rule tag_and_digest_repository) simp_all

end
