(* ===== verification/Dockerfile.thy ===== *)
theory Dockerfile
  imports Image_Ref Py_Codec
begin

text \<open>
  \<open>buncker/resolver.py\<close>: the Dockerfile parser. Lines are joined at trailing backslashes, the
  \<open>ARG\<close> instructions before the first \<open>FROM\<close> give values to variables, and each \<open>FROM\<close> is
  parsed into an image. The three regular expressions of the source are written out as the
  deterministic scans they are: a run of word characters or of white space is followed by a
  character outside the run, so the matcher never has to give characters back.
\<close>

section \<open>Lines\<close>

definition is_newline :: "char \<Rightarrow> bool" where
  "is_newline c = (let n = code c in (10 \<le> n \<and> n \<le> 13) \<or> (28 \<le> n \<and> n \<le> 30) \<or> n = 133)"

text \<open>\<open>str.splitlines ()\<close>; the text comes from \<open>read_text\<close>, which leaves no carriage return.\<close>

function splitlines :: "string \<Rightarrow> string list" where
  "splitlines s =
     (if s = [] then []
      else takeWhile (\<lambda>c. \<not> is_newline c) s # splitlines (drop 1 (dropWhile (\<lambda>c. \<not> is_newline c) s)))"
  by auto
termination
proof (relation "measure length")
  fix s :: string
  assume "s \<noteq> []"
  then show "(drop 1 (dropWhile (\<lambda>c. \<not> is_newline c) s), s) \<in> measure length"
    using length_dropWhile_le[of "\<lambda>c. \<not> is_newline c" s] by (cases s) auto
qed simp

declare splitlines.simps [simp del]

definition continues :: "string \<Rightarrow> bool" where
  "continues line = endswith (rstrip line) [CHR 0x5C]"

fun join_line :: "string \<Rightarrow> string list \<Rightarrow> string \<times> string list" where
  "join_line line [] = (line, [])"
| "join_line line (next # rest) =
     (if continues line then join_line (butlast (rstrip line) @ '' '' @ lstrip next) rest
      else (line, next # rest))"

lemma join_line_length: "join_line line ls = (l, rest) \<Longrightarrow> length rest \<le> length ls"
  by (induction line ls arbitrary: l rest rule: join_line.induct) (auto split: if_splits simp: le_SucI)

function join_lines :: "nat \<Rightarrow> string list \<Rightarrow> (nat \<times> string) list" where
  "join_lines i [] = []"
| "join_lines i (line # ls) =
     (let (joined, rest) = join_line line ls
      in (i + 1, joined) # join_lines (i + (length ls - length rest) + 1) rest)"
  by pat_completeness auto
termination
  by (relation "measure (\<lambda>(i, ls). length ls)") (auto dest: join_line_length[OF sym] simp: le_imp_less_Suc)

definition join_continuations :: "string \<Rightarrow> (nat \<times> string) list" where
  "join_continuations text = join_lines 0 (splitlines text)"

section \<open>Variables\<close>

type_synonym build_args = "(string \<times> string) list"
type_synonym arg_map = "(string \<times> string option) list"

text \<open>\<open>line[n:]\<close> and \<open>s.strip (c)\<close>.\<close>

definition strip_char :: "char \<Rightarrow> string \<Rightarrow> string" where
  "strip_char c s = strip_by (\<lambda>x. x = c) s"

definition parse_arg :: "string \<Rightarrow> arg_map \<Rightarrow> build_args \<Rightarrow> arg_map" where
  "parse_arg line args build_args =
     (let rest = strip (drop 4 line) in
      if CHR ''='' \<in> set rest then
        (let key = strip (before CHR ''='' rest);
             value = strip_char CHR 0x27 (strip_char CHR 0x22 (strip (after CHR ''='' rest)))
         in dset args key (Some (dget_or build_args key value)))
      else (let key = strip rest in dset args key (dget build_args key)))"

text \<open>A match of the substitution pattern at a dollar sign, and what follows it.\<close>

datatype var_ref =
    VarOp string string string \<comment> \<open>\<open>${VAR:-default}\<close>, \<open>${VAR:+replacement}\<close>\<close>
  | VarPlain string \<comment> \<open>\<open>${VAR}\<close>, \<open>$VAR\<close>\<close>

definition match_braced :: "string \<Rightarrow> (var_ref \<times> string) option" where
  "match_braced s =
     (let w = takeWhile is_word s; r = dropWhile is_word s in
      if w = [] then None
      else if (startswith r '':-'' \<or> startswith r '':+'') \<and> CHR ''}'' \<in> set (drop 2 r)
        then Some (VarOp w (take 2 r) (before CHR ''}'' (drop 2 r)), after CHR ''}'' (drop 2 r))
      else if startswith r ''}'' then Some (VarPlain w, drop 1 r)
      else None)"

definition match_var :: "string \<Rightarrow> (var_ref \<times> string) option" where
  "match_var s =
     (case s of
        [] \<Rightarrow> None
      | c # cs \<Rightarrow>
          if c = CHR ''{'' then match_braced cs
          else (let w = takeWhile is_word s in if w = [] then None else Some (VarPlain w, dropWhile is_word s)))"

definition arg_undefined :: "string \<Rightarrow> nat \<Rightarrow> exc" where
  "arg_undefined var line_number =
     ResolverError (''ARG '' @ [CHR 0x27] @ var @ [CHR 0x27] @ '' used but not defined (line '' @ nat_str line_number @ '')'')
       [(''arg'', PStr var), (''line'', PInt (int line_number))]"

definition arg_no_default :: "string \<Rightarrow> nat \<Rightarrow> exc" where
  "arg_no_default var line_number =
     ResolverError (''ARG '' @ [CHR 0x27] @ var @ [CHR 0x27] @ '' used but has no default and ''
         @ ''no build-arg override (line '' @ nat_str line_number @ '')'')
       [(''arg'', PStr var), (''line'', PInt (int line_number))]"

definition arg_value :: "arg_map \<Rightarrow> build_args \<Rightarrow> string \<Rightarrow> string option" where
  "arg_value args build_args var =
     (case dget build_args var of Some v \<Rightarrow> Some v | None \<Rightarrow> dget_or args var None)"

fun replacer :: "arg_map \<Rightarrow> build_args \<Rightarrow> nat \<Rightarrow> var_ref \<Rightarrow> string res" where
  "replacer args build_args line_number (VarOp var op fallback) =
     (let value = arg_value args build_args var in
      if op = '':-'' then Inr (if some_truthy value then the value else fallback)
      else Inr (if some_truthy value then fallback else ''''))"
| "replacer args build_args line_number (VarPlain var) =
     (case dget build_args var of
        Some v \<Rightarrow> Inr v
      | None \<Rightarrow>
          (case dget args var of
             Some (Some v) \<Rightarrow> Inr v
           | Some None \<Rightarrow> Inl (arg_no_default var line_number)
           | None \<Rightarrow> Inl (arg_undefined var line_number)))"

lemma dropWhile_shorter: "length (dropWhile P s) \<le> length s"
  by (rule length_dropWhile_le)

lemma match_var_shorter: "match_var s = Some (v, rest) \<Longrightarrow> length rest < length s"
proof -
  have a: "length (after c s) \<le> length s" for c s
    using length_dropWhile_le[of "\<lambda>x. x \<noteq> c" s] by (simp add: after_def)
  have b: "length rest \<le> length s" if "match_braced s = Some (v, rest)" for s
    using that a[of "CHR ''}''" "drop 2 (dropWhile is_word s)"] dropWhile_shorter[of is_word s]
    by (auto simp: match_braced_def Let_def split: if_splits)
  assume m: "match_var s = Some (v, rest)"
  then obtain c cs where s: "s = c # cs" by (cases s) (auto simp: match_var_def)
  show ?thesis
  proof (cases "c = CHR ''{''")
    case True
    with m s b[of cs] show ?thesis by (simp add: match_var_def)
  next
    case False
    with m s dropWhile_shorter[of is_word cs] show ?thesis
      by (auto simp: match_var_def Let_def split: if_splits)
  qed
qed

function substitute_args :: "arg_map \<Rightarrow> build_args \<Rightarrow> nat \<Rightarrow> string \<Rightarrow> string res" where
  "substitute_args args build_args line_number [] = Inr []"
| "substitute_args args build_args line_number (c # cs) =
     (case (if c = CHR ''$'' then match_var cs else None) of
        Some (v, rest) \<Rightarrow>
          rbind (replacer args build_args line_number v) (\<lambda>x.
          rbind (substitute_args args build_args line_number rest) (\<lambda>y. Inr (x @ y)))
      | None \<Rightarrow> rbind (substitute_args args build_args line_number cs) (\<lambda>y. Inr (c # y)))"
  by pat_completeness auto
termination
  by (relation "measure (\<lambda>(a, b, n, s). length s)") (auto split: if_splits dest: match_var_shorter)

section \<open>Instructions\<close>

record resolved_image =
  ri_raw :: string
  ri_resolved :: string
  ri_registry :: string
  ri_repository :: string
  ri_tag :: "string option"
  ri_digest :: "string option"
  ri_platform :: "string option"
  ri_alias :: "string option"
  ri_is_internal :: bool
  ri_is_private :: bool
  ri_line_number :: nat

text \<open>The platform flag: \<open>--platform=(\S+)\s+(.+)\<close> at the start, in any case.\<close>

definition match_platform :: "string \<Rightarrow> (string \<times> string) option" where
  "match_platform rest =
     (let flag = ''--platform=''; r = drop (length flag) rest;
          p = takeWhile (\<lambda>c. \<not> is_space c) r;
          image = takeWhile (\<lambda>c. c \<noteq> CHR 0x0A) (dropWhile is_space (dropWhile (\<lambda>c. \<not> is_space c) r))
      in if lower (take (length flag) rest) = flag \<and> p \<noteq> [] \<and> image \<noteq> [] then Some (p, image) else None)"

text \<open>The alias: \<open>(.+?)\s+[Aa][Ss]\s+(\S+)\<close>, the shortest first group.\<close>

definition match_as :: "string \<Rightarrow> string option" where
  "match_as s =
     (let r = dropWhile is_space s; t = dropWhile is_space (drop 2 r);
          name = takeWhile (\<lambda>c. \<not> is_space c) t
      in if s \<noteq> [] \<and> is_space (hd s) \<and> lower (take 2 r) = ''as'' \<and> drop 2 r \<noteq> [] \<and> is_space (hd (drop 2 r)) \<and> name \<noteq> []
         then Some name else None)"

fun match_alias :: "string \<Rightarrow> string \<Rightarrow> (string \<times> string) option" where
  "match_alias pre [] = None"
| "match_alias pre (c # cs) =
     (if c = CHR 0x0A then None
      else case match_as cs of Some name \<Rightarrow> Some (pre @ [c], name) | None \<Rightarrow> match_alias (pre @ [c]) cs)"

definition parse_from ::
  "string \<Rightarrow> nat \<Rightarrow> arg_map \<Rightarrow> build_args \<Rightarrow> string list \<Rightarrow> string list \<Rightarrow> resolved_image option res" where
  "parse_from line line_number args build_args aliases private_registries =
     (let rest = strip (drop 5 line);
          (platform, rest) = (case match_platform rest of Some (p, r) \<Rightarrow> (Some p, r) | None \<Rightarrow> (None, rest)) in
      rbind (case platform of
               None \<Rightarrow> Inr None
             | Some p \<Rightarrow> rbind (substitute_args args build_args line_number p) (\<lambda>x. Inr (Some x))) (\<lambda>platform.
      rbind (substitute_args args build_args line_number rest) (\<lambda>rest.
      let (raw, alias) = (case match_alias [] rest of Some (r, a) \<Rightarrow> (strip r, Some a) | None \<Rightarrow> (rest, None)) in
      if lower raw = ''scratch'' then Inr None
      else
        let is_internal = lower raw \<in> set aliases;
            (registry, repository, tag, digest) = parse_image_ref raw
        in Inr (Some \<lparr>ri_raw = raw, ri_resolved = build_resolved registry repository tag digest,
             ri_registry = registry, ri_repository = repository, ri_tag = tag, ri_digest = digest,
             ri_platform = platform, ri_alias = alias, ri_is_internal = is_internal,
             ri_is_private = is_private registry private_registries, ri_line_number = line_number\<rparr>))))"

fun parse_lines ::
  "build_args \<Rightarrow> string list \<Rightarrow> arg_map \<Rightarrow> string list \<Rightarrow> bool \<Rightarrow> (nat \<times> string) list \<Rightarrow> resolved_image list res" where
  "parse_lines build_args priv args aliases seen_from [] = Inr []"
| "parse_lines build_args priv args aliases seen_from ((line_number, line) # lines) =
     (let stripped = strip line in
      if stripped = [] \<or> startswith stripped ''#'' then parse_lines build_args priv args aliases seen_from lines
      else if startswith (upper stripped) ''ARG '' \<and> \<not> seen_from
        then parse_lines build_args priv (parse_arg stripped args build_args) aliases seen_from lines
      else if startswith (upper stripped) ''FROM '' then
        rbind (parse_from stripped line_number args build_args aliases priv) (\<lambda>image.
        case image of
          None \<Rightarrow> parse_lines build_args priv args aliases True lines
        | Some im \<Rightarrow>
            rbind (parse_lines build_args priv args
                     (if some_truthy (ri_alias im) then lower (the (ri_alias im)) # aliases else aliases) True lines)
              (\<lambda>ims. Inr (im # ims)))
      else parse_lines build_args priv args aliases seen_from lines)"

text \<open>The file's bytes, \<open>None\<close> when the path is not a file.\<close>

definition parse_dockerfile ::
  "string \<Rightarrow> bytes option \<Rightarrow> build_args \<Rightarrow> string list \<Rightarrow> resolved_image list res" where
  "parse_dockerfile path content build_args private_registries =
     (case content of
        None \<Rightarrow> Inl (ResolverError (''Dockerfile not found: '' @ path) [(''path'', PStr path)])
      | Some bs \<Rightarrow>
          rbind (read_text bs) (\<lambda>text.
          parse_lines build_args private_registries [] [] False (join_continuations text)))"

end
