(* ===== verification/Resolver.thy ===== *)
theory Resolver
  imports Dockerfile Manifest_Cache
begin

text \<open>
  \<open>buncker/resolver.py\<close>: which blobs the images of a Dockerfile or of a Compose file still
  need. The store and the manifest cache are objects the functions are given; they are the
  record \<open>resolver_env\<close> here, and \<open>store_env\<close> is the one the daemon passes. A Python set of
  digests is a set; the list of missing blobs keeps its order. A digest that is not a string
  ends the analysis with an exception.
\<close>

section \<open>State\<close>

record resolver_env =
  env_list_missing :: "string list \<Rightarrow> string list"
  env_get_manifest :: "string \<Rightarrow> string \<Rightarrow> string \<Rightarrow> string \<Rightarrow> pyval option res"
  env_is_stale :: "string \<Rightarrow> string \<Rightarrow> string \<Rightarrow> string \<Rightarrow> int \<Rightarrow> bool option res"
  env_now :: instant

definition store_env :: "store \<Rightarrow> instant \<Rightarrow> resolver_env" where
  "store_env s now = \<lparr>env_list_missing = list_missing s, env_get_manifest = get_manifest s,
     env_is_stale = is_stale s now, env_now = now\<rparr>"

record missing_blob =
  mb_registry :: string
  mb_repository :: string
  mb_digest :: string
  mb_size :: pyval
  mb_media_type :: pyval

record stale_manifest =
  sm_registry :: string
  sm_repository :: string
  sm_tag :: string
  sm_platform :: string

record analysis =
  an_source_path :: string
  an_build_args :: build_args
  an_images :: "resolved_image list"
  an_present :: "string set"
  an_missing :: "missing_blob list"
  an_total_missing_size :: int
  an_warnings :: "string list"
  an_stale :: "stale_manifest list"

definition new_analysis :: "string \<Rightarrow> build_args \<Rightarrow> resolved_image list \<Rightarrow> analysis" where
  "new_analysis path build_args ims = \<lparr>an_source_path = path, an_build_args = build_args, an_images = ims,
     an_present = {}, an_missing = [], an_total_missing_size = 0, an_warnings = [], an_stale = []\<rparr>"

definition warn :: "string \<Rightarrow> analysis \<Rightarrow> analysis" where
  "warn msg a = a\<lparr>an_warnings := an_warnings a @ [msg]\<rparr>"

section \<open>Manifests\<close>

definition extract_layer_digests :: "pyval \<Rightarrow> pyval list res" where
  "extract_layer_digests manifest =
     rbind (vin ''config'' manifest) (\<lambda>has.
     rbind (if has then rbind (vindex manifest ''config'') (\<lambda>c. rbind (vindex c ''digest'') (\<lambda>d. Inr [d])) else Inr []) (\<lambda>cfg.
     rbind (vget manifest ''layers'' (PList [])) (\<lambda>ls.
     rbind (viter ls) (\<lambda>layers.
     rbind (rmap (\<lambda>layer. vindex layer ''digest'') layers) (\<lambda>ds.
     Inr (cfg @ ds))))))"

fun find_layer :: "string \<Rightarrow> pyval list \<Rightarrow> pyval res" where
  "find_layer digest [] = Inr (PDict [])"
| "find_layer digest (layer # layers) =
     rbind (vindex layer ''digest'') (\<lambda>d. if d = PStr digest then Inr layer else find_layer digest layers)"

definition find_layer_info :: "pyval \<Rightarrow> string \<Rightarrow> pyval res" where
  "find_layer_info manifest digest =
     rbind (vget manifest ''config'' (PDict [])) (\<lambda>config.
     rbind (vget config ''digest'' PNone) (\<lambda>d.
     if d = PStr digest then vindex manifest ''config''
     else
       rbind (vget manifest ''layers'' (PList [])) (\<lambda>ls.
       rbind (viter ls) (find_layer digest))))"

definition as_digest :: "pyval \<Rightarrow> string res" where
  "as_digest v = (case v of PStr s \<Rightarrow> Inr s | _ \<Rightarrow> Inl (attr_error v ''removeprefix''))"

section \<open>One image\<close>

definition manifest_age :: "resolver_env \<Rightarrow> pyval option \<Rightarrow> string res" where
  "manifest_age env manifest =
     rbind (case manifest of
              None \<Rightarrow> Inr (PDict [])
            | Some m \<Rightarrow> if truthy m then vget m ''_buncker'' (PDict []) else Inr (PDict [])) (\<lambda>buncker.
     rbind (vget buncker ''cached_at'' (PStr '''')) (\<lambda>at.
     if truthy at then rbind (viso at) (\<lambda>t. Inr (int_str (age_days (env_now env) t))) else Inr ''unknown''))"

definition check_staleness ::
  "resolver_env \<Rightarrow> resolved_image \<Rightarrow> string \<Rightarrow> string \<Rightarrow> int \<Rightarrow> analysis \<Rightarrow> analysis res" where
  "check_staleness env im tag platform ttl a =
     rbind (env_is_stale env (ri_registry im) (ri_repository im) tag platform ttl) (\<lambda>stale.
     if stale \<noteq> Some True then Inr a
     else
       rbind (env_get_manifest env (ri_registry im) (ri_repository im) tag platform) (\<lambda>manifest.
       rbind (manifest_age env manifest) (\<lambda>age.
       Inr ((warn (''Manifest for '' @ ri_registry im @ ''/'' @ ri_repository im @ '':'' @ tag @ '' is '' @ age
                 @ '' days old (TTL: '' @ int_str ttl @ ''d) - consider using --refresh-stale'') a)
              \<lparr>an_stale := an_stale a @ [\<lparr>sm_registry = ri_registry im, sm_repository = ri_repository im,
                 sm_tag = tag, sm_platform = platform\<rparr>]\<rparr>))))"

fun add_missing :: "resolved_image \<Rightarrow> pyval \<Rightarrow> string list \<Rightarrow> analysis \<Rightarrow> analysis res" where
  "add_missing im manifest [] a = Inr a"
| "add_missing im manifest (d # ds) a =
     rbind (find_layer_info manifest d) (\<lambda>info.
     rbind (vget info ''size'' (PInt 0)) (\<lambda>sz.
     rbind (vget info ''mediaType'' (PStr '''')) (\<lambda>mt.
     rbind (vadd sz (an_total_missing_size a)) (\<lambda>total.
     add_missing im manifest ds
       (a\<lparr>an_missing := an_missing a @ [\<lparr>mb_registry = ri_registry im, mb_repository = ri_repository im,
            mb_digest = d, mb_size = sz, mb_media_type = mt\<rparr>],
          an_total_missing_size := total\<rparr>)))))"

definition warn_latest :: "resolved_image \<Rightarrow> analysis \<Rightarrow> analysis" where
  "warn_latest im a =
     (if ri_tag im = Some ''latest''
      then warn (''Image '' @ ri_resolved im @ '' uses tag '' @ [CHR 0x27] @ ''latest'' @ [CHR 0x27] @ '' - consider pinning'') a
      else a)"

definition image_platform :: "string \<Rightarrow> resolved_image \<Rightarrow> string" where
  "image_platform default_platform im =
     (if some_truthy (ri_platform im) then the (ri_platform im) else default_platform)"

definition image_manifest :: "resolver_env \<Rightarrow> string \<Rightarrow> resolved_image \<Rightarrow> pyval option res" where
  "image_manifest env default_platform im =
     (case (if some_truthy (ri_digest im) then ri_digest im else ri_tag im) of
        None \<Rightarrow> Inl (attr_error PNone ''startswith'')
      | Some reference \<Rightarrow>
          env_get_manifest env (ri_registry im) (ri_repository im) reference (image_platform default_platform im))"

definition manifest_digests :: "pyval \<Rightarrow> string list res" where
  "manifest_digests manifest =
     rbind (extract_layer_digests manifest) (\<lambda>ds. rbind (rmap check_hash ds) (\<lambda>_. rmap as_digest ds))"

definition record_layers ::
  "resolver_env \<Rightarrow> resolved_image \<Rightarrow> pyval \<Rightarrow> string list \<Rightarrow> analysis \<Rightarrow> string set \<Rightarrow> (analysis \<times> string set) res" where
  "record_layers env im manifest layer_digests a seen =
     (let new_digests = filter (\<lambda>d. d \<notin> seen) layer_digests;
          missing = env_list_missing env new_digests
      in
      if new_digests = [] then Inr (a, seen)
      else
        rbind (add_missing im manifest missing
                 (a\<lparr>an_present := an_present a \<union> (set new_digests - set missing)\<rparr>)) (\<lambda>a.
        Inr (a, seen \<union> set new_digests)))"

definition resolve_image_blobs ::
  "resolver_env \<Rightarrow> string \<Rightarrow> int \<Rightarrow> resolved_image \<Rightarrow> analysis \<times> string set \<Rightarrow> (analysis \<times> string set) res" where
  "resolve_image_blobs env default_platform ttl im st =
     (let (a, seen) = st in
      if ri_is_internal im then Inr (a, seen)
      else if ri_is_private im then Inr (warn (''Private registry '' @ ri_registry im @ '' skipped'') a, seen)
      else
        let a = warn_latest im a in
        rbind (image_manifest env default_platform im) (\<lambda>found.
        case found of
          None \<Rightarrow> Inr (warn (''Manifest not cached for '' @ ri_resolved im @ '' - run fetch first'') a, seen)
        | Some manifest \<Rightarrow>
            rbind (if 0 < ttl \<and> some_truthy (ri_tag im)
                   then check_staleness env im (the (ri_tag im)) (image_platform default_platform im) ttl a
                   else Inr a) (\<lambda>a.
            rbind (manifest_digests manifest) (\<lambda>layer_digests.
            record_layers env im manifest layer_digests a seen))))"

section \<open>A Dockerfile\<close>

fun resolve_images ::
  "resolver_env \<Rightarrow> string \<Rightarrow> int \<Rightarrow> resolved_image list \<Rightarrow> analysis \<times> string set \<Rightarrow> (analysis \<times> string set) res" where
  "resolve_images env default_platform ttl [] st = Inr st"
| "resolve_images env default_platform ttl (im # ims) st =
     rbind (resolve_image_blobs env default_platform ttl im st) (resolve_images env default_platform ttl ims)"

definition resolve_dockerfile ::
  "resolver_env \<Rightarrow> string \<Rightarrow> bytes option \<Rightarrow> build_args \<Rightarrow> string list \<Rightarrow> string \<Rightarrow> int \<Rightarrow> analysis res" where
  "resolve_dockerfile env path content build_args private_registries default_platform ttl =
     rbind (parse_dockerfile path content build_args private_registries) (\<lambda>ims.
     rbind (resolve_images env default_platform ttl ims (new_analysis path build_args ims, {})) (\<lambda>(a, seen).
     Inr a))"

section \<open>A Compose file\<close>

text \<open>A service of \<open>parse_compose\<close>; the content of its Dockerfile is what the file system has at the path.\<close>

record compose_service =
  cs_name :: string
  cs_image_ref :: "string option"
  cs_dockerfile_path :: "string option"

definition resolve_image_ref :: "string \<Rightarrow> string list \<Rightarrow> resolved_image" where
  "resolve_image_ref image_ref private_registries =
     (let (registry, repository, tag, digest) = parse_image_ref image_ref in
      \<lparr>ri_raw = image_ref, ri_resolved = build_resolved registry repository tag digest, ri_registry = registry,
       ri_repository = repository, ri_tag = tag, ri_digest = digest, ri_platform = None, ri_alias = None,
       ri_is_internal = False, ri_is_private = is_private registry private_registries, ri_line_number = 0\<rparr>)"

fun merge_missing :: "missing_blob list \<Rightarrow> analysis \<Rightarrow> string set \<Rightarrow> (analysis \<times> string set) res" where
  "merge_missing [] a seen = Inr (a, seen)"
| "merge_missing (b # bs) a seen =
     (if mb_digest b \<in> seen then merge_missing bs a seen
      else
        rbind (vadd (mb_size b) (an_total_missing_size a)) (\<lambda>total.
        merge_missing bs (a\<lparr>an_missing := an_missing a @ [b], an_total_missing_size := total\<rparr>)
          (insert (mb_digest b) seen)))"

definition merge_analysis :: "analysis \<Rightarrow> analysis \<times> string set \<Rightarrow> (analysis \<times> string set) res" where
  "merge_analysis sub st =
     (let (a, seen) = st in
      rbind (merge_missing (an_missing sub)
        (a\<lparr>an_images := an_images a @ an_images sub, an_present := an_present a \<union> an_present sub\<rparr>) seen) (\<lambda>(a, seen).
      Inr (a\<lparr>an_warnings := an_warnings a @ an_warnings sub\<rparr>, seen)))"

fun resolve_services ::
  "resolver_env \<Rightarrow> (string \<Rightarrow> bytes option) \<Rightarrow> build_args \<Rightarrow> string list \<Rightarrow> string \<Rightarrow> int \<Rightarrow>
   compose_service list \<Rightarrow> string list \<Rightarrow> analysis \<times> string set \<Rightarrow> (analysis \<times> string set) res" where
  "resolve_services env files build_args priv default_platform ttl [] refs st = Inr st"
| "resolve_services env files build_args priv default_platform ttl (svc # svcs) refs st =
     (if some_truthy (cs_image_ref svc) then
        let r = the (cs_image_ref svc) in
        if r \<in> set refs then resolve_services env files build_args priv default_platform ttl svcs refs st
        else
          let im = resolve_image_ref r priv; (a, seen) = st in
          rbind (resolve_image_blobs env default_platform ttl im (a\<lparr>an_images := an_images a @ [im]\<rparr>, seen))
            (resolve_services env files build_args priv default_platform ttl svcs (r # refs))
      else if some_truthy (cs_dockerfile_path svc) then
        (let path = the (cs_dockerfile_path svc) in
         case resolve_dockerfile env path (files path) build_args priv default_platform ttl of
           Inr sub \<Rightarrow>
             rbind (merge_analysis sub st) (resolve_services env files build_args priv default_platform ttl svcs refs)
         | Inl (BunckerError KResolver m c) \<Rightarrow>
             resolve_services env files build_args priv default_platform ttl svcs refs
               (warn (''Service '' @ [CHR 0x27] @ cs_name svc @ [CHR 0x27] @ '': '' @ exc_str (BunckerError KResolver m c)) (fst st), snd st)
         | Inl e \<Rightarrow> Inl e)
      else resolve_services env files build_args priv default_platform ttl svcs refs st)"

definition resolve_compose ::
  "resolver_env \<Rightarrow> (string \<Rightarrow> bytes option) \<Rightarrow> compose_service list \<Rightarrow> build_args \<Rightarrow> string list \<Rightarrow> string \<Rightarrow> int \<Rightarrow> analysis res" where
  "resolve_compose env files services build_args private_registries default_platform ttl =
     rbind (resolve_services env files build_args private_registries default_platform ttl services []
              (new_analysis ''compose'' build_args [], {})) (\<lambda>(a, seen). Inr a)"

end
