(* ===== verification/Compose.thy ===== *)
theory Compose
  imports Resolver
begin

text \<open>
  \<open>buncker/compose.py\<close>: the services of a Compose file. The YAML text is read by \<open>yaml.safe_load\<close>,
  which the argument \<open>yaml\<close> stands for: the document, whose keys are strings, or \<open>YAMLError\<close>. The file
  system is asked for two things, the resolved form of a path and the bytes of a file. The build
  context of a service, which nothing reads, is left out, and so is logging.
\<close>

record file_system =
  fs_resolve :: "string \<Rightarrow> string"
  fs_read :: "string \<Rightarrow> bytes option"

type_synonym yaml = "string \<Rightarrow> pyval res"

section \<open>Paths\<close>

text \<open>\<open>str (Path (s))\<close>, and \<open>a / b\<close>; a leading pair of slashes is kept.\<close>

definition pure_path :: "string \<Rightarrow> string" where
  "pure_path s =
     (let root = (if startswith s ''//'' \<and> \<not> startswith s ''///'' then ''//'' else if startswith s ''/'' then ''/'' else [])
      in if root = [] \<and> path_parts s = [] then ''.'' else root @ join ''/'' (path_parts s))"

definition path_div :: "string \<Rightarrow> string \<Rightarrow> string" where
  "path_div a b = pure_path (if startswith b ''/'' then b else a @ ''/'' @ b)"

definition path_parent :: "string \<Rightarrow> string" where
  "path_parent p = (let dir = take (nat (rfind CHR ''/'' p)) p in if dir = [] then ''/'' else dir)"

definition path_name :: "string \<Rightarrow> string" where
  "path_name p = drop (nat (rfind CHR ''/'' p + 1)) p"

definition div_error :: "pyval \<Rightarrow> exc" where
  "div_error v = type_error (''unsupported operand type(s) for /: '' @ [CHR 0x27] @ ''PosixPath'' @ [CHR 0x27] @ '' and ''
     @ [CHR 0x27] @ type_name v @ [CHR 0x27])"

definition path_error :: "pyval \<Rightarrow> exc" where
  "path_error v = type_error (''expected str, bytes or os.PathLike object, not '' @ type_name v)"

section \<open>Services\<close>

text \<open>The checks on the document both functions make.\<close>

definition yaml_error :: "exc \<Rightarrow> bool" where
  "yaml_error e = (case e of PyError t m \<Rightarrow> t = ''YAMLError'' | _ \<Rightarrow> False)"

definition compose_services :: "string \<Rightarrow> dict \<Rightarrow> pyval \<Rightarrow> dict res" where
  "compose_services what context data =
     (case data of
        PDict d \<Rightarrow>
          (let services = dget_or d ''services'' PNone in
           if \<not> truthy services
           then Inl (ResolverError (what @ '' has no '' @ [CHR 0x27] @ ''services'' @ [CHR 0x27] @ '' key or services is empty'') context)
           else case services of
             PDict sv \<Rightarrow> Inr sv
           | _ \<Rightarrow> Inl (ResolverError ([CHR 0x27] @ ''services'' @ [CHR 0x27] @ '' must be a mapping, got '' @ type_name services) context))
      | _ \<Rightarrow> Inl (ResolverError (what @ '' must be a YAML mapping, got '' @ type_name data) context))"

definition image_service :: "string \<Rightarrow> pyval \<Rightarrow> compose_service" where
  "image_service name image_ref = \<lparr>cs_name = name, cs_image_ref = Some (str_of image_ref), cs_dockerfile_path = None\<rparr>"

text \<open>The Dockerfile of a \<open>build\<close> section; \<open>None\<close> when the section is neither a string nor a mapping.\<close>

definition build_dockerfile :: "file_system \<Rightarrow> string \<Rightarrow> pyval \<Rightarrow> string option res" where
  "build_dockerfile fs base_dir build =
     (case build of
        PStr b \<Rightarrow> Inr (Some (path_div (fs_resolve fs (path_div base_dir b)) ''Dockerfile''))
      | PDict d \<Rightarrow>
          (case dget_or d ''context'' (PStr ''.'') of
             PStr c \<Rightarrow>
               (let build_context = fs_resolve fs (path_div base_dir c); dockerfile = dget_or d ''dockerfile'' PNone in
                if truthy dockerfile then
                  (case dockerfile of
                     PStr f \<Rightarrow>
                       Inr (Some (if startswith f ''/'' then pure_path f else fs_resolve fs (path_div build_context f)))
                   | v \<Rightarrow> Inl (path_error v))
                else Inr (Some (path_div build_context ''Dockerfile'')))
           | v \<Rightarrow> Inl (div_error v))
      | _ \<Rightarrow> Inr None)"

fun compose_entries :: "file_system \<Rightarrow> string \<Rightarrow> dict \<Rightarrow> compose_service list res" where
  "compose_entries fs base_dir [] = Inr []"
| "compose_entries fs base_dir ((name, svc) # rest) =
     (case svc of
        PDict d \<Rightarrow>
          (let image_ref = dget_or d ''image'' PNone; build = dget_or d ''build'' PNone in
           if truthy image_ref then
             rbind (compose_entries fs base_dir rest) (\<lambda>ss. Inr (image_service name image_ref # ss))
           else if build \<noteq> PNone then
             rbind (build_dockerfile fs base_dir build) (\<lambda>path.
             rbind (compose_entries fs base_dir rest) (\<lambda>ss.
             Inr (case path of
                    None \<Rightarrow> ss
                  | Some p \<Rightarrow> \<lparr>cs_name = name, cs_image_ref = None, cs_dockerfile_path = Some p\<rparr> # ss)))
           else compose_entries fs base_dir rest)
      | _ \<Rightarrow> compose_entries fs base_dir rest)"

definition parse_compose :: "yaml \<Rightarrow> file_system \<Rightarrow> string \<Rightarrow> string option \<Rightarrow> compose_service list res" where
  "parse_compose yaml fs path base_dir =
     (let path = fs_resolve fs path; context = [(''path'', PStr path)] in
      case fs_read fs path of
        None \<Rightarrow> Inl (ResolverError (''Compose file not found: '' @ path) context)
      | Some bs \<Rightarrow>
          rbind (read_text bs) (\<lambda>text.
          case yaml text of
            Inl e \<Rightarrow> Inl (if yaml_error e then ResolverError (''Invalid YAML in '' @ path_name path @ '': '' @ exc_str e) context else e)
          | Inr data \<Rightarrow>
              rbind (compose_services ''Compose file'' context data) (\<lambda>services.
              compose_entries fs (case base_dir of None \<Rightarrow> path_parent path | Some b \<Rightarrow> b) services)))"

text \<open>From the content alone: services that are built are left out.\<close>

fun content_entries :: "dict \<Rightarrow> compose_service list" where
  "content_entries [] = []"
| "content_entries ((name, svc) # rest) =
     (case svc of
        PDict d \<Rightarrow>
          (let image_ref = dget_or d ''image'' PNone in
           if truthy image_ref then image_service name image_ref # content_entries rest else content_entries rest)
      | _ \<Rightarrow> content_entries rest)"

definition parse_compose_content :: "yaml \<Rightarrow> string \<Rightarrow> compose_service list res" where
  "parse_compose_content yaml content =
     (case yaml content of
        Inl e \<Rightarrow> Inl (if yaml_error e then ResolverError (''Invalid YAML in compose content: '' @ exc_str e) [] else e)
      | Inr data \<Rightarrow> rbind (compose_services ''Compose content'' [] data) (\<lambda>services. Inr (content_entries services)))"

end
