(* ===== verification/Archive.thy ===== *)
theory Archive
  imports Manifest_Cache
begin

text \<open>
  Archives of the \<open>tarfile\<close> library as the transfer modules use them. The compressed text of an
  archive is a parameter: \<open>tar_pack\<close> writes a list of members at some time, \<open>tar_unpack\<close> reads
  them. What is relied on is that reading an archive of plain files gives its members back.
  Extraction is defined: the safety filter of Python 3.12 and the checks the program makes on
  older versions, then the files in a fresh directory. Some inputs are outside the model and are
  read as an error of their own: a link or a device that passes the checks, and a name with \<open>..\<close>
  that stays inside the directory.
\<close>

section \<open>Archives\<close>

datatype member_kind = Regular bytes | Directory | Symlink string | Hardlink string | Special

type_synonym member = "string \<times> member_kind"

record tar_codec =
  tar_pack :: "instant \<Rightarrow> member list \<Rightarrow> bytes"
  tar_unpack :: "bytes \<Rightarrow> member list res"

definition plain_member :: "member \<Rightarrow> bool" where
  "plain_member m = (fst m \<noteq> [] \<and> last (fst m) \<noteq> CHR ''/'' \<and> CHR 0x00 \<notin> set (fst m) \<and> (\<exists>b. snd m = Regular b))"

definition tar_inverse :: "tar_codec \<Rightarrow> bool" where
  "tar_inverse T = (\<forall>now ms. list_all plain_member ms \<longrightarrow> tar_unpack T (tar_pack T now ms) = Inr ms)"

section \<open>Extraction\<close>

datatype tnode = TFile bytes | TDir

type_synonym tree = "(string list \<times> tnode) list"

text \<open>The directories of a path, from the top; the last one is the path itself.\<close>

fun make_dirs :: "tree \<Rightarrow> string list \<Rightarrow> string list \<Rightarrow> tree res" where
  "make_dirs t base [] = Inr t"
| "make_dirs t base (c # cs) =
     (case dget t (base @ [c]) of
        None \<Rightarrow> make_dirs (dset t (base @ [c]) TDir) (base @ [c]) cs
      | Some TDir \<Rightarrow> make_dirs t (base @ [c]) cs
      | Some (TFile b) \<Rightarrow> Inl (if cs = [] then file_exists_error else not_a_directory_error))"

definition put_file :: "tree \<Rightarrow> string list \<Rightarrow> bytes \<Rightarrow> tree res" where
  "put_file t path b =
     (if path = [] then Inl is_a_directory_error
      else rbind (make_dirs t [] (butlast path)) (\<lambda>t.
        if dget t path = Some TDir then Inl is_a_directory_error else Inr (dset t path (TFile b))))"

text \<open>Whether a relative path leaves the directory it starts \<open>n\<close> levels deep in.\<close>

fun escapes :: "nat \<Rightarrow> string list \<Rightarrow> bool" where
  "escapes n [] = False"
| "escapes n (c # cs) = (if c = ''..'' then n = 0 \<or> escapes (n - 1) cs else escapes (Suc n) cs)"

text \<open>The \<open>data\<close> filter of Python 3.12: the path to write to, or the error it raises.\<close>

definition data_filter :: "member \<Rightarrow> string list res" where
  "data_filter m =
     (let parts = path_parts (fst m) in
      if escapes 0 parts then Inl (PyError ''OutsideDestinationError'' (fst m))
      else case snd m of
        Special \<Rightarrow> Inl (PyError ''SpecialFileError'' (fst m))
      | Symlink l \<Rightarrow>
          if startswith l ''/'' then Inl (PyError ''AbsoluteLinkError'' (fst m))
          else if escapes 0 (butlast parts @ path_parts l) then Inl (PyError ''LinkOutsideDestinationError'' (fst m))
          else Inl not_modelled
      | Hardlink l \<Rightarrow>
          if startswith l ''/'' then Inl (PyError ''AbsoluteLinkError'' (fst m))
          else if escapes 0 (path_parts l) then Inl (PyError ''LinkOutsideDestinationError'' (fst m))
          else Inl not_modelled
      | _ \<Rightarrow> if ''..'' \<in> set parts then Inl not_modelled else Inr parts)"

definition extract_member :: "tree \<Rightarrow> string list \<Rightarrow> member_kind \<Rightarrow> tree res" where
  "extract_member t path kind =
     (case kind of Regular b \<Rightarrow> put_file t path b | Directory \<Rightarrow> make_dirs t [] path | _ \<Rightarrow> Inl not_modelled)"

fun extract_filtered :: "tree \<Rightarrow> member list \<Rightarrow> tree res" where
  "extract_filtered t [] = Inr t"
| "extract_filtered t (m # ms) =
     rbind (data_filter m) (\<lambda>path. rbind (extract_member t path (snd m)) (\<lambda>t. extract_filtered t ms))"

text \<open>Before Python 3.12 the program checks all members itself and extracts without a filter.\<close>

definition is_link :: "member_kind \<Rightarrow> bool" where
  "is_link k = (case k of Symlink _ \<Rightarrow> True | Hardlink _ \<Rightarrow> True | _ \<Rightarrow> False)"

definition unsafe_member :: "member \<Rightarrow> bool" where
  "unsafe_member m = (startswith (fst m) ''/'' \<or> str_in ''..'' (fst m) \<or> is_link (snd m))"

fun extract_all :: "tree \<Rightarrow> member list \<Rightarrow> tree res" where
  "extract_all t [] = Inr t"
| "extract_all t (m # ms) = rbind (extract_member t (path_parts (fst m)) (snd m)) (\<lambda>t. extract_all t ms)"

section \<open>Reading the extracted files\<close>

text \<open>The entries of a directory, and whether a path exists, in the order of the listing.\<close>

definition children :: "tree \<Rightarrow> string list \<Rightarrow> (string \<times> tnode) list" where
  "children t dir =
     map (\<lambda>(p, n). (last p, n)) (filter (\<lambda>(p, n). p \<noteq> [] \<and> butlast p = dir) t)"

definition below :: "tree \<Rightarrow> string list \<Rightarrow> (string list \<times> tnode) list" where
  "below t dir = map (\<lambda>(p, n). (drop (length dir) p, n)) (filter (\<lambda>(p, n). length dir < length p \<and> take (length dir) p = dir) t)"

end
