(* ===== verification/Crypto.thy ===== *)
theory Crypto
  imports Py_Codec Wordlist
begin

text \<open>
  \<open>shared/crypto.py\<close>: the mnemonic, key derivation, authenticated encryption, signatures, and
  the encrypted environment value. Random bytes are arguments. The \<open>cryptography\<close> package is
  a parameter: \<open>aead\<close> holds its AES-GCM and PBKDF2, of which the theorems assume only that
  opening what was sealed with the same key and nonce gives the data back, and the length of
  the derived key where that matters.
\<close>

unbundle bit_operations_syntax

section \<open>The third-party primitives\<close>

record aead =
  aes_new :: "bytes \<Rightarrow> unit res"
  aes_seal :: "bytes \<Rightarrow> bytes \<Rightarrow> bytes \<Rightarrow> bytes res"
  aes_open :: "bytes \<Rightarrow> bytes \<Rightarrow> bytes \<Rightarrow> bytes res"
  pbkdf2 :: "bytes \<Rightarrow> int \<Rightarrow> nat \<Rightarrow> bytes \<Rightarrow> bytes"

text \<open>Documented behaviour: decryption inverts encryption under the same key and nonce.\<close>

definition aead_inverse :: "aead \<Rightarrow> bool" where
  "aead_inverse A = (\<forall>k n p c. aes_seal A k n p = Inr c \<longrightarrow> aes_open A k n c = Inr p)"

section \<open>The mnemonic\<close>

definition entropy_to_indices :: "bytes \<Rightarrow> nat list" where
  "entropy_to_indices entropy =
     (let checksum = int (code (sha256 entropy ! 0));
          bits = push_bit 4 (int_from_be entropy) OR drop_bit 4 checksum
      in map (\<lambda>i. nat (drop_bit (11 * (11 - i)) bits AND 0x7FF)) [0..<12])"

definition salt_to_indices :: "bytes \<Rightarrow> nat list" where
  "salt_to_indices salt_bytes =
     (let value = int_from_be salt_bytes
      in map (\<lambda>i. nat (drop_bit (11 * (3 - i)) value AND 0x7FF)) [0..<4])"

definition generate_mnemonic :: "bytes \<Rightarrow> bytes \<Rightarrow> string" where
  "generate_mnemonic entropy salt_bytes =
     (let mnemonic_indices = entropy_to_indices entropy;
          salt_indices = salt_to_indices salt_bytes;
          all_indices = mnemonic_indices @ salt_indices
      in join '' '' (map (\<lambda>i. WORDLIST ! i) all_indices))"

text \<open>\<open>{w: i for i, w in enumerate (WORDLIST)}\<close>: of equal words the last index would win.\<close>

definition word_to_index :: "string \<rightharpoonup> nat" where
  "word_to_index = map_of (rev (zip WORDLIST [0..<length WORDLIST]))"

definition salt_word_index :: "string \<Rightarrow> int res" where
  "salt_word_index w = (case word_to_index w of
       None \<Rightarrow> Inl (CryptoError (''Unknown word in mnemonic: '' @ repr_str w) [])
     | Some i \<Rightarrow> Inr (int i))"

definition pack_indices :: "int list \<Rightarrow> int" where
  "pack_indices = foldl (\<lambda>value idx. push_bit 11 value OR idx) 0"

definition split_mnemonic :: "string \<Rightarrow> (string \<times> bytes) res" where
  "split_mnemonic mnemonic =
     (let words = split_ws (strip mnemonic) in
      if length words = 12 then
        Inl (CryptoError (''12-word mnemonic detected. Buncker now requires 16 words '' @
               ''(12 secret + 4 salt). Please run buncker setup again.'') [])
      else if length words \<noteq> 16 then
        Inl (CryptoError (''Expected 16-word mnemonic, got '' @ nat_str (length words) @ '' words'') [])
      else
        let mnemonic_part = join '' '' (take 12 words) in
        rbind (rmap salt_word_index (drop 12 words)) (\<lambda>salt_indices.
          let value = pack_indices salt_indices;
              raw_salt = be_bytes 6 value;
              salt = sha256 raw_salt
          in Inr (mnemonic_part, salt)))"

section \<open>Keys, encryption, signatures\<close>

definition derive_keys :: "aead \<Rightarrow> string \<Rightarrow> bytes \<Rightarrow> int \<Rightarrow> bytes \<times> bytes" where
  "derive_keys A mnemonic salt iterations =
     (let derived = pbkdf2 A salt iterations 64 (py_encode mnemonic)
      in (take 32 derived, drop 32 derived))"

definition encrypt :: "aead \<Rightarrow> bytes \<Rightarrow> bytes \<Rightarrow> bytes \<Rightarrow> bytes res" where
  "encrypt A nonce data aes_key =
     rbind (aes_new A aes_key) (\<lambda>_.
     rbind (aes_seal A aes_key nonce data) (\<lambda>ciphertext.
     Inr (nonce @ ciphertext)))"

definition is_decrypt_failure :: "exc \<Rightarrow> bool" where
  "is_decrypt_failure e = (case e of PyError t m \<Rightarrow> t = ''ValueError'' \<or> t = ''InvalidTag'' | _ \<Rightarrow> False)"

definition decrypt :: "aead \<Rightarrow> bytes \<Rightarrow> bytes \<Rightarrow> bytes res" where
  "decrypt A data aes_key =
     (if length data < 12 then Inl (CryptoError ''Data too short for AES-256-GCM'' [])
      else
        let nonce = take 12 data; ciphertext = drop 12 data in
        rbind (aes_new A aes_key) (\<lambda>_.
        case aes_open A aes_key nonce ciphertext of
          Inr p \<Rightarrow> Inr p
        | Inl e \<Rightarrow> if is_decrypt_failure e
                   then Inl (CryptoError ''Decryption failed'' [(''reason'', PStr (exc_str e))])
                   else Inl e))"

definition sign :: "bytes \<Rightarrow> bytes \<Rightarrow> string" where
  "sign data hmac_key = hex_str (hmac_sha256 hmac_key data)"

text \<open>
  \<open>hmac.compare_digest\<close> on two strings: equality, in constant time; it raises unless both are
  ASCII.
\<close>

definition compare_digest :: "string \<Rightarrow> string \<Rightarrow> bool res" where
  "compare_digest a b =
     (if is_ascii a \<and> is_ascii b then Inr (a = b)
      else Inl (type_error ''comparing strings with non-ASCII characters is not supported''))"

definition verify :: "bytes \<Rightarrow> bytes \<Rightarrow> string \<Rightarrow> bool res" where
  "verify data hmac_key signature = compare_digest (sign data hmac_key) signature"

section \<open>The environment value\<close>

definition ENV_KEY_SALT :: bytes where
  "ENV_KEY_SALT = ''buncker-env-v1''"

definition ENV_KEY_ITERATIONS :: int where
  "ENV_KEY_ITERATIONS = 600000"

definition derive_env_key ::
  "aead \<Rightarrow> (string \<rightharpoonup> bytes) \<Rightarrow> string \<Rightarrow> string option \<Rightarrow> bytes res" where
  "derive_env_key A files machine_id_path key_material_path =
     (case files machine_id_path of
        None \<Rightarrow> Inl (CryptoError (''Cannot derive env key: '' @ machine_id_path @ '' not found. '' @
                       ''Set BUNCKER_MNEMONIC environment variable directly.'') [])
      | Some raw \<Rightarrow>
        rbind (read_text raw) (\<lambda>text.
        let machine_id = py_encode (strip text) in
        if machine_id = [] then Inl (CryptoError (''Empty machine-id at '' @ machine_id_path) [])
        else
          let key_input =
            (case key_material_path of
               None \<Rightarrow> machine_id
             | Some km_path \<Rightarrow>
                 (case files km_path of
                    None \<Rightarrow> machine_id
                  | Some km \<Rightarrow>
                      let km_data = strip_by bytes_space km
                      in if km_data \<noteq> [] then machine_id @ km_data else machine_id))
          in Inr (pbkdf2 A ENV_KEY_SALT ENV_KEY_ITERATIONS 32 key_input)))"

definition encrypt_env_value ::
  "aead \<Rightarrow> (string \<rightharpoonup> bytes) \<Rightarrow> bytes \<Rightarrow> string \<Rightarrow> string \<Rightarrow> string option \<Rightarrow> string res" where
  "encrypt_env_value A files nonce value machine_id_path key_material_path =
     rbind (derive_env_key A files machine_id_path key_material_path) (\<lambda>key.
     rbind (encrypt A nonce (py_encode value) key) (\<lambda>ct.
     Inr (b64encode ct)))"

definition decrypt_env_value ::
  "aead \<Rightarrow> (string \<rightharpoonup> bytes) \<Rightarrow> string \<Rightarrow> string \<Rightarrow> string option \<Rightarrow> string res" where
  "decrypt_env_value A files encrypted_b64 machine_id_path key_material_path =
     rbind (derive_env_key A files machine_id_path key_material_path) (\<lambda>key.
     rbind (b64decode encrypted_b64) (\<lambda>ct.
     case rbind (decrypt A ct key) py_decode of
       Inr s \<Rightarrow> Inr s
     | Inl (BunckerError KCrypto m c) \<Rightarrow>
         Inl (CryptoError (''Failed to decrypt mnemonic from env file. '' @
                ''This may happen after migrating to a different machine. '' @
                ''Set BUNCKER_MNEMONIC environment variable directly.'') [])
     | Inl e \<Rightarrow> Inl e))"

section \<open>Groups of eleven bits\<close>

definition bit_groups :: "nat \<Rightarrow> nat \<Rightarrow> int \<Rightarrow> int list" where
  "bit_groups k n x = map (\<lambda>i. take_bit k (drop_bit (k * (n - 1 - i)) x)) [0..<n]"

lemma bit_groups_Suc: "bit_groups k (Suc n) x = bit_groups k n (drop_bit k x) @ [take_bit k x]"
proof -
  have "take_bit k (drop_bit (k * (n - i)) x) = take_bit k (drop_bit (k * (n - 1 - i)) (drop_bit k x))"
    if "i < n" for i
  proof -
    from that have "k * (n - i) = k * (n - 1 - i) + k" by (cases n) (auto simp: Suc_diff_le)
    then show ?thesis by (simp add: ac_simps)
  qed
  then show ?thesis by (auto simp: bit_groups_def)
qed

lemma fold_bit_groups:
  "foldl (\<lambda>v i. push_bit k v OR i) 0 (bit_groups k n x) = take_bit (k * n) x"
proof (induction n arbitrary: x)
  case 0
  then show ?case by (simp add: bit_groups_def)
next
  case (Suc n)
  have "push_bit k (take_bit (k * n) (drop_bit k x)) OR take_bit k x = take_bit (k + k * n) x"
    by (rule bit_eqI) (auto simp: bit_simps)
  then show ?case using Suc by (simp add: bit_groups_Suc)
qed

lemma mask_11: "x AND 0x7FF = take_bit 11 x" for x :: int
  by (simp add: take_bit_eq_mask mask_eq_exp_minus_1)

lemma entropy_indices_groups:
  "map int (entropy_to_indices e) =
     bit_groups 11 12 (push_bit 4 (int_from_be e) OR drop_bit 4 (int (code (sha256 e ! 0))))"
  by (simp add: entropy_to_indices_def bit_groups_def mask_11 Let_def)

lemma salt_indices_groups: "map int (salt_to_indices s) = bit_groups 11 4 (int_from_be s)"
  by (simp add: salt_to_indices_def bit_groups_def mask_11 Let_def)

lemma bit_groups_bound: "v \<in> set (bit_groups k n x) \<Longrightarrow> 0 \<le> v \<and> v < 2 ^ k"
  by (auto simp: bit_groups_def)

lemma map_int_bound: "map int ns = bit_groups 11 n x \<Longrightarrow> i \<in> set ns \<Longrightarrow> i < 2048"
proof -
  assume a: "map int ns = bit_groups 11 n x" "i \<in> set ns"
  then have "int i \<in> set (bit_groups 11 n x)" by (metis imageI set_map)
  from bit_groups_bound[OF this] show "i < 2048" by simp
qed

lemmas entropy_index_bound = map_int_bound[OF entropy_indices_groups]
lemmas salt_index_bound = map_int_bound[OF salt_indices_groups]

lemma length_indices [simp]: "length (entropy_to_indices e) = 12" "length (salt_to_indices s) = 4"
  by (simp_all add: entropy_to_indices_def salt_to_indices_def Let_def)

lemma word_to_index_nth: "i < 2048 \<Longrightarrow> word_to_index (WORDLIST ! i) = Some i"
proof -
  assume i: "i < 2048"
  let ?z = "zip WORDLIST [0..<length WORDLIST]"
  have "distinct (map fst (rev ?z))" using distinct_WORDLIST by (simp add: rev_map[symmetric])
  moreover have "(WORDLIST ! i, i) \<in> set (rev ?z)" using i by (auto simp: set_zip)
  ultimately show ?thesis by (simp add: word_to_index_def)
qed

lemma nth_WORDLIST_word: "i < 2048 \<Longrightarrow> WORDLIST ! i \<noteq> [] \<and> (\<forall>c \<in> set (WORDLIST ! i). \<not> is_space c)"
  by (rule plain_word_no_space, rule plain_WORDLIST) (simp add: nth_mem)

text \<open>A line of list words splits into the words, and the words give the indices back.\<close>

lemma split_words:
  "\<forall>i \<in> set ns. i < 2048 \<Longrightarrow>
     split_ws (strip (join '' '' (map (\<lambda>i. WORDLIST ! i) ns))) = map (\<lambda>i. WORDLIST ! i) ns"
  by (rule split_ws_strip_join) (auto dest: nth_WORDLIST_word)

lemma salt_word_indices:
  "\<forall>i \<in> set ns. i < 2048 \<Longrightarrow> rmap salt_word_index (map (\<lambda>i. WORDLIST ! i) ns) = Inr (map int ns)"
  by (induction ns) (auto simp: salt_word_index_def word_to_index_nth)

lemma pack_salt_indices: "pack_indices (map int (salt_to_indices s)) = int_from_be s mod 2 ^ 44"
  by (simp add: salt_indices_groups pack_indices_def fold_bit_groups take_bit_eq_mod)

lemma mnemonic_indices_bound: "\<forall>i \<in> set (entropy_to_indices e @ salt_to_indices s). i < 2048"
  using entropy_index_bound salt_index_bound by auto

text \<open>
  The mnemonic carries both secrets: splitting a generated mnemonic gives the twelve words
  of the entropy and the hash of exactly the 44 bits of salt that the last four words hold, for
  any random bytes. Both sides of the air gap thus derive their keys from the same pair.
\<close>

theorem split_generate_mnemonic:
  "split_mnemonic (generate_mnemonic entropy salt_bytes) =
     Inr (join '' '' (map (\<lambda>i. WORDLIST ! i) (entropy_to_indices entropy)),
          sha256 (be_bytes 6 (int_from_be salt_bytes mod 2 ^ 44)))"
proof -
  have b: "\<forall>i \<in> set (salt_to_indices salt_bytes). i < 2048" using salt_index_bound by blast
  show ?thesis
    using split_words[OF mnemonic_indices_bound[of entropy salt_bytes]] salt_word_indices[OF b]
    by (simp add: split_mnemonic_def generate_mnemonic_def Let_def pack_salt_indices)
qed

lemma entropy_bits_bound:
  assumes "length e = 16"
  shows "take_bit 132 (push_bit 4 (int_from_be e) OR drop_bit 4 (int (code b)))
           = int_from_be e * 16 + int (code b) div 16"
proof -
  have c: "0 \<le> int (code b) div 16" "int (code b) div 16 < 16" using code_less[of b] by auto
  have "push_bit 4 (int_from_be e) OR drop_bit 4 (int (code b)) = int_from_be e * 16 + int (code b) div 16"
  proof -
    have "take_bit 4 (int (code b) div 16) = int (code b) div 16"
      using c by (simp add: take_bit_eq_mod)
    moreover have "push_bit 4 (int_from_be e) AND take_bit 4 (int (code b) div 16) = 0"
      by (rule bit_eqI) (auto simp: bit_simps)
    ultimately have "push_bit 4 (int_from_be e) AND (int (code b) div 16) = 0" by simp
    then show ?thesis by (simp add: disjunctive_add_eq_or[symmetric] push_bit_eq_mult drop_bit_eq_div)
  qed
  moreover have "0 \<le> int_from_be e" "int_from_be e < 256 ^ 16"
    using int_from_be_bounds[of e] assms by auto
  ultimately show ?thesis using c by (simp add: take_bit_eq_mod)
qed

text \<open>
  The entropy is recoverable from the twelve indices: reading them as digits of base 2048
  gives the 128 bits of entropy followed by the four checksum bits.
\<close>

theorem entropy_from_indices:
  assumes "length entropy = 16"
  shows "foldl (\<lambda>v i. push_bit 11 v OR i) 0 (map int (entropy_to_indices entropy))
           = int_from_be entropy * 16 + int (code (sha256 entropy ! 0)) div 16"
  using entropy_bits_bound[OF assms] by (simp add: entropy_indices_groups fold_bit_groups)

theorem entropy_from_indices_witness:
  "foldl (\<lambda>v i. push_bit 11 v OR i) 0 (map int (entropy_to_indices (replicate 16 CHR 0xFF)))
     = int_from_be (replicate 16 CHR 0xFF) * 16 + int (code (sha256 (replicate 16 CHR 0xFF) ! 0)) div 16"
  by (rule entropy_from_indices) simp

lemma decrypt_inverts:
  assumes "aead_inverse A" and "length nonce = 12" and "encrypt A nonce data key = Inr c"
  shows "decrypt A c key = Inr data"
  using assms by (auto simp: encrypt_def decrypt_def aead_inverse_def rbind_Inr_iff Let_def)

text \<open>
  Decryption inverts encryption, whatever the data, the key and the nonce of twelve bytes.
\<close>

theorem decrypt_encrypt:
  assumes "aead_inverse A" and "length nonce = 12" and "encrypt A nonce data key = Inr c"
  shows "decrypt A c key = Inr data"
  using assms by (rule decrypt_inverts)

definition toy_tag :: "bytes \<Rightarrow> bytes" where
  "toy_tag k = take 16 (k @ replicate 16 CHR 0x00)"

definition toy_aead :: aead where
  "toy_aead = \<lparr>aes_new = (\<lambda>k. if length k = 32 then Inr () else Inl (value_error ''key size'')),
     aes_seal = (\<lambda>k n p. Inr (p @ toy_tag k)),
     aes_open = (\<lambda>k n c. if 16 \<le> length c \<and> drop (length c - 16) c = toy_tag k
                      then Inr (take (length c - 16) c) else Inl (PyError ''InvalidTag'' '''')),
     pbkdf2 = (\<lambda>s i n m. take n (sha256 (s @ m) @ sha256 (m @ s)))\<rparr>"

lemma length_toy_tag [simp]: "length (toy_tag k) = 16"
  by (simp add: toy_tag_def)

lemma toy_aead_inverse: "aead_inverse toy_aead"
  unfolding aead_inverse_def toy_aead_def by auto

theorem decrypt_encrypt_witness:
  "decrypt toy_aead (replicate 12 CHR ''n'' @ ''secret'' @ toy_tag (replicate 32 CHR ''k'')) (replicate 32 CHR ''k'')
     = Inr ''secret''"
  by (rule decrypt_encrypt[OF toy_aead_inverse, where nonce = "replicate 12 CHR ''n''"])
    (simp_all add: encrypt_def toy_aead_def)

lemma is_ascii_hex_str [simp]: "is_ascii (hex_str bs)"
proof -
  have "\<forall>c \<in> set hex_chars. code c < 128" by code_simp
  then show ?thesis using set_hex_str[of bs] by (auto simp: is_ascii_def list_all_iff)
qed

text \<open>
  A signature verifies exactly when it is the HMAC of the data: every other ASCII string is
  rejected and no other text is accepted.
\<close>

theorem verify_iff:
  "verify data key signature = Inr True \<longleftrightarrow> signature = sign data key"
  by (auto simp: verify_def compare_digest_def sign_def split: if_splits)

text \<open>
  The daemon recovers the mnemonic the setup stored, as long as the machine identity and
  the key material are the same files.
\<close>

theorem env_value_roundtrip:
  assumes "aead_inverse A" and "length nonce = 12"
    and "encrypt_env_value A files nonce value mid km = Inr stored"
  shows "decrypt_env_value A files stored mid km = Inr value"
proof -
  from assms(3) obtain key ct where k: "derive_env_key A files mid km = Inr key"
    "encrypt A nonce (py_encode value) key = Inr ct" "stored = b64encode ct"
    by (auto simp: encrypt_env_value_def rbind_Inr_iff)
  from decrypt_inverts[OF assms(1,2) k(2)] have "decrypt A ct key = Inr (py_encode value)" .
  with k show ?thesis by (simp add: decrypt_env_value_def)
qed

lemma toy_env_key:
  "derive_env_key toy_aead [''/etc/machine-id'' \<mapsto> ''0f2a''] ''/etc/machine-id'' None
     = Inr (pbkdf2 toy_aead ENV_KEY_SALT ENV_KEY_ITERATIONS 32 ''0f2a'')"
proof -
  have "read_text ''0f2a'' = Inr ''0f2a''" "py_encode (strip ''0f2a'') = ''0f2a''" by code_simp+
  then show ?thesis by (simp add: derive_env_key_def Let_def)
qed

theorem env_value_roundtrip_witness:
  "decrypt_env_value toy_aead [''/etc/machine-id'' \<mapsto> ''0f2a'']
     (b64encode (replicate 12 CHR ''n'' @ ''abandon zoo'' @
        toy_tag (pbkdf2 toy_aead ENV_KEY_SALT ENV_KEY_ITERATIONS 32 ''0f2a'')))
     ''/etc/machine-id'' None = Inr ''abandon zoo''"
proof (rule env_value_roundtrip[OF toy_aead_inverse, where nonce = "replicate 12 CHR ''n''"])
  have "length (pbkdf2 toy_aead ENV_KEY_SALT ENV_KEY_ITERATIONS 32 ''0f2a'') = 32"
    by (simp add: toy_aead_def)
  moreover have "py_encode ''abandon zoo'' = ''abandon zoo''" by code_simp
  ultimately show "encrypt_env_value toy_aead [''/etc/machine-id'' \<mapsto> ''0f2a''] (replicate 12 CHR ''n'')
      ''abandon zoo'' ''/etc/machine-id'' None
    = Inr (b64encode (replicate 12 CHR ''n'' @ ''abandon zoo'' @
        toy_tag (pbkdf2 toy_aead ENV_KEY_SALT ENV_KEY_ITERATIONS 32 ''0f2a'')))"
    unfolding encrypt_env_value_def toy_env_key by (simp add: encrypt_def) (simp add: toy_aead_def)
qed simp

end
