(* ===== verification/Transfer_Server.thy ===== *)
theory Transfer_Server
  imports Archive Crypto Py_Json_File
begin

text \<open>
  \<open>buncker/transfer.py\<close>: the transfer files of the offline side, written as encrypted requests
  and read as encrypted responses. The state is the store, which holds the manifest cache too,
  and the directory \<open>updates\<close>. The order in which the operating system lists the extracted files
  is the argument \<open>ls\<close>, the time of the i-th import \<open>clock i\<close>. Logging is left out.
\<close>

section \<open>Requests\<close>

definition stamp :: "instant \<Rightarrow> string" where
  "stamp t = filter (\<lambda>c. c \<notin> set ''-:'') (take 19 (isoformat t)) @ ''Z''"

definition request_data :: "instant \<Rightarrow> string \<Rightarrow> string \<Rightarrow> pyval list \<Rightarrow> pyval" where
  "request_data now buncker_version source_id missing_blobs =
     PDict [(''version'', PStr ''1''), (''buncker_version'', PStr buncker_version),
            (''generated_at'', PStr (isoformat now)), (''source_id'', PStr source_id), (''blobs'', PList missing_blobs)]"

text \<open>JSON, a line break and the signature in hexadecimal, encrypted.\<close>

definition seal :: "aead \<Rightarrow> bytes \<Rightarrow> bytes \<Rightarrow> bytes \<Rightarrow> bytes \<Rightarrow> bytes res" where
  "seal A nonce data aes_key hmac_key =
     (let signature = sign data hmac_key; signed_data = data @ [CHR 0x0A] @ py_encode signature
      in encrypt A nonce signed_data aes_key)"

definition generate_request ::
  "aead \<Rightarrow> bytes \<Rightarrow> instant \<Rightarrow> instant \<Rightarrow> pyval list \<Rightarrow> bytes \<Rightarrow> bytes \<Rightarrow> string \<Rightarrow> string \<Rightarrow> (string \<times> bytes) res" where
  "generate_request A nonce now now' missing_blobs aes_key hmac_key source_id buncker_version =
     rbind (seal A nonce (py_encode (json_dumps False (request_data now buncker_version source_id missing_blobs))) aes_key hmac_key)
       (\<lambda>encrypted. Inr (''buncker-request-'' @ stamp now' @ ''-'' @ source_id @ ''.json.enc'', encrypted))"

section \<open>Responses\<close>

record offline =
  off_store :: store
  off_updates :: "(string \<times> bytes) list"

record import_summary =
  is_imported :: nat
  is_skipped :: nat
  is_errors :: "pyval list"
  is_update_deb :: "string option"

text \<open>The signed data and the signature behind the last line break.\<close>

definition ascii_decode :: "bytes \<Rightarrow> string res" where
  "ascii_decode bs = (if is_ascii bs then Inr bs else Inl unicode_error)"

definition open_response :: "aead \<Rightarrow> bytes \<Rightarrow> bytes \<Rightarrow> bytes \<Rightarrow> string \<Rightarrow> bytes res" where
  "open_response A encrypted_data aes_key hmac_key response_path =
     (case decrypt A encrypted_data aes_key of
        Inl (BunckerError KCrypto m c) \<Rightarrow>
          Inl (TransferError ''Failed to decrypt transfer response'' [(''path'', PStr response_path)])
      | Inl e \<Rightarrow> Inl e
      | Inr decrypted \<Rightarrow>
          let last_newline = rfind CHR 0x0A decrypted in
          if last_newline = -1 then Inl (TransferError ''Invalid transfer response format - no HMAC signature found'' [])
          else
            let tar_bytes = take (nat last_newline) decrypted in
            case ascii_decode (drop (nat (last_newline + 1)) decrypted) of
              Inl e \<Rightarrow> Inl (TransferError ''Invalid HMAC signature encoding - transfer response is corrupted'' [])
            | Inr sig \<Rightarrow>
                rbind (verify tar_bytes hmac_key sig) (\<lambda>ok.
                if ok then Inr tar_bytes
                else Inl (TransferError ''HMAC verification failed - transfer response is tampered'' [])))"

definition rejected_names :: "string list" where
  "rejected_names = [''FilterError'', ''OutsideDestinationError'', ''AbsolutePathError'', ''LinkOutsideDestinationError'']"

definition extract_tar :: "tar_codec \<Rightarrow> bool \<Rightarrow> bytes \<Rightarrow> tree res" where
  "extract_tar T py312 tar_bytes =
     rbind (tar_unpack T tar_bytes) (\<lambda>members.
     if py312 then
       (case extract_filtered [] members of
          Inl (PyError t m) \<Rightarrow>
            if t \<in> set rejected_names then Inl (TransferError (''Unsafe tar member rejected: '' @ m) []) else Inl (PyError t m)
        | r \<Rightarrow> r)
     else
       (case find unsafe_member members of
          Some m \<Rightarrow> Inl (TransferError (''Unsafe tar member rejected: '' @ fst m) [])
        | None \<Rightarrow> extract_all [] members))"

definition read_tree :: "tnode \<Rightarrow> bytes res" where
  "read_tree n = (case n of TFile b \<Rightarrow> Inr b | TDir \<Rightarrow> Inl is_a_directory_error)"

definition read_json_text :: "tnode \<Rightarrow> pyval res" where
  "read_json_text n = rbind (read_tree n) load_text"

definition has_get :: "pyval \<Rightarrow> unit res" where
  "has_get v = rbind (vget v ''digest'' PNone) (\<lambda>_. Inr ())"

text \<open>\<open>ERRORS.json\<close>: the errors of the online side, when the file is there and parses.\<close>

definition fetch_errors :: "tree \<Rightarrow> pyval list res" where
  "fetch_errors t =
     (case dget t [''ERRORS.json''] of
        None \<Rightarrow> Inr []
      | Some n \<Rightarrow>
          (case read_json_text n of
             Inl e \<Rightarrow> if is_json_error e then Inr [] else Inl e
           | Inr v \<Rightarrow> rbind (viter v) (\<lambda>errs. rbind (rmap has_get errs) (\<lambda>_. Inr errs))))"

definition octet_stream :: string where
  "octet_stream = ''application/octet-stream''"

definition blob_error :: "string \<Rightarrow> string \<Rightarrow> pyval" where
  "blob_error digest m = PDict [(''digest'', PStr digest), (''error'', PStr m)]"

fun import_files ::
  "store \<Rightarrow> (nat \<Rightarrow> instant) \<Rightarrow> nat \<Rightarrow> (string \<times> tnode) list \<Rightarrow> (nat \<times> nat \<times> pyval list) \<times> store" where
  "import_files s clock i [] = ((0, 0, []), s)"
| "import_files s clock i ((name, TDir) # fs) = import_files s clock i fs"
| "import_files s clock i ((digest_hex, TFile data) # fs) =
     (let digest = ''sha256:'' @ digest_hex in
      if sha256_hex data \<noteq> digest_hex then
        (let ((n, k, errs), s) = import_files s clock i fs
         in ((n, Suc k, blob_error digest ''SHA256 mismatch'' # errs), s))
      else
        (case import_blob s (clock i) data digest octet_stream None of
           (Inr _, s) \<Rightarrow> (let ((n, k, errs), s) = import_files s clock (Suc i) fs in ((Suc n, k, errs), s))
         | (Inl e, s) \<Rightarrow>
             (let ((n, k, errs), s) = import_files s clock (Suc i) fs
              in ((n, Suc k, blob_error digest (exc_str e) # errs), s))))"

definition import_blobs :: "store \<Rightarrow> (nat \<Rightarrow> instant) \<Rightarrow> tree \<Rightarrow> (nat \<times> nat \<times> pyval list) res \<times> store" where
  "import_blobs s clock t =
     (case dget t [''blobs'', ''sha256''] of
        None \<Rightarrow> (Inr (0, 0, []), s)
      | Some (TFile b) \<Rightarrow> (Inl not_a_directory_error, s)
      | Some TDir \<Rightarrow> (case import_files s clock 0 (children t [''blobs'', ''sha256'']) of (r, s) \<Rightarrow> (Inr r, s)))"

section \<open>Manifests and updates\<close>

text \<open>A value that is no dictionary fails after the directories are made.\<close>

definition cache_value ::
  "store \<Rightarrow> instant \<Rightarrow> string \<Rightarrow> string \<Rightarrow> string \<Rightarrow> string \<Rightarrow> pyval \<Rightarrow> string list res \<times> store" where
  "cache_value s now registry repository tag platform v =
     (case v of
        PDict d \<Rightarrow> cache_manifest s now registry repository tag platform d
      | _ \<Rightarrow>
          (case mkdirs (man_entries s) [] (cache_dir_of registry repository tag) of
             Inl e \<Rightarrow> (Inl e, s)
           | Inr ms \<Rightarrow> (Inl (attr_error v ''items''), s\<lparr>st_manifests := Some ms\<rparr>)))"

definition is_value_error :: "exc \<Rightarrow> bool" where
  "is_value_error e = (case e of PyError t m \<Rightarrow> t \<in> {''JSONDecodeError'', ''ValueError'', ''UnicodeDecodeError'', ''IndexError''} | _ \<Rightarrow> False)"

definition platform_of_file :: "string \<Rightarrow> string" where
  "platform_of_file name = replace_char CHR ''-'' CHR ''/'' (str_replace ''.json'' [] name)"

text \<open>One file of the response: registry, repository, tag and platform are read off its path.\<close>

definition cache_file :: "store \<Rightarrow> instant \<Rightarrow> string list \<Rightarrow> tnode \<Rightarrow> unit res \<times> store" where
  "cache_file s now parts n =
     (case read_json_text n of
        Inl e \<Rightarrow> (if is_value_error e then Inr () else Inl e, s)
      | Inr manifest \<Rightarrow>
          if 4 \<le> length parts then
            (let k = length parts in
             case cache_value s now (parts ! 0) (join ''/'' (take (k - 3) (drop 1 parts))) (parts ! (k - 2))
                    (platform_of_file (parts ! (k - 1))) manifest of
               (Inl e, s) \<Rightarrow> (if is_value_error e then Inr () else Inl e, s)
             | (Inr _, s) \<Rightarrow> (Inr (), s))
          else (Inr (), s))"

fun cache_files :: "store \<Rightarrow> instant \<Rightarrow> (string list \<times> tnode) list \<Rightarrow> unit res \<times> store" where
  "cache_files s now [] = (Inr (), s)"
| "cache_files s now ((parts, n) # fs) =
     (case cache_file s now parts n of
        (Inl e, s) \<Rightarrow> (Inl e, s)
      | (Inr _, s) \<Rightarrow> cache_files s now fs)"

definition cache_manifests_from_response :: "store \<Rightarrow> instant \<Rightarrow> tree \<Rightarrow> unit res \<times> store" where
  "cache_manifests_from_response s now t =
     cache_files s now (filter (\<lambda>(parts, n). endswith (last parts) ''.json'') (below t [''manifests'']))"

definition extract_deb_update :: "offline \<Rightarrow> tree \<Rightarrow> string option \<times> offline" where
  "extract_deb_update off t =
     (case find (\<lambda>(name, n). n \<noteq> TDir \<and> endswith name ''.deb'') (children t []) of
        Some (name, TFile b) \<Rightarrow>
          (Some (st_path (off_store off) @ ''/updates/'' @ name), off\<lparr>off_updates := dset (off_updates off) name b\<rparr>)
      | _ \<Rightarrow> (None, off))"

definition import_response ::
  "aead \<Rightarrow> tar_codec \<Rightarrow> bool \<Rightarrow> (tree \<Rightarrow> tree) \<Rightarrow> (nat \<Rightarrow> instant) \<Rightarrow> offline \<Rightarrow> string \<Rightarrow> bytes \<Rightarrow> bytes \<Rightarrow> bytes \<Rightarrow> bool \<Rightarrow>
   import_summary res \<times> offline" where
  "import_response A T py312 ls clock off response_path encrypted_data aes_key hmac_key with_cache =
     (case rbind (open_response A encrypted_data aes_key hmac_key response_path) (extract_tar T py312) of
        Inl e \<Rightarrow> (Inl e, off)
      | Inr extracted \<Rightarrow>
          let t = ls extracted in
          (case fetch_errors t of
             Inl e \<Rightarrow> (Inl e, off)
           | Inr errs \<Rightarrow>
               (case import_blobs (off_store off) clock t of
                  (Inl e, s) \<Rightarrow> (Inl e, off\<lparr>off_store := s\<rparr>)
                | (Inr (imported, skipped, blob_errs), s) \<Rightarrow>
                    (case (if with_cache then cache_manifests_from_response s (clock (length t)) t else (Inr (), s)) of
                       (Inl e, s) \<Rightarrow> (Inl e, off\<lparr>off_store := s\<rparr>)
                     | (Inr _, s) \<Rightarrow>
                         (case extract_deb_update (off\<lparr>off_store := s\<rparr>) t of
                            (deb, off) \<Rightarrow>
                              (Inr \<lparr>is_imported = imported, is_skipped = skipped, is_errors = errs @ blob_errs,
                                    is_update_deb = deb\<rparr>, off))))))"

definition summary_dict :: "import_summary \<Rightarrow> dict" where
  "summary_dict r =
     [(''imported'', PInt (int (is_imported r))), (''skipped'', PInt (int (is_skipped r))), (''errors'', PList (is_errors r))]
     @ (case is_update_deb r of None \<Rightarrow> [] | Some p \<Rightarrow> [(''update_deb'', PStr p)])"

end
