(* ===== verification/Py_Query.thy ===== *)
theory Py_Query
  imports Py_Url Py_Json_Loads
begin

text \<open>
  Numbers and query strings as the request handler reads them: \<open>int\<close> of a string, and
  \<open>urllib.parse.parse_qs (urlparse (url).query)\<close>. A query that decodes to characters beyond code
  point 255, or not at all, is outside the model.
\<close>

section \<open>Integers\<close>

text \<open>Digits, with single underscores between them.\<close>

definition int_digits :: "string \<Rightarrow> string option" where
  "int_digits s =
     (let parts = split_on CHR ''_'' s in
      if list_all (\<lambda>p. p \<noteq> [] \<and> list_all is_digit p) parts \<and> length (concat parts) \<le> int_limit then Some (concat parts) else None)"

definition py_int :: "string \<Rightarrow> int option" where
  "py_int s =
     (let t = strip s; neg = startswith t ''-''; u = (if neg \<or> startswith t ''+'' then drop 1 t else t) in
      map_option (\<lambda>ds. (if neg then - 1 else 1) * int (digits_val ds)) (int_digits u))"

section \<open>Query strings\<close>

definition url_query :: "(string \<Rightarrow> bool) \<Rightarrow> string \<Rightarrow> string res" where
  "url_query bracket_ok url =
     rbind (split_netloc bracket_ok (snd (split_scheme (url_clean url)))) (\<lambda>rest.
     let rest = before CHR ''#'' rest in
     Inr (if CHR ''?'' \<in> set rest then after CHR ''?'' rest else []))"

fun hex_val :: "char \<Rightarrow> nat option" where
  "hex_val c =
     (if is_digit c then Some (code c - 48)
      else if 65 \<le> code c \<and> code c \<le> 70 then Some (code c - 55)
      else if 97 \<le> code c \<and> code c \<le> 102 then Some (code c - 87) else None)"

fun unquote_bytes :: "string \<Rightarrow> bytes" where
  "unquote_bytes (c # d # e # s) =
     (if c = CHR ''%'' then
        (case (hex_val d, hex_val e) of
           (Some a, Some b) \<Rightarrow> char_of (16 * a + b) # unquote_bytes s
         | _ \<Rightarrow> c # unquote_bytes (d # e # s))
      else c # unquote_bytes (d # e # s))"
| "unquote_bytes s = s"

text \<open>The runs of ASCII characters are decoded, the others are left alone.\<close>

function unquote_runs :: "string \<Rightarrow> string res" where
  "unquote_runs s =
     (if s = [] then Inr []
      else if code (hd s) < 128 then
        (case py_decode (unquote_bytes (takeWhile (\<lambda>c. code c < 128) s)) of
           Inl e \<Rightarrow> Inl not_modelled
         | Inr t \<Rightarrow> rbind (unquote_runs (dropWhile (\<lambda>c. code c < 128) s)) (\<lambda>r. Inr (t @ r)))
      else rbind (unquote_runs (tl s)) (\<lambda>r. Inr (hd s # r)))"
  by auto
termination
proof (relation "measure length")
  fix s :: string and t
  assume "s \<noteq> []" "code (hd s) < 128"
  then show "(dropWhile (\<lambda>c. code c < 128) s, s) \<in> measure length"
    using length_dropWhile_le[of "\<lambda>c. code c < 128" "tl s"] by (cases s) auto
qed auto

declare unquote_runs.simps [simp del]

definition unquote :: "string \<Rightarrow> string res" where
  "unquote s = (if CHR ''%'' \<in> set s then unquote_runs s else Inr s)"

definition query_field :: "string \<Rightarrow> string res" where
  "query_field s = unquote (replace_char CHR ''+'' CHR '' '' s)"

text \<open>The names and values in order; a part without a value is dropped.\<close>

definition query_pairs :: "string \<Rightarrow> (string \<times> string) list res" where
  "query_pairs qs =
     rmap (\<lambda>p. rbind (query_field (before CHR ''='' p)) (\<lambda>k. rbind (query_field (after CHR ''='' p)) (\<lambda>v. Inr (k, v))))
       (filter (\<lambda>p. CHR ''='' \<in> set p \<and> after CHR ''='' p \<noteq> []) (split_on CHR ''&'' qs))"

text \<open>\<open>params.get (name, [default])[0]\<close>.\<close>

definition query_first :: "(string \<Rightarrow> bool) \<Rightarrow> string \<Rightarrow> string \<Rightarrow> string option res" where
  "query_first bracket_ok url name =
     rbind (url_query bracket_ok url) (\<lambda>q. rbind (query_pairs q) (\<lambda>ps. Inr (map_of ps name)))"

end
