(* ===== verification/Handler_State.thy ===== *)
theory Handler_State
  imports Handler_OCI Compose Transfer_Server Py_Query
begin

text \<open>
  \<open>buncker/handler.py\<close> and \<open>buncker/server.py\<close>: the state the administration endpoints share, and the
  helpers they use. The daemon holds the store and its update directory, the uploads in progress and
  the last analysis with its identifier. What an endpoint asks of the world outside is the record
  \<open>world\<close>: the time, the disk, files, random values, the libraries that are parameters. An endpoint
  takes the request and the bytes of its body; a lock makes each one step.
\<close>

record disk_usage =
  du_total :: nat
  du_used :: nat
  du_free :: nat

record world =
  wd_now :: instant
  wd_clock :: "nat \<Rightarrow> instant"
  wd_disk :: disk_usage
  wd_fs :: file_system
  wd_tmp :: string
  wd_uuid :: string
  wd_nonce :: bytes
  wd_aead :: aead
  wd_tar :: tar_codec
  wd_py312 :: bool
  wd_yaml :: yaml
  wd_ls :: "tree \<Rightarrow> tree"
  wd_set_order :: "string set \<Rightarrow> string list"
  wd_bracket_ok :: "string \<Rightarrow> bool"
  wd_log :: "bytes option"
  wd_cert :: "instant res option"
  wd_broken :: "nat option"

record settings =
  se_version :: string
  se_crypto_keys :: "(bytes \<times> bytes) option"
  se_source_id :: string
  se_manifest_ttl :: int
  se_start_time :: "instant option"

record daemon =
  dm_offline :: offline
  dm_uploads :: "(string \<times> bytes) list"
  dm_last_analysis :: "(string \<times> analysis) option"

abbreviation dm_store :: "daemon \<Rightarrow> store" where
  "dm_store D \<equiv> off_store (dm_offline D)"

definition with_store :: "daemon \<Rightarrow> store \<Rightarrow> daemon" where
  "with_store D s = D\<lparr>dm_offline := (dm_offline D)\<lparr>off_store := s\<rparr>\<rparr>"

definition new_daemon :: "store \<Rightarrow> daemon" where
  "new_daemon s = \<lparr>dm_offline = \<lparr>off_store = s, off_updates = []\<rparr>, dm_uploads = [], dm_last_analysis = None\<rparr>"

section \<open>Reading a request\<close>

definition MAX_IMPORT_SIZE :: int where
  "MAX_IMPORT_SIZE = 40 * 1024 * 1024 * 1024"

definition MAX_JSON_BODY_SIZE :: int where
  "MAX_JSON_BODY_SIZE = 10 * 1024 * 1024"

definition header :: "http_request \<Rightarrow> string \<Rightarrow> string" where
  "header rq key = (case header_get (rq_environ rq) key (Some []) of Some v \<Rightarrow> v | None \<Rightarrow> [])"

text \<open>\<open>int (self.headers.get ("Content-Length", 0))\<close>, \<open>None\<close> for \<open>ValueError\<close>.\<close>

definition content_length :: "http_request \<Rightarrow> int option" where
  "content_length rq = (case header_get (rq_environ rq) ''Content-Length'' None of None \<Rightarrow> Some 0 | Some v \<Rightarrow> py_int v)"

definition invalid_length :: response where
  "invalid_length = send_admin_error 400 ''INVALID_HEADER'' ''Content-Length must be a valid integer''"

definition empty_body :: response where
  "empty_body = send_admin_error 400 ''EMPTY_BODY'' ''request body required''"

text \<open>Reading \<open>n\<close> bytes: fewer where the body ends, an error where the connection breaks before.\<close>

definition connection_error :: exc where
  "connection_error = PyError ''ConnectionResetError'' ''[Errno 104] Connection reset by peer''"

definition read_body :: "world \<Rightarrow> int \<Rightarrow> bytes \<Rightarrow> bytes res" where
  "read_body W n input =
     (case wd_broken W of
        None \<Rightarrow> Inr (take (nat n) input)
      | Some k \<Rightarrow> if n \<le> int k then Inr (take (nat n) input) else Inl connection_error)"

text \<open>The value of the body, or the answer to give; a body \<open>null\<close> is taken for one already answered.\<close>

definition read_json_body :: "world \<Rightarrow> http_request \<Rightarrow> bytes \<Rightarrow> (response + pyval) res" where
  "read_json_body W rq input =
     (case content_length rq of
        None \<Rightarrow> Inr (Inl invalid_length)
      | Some n \<Rightarrow>
          if n \<le> 0 then Inr (Inl empty_body)
          else if n > MAX_JSON_BODY_SIZE then Inr (Inl (send_admin_error 400 ''BODY_TOO_LARGE'' ''request body exceeds 10 MiB limit''))
          else rbind (read_body W n input) (\<lambda>raw.
          case json_loads_bytes raw of
            Inl e \<Rightarrow>
              if e = not_modelled then Inl e
              else Inr (Inl (send_admin_error 400 ''INVALID_JSON'' ''request body must be valid JSON''))
          | Inr PNone \<Rightarrow> Inr (Inl no_response)
          | Inr v \<Rightarrow> Inr (Inr v)))"

definition check_disk_space :: "world \<Rightarrow> int \<Rightarrow> response option" where
  "check_disk_space W required =
     (let free = int (du_free (wd_disk W)) in
      if free < required * 2 then
        Some (send_admin_error 507 ''INSUFFICIENT_SPACE'' (''Not enough disk space: '' @ int_str free @ '' bytes free, need ~''
          @ int_str (required * 2) @ '' bytes (upload + extraction)''))
      else None)"

definition is_localhost :: "http_request \<Rightarrow> bool" where
  "is_localhost rq = (rq_client rq \<in> {''127.0.0.1'', ''::1'', ''localhost''})"

definition no_crypto_keys :: response where
  "no_crypto_keys = send_admin_error 500 ''NO_CRYPTO_KEYS'' ''crypto keys not configured''"

text \<open>
  The answer to an exception of a \<open>try\<close> block: one class has a code of its own. What is outside the
  model has no answer.
\<close>

definition error_answer :: "error_kind \<Rightarrow> string \<Rightarrow> exc \<Rightarrow> response res" where
  "error_answer kind c e =
     (if e = not_modelled then Inl e
      else Inr (case e of
        BunckerError k m ctx \<Rightarrow> if k = kind then send_admin_error 400 c (exc_str e) else send_admin_error 500 ''INTERNAL_ERROR'' (exc_str e)
      | _ \<Rightarrow> send_admin_error 500 ''INTERNAL_ERROR'' (exc_str e)))"

definition opt_str :: "string option \<Rightarrow> pyval" where
  "opt_str s = (case s of None \<Rightarrow> PNone | Some x \<Rightarrow> PStr x)"

end
