(* ===== verification/Server_Setup.thy ===== *)
theory Server_Setup
  imports Config Handler_State Auth
begin

text \<open>
  \<open>buncker/__main__.py\<close> and the token functions of \<open>buncker/auth.py\<close>: the commands that prepare a host
  for the daemon. The host is its files, by path, and the directories of the stores. Random values
  are an argument, the certificate generator's four files too. What is printed is left out, except
  the secrets a command shows; \<open>sys.exit\<close> is an exception. Paths are normalised; file modes, the call
  of \<open>systemctl\<close> and the fingerprint shown are not modelled.
\<close>

section \<open>The host\<close>

record host =
  ho_files :: "(string \<times> bytes) list"
  ho_disk :: "string \<Rightarrow> offline \<times> (string \<times> bytes) list"

record random_values =
  rv_entropy :: bytes
  rv_salt :: bytes
  rv_source :: bytes
  rv_key_material :: bytes
  rv_nonce :: bytes
  rv_readonly :: bytes
  rv_admin :: bytes

definition sys_exit :: "int \<Rightarrow> exc" where
  "sys_exit n = PyError ''SystemExit'' (int_str n)"

definition put_file :: "host \<Rightarrow> string \<Rightarrow> bytes \<Rightarrow> host" where
  "put_file H p b = H\<lparr>ho_files := dset (ho_files H) p b\<rparr>"

definition init_store :: "host \<Rightarrow> string \<Rightarrow> host" where
  "init_store H p =
     (let (off, uploads) = ho_disk H p in H\<lparr>ho_disk := (ho_disk H)(p := (off\<lparr>off_store := store_init (off_store off)\<rparr>, uploads))\<rparr>)"

definition config_path_of :: "string option \<Rightarrow> string" where
  "config_path_of arg = (case arg of None \<Rightarrow> ''/etc/buncker/config.json'' | Some p \<Rightarrow> p)"

text \<open>\<open>path.parent / name\<close>.\<close>

definition sibling :: "string \<Rightarrow> string \<Rightarrow> string" where
  "sibling path name = take (nat (rfind CHR ''/'' path + 1)) path @ name"

definition MACHINE_ID :: string where
  "MACHINE_ID = ''/etc/machine-id''"

definition DEFAULT_KEY_MATERIAL_PATH :: string where
  "DEFAULT_KEY_MATERIAL_PATH = ''/etc/buncker/key-material''"

definition read_host_config :: "host \<Rightarrow> string \<Rightarrow> dict res" where
  "read_host_config H path = load_config path (dget (ho_files H) path)"

section \<open>Setup\<close>

definition mnemonic_hash_of :: "string \<Rightarrow> string" where
  "mnemonic_hash_of mnemonic_12 = ''sha256:'' @ sha256_hex (py_encode mnemonic_12)"

definition setup_config :: "random_values \<Rightarrow> string \<Rightarrow> bytes \<Rightarrow> string \<Rightarrow> dict" where
  "setup_config rv store_path salt mnemonic_hash =
     [(''source_id'', PStr (''buncker-'' @ hex_str (rv_source rv))), (''bind'', PStr ''127.0.0.1''), (''port'', PInt 5000),
      (''store_path'', PStr store_path), (''max_workers'', PInt 16), (''tls'', PBool False),
      (''crypto'', PDict [(''salt'', PStr (b64encode salt)), (''mnemonic_hash'', PStr mnemonic_hash)]),
      (''private_registries'', PList []), (''gc'', PDict [(''inactive_days_threshold'', PInt 90)]), (''log_level'', PStr ''INFO'')]"

text \<open>The variable the daemon is started with: the mnemonic encrypted, or as it is where that fails.\<close>

definition env_setting :: "aead \<Rightarrow> host \<Rightarrow> bytes \<Rightarrow> string \<Rightarrow> string \<times> string" where
  "env_setting A H nonce mnemonic =
     (case encrypt_env_value A (dget (ho_files H)) nonce mnemonic MACHINE_ID (Some DEFAULT_KEY_MATERIAL_PATH) of
        Inr encrypted \<Rightarrow> (''BUNCKER_MNEMONIC_ENC'', encrypted)
      | Inl e \<Rightarrow> (''BUNCKER_MNEMONIC'', mnemonic))"

definition env_text :: "string \<times> string \<Rightarrow> bytes" where
  "env_text v = py_encode (fst v @ ''='' @ snd v @ [CHR 0x0A])"

definition unbound_contextlib :: exc where
  "unbound_contextlib = PyError ''UnboundLocalError'' ''cannot access local variable contextlib where it is not associated with a value''"

text \<open>
  \<open>contextlib\<close> is imported behind the write of the key material, in the same \<open>try\<close> block, and used
  after it: when that write fails the name is not bound. \<open>km_writable\<close> tells whether it succeeds.
\<close>

definition cmd_setup ::
  "aead \<Rightarrow> random_values \<Rightarrow> bool \<Rightarrow> host \<Rightarrow> string option \<Rightarrow> string option \<Rightarrow> string res \<times> host" where
  "cmd_setup A rv km_writable H config_arg store_arg =
     (let config_path = config_path_of config_arg in
      if dget (ho_files H) config_path \<noteq> None then (Inl (sys_exit 1), H)
      else
        let mnemonic = generate_mnemonic (rv_entropy rv) (rv_salt rv) in
        case split_mnemonic mnemonic of
          Inl e \<Rightarrow> (Inl e, H)
        | Inr (mnemonic_12, salt) \<Rightarrow>
            let store_path = (case store_arg of None \<Rightarrow> ''/var/lib/buncker'' | Some p \<Rightarrow> p);
                H = init_store H store_path;
                config = setup_config rv store_path salt (mnemonic_hash_of mnemonic_12);
                H = put_file H config_path (save_config config);
                H = (if km_writable then put_file H (sibling config_path ''key-material'') (rv_key_material rv) else H);
                H = put_file H (sibling config_path ''env'') (env_text (env_setting A H (rv_nonce rv) mnemonic))
            in if km_writable then (Inr mnemonic, H) else (Inl unbound_contextlib, H))"

section \<open>Tokens\<close>

definition generate_api_tokens :: "random_values \<Rightarrow> dict" where
  "generate_api_tokens rv = [(''readonly'', PStr (hex_str (rv_readonly rv))), (''admin'', PStr (hex_str (rv_admin rv)))]"

definition save_api_tokens :: "host \<Rightarrow> dict \<Rightarrow> string \<Rightarrow> host" where
  "save_api_tokens H tokens path = put_file H path (py_encode (json_pretty 0 (PDict tokens)))"

text \<open>\<open>None\<close> where there is no file.\<close>

definition load_api_tokens :: "host \<Rightarrow> string \<Rightarrow> pyval res" where
  "load_api_tokens H path = (case dget (ho_files H) path of None \<Rightarrow> Inr PNone | Some raw \<Rightarrow> load_text raw)"

definition tokens_path_of :: "string \<Rightarrow> string" where
  "tokens_path_of config_path = sibling config_path ''api-tokens.json''"

definition cmd_api_show :: "host \<Rightarrow> string option \<Rightarrow> string \<Rightarrow> pyval res" where
  "cmd_api_show H config_arg token_type =
     rbind (load_api_tokens H (tokens_path_of (config_path_of config_arg))) (\<lambda>tokens.
     if tokens = PNone then Inl (sys_exit 1) else vindex tokens token_type)"

definition cmd_api_reset :: "bytes \<Rightarrow> host \<Rightarrow> string option \<Rightarrow> string \<Rightarrow> string res \<times> host" where
  "cmd_api_reset new_token H config_arg token_type =
     (let tokens_path = tokens_path_of (config_path_of config_arg) in
      case load_api_tokens H tokens_path of
        Inl e \<Rightarrow> (Inl e, H)
      | Inr tokens \<Rightarrow>
          if tokens = PNone then (Inl (sys_exit 1), H)
          else (case vset tokens token_type (PStr (hex_str new_token)) of
                  Inr (PDict d) \<Rightarrow> (Inr (hex_str new_token), save_api_tokens H d tokens_path)
                | Inr v \<Rightarrow> (Inl not_modelled, H)
                | Inl e \<Rightarrow> (Inl e, H)))"

section \<open>TLS\<close>

record certificates =
  ce_ca :: bytes
  ce_ca_key :: bytes
  ce_cert :: bytes
  ce_key :: bytes

definition tls_file :: "string \<Rightarrow> string \<Rightarrow> string" where
  "tls_file store_path name = store_path @ ''/tls/'' @ name"

definition write_certs :: "host \<Rightarrow> string \<Rightarrow> certificates \<Rightarrow> host" where
  "write_certs H store_path ce =
     put_file (put_file (put_file (put_file H (tls_file store_path ''ca.pem'') (ce_ca ce))
       (tls_file store_path ''ca-key.pem'') (ce_ca_key ce)) (tls_file store_path ''server.pem'') (ce_cert ce))
       (tls_file store_path ''server-key.pem'') (ce_key ce)"

text \<open>\<open>shutil.copy2\<close>, which refuses to copy a file onto itself.\<close>

definition copy2 :: "host \<Rightarrow> string \<Rightarrow> string \<Rightarrow> unit res \<times> host" where
  "copy2 H src dst =
     (case dget (ho_files H) src of
        None \<Rightarrow> (Inl (PyError ''FileNotFoundError'' src), H)
      | Some b \<Rightarrow> if src = dst then (Inl (PyError ''SameFileError'' src), H) else (Inr (), put_file H dst b))"

text \<open>The second step: the certificate given, or a generated one.\<close>

definition setup_tls :: "certificates \<Rightarrow> host \<Rightarrow> string \<Rightarrow> string option \<Rightarrow> string option \<Rightarrow> unit res \<times> host" where
  "setup_tls ce H store_path cert_arg key_arg =
     (case (cert_arg, key_arg) of
        (Some cert, Some key) \<Rightarrow>
          if dget (ho_files H) cert = None then (Inl (sys_exit 1), H)
          else if dget (ho_files H) key = None then (Inl (sys_exit 1), H)
          else (case copy2 H cert (tls_file store_path ''server.pem'') of
                  (Inl e, H) \<Rightarrow> (Inl e, H)
                | (Inr _, H) \<Rightarrow> copy2 H key (tls_file store_path ''server-key.pem''))
      | _ \<Rightarrow> (Inr (), write_certs H store_path ce))"

definition api_config :: "dict \<Rightarrow> dict" where
  "api_config config =
     dset (dset (dset config ''api'' (PDict [(''enabled'', PBool True)])) ''tls'' (PBool True)) ''bind'' (PStr ''0.0.0.0'')"

definition copy_ca :: "host \<Rightarrow> string \<Rightarrow> string \<Rightarrow> unit res \<times> host" where
  "copy_ca H store_path config_path =
     (let ca_src = tls_file store_path ''ca.pem'' in
      if dget (ho_files H) ca_src = None then (Inr (), H) else copy2 H ca_src (sibling config_path ''ca.pem''))"

text \<open>The result is the dictionary of tokens, which are shown.\<close>

definition cmd_api_setup ::
  "random_values \<Rightarrow> certificates \<Rightarrow> host \<Rightarrow> string option \<Rightarrow> string option \<Rightarrow> string option \<Rightarrow> dict res \<times> host" where
  "cmd_api_setup rv ce H config_arg cert_arg key_arg =
     (let config_path = config_path_of config_arg in
      if dget (ho_files H) config_path = None then (Inl (sys_exit 1), H)
      else case read_host_config H config_path of
        Inl e \<Rightarrow> (Inl e, H)
      | Inr config \<Rightarrow>
          let tokens_path = tokens_path_of config_path in
          if dget (ho_files H) tokens_path \<noteq> None then (Inl (sys_exit 1), H)
          else
            let tokens = generate_api_tokens rv; H = save_api_tokens H tokens tokens_path in
            case dindex config ''store_path'' of
              Inr (PStr store_path) \<Rightarrow>
                (case setup_tls ce H store_path cert_arg key_arg of
                   (Inl e, H) \<Rightarrow> (Inl e, H)
                 | (Inr _, H) \<Rightarrow>
                     (case copy_ca (put_file H config_path (save_config (api_config config))) store_path config_path of
                        (r, H) \<Rightarrow> (rbind r (\<lambda>_. Inr tokens), H)))
            | Inr v \<Rightarrow> (Inl (type_error ''argument should be a str or an os.PathLike object''), H)
            | Inl e \<Rightarrow> (Inl e, H))"

definition cmd_export_ca :: "host \<Rightarrow> string option \<Rightarrow> bytes res" where
  "cmd_export_ca H config_arg =
     rbind (read_host_config H (config_path_of config_arg)) (\<lambda>config.
     if \<not> truthy (dget_or config ''tls'' PNone) then Inl (sys_exit 0)
     else
       rbind (dindex config ''store_path'') (\<lambda>p.
       case p of
         PStr store_path \<Rightarrow>
           (case dget (ho_files H) (tls_file store_path ''ca.pem'') of
              None \<Rightarrow> Inl (sys_exit 1)
            | Some b \<Rightarrow> read_text b)
       | _ \<Rightarrow> Inl (type_error ''argument should be a str or an os.PathLike object'')))"

section \<open>Rotation and verification\<close>

definition cmd_rotate_keys :: "aead \<Rightarrow> random_values \<Rightarrow> instant \<Rightarrow> host \<Rightarrow> string option \<Rightarrow> int \<Rightarrow> string res \<times> host" where
  "cmd_rotate_keys A rv now H config_arg grace_period =
     (let config_path = config_path_of config_arg in
      case rbind (read_host_config H config_path) (\<lambda>config.
           rbind (vset (dget_or config ''crypto'' (PDict [])) ''deprecated_at'' (PStr (isoformat now))) (\<lambda>c.
           rbind (vset c ''grace_period_days'' (PInt grace_period)) (\<lambda>old_crypto.
           Inr (config, old_crypto)))) of
        Inl e \<Rightarrow> (Inl e, H)
      | Inr (config, old_crypto) \<Rightarrow>
          let mnemonic = generate_mnemonic (rv_entropy rv) (rv_salt rv) in
          case split_mnemonic mnemonic of
            Inl e \<Rightarrow> (Inl e, H)
          | Inr (mnemonic_12, salt) \<Rightarrow>
              let crypto = PDict [(''salt'', PStr (b64encode salt)), (''mnemonic_hash'', PStr (mnemonic_hash_of mnemonic_12)),
                                  (''previous'', old_crypto)];
                  H = put_file H config_path (save_config (dset config ''crypto'' crypto));
                  H = put_file H (sibling config_path ''env'') (env_text (env_setting A H (rv_nonce rv) mnemonic))
              in (Inr mnemonic, H))"

text \<open>The report of the verification; the command ends with status 1 when a blob is corrupted.\<close>

definition cmd_verify :: "host \<Rightarrow> string option \<Rightarrow> (verify_report \<times> bool) res \<times> host" where
  "cmd_verify H config_arg =
     (case rbind (read_host_config H (config_path_of config_arg)) (\<lambda>config. dindex config ''store_path'') of
        Inl e \<Rightarrow> (Inl e, H)
      | Inr (PStr store_path) \<Rightarrow>
          let H = init_store H store_path; report = verify_store (off_store (fst (ho_disk H store_path)))
          in (Inr (report, v_corrupted report > 0), H)
      | Inr v \<Rightarrow> (Inl (type_error ''argument should be a str or an os.PathLike object''), H))"

end
