(* ===== verification/Handler_Analysis.thy ===== *)
theory Handler_Analysis
  imports Handler_State
begin

text \<open>
  \<open>buncker/handler.py\<close>: the endpoints \<open>/admin/analyze\<close> and \<open>/admin/generate-manifest\<close>. The first keeps
  its result, the second turns the kept result into an encrypted request, once.
\<close>

section \<open>Analysis\<close>

definition write_error :: "pyval \<Rightarrow> exc" where
  "write_error v = type_error (''write() argument must be str, not '' @ type_name v)"

definition path_not_allowed :: "string \<Rightarrow> response" where
  "path_not_allowed field_name = send_admin_error 400 ''PATH_NOT_ALLOWED''
     (''Path-based analysis is only available from localhost. Send '' @ field_name @ '' instead.'')"

definition invalid_path :: response where
  "invalid_path = send_admin_error 400 ''INVALID_PATH'' ''file not found or not accessible''"

text \<open>Build arguments are strings; other values are outside the model.\<close>

definition build_args_of :: "pyval \<Rightarrow> build_args res" where
  "build_args_of v =
     (if \<not> truthy v then Inr []
      else case v of
        PDict d \<Rightarrow> rmap (\<lambda>(k, x). case x of PStr s \<Rightarrow> Inr (k, s) | _ \<Rightarrow> Inl not_modelled) d
      | _ \<Rightarrow> Inl not_modelled)"

definition run_resolver :: "world \<Rightarrow> settings \<Rightarrow> daemon \<Rightarrow> string \<Rightarrow> bytes option \<Rightarrow> pyval \<Rightarrow> (response + analysis) res" where
  "run_resolver W S D path content build_args =
     rbind (build_args_of build_args) (\<lambda>args.
     rbind (resolve_dockerfile (store_env (dm_store D) (wd_now W)) path content args [] ''linux/amd64'' (se_manifest_ttl S)) (\<lambda>a.
     Inr (Inr a)))"

definition analyze_dockerfile ::
  "world \<Rightarrow> settings \<Rightarrow> daemon \<Rightarrow> http_request \<Rightarrow> pyval \<Rightarrow> pyval \<Rightarrow> pyval \<Rightarrow> (response + analysis) res" where
  "analyze_dockerfile W S D rq content path build_args =
     (if truthy content then
        (case content of
           PStr text \<Rightarrow> run_resolver W S D (wd_tmp W) (Some (py_encode text)) build_args
         | v \<Rightarrow> Inl (write_error v))
      else if truthy path then
        (if \<not> is_localhost rq then Inr (Inl (path_not_allowed ''dockerfile_content''))
         else case path of
           PStr p \<Rightarrow>
             (let p = fs_resolve (wd_fs W) p in
              case fs_read (wd_fs W) p of
                None \<Rightarrow> Inr (Inl invalid_path)
              | Some bs \<Rightarrow> run_resolver W S D p (Some bs) build_args)
         | v \<Rightarrow> Inl (path_error v))
      else Inr (Inl (send_admin_error 400 ''MISSING_FIELD''
        ''dockerfile, dockerfile_content, compose_path, or compose_content field required'')))"

definition run_compose :: "world \<Rightarrow> settings \<Rightarrow> daemon \<Rightarrow> compose_service list \<Rightarrow> pyval \<Rightarrow> (response + analysis) res" where
  "run_compose W S D services build_args =
     rbind (build_args_of build_args) (\<lambda>args.
     rbind (resolve_compose (store_env (dm_store D) (wd_now W)) (fs_read (wd_fs W)) services args [] ''linux/amd64'' (se_manifest_ttl S)) (\<lambda>a.
     Inr (Inr a)))"

definition analyze_compose ::
  "world \<Rightarrow> settings \<Rightarrow> daemon \<Rightarrow> http_request \<Rightarrow> pyval \<Rightarrow> pyval \<Rightarrow> pyval \<Rightarrow> (response + analysis) res" where
  "analyze_compose W S D rq content path build_args =
     (if truthy content then
        (case content of
           PStr text \<Rightarrow> rbind (parse_compose_content (wd_yaml W) text) (\<lambda>services. run_compose W S D services build_args)
         | v \<Rightarrow> Inl (attr_error v ''read''))
      else if \<not> is_localhost rq then Inr (Inl (path_not_allowed ''compose_content''))
      else case path of
        PStr p \<Rightarrow>
          (let p = fs_resolve (wd_fs W) p in
           case fs_read (wd_fs W) p of
             None \<Rightarrow> Inr (Inl invalid_path)
           | Some bs \<Rightarrow> rbind (parse_compose (wd_yaml W) (wd_fs W) p None) (\<lambda>services. run_compose W S D services build_args))
      | v \<Rightarrow> Inl (path_error v))"

section \<open>The report\<close>

definition image_dict :: "resolved_image \<Rightarrow> pyval" where
  "image_dict im = PDict [(''raw'', PStr (ri_raw im)), (''resolved'', PStr (ri_resolved im)), (''registry'', PStr (ri_registry im)),
     (''repository'', PStr (ri_repository im)), (''tag'', opt_str (ri_tag im)), (''digest'', opt_str (ri_digest im)),
     (''platform'', opt_str (ri_platform im)), (''is_internal'', PBool (ri_is_internal im)), (''is_private'', PBool (ri_is_private im))]"

definition missing_dict :: "missing_blob \<Rightarrow> pyval" where
  "missing_dict b = PDict [(''registry'', PStr (mb_registry b)), (''repository'', PStr (mb_repository b)),
     (''digest'', PStr (mb_digest b)), (''size'', mb_size b), (''media_type'', mb_media_type b)]"

definition stale_dict :: "stale_manifest \<Rightarrow> pyval" where
  "stale_dict m = PDict [(''registry'', PStr (sm_registry m)), (''repository'', PStr (sm_repository m)),
     (''tag'', PStr (sm_tag m)), (''platform'', PStr (sm_platform m))]"

definition analysis_report :: "(string set \<Rightarrow> string list) \<Rightarrow> string \<Rightarrow> analysis \<Rightarrow> pyval" where
  "analysis_report set_order analysis_id a = PDict
     [(''analysis_id'', PStr analysis_id), (''source_path'', PStr (an_source_path a)), (''images'', PList (map image_dict (an_images a))),
      (''present_blobs'', PList (map PStr (set_order (an_present a)))), (''missing_blobs'', PList (map missing_dict (an_missing a))),
      (''total_missing_size'', PInt (an_total_missing_size a)), (''warnings'', PList (map PStr (an_warnings a))),
      (''stale_manifests'', PList (map stale_dict (an_stale a)))]"

definition handle_admin_analyze :: "world \<Rightarrow> settings \<Rightarrow> daemon \<Rightarrow> http_request \<Rightarrow> bytes \<Rightarrow> response res \<times> daemon" where
  "handle_admin_analyze W S D rq input =
     (case read_json_body W rq input of
        Inl e \<Rightarrow> (Inl e, D)
      | Inr (Inl r) \<Rightarrow> (Inr r, D)
      | Inr (Inr (PDict body)) \<Rightarrow>
          (let dockerfile_content = dget_or body ''dockerfile_content'' PNone; dockerfile = dget_or body ''dockerfile'' PNone;
               compose_content = dget_or body ''compose_content'' PNone; compose_path = dget_or body ''compose_path'' PNone;
               build_args = dget_or body ''build_args'' (PDict [])
           in case (if truthy compose_content \<or> truthy compose_path
                    then analyze_compose W S D rq compose_content compose_path build_args
                    else analyze_dockerfile W S D rq dockerfile_content dockerfile build_args) of
                Inl e \<Rightarrow> (error_answer KResolver ''RESOLVER_ERROR'' e, D)
              | Inr (Inl r) \<Rightarrow> (Inr r, D)
              | Inr (Inr a) \<Rightarrow>
                  (Inr (send_json 200 (analysis_report (wd_set_order W) (wd_uuid W) a)),
                   D\<lparr>dm_last_analysis := Some (wd_uuid W, a)\<rparr>))
      | Inr (Inr v) \<Rightarrow> (Inl (attr_error v ''get''), D))"

section \<open>The transfer request\<close>

definition py_key :: "string \<Rightarrow> string \<Rightarrow> string \<Rightarrow> string" where
  "py_key registry repository tag = registry @ ''/'' @ repository @ '':'' @ tag"

text \<open>The images to fetch manifests for, each once, with the keys seen.\<close>

fun request_images :: "resolved_image list \<Rightarrow> string list \<Rightarrow> dict list \<times> string list" where
  "request_images [] seen = ([], seen)"
| "request_images (im # ims) seen =
     (if ri_is_internal im \<or> ri_is_private im then request_images ims seen
      else
        let key = py_key (ri_registry im) (ri_repository im) (str_of (opt_str (ri_tag im))) in
        if key \<in> set seen then request_images ims seen
        else
          let (rest, seen) = request_images ims (key # seen) in
          ([(''registry'', PStr (ri_registry im)), (''repository'', PStr (ri_repository im)), (''tag'', opt_str (ri_tag im)),
            (''platform'', PStr (if some_truthy (ri_platform im) then the (ri_platform im) else ''linux/amd64''))] # rest, seen))"

definition entry_key :: "dict \<Rightarrow> string" where
  "entry_key e = py_key (str_of (dget_or e ''registry'' PNone)) (str_of (dget_or e ''repository'' PNone)) (str_of (dget_or e ''tag'' PNone))"

fun add_stale :: "stale_manifest list \<Rightarrow> dict list \<Rightarrow> string list \<Rightarrow> dict list" where
  "add_stale [] images seen = images"
| "add_stale (m # ms) images seen =
     (let key = py_key (sm_registry m) (sm_repository m) (sm_tag m) in
      if key \<notin> set seen then
        add_stale ms (images @ [[(''registry'', PStr (sm_registry m)), (''repository'', PStr (sm_repository m)), (''tag'', PStr (sm_tag m)),
          (''platform'', PStr (sm_platform m)), (''refresh'', PBool True)]]) (key # seen)
      else add_stale ms (map (\<lambda>e. if entry_key e = key then dset e ''refresh'' (PBool True) else e) images) seen)"

definition request_document :: "instant \<Rightarrow> settings \<Rightarrow> dict list \<Rightarrow> missing_blob list \<Rightarrow> pyval" where
  "request_document now S images missing =
     PDict [(''version'', PStr ''1''), (''buncker_version'', PStr (se_version S)), (''generated_at'', PStr (isoformat now)),
            (''source_id'', PStr (se_source_id S)), (''images'', PList (map PDict images)), (''blobs'', PList (map missing_dict missing))]"

definition request_response :: "instant \<Rightarrow> settings \<Rightarrow> bytes \<Rightarrow> response" where
  "request_response now S encrypted =
     (let filename = ''buncker-request-'' @ stamp now @ ''-'' @ se_source_id S @ ''.json.enc'' in
      respond 200 [(''Content-Type'', ''application/octet-stream''),
        (''Content-Disposition'', ''attachment; filename='' @ [CHR 0x22] @ filename @ [CHR 0x22]),
        (''Content-Length'', nat_str (length encrypted))] encrypted)"

text \<open>The answer, and whether the analysis was used up.\<close>

definition generate_from :: "world \<Rightarrow> settings \<Rightarrow> bool \<Rightarrow> analysis \<Rightarrow> (response \<times> bool) res" where
  "generate_from W S refresh_stale a =
     (let (images, seen) = request_images (an_images a) [];
          images = (if refresh_stale then add_stale (an_stale a) images seen else images)
      in if an_missing a = [] \<and> images = []
         then Inr (send_admin_error 409 ''NO_MISSING'' ''no missing blobs to request'', False)
         else case se_crypto_keys S of
           None \<Rightarrow> Inr (no_crypto_keys, False)
         | Some (aes_key, hmac_key) \<Rightarrow>
             rbind (seal (wd_aead W) (wd_nonce W)
                (py_encode (json_dumps False (request_document (wd_now W) S images (an_missing a)))) aes_key hmac_key) (\<lambda>encrypted.
             Inr (request_response (wd_now W) S encrypted, True)))"

definition handle_admin_generate_manifest :: "world \<Rightarrow> settings \<Rightarrow> daemon \<Rightarrow> http_request \<Rightarrow> bytes \<Rightarrow> response res \<times> daemon" where
  "handle_admin_generate_manifest W S D rq input =
     (case read_json_body W rq input of
        Inl e \<Rightarrow> (Inl e, D)
      | Inr (Inl r) \<Rightarrow> (Inr r, D)
      | Inr (Inr (PDict body)) \<Rightarrow>
          (let refresh_stale = dget_or body ''refresh_stale'' (PBool False); req_analysis_id = dget_or body ''analysis_id'' PNone in
           if \<not> truthy req_analysis_id then
             (Inr (send_admin_error 400 ''MISSING_FIELD'' ''analysis_id field required (from /admin/analyze response)''), D)
           else case dm_last_analysis D of
             None \<Rightarrow> (Inr (send_admin_error 409 ''NO_ANALYSIS'' ''no analysis pending - run /admin/analyze first''), D)
           | Some (analysis_id, a) \<Rightarrow>
               if PStr analysis_id \<noteq> req_analysis_id then
                 (Inr (send_admin_error 409 ''ANALYSIS_REPLACED'' ''analysis was replaced by another request - re-run /admin/analyze''), D)
               else case generate_from W S (truthy refresh_stale) a of
                 Inl e \<Rightarrow> (Inl e, D)
               | Inr (r, used) \<Rightarrow> (Inr r, if used then D\<lparr>dm_last_analysis := None\<rparr> else D))
      | Inr (Inr v) \<Rightarrow> (Inl (attr_error v ''get''), D))"

end
