(* ===== verification/Handler_Import.thy ===== *)
theory Handler_Import
  imports Handler_State
begin

text \<open>
  \<open>buncker/handler.py\<close>: the endpoint \<open>/admin/import\<close>, which takes a response file in one piece by POST
  and as an upload with a checksum by PUT. The uploads in progress are files named after the client
  and the checksum; a request with a range is appended to the file.
\<close>

section \<open>In one piece\<close>

definition run_import :: "world \<Rightarrow> daemon \<Rightarrow> string \<Rightarrow> bytes \<Rightarrow> bytes \<times> bytes \<Rightarrow> response res \<times> daemon" where
  "run_import W D path data keys =
     (case import_response (wd_aead W) (wd_tar W) (wd_py312 W) (wd_ls W) (wd_clock W) (dm_offline D) path data (fst keys) (snd keys) True of
        (r, off) \<Rightarrow>
          ((case r of
              Inr summary \<Rightarrow> Inr (send_json 200 (PDict (summary_dict summary)))
            | Inl e \<Rightarrow> error_answer KTransfer ''TRANSFER_ERROR'' e),
           D\<lparr>dm_offline := off\<rparr>))"

definition body_too_large :: response where
  "body_too_large = send_admin_error 400 ''BODY_TOO_LARGE'' ''request body exceeds 40 GiB limit''"

definition handle_admin_import :: "world \<Rightarrow> settings \<Rightarrow> daemon \<Rightarrow> http_request \<Rightarrow> bytes \<Rightarrow> response res \<times> daemon" where
  "handle_admin_import W S D rq input =
     (case se_crypto_keys S of
        None \<Rightarrow> (Inr no_crypto_keys, D)
      | Some keys \<Rightarrow>
          (case content_length rq of
             None \<Rightarrow> (Inr invalid_length, D)
           | Some n \<Rightarrow>
               if n \<le> 0 then (Inr empty_body, D)
               else if n > MAX_IMPORT_SIZE then (Inr body_too_large, D)
               else case check_disk_space W n of
                 Some r \<Rightarrow> (Inr r, D)
               | None \<Rightarrow>
                   (case read_body W n input of
                      Inl e \<Rightarrow> (Inl e, D)
                    | Inr raw_data \<Rightarrow> run_import W D (wd_tmp W) raw_data keys)))"

section \<open>As an upload\<close>

text \<open>\<open>_drain_body\<close> reads the header again, and raises where it is no number.\<close>

definition drain_body :: "world \<Rightarrow> http_request \<Rightarrow> bytes \<Rightarrow> unit res" where
  "drain_body W rq input =
     (case content_length rq of
        None \<Rightarrow> Inl (value_error ''invalid literal for int() with base 10'')
      | Some n \<Rightarrow> if 0 < n then rbind (read_body W n input) (\<lambda>_. Inr ()) else Inr ())"

definition drained :: "world \<Rightarrow> http_request \<Rightarrow> bytes \<Rightarrow> daemon \<Rightarrow> response \<Rightarrow> response res \<times> daemon" where
  "drained W rq input D r = (rbind (drain_body W rq input) (\<lambda>_. Inr r), D)"

definition checksum_re :: "string \<Rightarrow> bool" where
  "checksum_re s = (let t = dollar s in length t = 64 \<and> list_all (\<lambda>c. c \<in> set hex_chars) t)"

text \<open>\<open>bytes (\d+)-(\d+)/(\d+)\<close> at the start: the first number.\<close>

definition range_start :: "string \<Rightarrow> string option" where
  "range_start s =
     (let r = drop 6 s; a = takeWhile is_digit r; r = dropWhile is_digit r;
          b = takeWhile is_digit (drop 1 r); r' = dropWhile is_digit (drop 1 r);
          c = takeWhile is_digit (drop 1 r')
      in if startswith s ''bytes '' \<and> a \<noteq> [] \<and> startswith r ''-'' \<and> b \<noteq> [] \<and> startswith r' ''/'' \<and> c \<noteq> [] then Some a else None)"

definition upload_name :: "http_request \<Rightarrow> string \<Rightarrow> string" where
  "upload_name rq expected_hash = take 16 (sha256_hex (py_encode (rq_client rq @ '':'' @ expected_hash))) @ ''.tar.enc''"

text \<open>What the upload starts with: the file so far for a range that continues it, nothing without a range.\<close>

definition upload_start :: "daemon \<Rightarrow> http_request \<Rightarrow> string \<Rightarrow> (response + bytes) res" where
  "upload_start D rq name =
     (let content_range = header rq ''Content-Range''; file = dget_or (dm_uploads D) name [] in
      if content_range = [] then Inr (Inr [])
      else case range_start content_range of
        None \<Rightarrow> Inr (Inl (send_admin_error 400 ''INVALID_RANGE'' ''invalid Content-Range format''))
      | Some ds \<Rightarrow>
          if length ds > int_limit then Inl (value_error ''Exceeds the limit (4300 digits) for integer string conversion'')
          else if digits_val ds \<noteq> length file then
            Inr (Inl (send_admin_error 400 ''RANGE_MISMATCH'' (''expected offset '' @ nat_str (length file) @ '', got '' @ nat_str (digits_val ds))))
          else Inr (Inr file))"

definition upload_path :: "daemon \<Rightarrow> string \<Rightarrow> string" where
  "upload_path D name = st_path (dm_store D) @ ''/.uploads/'' @ name"

text \<open>
  The body is written behind what the file has, chunk by chunk: when the connection breaks the chunks
  read so far stay.
\<close>

definition write_upload :: "world \<Rightarrow> daemon \<Rightarrow> string \<Rightarrow> bytes \<Rightarrow> int \<Rightarrow> bytes \<Rightarrow> bytes res \<times> daemon" where
  "write_upload W D name file n input =
     (let store = (\<lambda>data. D\<lparr>dm_uploads := dset (dm_uploads D) name data\<rparr>) in
      case read_body W n input of
        Inl e \<Rightarrow> (Inl e, store (file @ take (CHUNK_SIZE * (the (wd_broken W) div CHUNK_SIZE)) input))
      | Inr data \<Rightarrow> (Inr (file @ data), store (file @ data)))"

text \<open>The checksum of the upload and its import; the file is removed in every case.\<close>

definition remove_upload :: "daemon \<Rightarrow> string \<Rightarrow> daemon" where
  "remove_upload D name = D\<lparr>dm_uploads := ddel (dm_uploads D) name\<rparr>"

definition finish_upload :: "world \<Rightarrow> daemon \<Rightarrow> string \<Rightarrow> string \<Rightarrow> bytes \<Rightarrow> bytes \<times> bytes \<Rightarrow> response res \<times> daemon" where
  "finish_upload W D name expected_hash data keys =
     (if sha256_hex data \<noteq> expected_hash
      then (Inr (send_admin_error 400 ''CHECKSUM_MISMATCH'' ''Upload integrity check failed''), remove_upload D name)
      else (case run_import W D (upload_path D name) data keys of (r, D) \<Rightarrow> (r, remove_upload D name)))"

definition handle_admin_import_put :: "world \<Rightarrow> settings \<Rightarrow> daemon \<Rightarrow> http_request \<Rightarrow> bytes \<Rightarrow> response res \<times> daemon" where
  "handle_admin_import_put W S D rq input =
     (let checksum_header = header rq ''X-Buncker-Checksum''; expected_hash = drop 7 checksum_header in
      if \<not> startswith checksum_header ''sha256:''
      then drained W rq input D (send_admin_error 400 ''MISSING_CHECKSUM'' ''X-Buncker-Checksum: sha256:<hex> header required'')
      else if \<not> checksum_re expected_hash
      then drained W rq input D (send_admin_error 400 ''INVALID_CHECKSUM'' ''X-Buncker-Checksum must be sha256:<64 hex chars>'')
      else case content_length rq of
        None \<Rightarrow> drained W rq input D invalid_length
      | Some n \<Rightarrow>
          if n \<le> 0 then (Inr empty_body, D)
          else if n > MAX_IMPORT_SIZE then drained W rq input D body_too_large
          else case se_crypto_keys S of
            None \<Rightarrow> drained W rq input D no_crypto_keys
          | Some keys \<Rightarrow>
              (case check_disk_space W n of
                 Some r \<Rightarrow> drained W rq input D r
               | None \<Rightarrow>
                   (let name = upload_name rq expected_hash in
                    case upload_start D rq name of
                      Inl e \<Rightarrow> (Inl e, D)
                    | Inr (Inl r) \<Rightarrow> (Inr r, D)
                    | Inr (Inr file) \<Rightarrow>
                        (case write_upload W D name file n input of
                           (Inl e, D) \<Rightarrow> (Inl e, D)
                         | (Inr data, D) \<Rightarrow> finish_upload W D name expected_hash data keys))))"

end
