(* ===== verification/Handler_Admin.thy ===== *)
theory Handler_Admin
  imports Handler_Analysis Handler_Import
begin

text \<open>
  \<open>buncker/handler.py\<close>: the endpoints on the state of the daemon, garbage collection and the log, and
  the request handler as a whole.
\<close>

section \<open>Status\<close>

definition visible_blobs :: "store \<Rightarrow> bytes list" where
  "visible_blobs s = map snd (checked_blobs s)"

text \<open>\<open>int (time.time () - start_time)\<close>.\<close>

definition uptime :: "world \<Rightarrow> settings \<Rightarrow> int" where
  "uptime W S =
     (case se_start_time S of
        None \<Rightarrow> 0
      | Some t \<Rightarrow> let d = int (wd_now W) - int t in if 0 \<le> d then d div 1000000 else - (- d div 1000000))"

definition handle_admin_status :: "world \<Rightarrow> settings \<Rightarrow> daemon \<Rightarrow> response res" where
  "handle_admin_status W S D =
     (let blobs = visible_blobs (dm_store D); disk = wd_disk W in
      rbind (if 0 < se_manifest_ttl S then count_stale (dm_store D) (wd_now W) (se_manifest_ttl S) else Inr 0) (\<lambda>stale_count.
      Inr (send_json 200 (PDict
        [(''version'', PStr (se_version S)), (''source_id'', PStr (se_source_id S)), (''store_path'', PStr (st_path (dm_store D))),
         (''blob_count'', PInt (int (length blobs))), (''total_size'', PInt (int (sum_list (map length blobs)))),
         (''disk_total'', PInt (int (du_total disk))), (''disk_used'', PInt (int (du_used disk))), (''disk_free'', PInt (int (du_free disk))),
         (''uptime'', PInt (uptime W S)), (''stale_manifests'', PInt (int stale_count))]))))"

definition cert_info :: "world \<Rightarrow> dict" where
  "cert_info W =
     (case wd_cert W of
        None \<Rightarrow> []
      | Some (Inl e) \<Rightarrow> [(''error'', PStr ''unable to read certificate'')]
      | Some (Inr expiry) \<Rightarrow>
          let days_left = age_days expiry (int (wd_now W)) in
          [(''not_valid_after'', PStr (isoformat expiry)), (''days_until_expiry'', PInt days_left), (''expired'', PBool (days_left \<le> 0))])"

definition is_healthy :: "world \<Rightarrow> daemon \<Rightarrow> bool" where
  "is_healthy W D =
     (st_oci_layout (dm_store D) \<noteq> None \<and> 100 * 1024 * 1024 < du_free (wd_disk W) \<and> \<not> truthy (dget_or (cert_info W) ''expired'' PNone))"

definition handle_admin_health :: "world \<Rightarrow> settings \<Rightarrow> daemon \<Rightarrow> response" where
  "handle_admin_health W S D =
     (let disk = wd_disk W; healthy = is_healthy W D in
      send_json (if healthy then 200 else 503) (PDict
        ([(''healthy'', PBool healthy),
          (''store'', PDict [(''oci_layout_valid'', PBool (st_oci_layout (dm_store D) \<noteq> None)),
                             (''blob_count'', PInt (int (length (visible_blobs (dm_store D)))))]),
          (''disk'', PDict [(''total'', PInt (int (du_total disk))), (''used'', PInt (int (du_used disk))), (''free'', PInt (int (du_free disk)))]),
          (''uptime'', PInt (uptime W S))]
         @ (if cert_info W \<noteq> [] then [(''tls'', PDict (cert_info W))] else []))))"

section \<open>Garbage collection\<close>

definition handle_admin_gc_report :: "world \<Rightarrow> daemon \<Rightarrow> http_request \<Rightarrow> response res \<times> daemon" where
  "handle_admin_gc_report W D rq =
     (case query_first (wd_bracket_ok W) (rq_path rq) ''inactive_days'' of
        Inl e \<Rightarrow> (Inl e, D)
      | Inr v \<Rightarrow>
          (case py_int (case v of None \<Rightarrow> ''90'' | Some s \<Rightarrow> s) of
             None \<Rightarrow> (Inr (send_admin_error 400 ''INVALID_PARAM'' ''inactive_days must be an integer''), D)
           | Some n \<Rightarrow>
               (case gc_report (dm_store D) (wd_now W) n of
                  (Inl e, s) \<Rightarrow> (Inl e, with_store D s)
                | (Inr candidates, s) \<Rightarrow>
                    (Inr (send_json 200 (PDict [(''candidates'', PList candidates), (''count'', PInt (int (length candidates)))])), with_store D s))))"

text \<open>The digests of a request; the first one that is not in form gives the answer.\<close>

fun check_digests :: "pyval list \<Rightarrow> (response + string list) res" where
  "check_digests [] = Inr (Inr [])"
| "check_digests (d # ds) =
     (case d of
        PStr s \<Rightarrow>
          if \<not> digest_re s then Inr (Inl (send_admin_error 400 ''DIGEST_INVALID'' (''invalid digest: '' @ s)))
          else rbind (check_digests ds) (\<lambda>r. Inr (case r of Inl e \<Rightarrow> Inl e | Inr ss \<Rightarrow> Inr (s # ss)))
      | v \<Rightarrow> Inl (type_error (''expected string or bytes-like object, got '' @ [CHR 0x27] @ type_name v @ [CHR 0x27])))"

definition digests_required :: response where
  "digests_required = send_admin_error 400 ''MISSING_FIELD'' ''digests array required''"

definition handle_admin_gc_impact :: "world \<Rightarrow> daemon \<Rightarrow> http_request \<Rightarrow> bytes \<Rightarrow> response res" where
  "handle_admin_gc_impact W D rq input =
     (case read_json_body W rq input of
        Inl e \<Rightarrow> Inl e
      | Inr (Inl r) \<Rightarrow> Inr r
      | Inr (Inr (PDict body)) \<Rightarrow>
          (case dget_or body ''digests'' PNone of
             PList ds \<Rightarrow>
               if ds = [] then Inr digests_required
               else
                 rbind (check_digests ds) (\<lambda>r.
                 case r of
                   Inl e \<Rightarrow> Inr e
                 | Inr digests \<Rightarrow>
                     rbind (gc_impact_report (dm_store D) digests) (\<lambda>impact.
                     Inr (send_json 200 (PDict [(''impact'', PList impact), (''affected_images'', PInt (int (length impact)))]))))
           | _ \<Rightarrow> Inr digests_required)
      | Inr (Inr v) \<Rightarrow> Inl (attr_error v ''get''))"

definition operator_re :: "string \<Rightarrow> bool" where
  "operator_re s = (let t = dollar s in 1 \<le> length t \<and> length t \<le> 128 \<and> list_all (\<lambda>c. is_tag_char c \<or> c = CHR ''@'') t)"

definition gc_answer :: "daemon \<Rightarrow> (nat \<times> nat) res \<times> store \<Rightarrow> response res \<times> daemon" where
  "gc_answer D x =
     ((case fst x of
         Inl (BunckerError KStore m c) \<Rightarrow> Inr (send_admin_error 400 ''GC_ERROR'' (exc_str (BunckerError KStore m c)))
       | Inl e \<Rightarrow> Inl e
       | Inr (n, freed) \<Rightarrow> Inr (send_json 200 (PDict [(''count'', PInt (int n)), (''bytes_freed'', PInt (int freed))]))),
      with_store D (snd x))"

definition handle_admin_gc_execute :: "world \<Rightarrow> daemon \<Rightarrow> http_request \<Rightarrow> bytes \<Rightarrow> response res \<times> daemon" where
  "handle_admin_gc_execute W D rq input =
     (case read_json_body W rq input of
        Inl e \<Rightarrow> (Inl e, D)
      | Inr (Inl r) \<Rightarrow> (Inr r, D)
      | Inr (Inr (PDict body)) \<Rightarrow>
          (case dget_or body ''digests'' PNone of
             PList ds \<Rightarrow>
               if ds = [] then (Inr digests_required, D)
               else
                 (case dget_or body ''operator'' PNone of
                    PStr operator \<Rightarrow>
                      if operator = [] then (Inr (send_admin_error 400 ''MISSING_FIELD'' ''operator string required''), D)
                      else if \<not> operator_re operator then (Inr (send_admin_error 400 ''INVALID_OPERATOR'' ''invalid operator name format''), D)
                      else
                        (case check_digests ds of
                           Inl e \<Rightarrow> (Inl e, D)
                         | Inr (Inl r) \<Rightarrow> (Inr r, D)
                         | Inr (Inr digests) \<Rightarrow>
                             gc_answer D (gc_execute (dm_store D) digests operator))
                  | _ \<Rightarrow> (Inr (send_admin_error 400 ''MISSING_FIELD'' ''operator string required''), D))
           | _ \<Rightarrow> (Inr digests_required, D))
      | Inr (Inr v) \<Rightarrow> (Inl (attr_error v ''get''), D))"

section \<open>The log\<close>

text \<open>Whether an entry passes the filters; a time that does not parse fails the second.\<close>

definition before_since :: "nat \<times> int option \<Rightarrow> pyval \<Rightarrow> bool res" where
  "before_since since ts =
     (case ts of
        PStr t \<Rightarrow>
          (case fromisoformat t of
             Inl e \<Rightarrow> if e = not_modelled then Inl e else Inr True
           | Inr p \<Rightarrow>
               (case (snd p, snd since) of
                  (Some a, Some b) \<Rightarrow> Inr (int (fst p) - a < int (fst since) - b)
                | (None, None) \<Rightarrow> Inr (fst p < fst since)
                | _ \<Rightarrow> Inl naive_error))
      | _ \<Rightarrow> Inl (type_error ''fromisoformat: argument must be str''))"

definition entry_passes :: "string option \<Rightarrow> (nat \<times> int option) option \<Rightarrow> pyval \<Rightarrow> bool res" where
  "entry_passes event_filter since entry =
     rbind (case event_filter of None \<Rightarrow> Inr True | Some ev \<Rightarrow> rbind (vget entry ''event'' PNone) (\<lambda>v. Inr (v = PStr ev))) (\<lambda>ok.
     if \<not> ok then Inr False
     else case since of
       None \<Rightarrow> Inr True
     | Some t \<Rightarrow>
         rbind (vget entry ''ts'' PNone) (\<lambda>ts.
         if truthy ts then rbind (before_since t ts) (\<lambda>b. Inr (\<not> b)) else Inr True))"

text \<open>The lines in order, until there are enough entries; \<open>taken\<close> is their number so far.\<close>

fun log_entries :: "string option \<Rightarrow> (nat \<times> int option) option \<Rightarrow> int \<Rightarrow> nat \<Rightarrow> string list \<Rightarrow> pyval list res" where
  "log_entries event_filter since limit taken [] = Inr []"
| "log_entries event_filter since limit taken (line # lines) =
     (let line = strip line in
      if line = [] then log_entries event_filter since limit taken lines
      else case json_loads line of
        Inl e \<Rightarrow> if is_json_error e then log_entries event_filter since limit taken lines else Inl e
      | Inr entry \<Rightarrow>
          rbind (entry_passes event_filter since entry) (\<lambda>ok.
          if \<not> ok then log_entries event_filter since limit taken lines
          else if limit \<le> int (Suc taken) then Inr [entry]
          else rbind (log_entries event_filter since limit (Suc taken) lines) (\<lambda>es. Inr (entry # es))))"

definition read_log :: "world \<Rightarrow> string option \<Rightarrow> (nat \<times> int option) option \<Rightarrow> int \<Rightarrow> response res" where
  "read_log W event_filter since limit =
     (case wd_log W of
        None \<Rightarrow> Inr (send_json 200 (PList []))
      | Some bs \<Rightarrow>
          rbind (read_text bs) (\<lambda>text.
          rbind (log_entries event_filter since limit 0 (split_on CHR 0x0A text)) (\<lambda>entries.
          Inr (send_json 200 (PList entries)))))"

definition invalid_param :: "string \<Rightarrow> response" where
  "invalid_param m = send_admin_error 400 ''INVALID_PARAM'' m"

definition handle_admin_logs :: "world \<Rightarrow> http_request \<Rightarrow> response res" where
  "handle_admin_logs W rq =
     (let q = query_first (wd_bracket_ok W) (rq_path rq) in
      rbind (q ''event'') (\<lambda>event_filter.
      rbind (q ''since'') (\<lambda>since_str.
      rbind (q ''limit'') (\<lambda>limit_str.
      case py_int (case limit_str of None \<Rightarrow> ''100'' | Some s \<Rightarrow> s) of
        None \<Rightarrow> Inr (invalid_param ''limit must be an integer'')
      | Some limit \<Rightarrow>
          if limit < 0 \<or> 10000 < limit then Inr (invalid_param ''limit must be between 0 and 10000'')
          else case since_str of
            None \<Rightarrow> read_log W event_filter None limit
          | Some s \<Rightarrow>
              (case fromisoformat s of
                 Inl e \<Rightarrow> if e = not_modelled then Inl e else Inr (invalid_param ''since must be ISO timestamp'')
               | Inr t \<Rightarrow> read_log W event_filter (Some t) limit)))))"

section \<open>The handler\<close>

definition run_endpoint :: "world \<Rightarrow> settings \<Rightarrow> nat \<Rightarrow> daemon \<Rightarrow> http_request \<Rightarrow> bytes \<Rightarrow> route \<Rightarrow> response res \<times> daemon" where
  "run_endpoint W S dir_size D rq input r =
     (let s = dm_store D; command = rq_command rq; pure = (\<lambda>x. (x, D)) in
      case r of
        Rejected refusal \<Rightarrow> pure (rbind (url_path (wd_bracket_ok W) (rq_path rq)) (\<lambda>path. Inr (refuse path refusal)))
      | NotFound \<Rightarrow> pure (Inr (send_not_found command))
      | V2Root \<Rightarrow> pure (Inr (handle_v2_root command))
      | ManifestRoute name reference \<Rightarrow> pure (handle_manifest s command name reference (command \<noteq> ''HEAD''))
      | BlobRoute name digest \<Rightarrow>
          pure (if command = ''HEAD'' then handle_blob_head dir_size s command name digest else handle_blob_get s command name digest)
      | AdminStatus \<Rightarrow> pure (handle_admin_status W S D)
      | AdminHealth \<Rightarrow> pure (Inr (handle_admin_health W S D))
      | AdminGcReport \<Rightarrow> handle_admin_gc_report W D rq
      | AdminLogs \<Rightarrow> pure (handle_admin_logs W rq)
      | AdminAnalyze \<Rightarrow> handle_admin_analyze W S D rq input
      | AdminGenerateManifest \<Rightarrow> handle_admin_generate_manifest W S D rq input
      | AdminImport \<Rightarrow> handle_admin_import W S D rq input
      | AdminImportPut \<Rightarrow> handle_admin_import_put W S D rq input
      | AdminGcImpact \<Rightarrow> pure (handle_admin_gc_impact W D rq input)
      | AdminGcExecute \<Rightarrow> handle_admin_gc_execute W D rq input)"

definition serve ::
  "world \<Rightarrow> settings \<Rightarrow> nat \<Rightarrow> server_state \<Rightarrow> int \<Rightarrow> daemon \<Rightarrow> http_request \<Rightarrow> bytes \<Rightarrow> response res \<times> server_state \<times> daemon" where
  "serve W S dir_size sv monotonic D rq input =
     (case dispatch (wd_bracket_ok W) sv monotonic rq of
        (Inl e, sv) \<Rightarrow> (Inl e, sv, D)
      | (Inr (r, l), sv) \<Rightarrow> (case run_endpoint W S dir_size D rq input r of (x, D) \<Rightarrow> (x, sv, D)))"

end
