(* ===== verification/Offline_CLI.thy ===== *)
theory Offline_CLI
  imports Server_Setup Handler_Admin
begin

text \<open>
  \<open>buncker/__main__.py\<close>: the commands that talk to the running daemon, prepare, analyze,
  generate-manifest, import, status and gc. The daemon is a parameter that answers a call over a
  state of its own; a call goes to \<open>http://localhost\<close> and carries no token. The documents printed
  are kept in order, other lines of output are left out, though what is computed for them may raise.
\<close>

section \<open>Calls\<close>

text \<open>What is sent: the URL, and for a POST the content type and the body.\<close>

datatype call = GetCall string | PostCall string string bytes

text \<open>
  What \<open>urlopen\<close> does: it returns a response of which the content type and the body are read, it
  raises \<open>HTTPError\<close> with a status and a body, \<open>URLError\<close> with a reason, or something else.
\<close>

datatype call_answer = AnsweredOk string bytes | AnsweredError nat bytes | Unreachable string | CallRaised exc

type_synonym 'w daemon_link = "call \<Rightarrow> 'w \<Rightarrow> call_answer \<times> 'w"

record 'w terminal =
  tm_link :: 'w
  tm_host :: host
  tm_shown :: "pyval list"

text \<open>The body of an HTTP error is shown as JSON too; one that is no JSON ends the command.\<close>

definition error_body :: "bytes \<Rightarrow> pyval res" where
  "error_body body =
     (case json_loads_bytes body of
        Inl e \<Rightarrow> Inl (if is_json_error e then sys_exit 1 else e)
      | Inr v \<Rightarrow> Inr v)"

definition json_answer :: "call_answer \<Rightarrow> pyval res" where
  "json_answer a =
     (case a of
        AnsweredOk content_type body \<Rightarrow> json_loads_bytes body
      | AnsweredError status body \<Rightarrow> error_body body
      | Unreachable reason \<Rightarrow> Inl (sys_exit 1)
      | CallRaised e \<Rightarrow> Inl e)"

definition raw_answer :: "call_answer \<Rightarrow> (bytes + pyval) res" where
  "raw_answer a =
     (case a of
        AnsweredOk content_type raw \<Rightarrow>
          if str_in ''application/json'' content_type then rbind (json_loads_bytes raw) (\<lambda>v. Inr (Inr v)) else Inr (Inl raw)
      | _ \<Rightarrow> rbind (json_answer a) (\<lambda>v. Inr (Inr v)))"

definition post_json :: "string \<Rightarrow> dict \<Rightarrow> call" where
  "post_json url data = PostCall url ''application/json'' (py_encode (json_dumps False (PDict data)))"

definition admin_get :: "'w daemon_link \<Rightarrow> string \<Rightarrow> 'w \<Rightarrow> pyval res \<times> 'w" where
  "admin_get link url w = (case link (GetCall url) w of (a, w) \<Rightarrow> (json_answer a, w))"

definition admin_post :: "'w daemon_link \<Rightarrow> string \<Rightarrow> dict \<Rightarrow> 'w \<Rightarrow> pyval res \<times> 'w" where
  "admin_post link url data w = (case link (post_json url data) w of (a, w) \<Rightarrow> (json_answer a, w))"

definition admin_post_raw :: "'w daemon_link \<Rightarrow> string \<Rightarrow> dict \<Rightarrow> 'w \<Rightarrow> (bytes + pyval) res \<times> 'w" where
  "admin_post_raw link url data w = (case link (post_json url data) w of (a, w) \<Rightarrow> (raw_answer a, w))"

definition admin_post_binary :: "'w daemon_link \<Rightarrow> string \<Rightarrow> bytes \<Rightarrow> 'w \<Rightarrow> pyval res \<times> 'w" where
  "admin_post_binary link url data w =
     (case link (PostCall url ''application/octet-stream'' data) w of (a, w) \<Rightarrow> (json_answer a, w))"

text \<open>A call of a command, whose result goes on with the terminal.\<close>

definition calling :: "('w \<Rightarrow> 'a res \<times> 'w) \<Rightarrow> 'w terminal \<Rightarrow> ('a \<Rightarrow> 'w terminal \<Rightarrow> unit res \<times> 'w terminal) \<Rightarrow> unit res \<times> 'w terminal" where
  "calling c T k =
     (case c (tm_link T) of
        (Inl e, w) \<Rightarrow> (Inl e, T\<lparr>tm_link := w\<rparr>)
      | (Inr v, w) \<Rightarrow> k v (T\<lparr>tm_link := w\<rparr>))"

definition print_json :: "pyval \<Rightarrow> 'w terminal \<Rightarrow> 'w terminal" where
  "print_json v T = T\<lparr>tm_shown := tm_shown T @ [v]\<rparr>"

section \<open>What a command is given\<close>

text \<open>Paths are given as \<open>str\<close> of a \<open>Path\<close> gives them. The archives of a directory come by age.\<close>

record cli_env =
  ce_config :: "string option"
  ce_resolve :: "string \<Rightarrow> string"
  ce_cwd :: string
  ce_archives :: "string \<Rightarrow> string list"
  ce_input :: "string option"

datatype analyze_input = DockerfileInput string | ComposeInput string

record gc_args =
  ga_report :: bool
  ga_execute :: bool
  ga_inactive_days :: int
  ga_operator :: "string option"
  ga_digests :: "string list option"
  ga_yes :: bool

datatype command =
    Prepare string "string list" "string option"
  | Analyze analyze_input "string list"
  | GenerateManifest string bool "string option"
  | Import "string option" bool
  | Status
  | Gc gc_args

definition base_url :: "dict \<Rightarrow> string" where
  "base_url config = ''http://localhost:'' @ str_of (dget_or config ''port'' (PInt 5000))"

text \<open>\<open>key, _, value = ba.partition ("=")\<close> for every argument; a later one wins.\<close>

definition parse_build_args :: "string list \<Rightarrow> dict" where
  "parse_build_args bas = foldl (\<lambda>d ba. dset d (before CHR ''='' ba) (PStr (after CHR ''='' ba))) [] bas"

definition analyze_data :: "dict \<Rightarrow> string list \<Rightarrow> dict" where
  "analyze_data data bas =
     (let build_args = parse_build_args bas in if build_args \<noteq> [] then dset data ''build_args'' (PDict build_args) else data)"

definition resolve_transfer_path :: "dict \<Rightarrow> string option res" where
  "resolve_transfer_path config =
     (let tp = dget_or config ''transfer_path'' (PStr []) in
      if \<not> truthy tp then Inr None
      else (case tp of PStr s \<Rightarrow> Inr (Some s) | _ \<Rightarrow> Inl (type_error ''argument should be a str or an os.PathLike object'')))"

definition output_dir :: "cli_env \<Rightarrow> dict \<Rightarrow> string option \<Rightarrow> string res" where
  "output_dir E config output =
     (case output of
        Some d \<Rightarrow> Inr d
      | None \<Rightarrow> rbind (resolve_transfer_path config) (\<lambda>tp. Inr (case tp of Some d \<Rightarrow> d | None \<Rightarrow> ce_cwd E)))"

definition in_dir :: "string \<Rightarrow> string \<Rightarrow> string" where
  "in_dir d name = (if endswith d ''/'' then d @ name else d @ ''/'' @ name)"

definition save_request :: "cli_env \<Rightarrow> dict \<Rightarrow> string option \<Rightarrow> bytes \<Rightarrow> 'w terminal \<Rightarrow> unit res \<times> 'w terminal" where
  "save_request E config output raw T =
     (case output_dir E config output of
        Inl e \<Rightarrow> (Inl e, T)
      | Inr d \<Rightarrow> (Inr (), T\<lparr>tm_host := put_file (tm_host T) (in_dir d ''buncker-request.json.enc'') raw\<rparr>))"

section \<open>Prepare\<close>

text \<open>The identifier of the analysis, after the lines about it are printed; an error ends the command.\<close>

definition images_shown :: "pyval \<Rightarrow> unit res" where
  "images_shown images =
     rbind (viter images) (\<lambda>imgs.
     rbind (rmap (\<lambda>img. rbind (vget img ''is_internal'' PNone) (\<lambda>v. Inr ())) imgs) (\<lambda>_. Inr ()))"

definition analysis_shown :: "pyval \<Rightarrow> pyval res" where
  "analysis_shown analysis =
     rbind (vin ''error'' analysis) (\<lambda>failed.
     if failed then rbind (vget analysis ''message'' analysis) (\<lambda>_. Inl (sys_exit 1))
     else
       rbind (vget analysis ''analysis_id'' (PStr [])) (\<lambda>analysis_id.
       rbind (vget analysis ''images'' (PList [])) (\<lambda>images.
       rbind (images_shown images) (\<lambda>_.
       rbind (vget analysis ''missing_blobs'' (PList [])) (\<lambda>missing.
       rbind (vlen missing) (\<lambda>_.
       Inr analysis_id))))))"

definition request_shown :: "cli_env \<Rightarrow> dict \<Rightarrow> string option \<Rightarrow> bytes + pyval \<Rightarrow> 'w terminal \<Rightarrow> unit res \<times> 'w terminal" where
  "request_shown E config output x T =
     (case x of
        Inl raw \<Rightarrow> save_request E config output raw T
      | Inr (PDict d) \<Rightarrow> if dget d ''error'' \<noteq> None then (Inl (sys_exit 1), T) else (Inr (), print_json (PDict d) T)
      | Inr v \<Rightarrow> (Inr (), print_json v T))"

definition cmd_prepare ::
  "cli_env \<Rightarrow> 'w daemon_link \<Rightarrow> string \<Rightarrow> string list \<Rightarrow> string option \<Rightarrow> 'w terminal \<Rightarrow> unit res \<times> 'w terminal" where
  "cmd_prepare E link dockerfile build_arg output T =
     (case read_host_config (tm_host T) (config_path_of (ce_config E)) of
        Inl e \<Rightarrow> (Inl e, T)
      | Inr config \<Rightarrow>
          calling (admin_post link (base_url config @ ''/admin/analyze'')
              (analyze_data [(''dockerfile'', PStr (ce_resolve E dockerfile))] build_arg)) T (\<lambda>analysis T.
          case analysis_shown analysis of
            Inl e \<Rightarrow> (Inl e, T)
          | Inr analysis_id \<Rightarrow>
              calling (admin_post_raw link (base_url config @ ''/admin/generate-manifest'') [(''analysis_id'', analysis_id)]) T
                (request_shown E config output)))"

section \<open>The proxied commands\<close>

definition proxy_analyze :: "'w daemon_link \<Rightarrow> string \<Rightarrow> cli_env \<Rightarrow> analyze_input \<Rightarrow> string list \<Rightarrow> 'w terminal \<Rightarrow> unit res \<times> 'w terminal" where
  "proxy_analyze link base E source_file build_arg T =
     calling (admin_post link (base @ ''/admin/analyze'')
       (analyze_data (case source_file of
          ComposeInput p \<Rightarrow> [(''compose_path'', PStr (ce_resolve E p))]
        | DockerfileInput p \<Rightarrow> [(''dockerfile'', PStr p)]) build_arg)) T (\<lambda>result T.
     (Inr (), print_json result T))"

definition proxy_generate :: "'w daemon_link \<Rightarrow> string \<Rightarrow> cli_env \<Rightarrow> dict \<Rightarrow> string \<Rightarrow> bool \<Rightarrow> string option \<Rightarrow> 'w terminal \<Rightarrow> unit res \<times> 'w terminal" where
  "proxy_generate link base E config analysis_id refresh_stale output T =
     calling (admin_post_raw link (base @ ''/admin/generate-manifest'')
       ([(''analysis_id'', PStr analysis_id)] @ (if refresh_stale then [(''refresh_stale'', PBool True)] else []))) T (\<lambda>result T.
     case result of
       Inl raw \<Rightarrow> save_request E config output raw T
     | Inr v \<Rightarrow> (Inr (), print_json v T))"

text \<open>\<open>v > 0\<close>.\<close>

definition vpositive :: "pyval \<Rightarrow> bool res" where
  "vpositive v =
     (case v of
        PInt i \<Rightarrow> Inr (0 < i)
      | PBool b \<Rightarrow> Inr b
      | PFloat f \<Rightarrow> Inl not_modelled
      | _ \<Rightarrow> Inl (type_error ([CHR 0x27] @ ''>'' @ [CHR 0x27] @ '' not supported between instances of '' @ [CHR 0x27] @ type_name v
          @ [CHR 0x27] @ '' and '' @ [CHR 0x27] @ ''int'' @ [CHR 0x27])))"

definition import_file :: "cli_env \<Rightarrow> dict \<Rightarrow> string option \<Rightarrow> string res" where
  "import_file E config arg =
     (case arg of
        Some p \<Rightarrow> Inr p
      | None \<Rightarrow>
          rbind (resolve_transfer_path config) (\<lambda>tp.
          case tp of
            None \<Rightarrow> Inl (sys_exit 1)
          | Some d \<Rightarrow> if ce_archives E d = [] then Inl (sys_exit 1) else Inr (last (ce_archives E d))))"

text \<open>The result is printed before anything is read from it.\<close>

definition import_shown :: "string \<Rightarrow> bool \<Rightarrow> pyval \<Rightarrow> 'w terminal \<Rightarrow> unit res \<times> 'w terminal" where
  "import_shown p cleanup result T =
     (let T = print_json result T in
      case rbind (vget result ''update_deb'' PNone) (\<lambda>_.
           if cleanup then rbind (vget result ''imported'' (PInt 0)) vpositive else Inr False) of
        Inl e \<Rightarrow> (Inl e, T)
      | Inr remove \<Rightarrow> (Inr (), if remove then T\<lparr>tm_host := (tm_host T)\<lparr>ho_files := ddel (ho_files (tm_host T)) p\<rparr>\<rparr> else T))"

definition proxy_import :: "'w daemon_link \<Rightarrow> string \<Rightarrow> cli_env \<Rightarrow> dict \<Rightarrow> string option \<Rightarrow> bool \<Rightarrow> 'w terminal \<Rightarrow> unit res \<times> 'w terminal" where
  "proxy_import link base E config arg cleanup T =
     (case import_file E config arg of
        Inl e \<Rightarrow> (Inl e, T)
      | Inr p \<Rightarrow>
          (case dget (ho_files (tm_host T)) p of
             None \<Rightarrow> (Inl (PyError ''FileNotFoundError'' p), T)
           | Some file_data \<Rightarrow>
               calling (admin_post_binary link (base @ ''/admin/import'') file_data) T (import_shown p cleanup)))"

text \<open>The line about the disk; numbers too large for a float are outside the model.\<close>

definition disk_shown :: "pyval \<Rightarrow> unit res" where
  "disk_shown result =
     rbind (vin ''disk_free'' result) (\<lambda>known.
     if \<not> known then Inr ()
     else
       rbind (vindex result ''disk_free'') (\<lambda>free.
       rbind (vindex result ''disk_total'') (\<lambda>total.
       rbind (vindex result ''disk_used'') (\<lambda>used.
       case (free, total, used) of
         (PInt f, PInt t, PInt u) \<Rightarrow>
           if list_ex (\<lambda>i. 2 ^ 1000 \<le> \<bar>i\<bar>) [f, t, u] then Inl not_modelled
           else if t = 0 then Inl (PyError ''ZeroDivisionError'' ''division by zero'') else Inr ()
       | _ \<Rightarrow> Inl not_modelled))))"

definition proxy_status :: "'w daemon_link \<Rightarrow> string \<Rightarrow> 'w terminal \<Rightarrow> unit res \<times> 'w terminal" where
  "proxy_status link base T =
     calling (admin_get link (base @ ''/admin/status'')) T (\<lambda>result T. (disk_shown result, print_json result T))"

definition gc_report_shown :: "'w daemon_link \<Rightarrow> string \<Rightarrow> gc_args \<Rightarrow> 'w terminal \<Rightarrow> unit res \<times> 'w terminal" where
  "gc_report_shown link base a T =
     (if ga_report a \<or> \<not> ga_execute a then
        calling (admin_get link (base @ ''/admin/gc/report?inactive_days='' @ int_str (ga_inactive_days a))) T (\<lambda>result T.
        (Inr (), print_json result T))
      else (Inr (), T))"

text \<open>The warning about the images that lose blobs, which an answer without the number does not give.\<close>

definition impact_lines :: "pyval \<Rightarrow> unit res" where
  "impact_lines impact =
     rbind (vget impact ''affected_images'' (PInt 0)) (\<lambda>affected.
     rbind (vpositive affected) (\<lambda>warn.
     if \<not> warn then Inr ()
     else
       rbind (vget impact ''impact'' (PList [])) (\<lambda>lines.
       rbind (viter lines) (\<lambda>imgs.
       rbind (rmap (\<lambda>img. rmap (vindex img) [''image'', ''platform'', ''missing_count'', ''total_blobs'']) imgs) (\<lambda>_.
       Inr ())))))"

definition gc_impact_shown :: "'w daemon_link \<Rightarrow> string \<Rightarrow> string list \<Rightarrow> 'w terminal \<Rightarrow> unit res \<times> 'w terminal" where
  "gc_impact_shown link base digests T =
     (if digests = [] then (Inr (), T)
      else calling (admin_post link (base @ ''/admin/gc/impact'') [(''digests'', PList (map PStr digests))]) T (\<lambda>impact T.
           (impact_lines impact, T)))"

text \<open>The confirmation: end of input is no answer.\<close>

definition confirmed :: "cli_env \<Rightarrow> gc_args \<Rightarrow> bool" where
  "confirmed E a = (ga_yes a \<or> (case ce_input E of None \<Rightarrow> False | Some line \<Rightarrow> lower (strip line) = ''y''))"

definition gc_execution :: "'w daemon_link \<Rightarrow> string \<Rightarrow> cli_env \<Rightarrow> gc_args \<Rightarrow> 'w terminal \<Rightarrow> unit res \<times> 'w terminal" where
  "gc_execution link base E a T =
     (let digests = (case ga_digests a of None \<Rightarrow> [] | Some ds \<Rightarrow> ds);
          operator = (case ga_operator a of None \<Rightarrow> ''cli'' | Some op \<Rightarrow> if op = [] then ''cli'' else op) in
      case gc_impact_shown link base digests T of
        (Inl e, T) \<Rightarrow> (Inl e, T)
      | (Inr _, T) \<Rightarrow>
          if \<not> confirmed E a then (Inl (sys_exit 0), T)
          else calling (admin_post link (base @ ''/admin/gc/execute'')
                 [(''digests'', PList (map PStr digests)), (''operator'', PStr operator)]) T (\<lambda>result T.
               (Inr (), print_json result T)))"

definition proxy_gc :: "'w daemon_link \<Rightarrow> string \<Rightarrow> cli_env \<Rightarrow> gc_args \<Rightarrow> 'w terminal \<Rightarrow> unit res \<times> 'w terminal" where
  "proxy_gc link base E a T =
     (case gc_report_shown link base a T of
        (Inl e, T) \<Rightarrow> (Inl e, T)
      | (Inr _, T) \<Rightarrow> if ga_execute a then gc_execution link base E a T else (Inr (), T))"

definition cmd_proxy :: "cli_env \<Rightarrow> 'w daemon_link \<Rightarrow> command \<Rightarrow> 'w terminal \<Rightarrow> unit res \<times> 'w terminal" where
  "cmd_proxy E link c T =
     (case read_host_config (tm_host T) (config_path_of (ce_config E)) of
        Inl e \<Rightarrow> (Inl e, T)
      | Inr config \<Rightarrow>
          (let base = base_url config in
           case c of
             Analyze source_file build_arg \<Rightarrow> proxy_analyze link base E source_file build_arg T
           | GenerateManifest analysis_id refresh_stale output \<Rightarrow> proxy_generate link base E config analysis_id refresh_stale output T
           | Import arg cleanup \<Rightarrow> proxy_import link base E config arg cleanup T
           | Status \<Rightarrow> proxy_status link base T
           | Gc a \<Rightarrow> proxy_gc link base E a T
           | Prepare _ _ _ \<Rightarrow> (Inr (), T)))"

text \<open>\<open>main\<close>, for the commands that need the daemon.\<close>

definition run_command :: "cli_env \<Rightarrow> 'w daemon_link \<Rightarrow> command \<Rightarrow> 'w terminal \<Rightarrow> unit res \<times> 'w terminal" where
  "run_command E link c T =
     (case c of
        Prepare dockerfile build_arg output \<Rightarrow> cmd_prepare E link dockerfile build_arg output T
      | c \<Rightarrow> cmd_proxy E link c T)"

section \<open>The daemon over plain HTTP\<close>

text \<open>
  The link to a daemon on the same host: a call becomes the WSGI environment the server of the
  standard library makes of it, the daemon serves it, and its answer comes back. An exception of the
  handler is that server's error page.
\<close>

record link_state =
  lk_server :: server_state
  lk_daemon :: daemon
  lk_calls :: nat

definition call_environ :: "string \<Rightarrow> string \<Rightarrow> (string \<times> string) list \<Rightarrow> environ" where
  "call_environ command target headers =
     [(''REQUEST_METHOD'', command), (''PATH_INFO'', before CHR ''?'' target), (''QUERY_STRING'', after CHR ''?'' target),
      (''REMOTE_ADDR'', ''127.0.0.1'')] @ headers"

fun call_request :: "string \<Rightarrow> call \<Rightarrow> environ \<times> bytes" where
  "call_request base (GetCall url) = (call_environ ''GET'' (drop (length base) url) [(''CONTENT_TYPE'', ''text/plain'')], [])"
| "call_request base (PostCall url content_type body) =
     (call_environ ''POST'' (drop (length base) url) [(''CONTENT_TYPE'', content_type), (''CONTENT_LENGTH'', nat_str (length body))], body)"

definition ERROR_PAGE :: bytes where
  "ERROR_PAGE = ''A server error occurred.  Please contact the administrator.''"

definition http_answer :: "response res \<Rightarrow> call_answer" where
  "http_answer x =
     (case x of
        Inr r \<Rightarrow>
          if 200 \<le> rs_status r \<and> rs_status r < 300 then AnsweredOk (dget_or (rs_headers r) ''Content-Type'' []) (rs_body r)
          else AnsweredError (rs_status r) (rs_body r)
      | Inl e \<Rightarrow> if e = not_modelled then CallRaised e else AnsweredError 500 ERROR_PAGE)"

text \<open>The world and the clock at each call are arguments.\<close>

definition plain_http :: "(nat \<Rightarrow> world) \<Rightarrow> (nat \<Rightarrow> int) \<Rightarrow> settings \<Rightarrow> string \<Rightarrow> link_state daemon_link" where
  "plain_http Ws clock S base c l =
     (case call_request base c of
        (environ, body) \<Rightarrow>
          (case make_request environ of
             Inl e \<Rightarrow> (http_answer (Inl e), l)
           | Inr rq \<Rightarrow>
               (case serve (Ws (lk_calls l)) S 0 (lk_server l) (clock (lk_calls l)) (lk_daemon l) rq body of
                  (x, sv, D) \<Rightarrow> (http_answer x, \<lparr>lk_server = sv, lk_daemon = D, lk_calls = Suc (lk_calls l)\<rparr>))))"

end
