(* ===== verification/Content_Store.thy ===== *)
theory Content_Store
  imports Py_Files
begin

text \<open>
  The contract of a content-addressed store, which the offline blob store and the online cache
  share: a blob is stored under the hexadecimal SHA-256 of its bytes, a blob already there is
  kept, a blob that does not match its digest is refused and changes nothing. \<open>fits\<close> is the
  condition on the time and the size of a write under which the file system takes it whole.
\<close>

definition blob_key :: "string \<Rightarrow> string" where
  "blob_key digest = removeprefix digest ''sha256:''"

locale content_store =
  fixes put :: "'s \<Rightarrow> instant \<Rightarrow> bytes \<Rightarrow> string \<Rightarrow> 'r res \<times> 's"
    and get :: "'s \<Rightarrow> string \<Rightarrow> bytes option"
    and inv :: "'s \<Rightarrow> bool"
    and fits :: "instant \<Rightarrow> bytes \<Rightarrow> bool"
  assumes put_ok: "inv s \<Longrightarrow> fits now data \<Longrightarrow> sha256_hex data = blob_key dg \<Longrightarrow>
      \<exists>r. fst (put s now data dg) = Inr r"
    and put_get: "inv s \<Longrightarrow> fits now data \<Longrightarrow> sha256_hex data = blob_key dg \<Longrightarrow>
      get (snd (put s now data dg)) h = (if h = blob_key dg \<and> get s h = None then Some data else get s h)"
    and put_bad: "sha256_hex data \<noteq> blob_key dg \<Longrightarrow> \<exists>e. put s now data dg = (Inl e, s)"
    and put_inv: "inv s \<Longrightarrow> fits now data \<Longrightarrow> inv (snd (put s now data dg))"
    and get_hash: "inv s \<Longrightarrow> get s h = Some b \<Longrightarrow> sha256_hex b = h"
begin

text \<open>Storing a list of blobs, counting the ones that were accepted.\<close>

fun put_all :: "'s \<Rightarrow> (instant \<times> bytes \<times> string) list \<Rightarrow> nat \<times> 's" where
  "put_all s [] = (0, s)"
| "put_all s ((now, data, dg) # xs) =
     (let (r, s') = put s now data dg; (n, s'') = put_all s' xs
      in ((case r of Inl e \<Rightarrow> n | Inr _ \<Rightarrow> Suc n), s''))"

definition all_fit :: "(instant \<times> bytes \<times> string) list \<Rightarrow> bool" where
  "all_fit xs = list_all (\<lambda>(now, data, dg). fits now data) xs"

definition matching :: "instant \<times> bytes \<times> string \<Rightarrow> bool" where
  "matching x = (sha256_hex (fst (snd x)) = blob_key (snd (snd x)))"

lemma put_all_Cons:
  "snd (put_all s ((now, data, dg) # xs)) = snd (put_all (snd (put s now data dg)) xs)"
  "fst (put_all s ((now, data, dg) # xs)) =
     (case fst (put s now data dg) of Inl e \<Rightarrow> 0 | Inr _ \<Rightarrow> 1) + fst (put_all (snd (put s now data dg)) xs)"
  by (simp_all add: case_prod_beta Let_def split: sum.split)

lemma all_fit_Cons [simp]: "all_fit ((now, data, dg) # xs) \<longleftrightarrow> fits now data \<and> all_fit xs"
  by (simp add: all_fit_def)

lemma put_result:
  assumes "inv s" "fits now data"
  shows "(\<exists>r. fst (put s now data dg) = Inr r) \<longleftrightarrow> sha256_hex data = blob_key dg"
  using put_ok[OF assms] put_bad[of data dg s now] by force

lemma put_kept:
  assumes "inv s" "fits now data" "get s h = Some b"
  shows "get (snd (put s now data dg)) h = Some b"
  using put_get[OF assms(1,2), of dg h] put_bad[of data dg s now] assms(3)
  by (cases "sha256_hex data = blob_key dg") auto

lemma put_stored:
  assumes "inv s" "fits now data" "sha256_hex data = blob_key dg"
  shows "get (snd (put s now data dg)) (blob_key dg) \<noteq> None"
  using put_get[OF assms, of "blob_key dg"] by (auto split: if_splits)

lemma put_all_inv: "inv s \<Longrightarrow> all_fit xs \<Longrightarrow> inv (snd (put_all s xs))"
proof (induction xs arbitrary: s)
  case (Cons x xs)
  then show ?case
    using put_inv by (cases x) (simp add: put_all_Cons del: put_all.simps)
qed simp

lemma put_all_kept: "inv s \<Longrightarrow> all_fit xs \<Longrightarrow> get s h = Some b \<Longrightarrow> get (snd (put_all s xs)) h = Some b"
proof (induction xs arbitrary: s)
  case (Cons x xs)
  obtain now data dg where x: "x = (now, data, dg)" by (cases x)
  let ?s = "snd (put s now data dg)"
  from Cons.prems x have f: "fits now data" "all_fit xs" by (auto simp: all_fit_def)
  have "get (snd (put_all ?s xs)) h = Some b"
    using Cons.IH[OF put_inv f(2) put_kept] Cons.prems f by blast
  then show ?case by (simp add: x put_all_Cons del: put_all.simps)
qed simp

text \<open>Every blob of the list that matches its digest is there in the end, whole.\<close>

lemma put_all_stored:
  "inv s \<Longrightarrow> all_fit xs \<Longrightarrow> (now, data, dg) \<in> set xs \<Longrightarrow> sha256_hex data = blob_key dg \<Longrightarrow>
     \<exists>b. get (snd (put_all s xs)) (blob_key dg) = Some b \<and> sha256_hex b = blob_key dg"
proof (induction xs arbitrary: s)
  case (Cons x xs)
  obtain n d g where x: "x = (n, d, g)" by (cases x)
  let ?s = "snd (put s n d g)"
  from Cons.prems x have f: "fits n d" "all_fit xs" by (auto simp: all_fit_def)
  have i: "inv ?s" using put_inv Cons.prems f by blast
  have e: "snd (put_all s (x # xs)) = snd (put_all ?s xs)" by (simp add: x put_all_Cons del: put_all.simps)
  show ?case
  proof (cases "x = (now, data, dg)")
    case True
    then obtain b where "get ?s (blob_key dg) = Some b"
      using put_stored[OF Cons.prems(1) f(1)] Cons.prems(4) x by auto
    from put_all_kept[OF i f(2) this] get_hash[OF i this] show ?thesis by (simp add: e)
  next
    case False
    with Cons show ?thesis using i f by (auto simp: e)
  qed
qed simp

text \<open>Nothing else appears: a new blob is one of the list.\<close>

lemma put_all_only:
  "inv s \<Longrightarrow> all_fit xs \<Longrightarrow> get (snd (put_all s xs)) h = Some b \<Longrightarrow> get s h = None \<Longrightarrow>
     \<exists>now dg. (now, b, dg) \<in> set xs \<and> blob_key dg = h"
proof (induction xs arbitrary: s)
  case (Cons x xs)
  obtain n d g where x: "x = (n, d, g)" by (cases x)
  let ?s = "snd (put s n d g)"
  from Cons.prems x have f: "fits n d" "all_fit xs" by (auto simp: all_fit_def)
  have i: "inv ?s" using put_inv Cons.prems f by blast
  have e: "snd (put_all s (x # xs)) = snd (put_all ?s xs)" by (simp add: x put_all_Cons del: put_all.simps)
  show ?case
  proof (cases "get ?s h")
    case None
    with Cons.IH[OF i f(2)] Cons.prems(3) show ?thesis unfolding e by auto
  next
    case (Some c)
    then have "b = c" using put_all_kept[OF i f(2) Some] Cons.prems(3) by (simp add: e)
    moreover have "sha256_hex d = blob_key g"
      using Some Cons.prems(4) put_bad[of d g s n] by (cases "sha256_hex d = blob_key g") auto
    ultimately show ?thesis
      using put_get[OF Cons.prems(1) f(1), of g h] Some Cons.prems(4) x by (auto split: if_splits)
  qed
qed simp

text \<open>The count is the number of matching blobs.\<close>

lemma put_all_count:
  "inv s \<Longrightarrow> all_fit xs \<Longrightarrow>
     fst (put_all s xs) = length (filter matching xs)"
proof (induction xs arbitrary: s)
  case (Cons x xs)
  obtain n d g where x: "x = (n, d, g)" by (cases x)
  from Cons.prems x have f: "fits n d" "all_fit xs" by (auto simp: all_fit_def)
  have i: "inv (snd (put s n d g))" using put_inv Cons.prems f by blast
  from put_result[OF Cons.prems(1) f(1), of g] Cons.IH[OF i f(2)]
  show ?case by (auto simp: x put_all_Cons matching_def split: sum.splits simp del: put_all.simps)
qed simp

end

end
