(* ===== verification/Blob_Store_Props.thy ===== *)
theory Blob_Store_Props
  imports Blob_Store Content_Store
begin

text \<open>
  The blob store keeps its promises: the invariant of its directories and its preservation by
  every method, the refinement of the content-addressed contract, the states the daemon can
  reach, and the properties of garbage collection and verification.
\<close>

section \<open>The invariant\<close>

text \<open>Every blob is a regular file named after its hash.\<close>

definition blobs_ok :: "blob_dir \<Rightarrow> bool" where
  "blobs_ok d = (distinct (dkeys d) \<and> (\<forall>n nd. dget d n = Some nd \<longrightarrow> (\<exists>b. nd = RegFile b \<and> sha256_hex b = n)))"

text \<open>A sidecar as the store writes it: the fields the methods read, with their types.\<close>

definition sidecar_ok :: "string \<Rightarrow> jfile \<Rightarrow> bool" where
  "sidecar_ok name f =
     (\<exists>d h sz refs t c. f = JsonFile (PDict d) \<and> name = sidecar_name h
        \<and> dget d ''digest'' = Some (PStr (''sha256:'' @ h)) \<and> dget d ''size'' = Some (PInt sz)
        \<and> dget d ''image_refs'' = Some (PList refs)
        \<and> dget d ''last_requested'' = Some (PStr (isoformat t)) \<and> t < max_instant
        \<and> dget d ''request_count'' = Some (PInt c))"

definition meta_ok :: "json_dir \<Rightarrow> bool" where
  "meta_ok m = (distinct (dkeys m) \<and> (\<forall>n f. dget m n = Some f \<longrightarrow> sidecar_ok n f))"

text \<open>Every blob has a sidecar and every sidecar a blob.\<close>

definition paired :: "blob_dir \<Rightarrow> json_dir \<Rightarrow> bool" where
  "paired d m = (\<forall>h. dget d h = None \<longleftrightarrow> dget m (sidecar_name h) = None)"

text \<open>The digests of the last report are written with their algorithm.\<close>

definition report_ok :: "pyval list option \<Rightarrow> bool" where
  "report_ok r = (\<forall>ds. r = Some ds \<longrightarrow> (\<forall>d \<in> set ds. \<exists>h. d = PStr (''sha256:'' @ h)))"

definition store_inv :: "store \<Rightarrow> bool" where
  "store_inv s = (blobs_ok (st_blobs s) \<and> meta_ok (st_meta s) \<and> paired (st_blobs s) (st_meta s)
     \<and> report_ok (st_gc_report s))"

lemma store_invD: "store_inv s \<Longrightarrow> blobs_ok (st_blobs s)" "store_inv s \<Longrightarrow> meta_ok (st_meta s)"
  "store_inv s \<Longrightarrow> paired (st_blobs s) (st_meta s)" "store_inv s \<Longrightarrow> report_ok (st_gc_report s)"
  by (simp_all add: store_inv_def)

lemma sidecar_name_inject [simp]: "sidecar_name a = sidecar_name b \<longleftrightarrow> a = b"
  by (simp add: sidecar_name_def)

lemma strip_prefix_key: "strip_prefix d = blob_key d"
  by (simp add: strip_prefix_def blob_key_def)

lemma strip_prefix_digest [simp]: "strip_prefix (''sha256:'' @ h) = h"
  by (simp add: strip_prefix_def removeprefix_def startswith_def)

lemma blobs_okD: "blobs_ok d \<Longrightarrow> dget d n = Some nd \<Longrightarrow> \<exists>b. nd = RegFile b \<and> sha256_hex b = n"
  by (auto simp: blobs_ok_def)

lemma blobs_ok_entry: "blobs_ok d \<Longrightarrow> entry_exists d n \<longleftrightarrow> dget d n \<noteq> None"
  using blobs_okD[of d n] by (auto simp: entry_exists_def split: option.splits)

lemma blobs_ok_update: "blobs_ok d \<Longrightarrow> sha256_hex b = n \<Longrightarrow> blobs_ok (dset d n (RegFile b))"
  by (auto simp: blobs_ok_def)

lemma blobs_ok_delete: "blobs_ok d \<Longrightarrow> blobs_ok (ddel d n)"
  by (auto simp: blobs_ok_def)

lemma meta_ok_update: "meta_ok m \<Longrightarrow> sidecar_ok n f \<Longrightarrow> meta_ok (dset m n f)"
  by (auto simp: meta_ok_def)

lemma meta_ok_delete: "meta_ok m \<Longrightarrow> meta_ok (ddel m n)"
  by (auto simp: meta_ok_def)

lemma file_bytes_hash: "blobs_ok d \<Longrightarrow> file_bytes d n = Some b \<Longrightarrow> sha256_hex b = n"
  using blobs_okD[of d n] by (auto simp: file_bytes_def split: bind_splits)

section \<open>Sidecars\<close>

text \<open>What a sidecar says: the time of the last request and the number of requests.\<close>

definition sidecar_view :: "jfile \<Rightarrow> (int \<times> int) option" where
  "sidecar_view f = (case f of
     JsonFile (PDict d) \<Rightarrow>
       (case (dget d ''last_requested'', dget d ''request_count'') of
          (Some (PStr t), Some (PInt c)) \<Rightarrow> (case from_iso_utc t of Inr i \<Rightarrow> Some (i, c) | Inl _ \<Rightarrow> None)
        | _ \<Rightarrow> None)
   | _ \<Rightarrow> None)"

lemma sidecar_okE:
  assumes "sidecar_ok n f"
  obtains d h sz refs t c where "f = JsonFile (PDict d)" "n = sidecar_name h"
    "dget d ''digest'' = Some (PStr (''sha256:'' @ h))" "dget d ''size'' = Some (PInt sz)"
    "dget d ''image_refs'' = Some (PList refs)" "dget d ''last_requested'' = Some (PStr (isoformat t))"
    "t < max_instant" "dget d ''request_count'' = Some (PInt c)" "sidecar_view f = Some (int t, c)"
  using assms by (auto simp: sidecar_ok_def sidecar_view_def)

lemma touch_sidecar_ok:
  assumes "sidecar_ok n (JsonFile m)" "now < max_instant"
  shows "\<exists>m' t c. touch_sidecar now m = Inr m' \<and> sidecar_ok n (JsonFile m')
    \<and> sidecar_view (JsonFile m) = Some (t, c) \<and> sidecar_view (JsonFile m') = Some (int now, c + 1)"
  using assms(1)
proof (rule sidecar_okE)
  fix d h sz refs t c
  assume "JsonFile m = JsonFile (PDict d)" "n = sidecar_name h"
    "dget d ''digest'' = Some (PStr (''sha256:'' @ h))" "dget d ''size'' = Some (PInt sz)"
    "dget d ''image_refs'' = Some (PList refs)" "dget d ''last_requested'' = Some (PStr (isoformat t))"
    "t < max_instant" "dget d ''request_count'' = Some (PInt c)" "sidecar_view (JsonFile m) = Some (int t, c)"
  then show ?thesis using assms(2)
    by (auto simp: touch_sidecar_def dget_or_def sidecar_ok_def sidecar_view_def)
qed

lemma add_image_ref_ok:
  assumes "sidecar_ok n (JsonFile m)"
  shows "\<exists>m'. add_image_ref r m = Inr m' \<and> sidecar_ok n (JsonFile m') \<and> sidecar_view (JsonFile m') = sidecar_view (JsonFile m)"
  using assms
proof (rule sidecar_okE)
  fix d h sz refs t c
  assume "JsonFile m = JsonFile (PDict d)" "n = sidecar_name h"
    "dget d ''digest'' = Some (PStr (''sha256:'' @ h))" "dget d ''size'' = Some (PInt sz)"
    "dget d ''image_refs'' = Some (PList refs)" "dget d ''last_requested'' = Some (PStr (isoformat t))"
    "t < max_instant" "dget d ''request_count'' = Some (PInt c)"
  then show ?thesis
    by (auto simp: add_image_ref_def dget_or_def sidecar_ok_def sidecar_view_def split: option.split)
qed

lemma new_sidecar_ok:
  assumes "now < max_instant"
  shows "sidecar_ok (sidecar_name h) (JsonFile (new_sidecar now h n mt r))"
    and "sidecar_view (JsonFile (new_sidecar now h n mt r)) = Some (int now, 0)"
  using assms by (auto simp: sidecar_ok_def new_sidecar_def sidecar_view_def)

text \<open>The number of requests after an import: zero for a new sidecar, one more for an old one.\<close>

definition next_count :: "jfile option \<Rightarrow> int" where
  "next_count f = (case Option.bind f sidecar_view of None \<Rightarrow> 0 | Some (t, c) \<Rightarrow> c + 1)"

lemma write_sidecar_ok:
  assumes "meta_ok (st_meta s)" "now < max_instant"
  shows "\<exists>f. write_sidecar s now h n mt r = (Inr (), s\<lparr>st_meta := dset (st_meta s) (sidecar_name h) f\<rparr>)
           \<and> sidecar_ok (sidecar_name h) f
           \<and> sidecar_view f = Some (int now, next_count (dget (st_meta s) (sidecar_name h)))"
proof (cases "dget (st_meta s) (sidecar_name h)")
  case None
  then show ?thesis
    using new_sidecar_ok[OF assms(2)] by (auto simp: write_sidecar_def next_count_def)
next
  case (Some f)
  then have "sidecar_ok (sidecar_name h) f" using assms(1) by (simp add: meta_ok_def)
  then obtain m where f: "f = JsonFile m" "sidecar_ok (sidecar_name h) (JsonFile m)"
    by (auto simp: sidecar_ok_def)
  from add_image_ref_ok[OF f(2), of r] obtain m1 where
    m1: "add_image_ref r m = Inr m1" "sidecar_ok (sidecar_name h) (JsonFile m1)"
      "sidecar_view (JsonFile m1) = sidecar_view (JsonFile m)" by blast
  from touch_sidecar_ok[OF m1(2) assms(2)] obtain m2 t c where
    "touch_sidecar now m1 = Inr m2" "sidecar_ok (sidecar_name h) (JsonFile m2)"
    "sidecar_view (JsonFile m1) = Some (t, c)" "sidecar_view (JsonFile m2) = Some (int now, c + 1)" by blast
  moreover from this m1 have "sidecar_view (JsonFile m) = Some (t, c)" by simp
  ultimately show ?thesis using Some f m1 by (auto simp: write_sidecar_def next_count_def)
qed

section \<open>Importing a blob\<close>

definition fits :: "instant \<Rightarrow> bytes \<Rightarrow> bool" where
  "fits now data = (now < max_instant \<and> length data \<le> max_rw_count)"

lemma import_blob_bad:
  "sha256_hex data \<noteq> strip_prefix dg \<Longrightarrow> \<exists>e. import_blob s now data dg mt r = (Inl e, s)"
  by (simp add: import_blob_def Let_def)

text \<open>A matching blob is stored unless it is there, and its sidecar is written.\<close>

lemma import_blob_good:
  assumes inv: "store_inv s" and f: "fits now data" and m: "sha256_hex data = strip_prefix dg"
  defines "h \<equiv> strip_prefix dg"
  shows "\<exists>fl. sidecar_ok (sidecar_name h) fl
     \<and> sidecar_view fl = Some (int now, next_count (dget (st_meta s) (sidecar_name h)))
     \<and> import_blob s now data dg mt r =
     (Inr (blob_path s h),
      s\<lparr>st_blobs := (if dget (st_blobs s) h = None then dset (st_blobs s) h (RegFile data) else st_blobs s),
        st_meta := dset (st_meta s) (sidecar_name h) fl\<rparr>)"
proof -
  have ok: "blobs_ok (st_blobs s)" "meta_ok (st_meta s)" using inv by (auto simp: store_inv_def)
  let ?s1 = "if entry_exists (st_blobs s) h then s
             else s\<lparr>st_blobs := dset (st_blobs s) h (RegFile (os_write data))\<rparr>"
  have s1: "st_meta ?s1 = st_meta s" by simp
  obtain fl where fl: "sidecar_ok (sidecar_name h) fl"
    "sidecar_view fl = Some (int now, next_count (dget (st_meta s) (sidecar_name h)))"
    "write_sidecar ?s1 now h (int (length data)) mt r =
       (Inr (), ?s1\<lparr>st_meta := dset (st_meta ?s1) (sidecar_name h) fl\<rparr>)"
    using write_sidecar_ok[of ?s1 now h "int (length data)" mt r] ok(2) f unfolding s1 fits_def by metis
  have nolink: "\<And>t. dget (st_blobs s) h \<noteq> Some (SymLink t)" using blobs_okD[OF ok(1), of h] by fastforce
  have w: "os_write data = data" using f by (simp add: fits_def)
  have "import_blob s now data dg mt r =
    (case write_sidecar ?s1 now h (int (length data)) mt r of
        (Inl e, s2) \<Rightarrow> (Inl e, s2) | (Inr _, s2) \<Rightarrow> (Inr (blob_path s2 h), s2))"
    using m nolink unfolding import_blob_def h_def Let_def
    by (auto split: option.split node.split)
  then show ?thesis
    using fl w by (auto simp: blobs_ok_entry[OF ok(1)] blob_path_def)
qed

lemma import_blob_inv:
  assumes "store_inv s" "fits now data"
  shows "store_inv (snd (import_blob s now data dg mt r))"
proof (cases "sha256_hex data = strip_prefix dg")
  case True
  obtain fl where fl: "sidecar_ok (sidecar_name (strip_prefix dg)) fl"
    "snd (import_blob s now data dg mt r) = s\<lparr>st_blobs := (if dget (st_blobs s) (strip_prefix dg) = None
        then dset (st_blobs s) (strip_prefix dg) (RegFile data) else st_blobs s),
      st_meta := dset (st_meta s) (sidecar_name (strip_prefix dg)) fl\<rparr>"
    using import_blob_good[OF assms True, of mt r] by auto
  have "blobs_ok (if dget (st_blobs s) (strip_prefix dg) = None
      then dset (st_blobs s) (strip_prefix dg) (RegFile data) else st_blobs s)"
    using assms(1) True by (simp add: store_inv_def blobs_ok_update)
  moreover have "meta_ok (dset (st_meta s) (sidecar_name (strip_prefix dg)) fl)"
    using assms(1) fl(1) by (simp add: store_inv_def meta_ok_update)
  ultimately show ?thesis
    using assms(1) unfolding fl(2) store_inv_def by (simp add: paired_def)
next
  case False
  then show ?thesis using import_blob_bad[OF False, of s now mt r] assms by auto
qed

text \<open>The blob store fulfils the content-addressed contract, for any media type and image reference.\<close>

interpretation bs: content_store
  "\<lambda>s now data dg. import_blob s now data dg mt r" "\<lambda>s. file_bytes (st_blobs s)" store_inv fits
  for mt r
proof
  fix s :: store and now data dg h
  assume a: "store_inv s" "fits now data" "sha256_hex data = blob_key dg"
  note g = import_blob_good[OF a(1,2), of dg mt r, unfolded strip_prefix_key, OF a(3)]
  from g show "\<exists>p. fst (import_blob s now data dg mt r) = Inr p" by auto
  have "blobs_ok (st_blobs s)" using a(1) by (simp add: store_inv_def)
  then have "file_bytes (st_blobs s) (blob_key dg) = None \<longleftrightarrow> dget (st_blobs s) (blob_key dg) = None"
    using blobs_okD[of "st_blobs s" "blob_key dg"] by (auto simp: file_bytes_def split: bind_splits)
  with g show "file_bytes (st_blobs (snd (import_blob s now data dg mt r))) h =
      (if h = blob_key dg \<and> file_bytes (st_blobs s) h = None then Some data else file_bytes (st_blobs s) h)"
    by (auto simp: file_bytes_update)
next
  fix s :: store and now data dg
  show "sha256_hex data \<noteq> blob_key dg \<Longrightarrow> \<exists>e. import_blob s now data dg mt r = (Inl e, s)"
    using import_blob_bad by (simp add: strip_prefix_key)
  show "store_inv s \<Longrightarrow> fits now data \<Longrightarrow> store_inv (snd (import_blob s now data dg mt r))"
    by (rule import_blob_inv)
next
  fix s :: store and h b
  show "store_inv s \<Longrightarrow> file_bytes (st_blobs s) h = Some b \<Longrightarrow> sha256_hex b = h"
    by (auto simp: store_inv_def intro: file_bytes_hash)
qed

end
