(* ===== verification/Store_GC.thy ===== *)
theory Store_GC
  imports Blob_Store_Props
begin

text \<open>
  Requests and garbage collection of the blob store: what \<open>update_metadata\<close>, \<open>gc_report\<close> and
  \<open>gc_execute\<close> do in a store that satisfies its invariant, and that they keep it.
\<close>

section \<open>Requests\<close>

text \<open>A request of a stored blob sets its time and adds one to its count, and nothing else.\<close>

lemma update_metadata_ok:
  assumes inv: "store_inv s" and now: "now < max_instant" and h: "h = strip_prefix dg"
    and some: "dget (st_meta s) (sidecar_name h) \<noteq> None"
  shows "\<exists>f. update_metadata s now dg ev = (Inr (), s\<lparr>st_meta := dset (st_meta s) (sidecar_name h) f\<rparr>)
    \<and> sidecar_ok (sidecar_name h) f
    \<and> sidecar_view f = Some (int now, next_count (dget (st_meta s) (sidecar_name h)))"
proof -
  from some obtain f where f: "dget (st_meta s) (sidecar_name h) = Some f" by blast
  with inv have ok: "sidecar_ok (sidecar_name h) f" by (auto simp: store_inv_def meta_ok_def)
  then obtain m where m: "f = JsonFile m" by (auto simp: sidecar_ok_def)
  obtain m' t c where m': "touch_sidecar now m = Inr m'" "sidecar_ok (sidecar_name h) (JsonFile m')"
    "sidecar_view f = Some (t, c)" "sidecar_view (JsonFile m') = Some (int now, c + 1)"
    using touch_sidecar_ok[OF ok[unfolded m] now] unfolding m by blast
  show ?thesis
    using f m' m h by (auto simp: update_metadata_def next_count_def)
qed

lemma update_metadata_missing:
  "dget (st_meta s) (sidecar_name (strip_prefix dg)) = None \<Longrightarrow> snd (update_metadata s now dg ev) = s"
  by (simp add: update_metadata_def)

lemma update_metadata_inv:
  assumes "store_inv s" "now < max_instant"
  shows "store_inv (snd (update_metadata s now dg ev))"
proof (cases "dget (st_meta s) (sidecar_name (strip_prefix dg))")
  case None
  with assms show ?thesis by (simp add: update_metadata_missing)
next
  case (Some f)
  then obtain f' where "snd (update_metadata s now dg ev) = s\<lparr>st_meta := dset (st_meta s) (sidecar_name (strip_prefix dg)) f'\<rparr>"
    "sidecar_ok (sidecar_name (strip_prefix dg)) f'"
    using update_metadata_ok[OF assms refl, of dg ev] by auto
  with Some assms(1) show ?thesis by (auto simp: store_inv_def paired_def meta_ok_update)
qed

section \<open>The report\<close>

text \<open>Blobs last asked for before an instant.\<close>

definition idle_since :: "store \<Rightarrow> int \<Rightarrow> string \<Rightarrow> bool" where
  "idle_since s cutoff h =
     (\<exists>t c. Option.bind (dget (st_meta s) (sidecar_name h)) sidecar_view = Some (t, c) \<and> t < cutoff)"

definition candidate_for :: "string \<Rightarrow> pyval \<Rightarrow> bool" where
  "candidate_for h c = (\<exists>d. c = PDict d \<and> dget d ''digest'' = Some (PStr (''sha256:'' @ h)))"

lemma gc_candidate_ok:
  assumes "sidecar_ok n f"
  obtains h t n' c where "n = sidecar_name h" "sidecar_view f = Some (t, n')"
    "gc_candidate cutoff f = Inr (if t < cutoff then [c] else [])" "candidate_for h c"
  using assms
proof (rule sidecar_okE)
  fix d h sz refs t c
  assume d: "f = JsonFile (PDict d)" "n = sidecar_name h"
    "dget d ''digest'' = Some (PStr (''sha256:'' @ h))" "dget d ''size'' = Some (PInt sz)"
    "dget d ''image_refs'' = Some (PList refs)" "dget d ''last_requested'' = Some (PStr (isoformat t))"
    "t < max_instant" "dget d ''request_count'' = Some (PInt c)" "sidecar_view f = Some (int t, c)"
  then have "\<exists>c. gc_candidate cutoff f = Inr (if int t < cutoff then [c] else []) \<and> candidate_for h c"
    by (auto simp: gc_candidate_def dget_or_def candidate_for_def)
  with d that show thesis by blast
qed

lemma rmap_total: "(\<And>x. x \<in> set xs \<Longrightarrow> \<exists>y. f x = Inr y) \<Longrightarrow> \<exists>ys. rmap f xs = Inr ys"
proof (induction xs)
  case (Cons x xs)
  then obtain y ys where "f x = Inr y" "rmap f xs = Inr ys" by (meson list.set_intros)
  then show ?case by simp
qed simp

lemma rmap_set: "rmap f xs = Inr ys \<Longrightarrow> set ys = {y. \<exists>x \<in> set xs. f x = Inr y}"
  by (induction xs arbitrary: ys) (auto simp: rbind_Inr_iff)

lemma rmap_Inr_in: "rmap f xs = Inr ys \<Longrightarrow> x \<in> set xs \<Longrightarrow> \<exists>y. f x = Inr y \<and> y \<in> set ys"
  by (induction xs arbitrary: ys) (auto simp: rbind_Inr_iff)

lemma rmap_checked:
  "rmap (\<lambda>c. rbind (f c) (\<lambda>d. rbind (g d) (\<lambda>_. Inr d))) cs = Inr ds \<Longrightarrow> map f cs = map Inr ds"
  by (induction cs arbitrary: ds) (auto simp: rbind_Inr_iff)

lemma sidecar_name_json: "sidecar_ok n f \<Longrightarrow> endswith n ''.json''"
  by (auto simp: sidecar_ok_def sidecar_name_def)

text \<open>The scan succeeds; its candidates are the idle blobs.\<close>

lemma gc_scan_ok:
  fixes cutoff :: int
  assumes ok: "meta_ok (st_meta s)"
  defines "g \<equiv> \<lambda>(n :: string, f). gc_candidate cutoff f"
  shows "\<exists>css. rmap g (filter (\<lambda>(n, f). endswith n ''.json'') (st_meta s)) = Inr css
    \<and> (\<forall>c \<in> set (concat css). \<exists>h. candidate_for h c \<and> idle_since s cutoff h)
    \<and> (\<forall>h. idle_since s cutoff h \<longrightarrow> (\<exists>c \<in> set (concat css). candidate_for h c))"
proof -
  have mem: "(n, f) \<in> set (st_meta s) \<longleftrightarrow> dget (st_meta s) n = Some f" for n f
    by (rule in_set_dget) (use ok in \<open>simp add: meta_ok_def\<close>)
  have sc: "sidecar_ok n f" if "(n, f) \<in> set (st_meta s)" for n f
    using ok mem that by (simp add: meta_ok_def)
  have flt: "filter (\<lambda>(n, f). endswith n ''.json'') (st_meta s) = st_meta s"
    by (rule filter_True) (use sc sidecar_name_json in fastforce)
  have "\<exists>y. g x = Inr y" if "x \<in> set (st_meta s)" for x
  proof -
    obtain n f where x: "x = (n, f)" by fastforce
    from sc that x have "sidecar_ok n f" by blast
    then obtain y where "gc_candidate cutoff f = Inr y" by (rule gc_candidate_ok)
    then show ?thesis by (simp add: g_def x)
  qed
  then obtain css where css: "rmap g (st_meta s) = Inr css" using rmap_total[of "st_meta s" g] by blast
  have "\<exists>h. candidate_for h c \<and> idle_since s cutoff h" if c: "c \<in> set (concat css)" for c
  proof -
    from c obtain n f cs where f: "(n, f) \<in> set (st_meta s)" "gc_candidate cutoff f = Inr cs" "c \<in> set cs"
      using rmap_set[OF css] by (auto simp: g_def)
    obtain h t n' c' where d: "n = sidecar_name h" "sidecar_view f = Some (t, n')"
      "gc_candidate cutoff f = Inr (if t < cutoff then [c'] else [])" "candidate_for h c'"
      by (rule gc_candidate_ok[OF sc[OF f(1)], of cutoff])
    with f have "c = c'" "t < cutoff" by (auto split: if_splits)
    moreover have "dget (st_meta s) (sidecar_name h) = Some f" using f(1) d(1) mem by simp
    ultimately show ?thesis using d(2,4) unfolding idle_since_def by auto
  qed
  moreover have "\<exists>c \<in> set (concat css). candidate_for h c" if "idle_since s cutoff h" for h
  proof -
    from that obtain f t k where f: "dget (st_meta s) (sidecar_name h) = Some f" "sidecar_view f = Some (t, k)" "t < cutoff"
      by (auto simp: idle_since_def split: bind_splits)
    then have m: "(sidecar_name h, f) \<in> set (st_meta s)" by (simp add: mem)
    obtain h' t' k' c' where d': "sidecar_name h = sidecar_name h'" "sidecar_view f = Some (t', k')"
      "gc_candidate cutoff f = Inr (if t' < cutoff then [c'] else [])" "candidate_for h' c'"
      by (rule gc_candidate_ok[OF sc[OF m], of cutoff])
    with f have "g (sidecar_name h, f) = Inr [c']" by (simp add: g_def)
    with m have "[c'] \<in> set css" unfolding rmap_set[OF css] by blast
    then have "c' \<in> set (concat css)" unfolding set_concat by (rule UN_I) simp
    then show ?thesis using d'(1,4) by auto
  qed
  ultimately show ?thesis using css unfolding flt by blast
qed

text \<open>The report succeeds whenever its cutoff is a date, and holds exactly the idle blobs.\<close>

lemma gc_report_ok:
  assumes inv: "store_inv s" and cut: "minus_days now n = Inr cutoff"
  shows "\<exists>cs ds. gc_report s now n = (Inr cs, s\<lparr>st_gc_report := Some ds\<rparr>)
     \<and> map (\<lambda>c. vindex c ''digest'') cs = map Inr ds \<and> set ds = {PStr (''sha256:'' @ h) | h. idle_since s cutoff h}"
proof -
  obtain css where css:
    "rmap (\<lambda>(n :: string, f). gc_candidate cutoff f) (filter (\<lambda>(n, f). endswith n ''.json'') (st_meta s)) = Inr css"
    "\<And>c. c \<in> set (concat css) \<Longrightarrow> \<exists>h. candidate_for h c \<and> idle_since s cutoff h"
    "\<And>h. idle_since s cutoff h \<Longrightarrow> \<exists>c \<in> set (concat css). candidate_for h c"
    using gc_scan_ok[OF store_invD(2)[OF inv], of cutoff] by (elim exE conjE) (rule that, assumption, blast, blast)
  let ?dg = "\<lambda>c. rbind (vindex c ''digest'') (\<lambda>d. rbind (check_hash d) (\<lambda>_. Inr d))"
  have dg: "?dg c = Inr (PStr (''sha256:'' @ h))" if "candidate_for h c" for h c
    using that by (auto simp: candidate_for_def)
  obtain ds where ds: "rmap ?dg (concat css) = Inr ds"
    using rmap_total[of "concat css" ?dg] css(2) dg by (metis (no_types, lifting))
  have "set ds = {PStr (''sha256:'' @ h) | h. idle_since s cutoff h}"
  proof (rule set_eqI)
    fix d
    have "d \<in> set ds \<longleftrightarrow> (\<exists>c \<in> set (concat css). ?dg c = Inr d)" by (simp only: rmap_set[OF ds] mem_Collect_eq)
    also have "\<dots> \<longleftrightarrow> (\<exists>h. d = PStr (''sha256:'' @ h) \<and> idle_since s cutoff h)"
    proof
      assume "\<exists>c \<in> set (concat css). ?dg c = Inr d"
      then obtain c where c: "c \<in> set (concat css)" "?dg c = Inr d" by blast
      from css(2)[OF c(1)] obtain h where h: "candidate_for h c" "idle_since s cutoff h" by blast
      from dg[OF h(1)] c(2) have "d = PStr (''sha256:'' @ h)" by (simp only: sum.inject)
      with h(2) show "\<exists>h. d = PStr (''sha256:'' @ h) \<and> idle_since s cutoff h" by blast
    next
      assume "\<exists>h. d = PStr (''sha256:'' @ h) \<and> idle_since s cutoff h"
      then obtain h where h: "d = PStr (''sha256:'' @ h)" "idle_since s cutoff h" by blast
      from css(3)[OF h(2)] dg show "\<exists>c \<in> set (concat css). ?dg c = Inr d" unfolding h(1) by blast
    qed
    finally show "d \<in> set ds \<longleftrightarrow> d \<in> {PStr (''sha256:'' @ h) | h. idle_since s cutoff h}" by blast
  qed
  moreover have "gc_report s now n = (Inr (concat css), s\<lparr>st_gc_report := Some ds\<rparr>)"
    unfolding gc_report_def cut rbind.simps css(1) Let_def ds by simp
  ultimately show ?thesis using rmap_checked[OF ds] by blast
qed

lemma gc_report_no_date: "minus_days now n = Inl e \<Longrightarrow> gc_report s now n = (Inl e, s)"
  by (simp add: gc_report_def)

lemma gc_report_inv:
  assumes "store_inv s" shows "store_inv (snd (gc_report s now n))"
proof (cases "minus_days now n")
  case (Inl e)
  with assms show ?thesis by (simp add: gc_report_no_date)
next
  case (Inr c)
  from gc_report_ok[OF assms Inr] assms show ?thesis by (auto simp: store_inv_def report_ok_def)
qed

section \<open>Deletion\<close>

definition remove_blob :: "store \<Rightarrow> string \<Rightarrow> store" where
  "remove_blob s h = s\<lparr>st_blobs := ddel (st_blobs s) h, st_meta := ddel (st_meta s) (sidecar_name h)\<rparr>"

definition blob_size :: "store \<Rightarrow> string \<Rightarrow> nat" where
  "blob_size s h = (case file_bytes (st_blobs s) h of Some b \<Rightarrow> length b | None \<Rightarrow> 0)"

lemma ddel_absent: "dget d k = None \<Longrightarrow> ddel d k = d"
  by (simp add: map_of_eq_None_iff)

lemma delete_blob_ok:
  assumes inv: "store_inv s"
  shows "delete_blob s h = (Inr (blob_size s h), remove_blob s h)"
proof -
  have nd: "dget (st_blobs s) h \<noteq> Some SubDir" "entry_exists (st_blobs s) h \<longleftrightarrow> dget (st_blobs s) h \<noteq> None"
    using blobs_okD[OF store_invD(1)[OF inv], of h] blobs_ok_entry[OF store_invD(1)[OF inv], of h] by auto
  have nj: "dget (st_meta s) (sidecar_name h) \<noteq> Some JsonDir"
  proof
    assume "dget (st_meta s) (sidecar_name h) = Some JsonDir"
    then have "sidecar_ok (sidecar_name h) JsonDir" using store_invD(2)[OF inv] by (simp add: meta_ok_def)
    then show False by (simp add: sidecar_ok_def)
  qed
  have p: "dget (st_blobs s) h = None \<longleftrightarrow> dget (st_meta s) (sidecar_name h) = None"
    using store_invD(3)[OF inv] by (simp add: paired_def)
  show ?thesis
    using nd nj p unfolding delete_blob_def Let_def remove_blob_def blob_size_def
    by (cases "dget (st_blobs s) h") (auto simp: ddel_absent split: option.splits jfile.splits)
qed

lemma remove_blob_inv: "store_inv s \<Longrightarrow> store_inv (remove_blob s h)"
  by (auto simp: store_inv_def remove_blob_def paired_def blobs_ok_delete meta_ok_delete)

lemma remove_blob_simps [simp]:
  "st_gc_report (remove_blob s h) = st_gc_report s" "st_manifests (remove_blob s h) = st_manifests s"
  "file_bytes (st_blobs (remove_blob s h)) h' = (if h' = h then None else file_bytes (st_blobs s) h')"
  by (simp_all add: remove_blob_def file_bytes_def)

text \<open>The loop deletes up to the first digest that was not reported, and then raises.\<close>

lemma gc_delete_loop_ok:
  assumes "store_inv s"
  shows "snd (gc_delete_loop rep ds c n s)
      = fold (\<lambda>d s. remove_blob s (strip_prefix d)) (takeWhile (\<lambda>d. PStr d \<in> set rep) ds) s"
    and "(\<exists>r. fst (gc_delete_loop rep ds c n s) = Inr r) \<longleftrightarrow> (\<forall>d \<in> set ds. PStr d \<in> set rep)"
    and "fst (gc_delete_loop rep ds c n s) = Inr (c', n') \<Longrightarrow> c' = c + length ds"
  using assms
proof (induction ds arbitrary: c n s)
  case (Cons d ds)
  { case 1 then show ?case using Cons.IH(1)[OF remove_blob_inv] by (simp add: delete_blob_ok)
  next case 2 then show ?case using Cons.IH(2)[OF remove_blob_inv] by (simp add: delete_blob_ok)
  next case 3 then show ?case using Cons.IH(3)[OF _ remove_blob_inv] by (force simp: delete_blob_ok split: if_splits) }
qed simp_all

text \<open>The bytes freed: each blob once, even when its digest is given twice.\<close>

lemma blob_size_remove [simp]: "blob_size (remove_blob s h) h' = (if h' = h then 0 else blob_size s h')"
  by (simp add: blob_size_def)

lemma sum_blob_size_remove:
  assumes "finite H"
  shows "blob_size s h + sum (blob_size (remove_blob s h)) H = sum (blob_size s) (insert h H)"
proof -
  have "sum (blob_size (remove_blob s h)) H = sum (blob_size (remove_blob s h)) (insert h H)"
    using assms by (cases "h \<in> H") (auto simp: insert_absorb)
  also have "\<dots> = sum (blob_size s) (insert h H - {h})"
    using assms by (simp add: sum.insert_remove)
  finally show ?thesis using assms by (simp add: sum.insert_remove)
qed

lemma gc_delete_loop_bytes:
  "store_inv s \<Longrightarrow> fst (gc_delete_loop rep ds c n s) = Inr (c', n') \<Longrightarrow>
     n' = n + sum (blob_size s) (strip_prefix ` set ds)"
proof (induction ds arbitrary: c n s)
  case (Cons d ds)
  then have "n' = n + blob_size s (strip_prefix d) + sum (blob_size (remove_blob s (strip_prefix d))) (strip_prefix ` set ds)"
    using Cons.IH[OF remove_blob_inv] by (auto simp: delete_blob_ok split: if_splits)
  then show ?case using sum_blob_size_remove[of "strip_prefix ` set ds" s "strip_prefix d"] by simp
qed simp

lemma fold_remove_inv: "store_inv s \<Longrightarrow> store_inv (fold (\<lambda>d s. remove_blob s (strip_prefix d)) ds s)"
  by (induction ds arbitrary: s) (auto simp: remove_blob_inv)

lemma fold_remove_file:
  "file_bytes (st_blobs (fold (\<lambda>d s. remove_blob s (strip_prefix d)) ds s)) h =
     (if h \<in> strip_prefix ` set ds then None else file_bytes (st_blobs s) h)"
  by (induction ds arbitrary: s) auto

lemma fold_remove_manifests:
  "st_manifests (fold (\<lambda>d s. remove_blob s (strip_prefix d)) ds s) = st_manifests s"
  by (induction ds arbitrary: s) auto

lemma gc_execute_inv: "store_inv s \<Longrightarrow> store_inv (snd (gc_execute s ds op))"
  by (auto simp: gc_execute_def gc_delete_loop_ok(1) fold_remove_inv split: option.split)

end
