(* ===== verification/Store_Spec.thy ===== *)
theory Store_Spec
  imports Store_GC
begin

text \<open>
  The blob store against its specification. Abstractly the store is a map from hexadecimal
  digests to the blob's bytes, the time of its last request and the number of its requests;
  imports, requests and deletions are updates of that map. The states the daemon reaches are
  those of the step relation \<open>store_step\<close>, which includes restarts and any change the
  manifest cache makes to its own directory.
\<close>

section \<open>Abstraction\<close>

type_synonym abs_store = "string \<rightharpoonup> bytes \<times> int \<times> int"

definition abs_store :: "store \<Rightarrow> abs_store" where
  "abs_store s h = (case (file_bytes (st_blobs s) h, Option.bind (dget (st_meta s) (sidecar_name h)) sidecar_view) of
     (Some b, Some v) \<Rightarrow> Some (b, v) | _ \<Rightarrow> None)"

definition spec_import :: "instant \<Rightarrow> bytes \<Rightarrow> string \<Rightarrow> abs_store \<Rightarrow> abs_store" where
  "spec_import now data h m = m(h \<mapsto> (case m h of None \<Rightarrow> (data, int now, 0) | Some (b, t, c) \<Rightarrow> (b, int now, c + 1)))"

definition spec_request :: "instant \<Rightarrow> string \<Rightarrow> abs_store \<Rightarrow> abs_store" where
  "spec_request now h m = (case m h of None \<Rightarrow> m | Some (b, t, c) \<Rightarrow> m(h \<mapsto> (b, int now, c + 1)))"

definition spec_delete :: "string set \<Rightarrow> abs_store \<Rightarrow> abs_store" where
  "spec_delete hs m = m |` (- hs)"

definition spec_idle :: "abs_store \<Rightarrow> int \<Rightarrow> string set" where
  "spec_idle m cutoff = {h. \<exists>b t c. m h = Some (b, t, c) \<and> t < cutoff}"

lemma inv_cases:
  assumes "store_inv s"
  obtains (absent) "file_bytes (st_blobs s) h = None" "dget (st_blobs s) h = None"
      "dget (st_meta s) (sidecar_name h) = None" "abs_store s h = None"
    | (present) b f t c where "file_bytes (st_blobs s) h = Some b" "dget (st_blobs s) h = Some (RegFile b)"
      "dget (st_meta s) (sidecar_name h) = Some f" "sidecar_view f = Some (t, c)" "abs_store s h = Some (b, t, c)"
proof (cases "dget (st_blobs s) h")
  case None
  then show thesis using absent store_invD(3)[OF assms] by (simp add: paired_def file_bytes_def abs_store_def)
next
  case (Some nd)
  then obtain b where b: "nd = RegFile b" using blobs_okD[OF store_invD(1)[OF assms]] by blast
  have "dget (st_meta s) (sidecar_name h) \<noteq> None"
    using store_invD(3)[OF assms] Some by (metis option.distinct(1) paired_def)
  then obtain f where f: "dget (st_meta s) (sidecar_name h) = Some f" by blast
  then have "sidecar_ok (sidecar_name h) f" using store_invD(2)[OF assms] by (simp add: meta_ok_def)
  then obtain t c where "sidecar_view f = Some (t, c)" by (rule sidecar_okE) blast
  then show thesis using present[of b f t c] Some b f by (simp add: file_bytes_def abs_store_def)
qed

lemma abs_store_dom: "store_inv s \<Longrightarrow> abs_store s h = None \<longleftrightarrow> file_bytes (st_blobs s) h = None"
  by (erule inv_cases[of s h]) simp_all

lemma abs_store_bytes: "abs_store s h = Some (b, v) \<Longrightarrow> file_bytes (st_blobs s) h = Some b"
  by (simp add: abs_store_def split: option.splits)

lemma has_blob_abs: "store_inv s \<Longrightarrow> has_blob s dg \<longleftrightarrow> abs_store s (strip_prefix dg) \<noteq> None"
  by (erule inv_cases[of s "strip_prefix dg"])
    (simp_all add: has_blob_def entry_exists_def)

lemma idle_since_abs: "store_inv s \<Longrightarrow> idle_since s cutoff h \<longleftrightarrow> h \<in> spec_idle (abs_store s) cutoff"
  by (erule inv_cases[of s h]) (simp_all add: idle_since_def spec_idle_def)

lemma import_blob_abs:
  assumes inv: "store_inv s" and f: "fits now data" and m: "sha256_hex data = strip_prefix dg"
  shows "abs_store (snd (import_blob s now data dg mt r)) = spec_import now data (strip_prefix dg) (abs_store s)"
proof
  fix h
  let ?h = "strip_prefix dg"
  obtain fl where fl: "sidecar_view fl = Some (int now, next_count (dget (st_meta s) (sidecar_name ?h)))"
    "snd (import_blob s now data dg mt r) =
      s\<lparr>st_blobs := (if dget (st_blobs s) ?h = None then dset (st_blobs s) ?h (RegFile data) else st_blobs s),
        st_meta := dset (st_meta s) (sidecar_name ?h) fl\<rparr>"
    using import_blob_good[OF inv f m, of mt r] by auto
  show "abs_store (snd (import_blob s now data dg mt r)) h = spec_import now data ?h (abs_store s) h"
  proof (cases "h = ?h")
    case True
    show ?thesis
      by (rule inv_cases[OF inv, of ?h])
        (simp_all add: fl True spec_import_def next_count_def abs_store_def file_bytes_update)
  next
    case False
    then show ?thesis by (simp add: fl spec_import_def abs_store_def file_bytes_update)
  qed
qed

lemma update_metadata_abs:
  assumes inv: "store_inv s" and now: "now < max_instant"
  shows "abs_store (snd (update_metadata s now dg ev)) = spec_request now (strip_prefix dg) (abs_store s)"
proof (rule inv_cases[OF inv, of "strip_prefix dg"])
  assume "dget (st_meta s) (sidecar_name (strip_prefix dg)) = None" "abs_store s (strip_prefix dg) = None"
  then show ?thesis by (simp add: update_metadata_missing spec_request_def)
next
  fix b f t c
  assume p: "file_bytes (st_blobs s) (strip_prefix dg) = Some b"
    "dget (st_meta s) (sidecar_name (strip_prefix dg)) = Some f" "sidecar_view f = Some (t, c)"
    "abs_store s (strip_prefix dg) = Some (b, t, c)"
  then obtain f' where f': "snd (update_metadata s now dg ev) = s\<lparr>st_meta := dset (st_meta s) (sidecar_name (strip_prefix dg)) f'\<rparr>"
    "sidecar_view f' = Some (int now, c + 1)"
    using update_metadata_ok[OF inv now refl, of dg ev] by (auto simp: next_count_def)
  show ?thesis
    using p f'(2) unfolding f'(1) by (auto simp: fun_eq_iff spec_request_def abs_store_def)
qed

lemma update_metadata_has:
  assumes "store_inv s" "now < max_instant"
  shows "(fst (update_metadata s now dg ev) = Inr () \<longleftrightarrow> has_blob s dg)
    \<and> st_blobs (snd (update_metadata s now dg ev)) = st_blobs s"
proof (rule inv_cases[OF assms(1), of "strip_prefix dg"])
  assume "dget (st_meta s) (sidecar_name (strip_prefix dg)) = None" "dget (st_blobs s) (strip_prefix dg) = None"
  then show ?thesis by (simp add: update_metadata_def has_blob_def entry_exists_def)
next
  fix b f
  assume "dget (st_meta s) (sidecar_name (strip_prefix dg)) = Some f" "dget (st_blobs s) (strip_prefix dg) = Some (RegFile b)"
  then show ?thesis using update_metadata_ok[OF assms refl, of dg ev]
    by (auto simp: has_blob_def entry_exists_def)
qed

lemma remove_blob_abs: "abs_store (remove_blob s h) = spec_delete {h} (abs_store s)"
  by (auto simp: fun_eq_iff abs_store_def spec_delete_def restrict_map_def remove_blob_def file_bytes_def)

lemma fold_remove_abs:
  "abs_store (fold (\<lambda>d s. remove_blob s (strip_prefix d)) ds s) = spec_delete (strip_prefix ` set ds) (abs_store s)"
  by (induction ds arbitrary: s)
    (auto simp: remove_blob_abs spec_delete_def restrict_map_def fun_eq_iff)

lemma gc_execute_abs:
  assumes "store_inv s" "st_gc_report s = Some rep"
  shows "abs_store (snd (gc_execute s ds op)) =
     spec_delete (strip_prefix ` set (takeWhile (\<lambda>d. PStr d \<in> set rep) ds)) (abs_store s)"
  using assms by (simp add: gc_execute_def gc_delete_loop_ok(1) fold_remove_abs)

section \<open>The states of the daemon\<close>

inductive store_step :: "store \<Rightarrow> store \<Rightarrow> bool" where
  import: "fits now data \<Longrightarrow> store_step s (snd (import_blob s now data dg mt r))"
| request: "now < max_instant \<Longrightarrow> store_step s (snd (update_metadata s now dg ev))"
| report: "store_step s (snd (gc_report s now n))"
| delete: "store_step s (snd (gc_execute s ds op))"
| restart: "store_step s (store_init s)"
| manifests: "store_step s (s\<lparr>st_manifests := ms\<rparr>)"

inductive reachable :: "string \<Rightarrow> store \<Rightarrow> bool" for p where
  init: "reachable p (store_init (empty_disk p))"
| step: "reachable p s \<Longrightarrow> store_step s s' \<Longrightarrow> reachable p s'"

inductive_cases store_stepE: "store_step s s'"

lemma store_init_inv: "store_inv s \<Longrightarrow> store_inv (store_init s)"
  by (simp add: store_init_def store_inv_def report_ok_def)

lemma manifests_inv: "store_inv s \<Longrightarrow> store_inv (s\<lparr>st_manifests := ms\<rparr>)"
  by (simp add: store_inv_def)

lemma store_step_inv: "store_step s s' \<Longrightarrow> store_inv s \<Longrightarrow> store_inv s'"
  by (erule store_stepE) (auto simp only: import_blob_inv update_metadata_inv gc_report_inv gc_execute_inv
    store_init_inv manifests_inv)

lemma reachable_inv: "reachable p s \<Longrightarrow> store_inv s"
proof (induction rule: reachable.induct)
  case init
  show ?case
    by (simp add: store_init_def empty_disk_def store_inv_def report_ok_def blobs_ok_def meta_ok_def paired_def)
next
  case (step s s')
  then show ?case using store_step_inv by blast
qed

section \<open>Properties\<close>

text \<open>A small run, for the witnesses: one blob imported into a new store.\<close>

definition demo_blob :: bytes where
  "demo_blob = ''layer''"

definition demo_digest :: string where
  "demo_digest = ''sha256:'' @ sha256_hex demo_blob"

definition demo_store :: store where
  "demo_store = snd (import_blob (store_init (empty_disk ''/var'')) 7 demo_blob demo_digest ''application/octet-stream'' None)"

lemma demo_fits [simp]: "fits 7 demo_blob"
  by (simp add: fits_def demo_blob_def max_rw_count_def max_instant_def)

lemma demo_reachable [simp]: "reachable ''/var'' demo_store"
  unfolding demo_store_def by (intro reachable.step[OF reachable.init] store_step.import demo_fits)

lemma demo_match [simp]: "sha256_hex demo_blob = strip_prefix demo_digest"
  by (simp only: demo_digest_def strip_prefix_digest)

lemma demo_abs: "abs_store demo_store = [strip_prefix demo_digest \<mapsto> (demo_blob, 7, 0)]"
proof -
  have inv: "store_inv (store_init (empty_disk ''/var''))" by (rule reachable_inv[OF reachable.init])
  have "abs_store (store_init (empty_disk ''/var'')) = Map.empty"
    by (simp add: fun_eq_iff abs_store_def store_init_def empty_disk_def file_bytes_def)
  then show ?thesis
    unfolding demo_store_def import_blob_abs[OF inv demo_fits demo_match] by (simp add: spec_import_def)
qed

lemma demo_file: "file_bytes (st_blobs demo_store) (strip_prefix demo_digest) = Some demo_blob"
  by (rule abs_store_bytes[where v = "(7, 0)"]) (simp add: demo_abs)

text \<open>
  In every state the daemon reaches, whatever was imported, requested, collected or
  restarted, a stored blob is named after the SHA-256 of its bytes and has its sidecar.
\<close>

theorem stored_blobs_match:
  assumes "reachable p s" "file_bytes (st_blobs s) h = Some b"
  shows "sha256_hex b = h \<and> (\<exists>m. get_metadata s (''sha256:'' @ h) = Inr m)"
proof
  note inv = reachable_inv[OF assms(1)]
  from file_bytes_hash[OF store_invD(1)[OF inv] assms(2)] show "sha256_hex b = h" .
  from inv show "\<exists>m. get_metadata s (''sha256:'' @ h) = Inr m"
  proof (cases rule: inv_cases[of s h])
    case (present b f t c)
    then have "sidecar_ok (sidecar_name h) f" using store_invD(2)[OF inv] by (simp add: meta_ok_def)
    then show ?thesis using present by (auto simp: get_metadata_def sidecar_ok_def simp del: append.simps)
  qed (use assms in simp)
qed

theorem stored_blobs_match_witness:
  "sha256_hex demo_blob = strip_prefix demo_digest
   \<and> (\<exists>m. get_metadata demo_store (''sha256:'' @ strip_prefix demo_digest) = Inr m)"
  by (rule stored_blobs_match[OF demo_reachable demo_file])

text \<open>
  C7. Importing refines the specification: a blob that matches its digest is stored if it is
  new, otherwise kept and counted as requested; a blob that does not match is refused and
  the store is unchanged.
\<close>

theorem import_blob_refines:
  assumes "reachable p s" "fits now data"
  shows "if sha256_hex data = strip_prefix dg
     then fst (import_blob s now data dg mt r) = Inr (blob_path s (strip_prefix dg))
       \<and> abs_store (snd (import_blob s now data dg mt r)) = spec_import now data (strip_prefix dg) (abs_store s)
     else \<exists>e. import_blob s now data dg mt r = (Inl e, s)"
proof (cases "sha256_hex data = strip_prefix dg")
  case True
  note inv = reachable_inv[OF assms(1)]
  from import_blob_good[OF inv assms(2) True, of mt r] import_blob_abs[OF inv assms(2) True] True
  show ?thesis by auto
next
  case False
  then show ?thesis using import_blob_bad[OF False] by simp
qed

theorem import_blob_refines_witness:
  "if sha256_hex demo_blob = strip_prefix demo_digest
   then fst (import_blob demo_store 7 demo_blob demo_digest ''t'' None) = Inr (blob_path demo_store (strip_prefix demo_digest))
     \<and> abs_store (snd (import_blob demo_store 7 demo_blob demo_digest ''t'' None))
         = spec_import 7 demo_blob (strip_prefix demo_digest) (abs_store demo_store)
   else \<exists>e. import_blob demo_store 7 demo_blob demo_digest ''t'' None = (Inl e, demo_store)"
  by (rule import_blob_refines[OF demo_reachable demo_fits])

text \<open>
  After every blob of a transfer that matches its digest has been imported, none of their
  digests is listed as missing, and every blob stored before is still there.
\<close>

theorem list_missing_after_import:
  assumes "reachable p s" "bs.all_fit xs" "list_all bs.matching xs"
  shows "list_missing (snd (bs.put_all mt r s xs)) (map (\<lambda>(now, data, dg). dg) xs) = []
    \<and> (\<forall>h b. file_bytes (st_blobs s) h = Some b \<longrightarrow> file_bytes (st_blobs (snd (bs.put_all mt r s xs))) h = Some b)"
proof
  note inv = reachable_inv[OF assms(1)]
  show "list_missing (snd (bs.put_all mt r s xs)) (map (\<lambda>(now, data, dg). dg) xs) = []"
  proof (clarsimp simp: list_missing_def filter_empty_conv)
    fix now data dg
    assume x: "(now, data, dg) \<in> set xs"
    then have "sha256_hex data = blob_key dg" using assms(3) by (auto simp: list_all_iff bs.matching_def)
    from bs.put_all_stored[OF inv assms(2) x this]
    show "has_blob (snd (bs.put_all mt r s xs)) dg"
      by (auto simp: has_blob_def strip_prefix_key intro: file_bytes_exists)
  qed
  show "\<forall>h b. file_bytes (st_blobs s) h = Some b \<longrightarrow> file_bytes (st_blobs (snd (bs.put_all mt r s xs))) h = Some b"
    using bs.put_all_kept[OF inv assms(2)] by blast
qed

theorem list_missing_after_import_witness:
  "list_missing (snd (bs.put_all ''t'' None demo_store [(7, demo_blob, demo_digest)])) [demo_digest] = []"
  using list_missing_after_import[OF demo_reachable, of "[(7, demo_blob, demo_digest)]" "''t''" None]
  by (simp add: bs.all_fit_def bs.matching_def strip_prefix_key[symmetric] del: bs.put_all.simps)

text \<open>
  A request of a blob refines the specification: it sets the time and adds one to the
  count of that blob only, succeeds exactly when the blob is stored, and keeps the blobs.
\<close>

theorem update_metadata_refines:
  assumes "reachable p s" "now < max_instant"
  shows "abs_store (snd (update_metadata s now dg ev)) = spec_request now (strip_prefix dg) (abs_store s)
    \<and> (fst (update_metadata s now dg ev) = Inr () \<longleftrightarrow> has_blob s dg)
    \<and> st_blobs (snd (update_metadata s now dg ev)) = st_blobs s"
  using update_metadata_has[OF reachable_inv[OF assms(1)] assms(2), of dg ev]
    update_metadata_abs[OF reachable_inv[OF assms(1)] assms(2), of dg ev] by blast

theorem update_metadata_refines_witness:
  "abs_store (snd (update_metadata demo_store 9 demo_digest ''pull'')) = [strip_prefix demo_digest \<mapsto> (demo_blob, 9, 1)]
   \<and> fst (update_metadata demo_store 9 demo_digest ''pull'') = Inr ()"
proof -
  have m: "9 < max_instant" by (simp add: max_instant_def)
  have "has_blob demo_store demo_digest"
    using has_blob_abs[OF reachable_inv[OF demo_reachable], of demo_digest] by (simp add: demo_abs)
  with update_metadata_refines[OF demo_reachable m, of demo_digest "''pull''"] show ?thesis
    by (simp add: demo_abs spec_request_def)
qed

end
