(* ===== verification/Manifest_Cache_Props.thy ===== *)
theory Manifest_Cache_Props
  imports Manifest_Cache Store_Spec
begin

text \<open>
  Properties of the manifest cache: what is cached is read back under its coordinates and kept,
  different coordinates have different files, staleness is the age of the time stamp, and the
  scans over the whole cache find what is there.
\<close>

declare map_of_eq_Some_iff [simp del]

section \<open>Paths\<close>

definition clean_part :: "string \<Rightarrow> bool" where
  "clean_part c = (c \<noteq> '''' \<and> c \<noteq> ''.'' \<and> CHR ''/'' \<notin> set c)"

lemma split_on_notin: "c \<notin> set s \<Longrightarrow> split_on c s = [s]"
  by (induction s) auto

lemma split_on_append: "c \<notin> set w \<Longrightarrow> split_on c (w @ c # s) = w # split_on c s"
  by (induction w) auto

lemma split_on_join: "ws \<noteq> [] \<Longrightarrow> \<forall>w \<in> set ws. c \<notin> set w \<Longrightarrow> split_on c (join [c] ws) = ws"
proof (induction ws)
  case (Cons w ws)
  then show ?case by (cases ws) (auto simp: split_on_notin split_on_append)
qed simp

lemma path_parts_join:
  assumes "ws \<noteq> []" "\<forall>w \<in> set ws. clean_part w"
  shows "path_parts (join ''/'' ws) = ws"
  unfolding path_parts_def using assms
  by (subst split_on_join) (auto simp: clean_part_def filter_id_conv)

lemma path_join_clean:
  assumes "ws \<noteq> []" "\<forall>w \<in> set ws. clean_part w"
  shows "path_join base (join ''/'' ws) = base @ ws"
proof -
  have "hd (join ''/'' ws) \<noteq> CHR ''/''" "join ''/'' ws \<noteq> []"
    using assms hd_join[of ws "''/''"] join_eq_Nil[of ws "''/''"] hd_in_set[of "hd ws"]
    by (auto simp: clean_part_def neq_Nil_conv)
  then have "\<not> startswith (join ''/'' ws) ''/''" by (cases "join ''/'' ws") auto
  then show ?thesis using path_parts_join[OF assms] by (simp add: path_join_def)
qed

lemma cache_path_clean:
  assumes "clean_part reg" "clean_part tag" "ws \<noteq> []" "\<forall>w \<in> set ws. clean_part w"
  shows "cache_path_of reg (join ''/'' ws) tag plat = reg # ws @ [tag, platform_safe plat @ ''.json'']"
  using path_join_clean[of "[reg]"] path_join_clean[of "[tag]"] path_join_clean[OF assms(3,4)] assms
  by (simp add: cache_path_of_def cache_dir_of_def)

lemma platform_safe_inj:
  "CHR ''-'' \<notin> set a \<Longrightarrow> CHR ''-'' \<notin> set b \<Longrightarrow> platform_safe a = platform_safe b \<Longrightarrow> a = b"
proof (induction a arbitrary: b)
  case Nil
  then show ?case by (simp add: platform_safe_def replace_char_def)
next
  case (Cons x a)
  then obtain y b' where b: "b = y # b'" by (auto simp: platform_safe_def replace_char_def)
  from Cons show ?case unfolding b
    by (auto simp: platform_safe_def replace_char_def split: if_splits)
qed

text \<open>
  Manifests of different images or platforms have different files, for names made of plain
  path components and platforms without a hyphen.
\<close>

theorem cache_path_injective:
  assumes "clean_part reg" "clean_part tag" "ws \<noteq> []" "\<forall>w \<in> set ws. clean_part w" "CHR ''-'' \<notin> set plat"
    and "clean_part reg'" "clean_part tag'" "vs \<noteq> []" "\<forall>w \<in> set vs. clean_part w" "CHR ''-'' \<notin> set plat'"
    and "cache_path_of reg (join ''/'' ws) tag plat = cache_path_of reg' (join ''/'' vs) tag' plat'"
  shows "reg = reg' \<and> ws = vs \<and> tag = tag' \<and> plat = plat'"
  using assms(11) platform_safe_inj[OF assms(5,10)]
  unfolding cache_path_clean[OF assms(1-4)] cache_path_clean[OF assms(6-9)] by auto

theorem cache_path_injective_witness:
  "clean_part ''docker.io'' \<and> cache_path_of ''docker.io'' (join ''/'' [''library'', ''nginx'']) ''1.25'' ''linux/amd64''
     = [''docker.io'', ''library'', ''nginx'', ''1.25'', ''linux-amd64.json'']
   \<and> [''library'', ''nginx''] = [''library'', ''nginx'']"
  using cache_path_injective[of "''docker.io''" "''1.25''" "[''library'', ''nginx'']" "''linux/amd64''"
      "''docker.io''" "''1.25''" "[''library'', ''nginx'']" "''linux/amd64''"]
  by code_simp

section \<open>Writing and reading back\<close>

lemma mkdirs_ok:
  "mkdirs ms base cs = Inr ms' \<Longrightarrow>
     dget ms' q = (if dget ms q = None \<and> (\<exists>k. 0 < k \<and> k \<le> length cs \<and> q = base @ take k cs) then Some JsonDir else dget ms q)"
proof (induction cs arbitrary: ms base)
  case (Cons c cs)
  have prefix: "(\<exists>k. 0 < k \<and> k \<le> length (c # cs) \<and> q = base @ take k (c # cs)) \<longleftrightarrow>
      q = base @ [c] \<or> (\<exists>k. 0 < k \<and> k \<le> length cs \<and> q = (base @ [c]) @ take k cs)" (is "?L \<longleftrightarrow> ?R")
  proof
    assume ?L
    then obtain k where k: "0 < k" "k \<le> Suc (length cs)" "q = base @ take k (c # cs)" by auto
    then obtain j where "k = Suc j" by (cases k) auto
    with k show ?R by (cases "j = 0") auto
  next
    assume ?R
    then show ?L
    proof
      assume "q = base @ [c]"
      then show ?L by (intro exI[of _ 1]) simp
    next
      assume "\<exists>k. 0 < k \<and> k \<le> length cs \<and> q = (base @ [c]) @ take k cs"
      then obtain k where "k \<le> length cs" "q = base @ take (Suc k) (c # cs)" by auto
      then show ?L by (intro exI[of _ "Suc k"]) simp
    qed
  qed
  show ?case
  proof (cases "dget ms (base @ [c])")
    case None
    with Cons.prems have "mkdirs (dset ms (base @ [c]) JsonDir) (base @ [c]) cs = Inr ms'" by simp
    from Cons.IH[OF this] None show ?thesis unfolding prefix by auto
  next
    case (Some f)
    with Cons.prems have "mkdirs ms (base @ [c]) cs = Inr ms'" "f = JsonDir" by (auto split: jfile.splits)
    from Cons.IH[OF this(1)] Some this(2) show ?thesis unfolding prefix by auto
  qed
qed auto

lemma cache_manifest_entries:
  assumes "cache_manifest s now reg repo tag plat m = (Inr p, s')"
  shows "p = cache_path_of reg repo tag plat
    \<and> dget (man_entries s') p = Some (JsonFile (PDict (cached_form now m)))
    \<and> (q \<noteq> p \<longrightarrow> dget (man_entries s') q =
        (if dget (man_entries s) q = None \<and> (\<exists>k. 0 < k \<and> k \<le> length (cache_dir_of reg repo tag)
            \<and> q = take k (cache_dir_of reg repo tag)) then Some JsonDir else dget (man_entries s) q))"
proof -
  obtain ms where ms: "mkdirs (man_entries s) [] (cache_dir_of reg repo tag) = Inr ms"
    using assms by (auto simp: cache_manifest_def Let_def split: sum.splits)
  then have "p = cache_path_of reg repo tag plat"
    "man_entries s' = dset ms p (JsonFile (PDict (cached_form now m)))"
    using assms by (auto simp: cache_manifest_def Let_def man_entries_def split: if_splits)
  then show ?thesis using mkdirs_ok[OF ms, of q] by simp
qed

text \<open>
  A cached manifest is read back under its coordinates, with the time and the digest it was
  cached with, and every other manifest that was cached is still read.
\<close>

theorem get_cached_manifest:
  assumes "cache_manifest s now reg repo tag plat m = (Inr p, s')" "\<not> startswith tag ''sha256:''"
  shows "get_manifest s' reg repo tag plat = Inr (Some (PDict (cached_form now m)))
    \<and> (\<forall>reg' repo' tag' plat' v. \<not> startswith tag' ''sha256:'' \<and> cache_path_of reg' repo' tag' plat' \<noteq> p
        \<and> get_manifest s reg' repo' tag' plat' = Inr (Some v) \<longrightarrow> get_manifest s' reg' repo' tag' plat' = Inr (Some v))"
proof (intro conjI allI impI)
  show "get_manifest s' reg repo tag plat = Inr (Some (PDict (cached_form now m)))"
  proof -
    have "p = cache_path_of reg repo tag plat" "dget (man_entries s') p = Some (JsonFile (PDict (cached_form now m)))"
      using cache_manifest_entries[OF assms(1), of p] by blast+
    then show ?thesis using assms(2) by (simp add: get_manifest_def)
  qed
next
  fix reg' repo' tag' plat' v
  let ?q = "cache_path_of reg' repo' tag' plat'"
  assume a: "\<not> startswith tag' ''sha256:'' \<and> ?q \<noteq> p \<and> get_manifest s reg' repo' tag' plat' = Inr (Some v)"
  then obtain f where f: "dget (man_entries s) ?q = Some f"
    by (auto simp: get_manifest_def split: option.splits)
  then have "dget (man_entries s') ?q = Some f" using cache_manifest_entries[OF assms(1), of ?q] a by simp
  with a f show "get_manifest s' reg' repo' tag' plat' = Inr (Some v)" by (auto simp: get_manifest_def)
qed

definition demo_cached :: "string list res \<times> store" where
  "demo_cached = cache_manifest (store_init (empty_disk ''/var'')) 7 ''docker.io'' ''library/nginx'' ''1.25'' ''linux/amd64''
     [(''config'', PDict [(''digest'', PStr ''sha256:00'')])]"

lemma demo_cached_path: "fst demo_cached = Inr [''docker.io'', ''library'', ''nginx'', ''1.25'', ''linux-amd64.json'']"
  by (simp add: demo_cached_def cache_manifest_def man_entries_def store_init_def empty_disk_def cache_path_of_def
      cache_dir_of_def path_join_def path_parts_def platform_safe_def replace_char_def Let_def)

theorem get_cached_manifest_witness:
  "\<exists>d. get_manifest (snd demo_cached) ''docker.io'' ''library/nginx'' ''1.25'' ''linux/amd64'' = Inr (Some (PDict d))
     \<and> dget_or d ''config'' PNone = PDict [(''digest'', PStr ''sha256:00'')]"
proof -
  have "demo_cached = (Inr [''docker.io'', ''library'', ''nginx'', ''1.25'', ''linux-amd64.json''], snd demo_cached)"
    using demo_cached_path by (metis prod.collapse)
  from get_cached_manifest[OF this[unfolded demo_cached_def]]
  have "get_manifest (snd demo_cached) ''docker.io'' ''library/nginx'' ''1.25'' ''linux/amd64'' =
      Inr (Some (PDict (cached_form 7 [(''config'', PDict [(''digest'', PStr ''sha256:00'')])])))"
    by (simp add: demo_cached_def)
  then show ?thesis by (simp add: cached_form_def dget_or_def)
qed

section \<open>The digest\<close>

lemma filter_key_update:
  "filter (\<lambda>(k, v). k \<noteq> x) (dset d x v) = filter (\<lambda>(k, v). k \<noteq> x) d"
  by (induction d) auto

text \<open>
  The digest a manifest is cached under is that of its contents: it does not depend on the
  order of its keys, nor on the time stamp and digest the cache adds.
\<close>

theorem source_digest_contents:
  assumes "distinct (dkeys d)" "distinct (dkeys e)" "set d = set e"
  shows "source_digest d = source_digest e \<and> source_digest (cached_form now d) = source_digest d"
proof
  have "distinct (dkeys (filter (\<lambda>(k, v). k \<noteq> ''_buncker'') x))" if "distinct (dkeys x)" for x :: dict
    using that by (simp add: distinct_map_filter)
  then show "source_digest d = source_digest e"
    unfolding source_digest_def using assms by (subst json_dumps_order) (auto simp del: json_dumps.simps)
  show "source_digest (cached_form now d) = source_digest d"
    unfolding source_digest_def cached_form_def filter_key_update ..
qed

theorem source_digest_contents_witness:
  "source_digest [(''a'', PInt 1), (''b'', PInt 2)] = source_digest [(''b'', PInt 2), (''a'', PInt 1)]"
  using source_digest_contents[of "[(''a'', PInt 1), (''b'', PInt 2)]" "[(''b'', PInt 2), (''a'', PInt 1)]" 0]
  by (simp add: insert_commute del: json_dumps.simps)

section \<open>Staleness and scans\<close>

text \<open>A cache in which every file was written by \<open>cache_manifest\<close> and no directory looks like a file.\<close>

definition man_inv :: "man_dir \<Rightarrow> bool" where
  "man_inv ms = (distinct (dkeys ms) \<and> (\<forall>q f. dget ms q = Some f \<longrightarrow>
     (f = JsonDir \<and> \<not> endswith (last q) ''.json'') \<or> (\<exists>t m. f = JsonFile (PDict (cached_form t m)) \<and> t < max_instant)))"

lemma cached_form_fields [simp]:
  "dget_or (cached_form t m) ''_buncker'' w = PDict [(''cached_at'', PStr (isoformat t)), (''source_digest'', PStr (source_digest m))]"
  by (simp add: cached_form_def dget_or_def)

lemma dget_or_Cons [simp]: "dget_or ((k, v) # d) x w = (if k = x then v else dget_or d x w)"
  by (simp add: dget_or_def)

lemma isoformat_nonempty [simp]: "isoformat t \<noteq> []"
  by (simp add: isoformat_def case_prod_beta Let_def)

lemma manifest_stale_cached [simp]:
  "t < max_instant \<Longrightarrow> manifest_stale now ttl (PDict (cached_form t m)) = Inr (ttl \<le> age_days now (int t))"
  by (simp add: manifest_stale_def)

lemma mkdirs_inv:
  "mkdirs ms base cs = Inr ms' \<Longrightarrow> man_inv ms \<Longrightarrow> \<forall>c \<in> set cs. \<not> endswith c ''.json'' \<Longrightarrow> man_inv ms'"
proof (induction cs arbitrary: ms base)
  case (Cons c cs)
  show ?case
  proof (cases "dget ms (base @ [c])")
    case None
    with Cons.prems have m: "mkdirs (dset ms (base @ [c]) JsonDir) (base @ [c]) cs = Inr ms'" by simp
    have "man_inv (dset ms (base @ [c]) JsonDir)" using Cons.prems(2,3) by (simp add: man_inv_def)
    with Cons.IH[OF m] Cons.prems(3) show ?thesis by simp
  next
    case (Some f)
    with Cons.prems have "mkdirs ms (base @ [c]) cs = Inr ms'" by (auto split: jfile.splits)
    with Cons show ?thesis by auto
  qed
qed simp

lemma cache_manifest_inv:
  assumes "man_inv (man_entries s)" "\<forall>c \<in> set (cache_dir_of reg repo tag). \<not> endswith c ''.json''" "now < max_instant"
  shows "man_inv (man_entries (snd (cache_manifest s now reg repo tag plat m)))"
proof (cases "mkdirs (man_entries s) [] (cache_dir_of reg repo tag)")
  case (Inl e)
  then show ?thesis using assms(1) by (simp add: cache_manifest_def Let_def)
next
  case (Inr ms)
  have "man_inv ms" by (rule mkdirs_inv[OF Inr assms(1,2)])
  then show ?thesis using Inr assms(3) by (auto simp: cache_manifest_def Let_def man_entries_def man_inv_def)
qed

text \<open>
  A cached manifest is stale exactly when its age in whole days has reached the limit.
\<close>

theorem is_stale_age:
  assumes "cache_manifest s t reg repo tag plat m = (Inr p, s')" "\<not> startswith tag ''sha256:''" "t < max_instant"
  shows "is_stale s' now reg repo tag plat ttl = Inr (Some (ttl \<le> age_days now (int t)))"
proof -
  have "p = cache_path_of reg repo tag plat" "dget (man_entries s') p = Some (JsonFile (PDict (cached_form t m)))"
    using cache_manifest_entries[OF assms(1), of p] by blast+
  then have "get_manifest s' reg repo tag plat = Inr (Some (PDict (cached_form t m)))"
    using assms(2) by (simp add: get_manifest_def)
  then show ?thesis using assms(3) by (simp add: is_stale_def)
qed

lemma demo_cached_eq:
  "demo_cached = (Inr [''docker.io'', ''library'', ''nginx'', ''1.25'', ''linux-amd64.json''], snd demo_cached)"
  using demo_cached_path by (metis prod.collapse)

theorem is_stale_age_witness:
  "is_stale (snd demo_cached) (30 * day_us) ''docker.io'' ''library/nginx'' ''1.25'' ''linux/amd64'' 30 = Inr (Some False)"
  using is_stale_age[OF demo_cached_eq[unfolded demo_cached_def], of "30 * day_us" 30]
  by (simp add: demo_cached_def max_instant_def age_days_def day_us_def)

lemma json_entries_cached:
  assumes "man_inv ms" "(q, f) \<in> set (json_entries ms)"
  shows "\<exists>t m. f = JsonFile (PDict (cached_form t m)) \<and> t < max_instant"
proof -
  have d: "distinct (dkeys ms)" using assms(1) by (simp add: man_inv_def)
  have m: "(q, f) \<in> set ms" "endswith (last q) ''.json''" using assms(2) by (auto simp: json_entries_def)
  have "dget ms q = Some f" by (rule in_set_dget[OF d, THEN iffD1, OF m(1)])
  with assms(1) m(2) show ?thesis unfolding man_inv_def by blast
qed

lemma scan_digest_ok:
  assumes "\<forall>(q, f) \<in> set es. \<exists>t m. f = JsonFile (PDict (cached_form t m))"
  shows "\<exists>r. scan_digest dg es = Inr r \<and> (case r of
      None \<Rightarrow> \<forall>(q, f) \<in> set es. \<forall>t m. f = JsonFile (PDict (cached_form t m)) \<longrightarrow> source_digest m \<noteq> dg
    | Some v \<Rightarrow> \<exists>q t m. (q, JsonFile v) \<in> set es \<and> v = PDict (cached_form t m) \<and> source_digest m = dg)"
  using assms
proof (induction es)
  case (Cons e es)
  obtain q f where e: "e = (q, f)" by (cases e)
  with Cons.prems obtain t m where f: "f = JsonFile (PDict (cached_form t m))" by auto
  have same: "cached_form t m = cached_form t' m' \<Longrightarrow> source_digest m = source_digest m'" for t' m'
    using cached_form_fields[of t m PNone] cached_form_fields[of t' m' PNone] by simp
  show ?case
  proof (cases "source_digest m = dg")
    case True
    then show ?thesis by (auto simp: e f)
  next
    case False
    from Cons obtain r where r: "scan_digest dg es = Inr r" "case r of
      None \<Rightarrow> \<forall>(q, f) \<in> set es. \<forall>t m. f = JsonFile (PDict (cached_form t m)) \<longrightarrow> source_digest m \<noteq> dg
    | Some v \<Rightarrow> \<exists>q t m. (q, JsonFile v) \<in> set es \<and> v = PDict (cached_form t m) \<and> source_digest m = dg" by auto
    with False show ?thesis by (auto simp: e f dest: same split: option.splits)
  qed
qed simp

text \<open>
  In a cache the program wrote, a lookup by digest never fails, gives a manifest recorded under
  that digest, and gives none only when no file of the cache has it.
\<close>

theorem lookup_by_digest_ok:
  assumes "man_inv (man_entries s)" "startswith dg ''sha256:''"
  shows "\<exists>r. get_manifest s reg repo dg plat = Inr r \<and> (case r of
      None \<Rightarrow> \<forall>(q, f) \<in> set (json_entries (man_entries s)).
        \<forall>t m. f = JsonFile (PDict (cached_form t m)) \<longrightarrow> source_digest m \<noteq> dg
    | Some v \<Rightarrow> \<exists>q t m. (q, JsonFile v) \<in> set (json_entries (man_entries s)) \<and> v = PDict (cached_form t m)
        \<and> source_digest m = dg)"
proof -
  have all: "\<forall>(q, f) \<in> set (json_entries (man_entries s)). \<exists>t m. f = JsonFile (PDict (cached_form t m))"
    using json_entries_cached[OF assms(1)] by blast
  have "get_manifest s reg repo dg plat = scan_digest dg (json_entries (man_entries s))"
    using assms(2) by (simp add: get_manifest_def lookup_by_digest_def man_entries_def json_entries_def split: option.split)
  with scan_digest_ok[OF all, of dg] show ?thesis by simp
qed

lemma demo_cached_inv: "man_inv (man_entries (snd demo_cached))"
  unfolding demo_cached_def
  by (rule cache_manifest_inv)
    (simp_all add: man_entries_def store_init_def empty_disk_def man_inv_def max_instant_def
      cache_dir_of_def path_join_def path_parts_def endswith_def)

theorem lookup_by_digest_ok_witness:
  "\<exists>r. get_manifest (snd demo_cached) '''' '''' ''sha256:00'' '''' = Inr r"
  using lookup_by_digest_ok[OF demo_cached_inv, of "''sha256:00''" "''''" "''''" "''''"] by auto

definition entry_old :: "instant \<Rightarrow> int \<Rightarrow> string list \<times> jfile \<Rightarrow> bool" where
  "entry_old now ttl e = (\<exists>t m. snd e = JsonFile (PDict (cached_form t m)) \<and> t < max_instant \<and> ttl \<le> age_days now (int t))"

lemma isoformat_inj: "isoformat t = isoformat u \<Longrightarrow> t < max_instant \<Longrightarrow> u < max_instant \<Longrightarrow> t = u"
  by (metis from_iso_utc_isoformat of_nat_eq_iff sum.inject(2))

lemma count_stale_in_ok:
  "\<forall>(q, f) \<in> set es. \<exists>t m. f = JsonFile (PDict (cached_form t m)) \<and> t < max_instant \<Longrightarrow>
     count_stale_in now ttl es = Inr (length (filter (entry_old now ttl) es))"
proof (induction es)
  case (Cons e es)
  obtain q f where e: "e = (q, f)" by (cases e)
  with Cons.prems obtain t m where f: "f = JsonFile (PDict (cached_form t m))" "t < max_instant" by auto
  have "t' = t" if "cached_form t m = cached_form t' m'" "t' < max_instant" for t' m'
  proof -
    have "isoformat t = isoformat t'"
      using cached_form_fields[of t m PNone] cached_form_fields[of t' m' PNone] that(1) by simp
    then show ?thesis using isoformat_inj[OF _ f(2) that(2)] by simp
  qed
  then have "entry_old now ttl e \<longleftrightarrow> ttl \<le> age_days now (int t)"
    using f by (auto simp: entry_old_def e)
  then show ?case using Cons f by (simp add: e)
qed simp

text \<open>
  In a cache the program wrote, the count of stale manifests is the number of files whose time
  stamp has reached the limit.
\<close>

theorem count_stale_exact:
  assumes "man_inv (man_entries s)"
  shows "count_stale s now ttl = Inr (length (filter (entry_old now ttl) (json_entries (man_entries s))))"
proof -
  have "\<forall>(q, f) \<in> set (json_entries (man_entries s)). \<exists>t m. f = JsonFile (PDict (cached_form t m)) \<and> t < max_instant"
    using json_entries_cached[OF assms] by blast
  from count_stale_in_ok[OF this, of now ttl] show ?thesis
    by (cases "st_manifests s") (simp_all add: count_stale_def man_entries_def json_entries_def)
qed

theorem count_stale_exact_witness:
  "\<exists>n. count_stale (snd demo_cached) (30 * day_us) 30 = Inr n"
  using count_stale_exact[OF demo_cached_inv] by blast

text \<open>
  A repository whose last component ends in \<open>.json\<close> breaks the scans: once a manifest of it is cached
  in an empty cache, counting the stale manifests raises, as does any lookup by digest.
\<close>

theorem json_named_image_breaks_scans:
  assumes "man_entries s = []" "clean_part reg" "clean_part tag" "clean_part name" "endswith name ''.json''"
    and "\<not> endswith reg ''.json''" "\<not> startswith name ''/''"
  shows "let s' = snd (cache_manifest s now reg name tag plat m) in
    count_stale s' now' ttl = Inl is_a_directory_error
    \<and> (startswith dg ''sha256:'' \<longrightarrow> get_manifest s' reg' repo' dg plat' = Inl is_a_directory_error)"
proof -
  have d: "cache_dir_of reg name tag = [reg, name, tag]"
    using path_join_clean[of "[reg]"] path_join_clean[of "[tag]"] path_join_clean[of "[name]"] assms(2-4)
    by (simp add: cache_dir_of_def)
  then have p: "cache_path_of reg name tag plat = [reg, name, tag, platform_safe plat @ ''.json'']"
    by (simp add: cache_path_of_def)
  have e: "man_entries (snd (cache_manifest s now reg name tag plat m)) =
      [([reg], JsonDir), ([reg, name], JsonDir), ([reg, name, tag], JsonDir),
       ([reg, name, tag, platform_safe plat @ ''.json''], JsonFile (PDict (cached_form now m)))]"
    using assms(1) by (simp add: cache_manifest_def Let_def d p man_entries_def)
  then have st: "st_manifests (snd (cache_manifest s now reg name tag plat m)) =
      Some [([reg], JsonDir), ([reg, name], JsonDir), ([reg, name, tag], JsonDir),
       ([reg, name, tag, platform_safe plat @ ''.json''], JsonFile (PDict (cached_form now m)))]"
    by (simp add: man_entries_def split: option.splits)
  show ?thesis using assms(5,6)
    by (simp add: Let_def count_stale_def get_manifest_def lookup_by_digest_def st json_entries_def is_a_directory_error_def)
qed

theorem json_named_image_breaks_scans_witness:
  "count_stale (snd (cache_manifest (store_init (empty_disk ''/var'')) 7 ''ghcr.io'' ''data.json'' ''v1'' ''linux/amd64'' []))
     8 30 = Inl is_a_directory_error"
  using json_named_image_breaks_scans[of "store_init (empty_disk ''/var'')" "''ghcr.io''" "''v1''" "''data.json''"
      7 "''linux/amd64''" "[]" 8 30]
  by (simp add: man_entries_def store_init_def empty_disk_def clean_part_def endswith_def Let_def)

end
