(* ===== verification/Handler_OCI_Props.thy ===== *)
theory Handler_OCI_Props
  imports Handler_OCI Manifest_Cache_Props Store_Spec
begin

text \<open>
  What the distribution endpoints serve: manifests under the digest the cache recorded, blobs only
  whole. And a name that leaves the directory of the cache.
\<close>

declare map_of_eq_Some_iff [simp del]

section \<open>The text of a manifest\<close>

lemma ascii_hex_str: "is_ascii (hex_str bs)"
proof -
  have "\<forall>c \<in> set hex_chars. code c < 128" by code_simp
  then show ?thesis using set_hex_str[of bs] by (auto simp: is_ascii_def list_all_iff)
qed

lemma ascii_escape: "is_ascii (json_escape c)"
proof -
  have h: "is_ascii (hex_byte c)" using ascii_hex_str[of "[c]"] by (simp add: hex_str_def)
  have k: "is_ascii [CHR 0x5C]" "is_ascii [CHR ''n'']" "is_ascii [CHR ''r'']" "is_ascii [CHR ''t'']" "is_ascii [CHR ''b'']" "is_ascii [CHR ''f'']"
    "is_ascii [CHR ''u'']" "is_ascii [CHR ''0'']" by code_simp+
  show ?thesis using h k by (auto simp: json_escape_def Let_def is_ascii_def)
qed

lemma ascii_append [simp]: "is_ascii (a @ b) \<longleftrightarrow> is_ascii a \<and> is_ascii b"
  by (simp add: is_ascii_def)

lemma ascii_Cons: "is_ascii (c # b) \<longleftrightarrow> code c < 128 \<and> is_ascii b"
  by (simp add: is_ascii_def)

lemma ascii_string: "is_ascii (json_string s)"
proof -
  have "is_ascii [CHR 0x22]" by code_simp
  then show ?thesis using ascii_escape by (auto simp: json_string_def is_ascii_def list_all_iff)
qed

lemma ascii_join: "\<forall>w \<in> set ws. is_ascii w \<Longrightarrow> is_ascii sep \<Longrightarrow> is_ascii (join sep ws)"
  using set_join[of sep ws] by (auto simp: is_ascii_def list_all_iff)

lemma ascii_int: "is_ascii (int_str i)"
proof -
  have "is_ascii (nat_str n)" for n
  proof (induction n rule: nat_str.induct)
    case (1 n)
    have "is_ascii [digit_char (n mod 10)]" by (simp add: is_ascii_def code_digit_char)
    then show ?case using 1 by (cases "n < 10") (simp_all add: nat_str.simps[of n] del: nat_str.simps)
  qed
  moreover have "is_ascii ''-''" by code_simp
  ultimately show ?thesis by (auto simp: int_str_def is_ascii_def)
qed

lemma ascii_dumps: "plain_floats v \<Longrightarrow> is_ascii (json_dumps sk v)"
proof (induction v)
  case (PList xs)
  have "is_ascii (join '', '' (map (json_dumps sk) xs))"
    by (rule ascii_join) (use PList in \<open>auto simp: list_all_iff\<close>, code_simp)
  moreover have "is_ascii ''[''" "is_ascii '']''" by code_simp+
  ultimately show ?case by (simp del: append_Cons)
next
  case (PDict d)
  define items where "items = (let t = map (\<lambda>(k, v). (k, json_dumps sk v)) d in if sk then sort_key fst t else t)"
  have "set items = (\<lambda>(k, v). (k, json_dumps sk v)) ` set d" by (auto simp: items_def Let_def)
  moreover have "is_ascii (json_dumps sk v)" if "(k, v) \<in> set d" for k v
    using PDict that by (fastforce simp: list_all_iff snds.simps)
  moreover have "is_ascii '': ''" by code_simp
  ultimately have "\<forall>w \<in> set (map (\<lambda>(k, t). json_string k @ '': '' @ t) items). is_ascii w"
    using ascii_string by (auto simp: is_ascii_def)
  moreover have "is_ascii '', ''" by code_simp
  ultimately have "is_ascii (join '', '' (map (\<lambda>(k, t). json_string k @ '': '' @ t) items))" by (rule ascii_join)
  moreover have "is_ascii ''{''" "is_ascii ''}''" by code_simp+
  ultimately show ?case by (simp add: items_def Let_def del: append_Cons)
next
  case (PStr s)
  then show ?case by (simp add: ascii_string)
next
  case (PInt i)
  then show ?case by (simp add: ascii_int)
next
  case (PFloat f)
  then show ?case by (simp add: is_ascii_def)
next
  case (PBool b)
  have "is_ascii ''true''" "is_ascii ''false''" by code_simp+
  then show ?case by simp
next
  case PNone
  show ?case by code_simp
qed

text \<open>The digest of what is served is the digest the cache recorded.\<close>

lemma served_digest:
  assumes "plain_floats (PDict m)"
  shows "''sha256:'' @ sha256_hex (served_body (cached_form now m)) = source_digest m"
proof -
  have "plain_floats (PDict (filter (\<lambda>(k, v). k \<noteq> ''_buncker'') m))" using assms by (auto simp: list_all_iff)
  from py_encode_ascii[OF ascii_dumps[OF this]] show ?thesis
    unfolding served_body_def source_digest_def cached_form_def filter_key_update by (simp only:)
qed

section \<open>Serving manifests\<close>

text \<open>A name and a tag the endpoint accepts.\<close>

definition good_name :: "string \<Rightarrow> bool" where
  "good_name name = (\<not> str_in ''..'' name \<and> \<not> startswith name ''/'')"

definition good_tag :: "string \<Rightarrow> bool" where
  "good_tag tag = (tag_re tag \<and> \<not> startswith tag ''sha256:'')"

lemma good_checks: "good_name name \<Longrightarrow> good_tag tag \<Longrightarrow> validate_name c name = None \<and> validate_reference c tag = None"
  by (simp add: good_name_def good_tag_def validate_name_def validate_reference_def)

definition header_of :: "response \<Rightarrow> string \<Rightarrow> string option" where
  "header_of r k = map_of (rs_headers r) k"

text \<open>
  C26. A manifest cached for the first platform the daemon looks up is served to a client that asks for its
  tag: the body is JSON whose SHA-256 is the digest of the answer, which is the digest the cache
  recorded; a HEAD request has the same status and headers.
\<close>

theorem cached_manifest_served:
  assumes "cache_manifest s now registry repository tag ''linux/amd64'' m = (Inr path, s')"
    and "split_name name = (registry, repository)" "good_name name" "good_tag tag" "plain_floats (PDict m)"
  shows "\<exists>r h. handle_manifest s' ''GET'' name tag True = Inr r \<and> handle_manifest s' ''HEAD'' name tag False = Inr h
    \<and> rs_status r = 200 \<and> header_of r ''Docker-Content-Digest'' = Some (''sha256:'' @ sha256_hex (rs_body r))
    \<and> ''sha256:'' @ sha256_hex (rs_body r) = source_digest m \<and> rs_status h = 200 \<and> rs_headers h = rs_headers r \<and> rs_body h = []"
proof -
  have g: "get_manifest s' registry repository tag ''linux/amd64'' = Inr (Some (PDict (cached_form now m)))"
  proof -
    have "path = cache_path_of registry repository tag ''linux/amd64''"
      "dget (man_entries s') path = Some (JsonFile (PDict (cached_form now m)))"
      using cache_manifest_entries[OF assms(1), of path] by blast+
    then show ?thesis using assms(4) by (simp add: get_manifest_def good_tag_def)
  qed
  have "lookup_manifest s' name tag = Inr (Some (PDict (cached_form now m)))"
    by (simp add: lookup_manifest_def assms(2) manifest_platforms_def g)
  then show ?thesis
    using good_checks[OF assms(3,4)] served_digest[OF assms(5), of now]
    by (simp add: handle_manifest_def Let_def respond_def header_of_def end_headers_def del: append.simps)
qed

text \<open>The demonstration manifest of the cache, under its name.\<close>

theorem cached_manifest_served_witness:
  "\<exists>r. handle_manifest (snd demo_cached) ''GET'' ''library/nginx'' ''1.25'' True = Inr r \<and> rs_status r = 200
     \<and> ''sha256:'' @ sha256_hex (rs_body r) = source_digest [(''config'', PDict [(''digest'', PStr ''sha256:00'')])]"
proof -
  have c: "demo_cached = (Inr [''docker.io'', ''library'', ''nginx'', ''1.25'', ''linux-amd64.json''], snd demo_cached)"
    using demo_cached_path by (metis prod.collapse)
  have n: "split_name ''library/nginx'' = (''docker.io'', ''library/nginx'')" by code_simp
  have g: "good_name ''library/nginx''" "good_tag ''1.25''" "plain_floats (PDict [(''config'', PDict [(''digest'', PStr ''sha256:00'')])])"
    by code_simp+
  from cached_manifest_served[OF c[unfolded demo_cached_def] n g] show ?thesis by (auto simp: demo_cached_def)
qed

section \<open>Serving blobs\<close>

lemma concat_chunks: "0 < k \<Longrightarrow> concat (chunks_of k xs) = xs"
proof (induction k xs rule: chunks_of.induct)
  case (1 k xs)
  show ?case
  proof (cases "xs = []")
    case True
    then show ?thesis by (simp add: chunks_of.simps)
  next
    case False
    then have "concat (chunks_of k (drop k xs)) = drop k xs" using 1 by simp
    with False 1(2) show ?thesis by (subst chunks_of.simps) simp
  qed
qed

lemma blob_checks_None:
  "blob_checks s c name dg = None \<longleftrightarrow> good_name name \<and> digest_re dg \<and> has_blob s dg"
  by (auto simp: blob_checks_def validate_name_def good_name_def)

lemma get_blob_has: "has_blob s dg \<Longrightarrow> \<exists>p. get_blob s dg = Inr p"
  by (simp add: has_blob_def get_blob_def)

text \<open>
  C6. No corrupted blob is served: whatever is on the disk, a blob request that is answered with success
  announces the digest and the length of the bytes that are then streamed, and they have that digest.
\<close>

theorem blob_get_integrity:
  assumes "handle_blob_get s ''GET'' name digest = Inr r" "rs_status r = 200"
    and "length (chunks_of CHUNK_SIZE (the (file_bytes (st_blobs s) (strip_prefix digest)))) \<le> n" "0 < n"
  shows "\<exists>data. ''sha256:'' @ sha256_hex data = digest \<and> rs_stream r = Some digest
    \<and> header_of r ''Docker-Content-Digest'' = Some digest \<and> header_of r ''Content-Length'' = Some (nat_str (length data))
    \<and> (\<forall>cs. fst (blob_stream s now digest n) = Inr cs \<longrightarrow> concat cs = data)"
proof -
  have "blob_checks s ''GET'' name digest = None"
  proof (rule ccontr)
    assume "blob_checks s ''GET'' name digest \<noteq> None"
    with assms(1,2) show False
      by (auto simp: handle_blob_get_def blob_checks_def validate_name_def send_oci_error_def respond_def Let_def split: if_splits)
  qed
  moreover obtain p where "get_blob s digest = Inr p"
    using calculation get_blob_has blob_checks_None by blast
  ultimately obtain data where d: "file_bytes (st_blobs s) (strip_prefix digest) = Some data" "''sha256:'' @ sha256_hex data = digest"
      "r = (respond 200 (blob_headers digest (length data)) [])\<lparr>rs_stream := Some digest\<rparr>"
    using assms(1,2)
    by (auto simp: handle_blob_get_def send_oci_error_def respond_def Let_def simp del: append.simps split: option.splits if_splits)
  have c: "concat (chunks_of CHUNK_SIZE data) = data" by (rule concat_chunks) (simp add: CHUNK_SIZE_def)
  have "concat cs = data" if "fst (blob_stream s now digest n) = Inr cs" for cs
    using that assms(3,4) c
    by (auto simp: blob_stream_def d(1) Let_def split: if_splits prod.splits sum.splits exc.splits error_kind.splits)
  with d show ?thesis
    by (auto simp: respond_def header_of_def blob_headers_def end_headers_def simp del: append.simps)
qed

lemma digest_re_hash: "digest_re (''sha256:'' @ sha256_hex b)"
proof -
  have n: "CHR 0x0A \<notin> set hex_chars" by code_simp
  have ne: "sha256_hex b \<noteq> []" using length_sha256_hex[of b] by (metis list.size(3) zero_neq_numeral)
  have h: "set (sha256_hex b) \<subseteq> set hex_chars" by (simp add: sha256_hex_def set_hex_str)
  have "last (''sha256:'' @ sha256_hex b) = last (sha256_hex b)" using ne by (rule last_appendR)
  then have "last (''sha256:'' @ sha256_hex b) \<noteq> CHR 0x0A" using n h last_in_set[OF ne] by auto
  then have d: "dollar (''sha256:'' @ sha256_hex b) = ''sha256:'' @ sha256_hex b" by (simp add: dollar_def del: append.simps)
  have "drop 7 (''sha256:'' @ sha256_hex b) = sha256_hex b" by simp
  moreover have "length (''sha256:'' @ sha256_hex b) = 71" by simp
  ultimately show ?thesis unfolding digest_re_def d is_digest_def using h by (simp add: list_all_iff subset_iff del: append.simps)
qed

text \<open>
  C25. Every blob of the store is served, whole, and a complete download sets the time of its last request
  and adds one to its count.
\<close>

theorem stored_blob_served:
  assumes "reachable p s" "file_bytes (st_blobs s) h = Some b" "good_name name" "now < max_instant" "length (chunks_of CHUNK_SIZE b) < n"
  shows "\<exists>r s'. handle_blob_get s ''GET'' name (''sha256:'' @ h) = Inr r \<and> rs_status r = 200 \<and> rs_stream r = Some (''sha256:'' @ h)
    \<and> blob_stream s now (''sha256:'' @ h) n = (Inr (chunks_of CHUNK_SIZE b), s') \<and> concat (chunks_of CHUNK_SIZE b) = b
    \<and> abs_store s' = spec_request now h (abs_store s)"
proof -
  let ?dg = "''sha256:'' @ h"
  note inv = reachable_inv[OF assms(1)]
  have h: "sha256_hex b = h" by (rule bs.get_hash[OF inv assms(2)])
  have k: "strip_prefix ?dg = h" unfolding strip_prefix_def by (rule removeprefix_append)
  have has: "has_blob s ?dg" using file_bytes_exists[OF assms(2)] by (simp add: has_blob_def k del: append.simps)
  then obtain q where q: "get_blob s ?dg = Inr q" using get_blob_has by blast
  have c: "blob_checks s ''GET'' name ?dg = None"
    unfolding blob_checks_None using assms(3) has digest_re_hash[of b, unfolded h] by blast
  have "handle_blob_get s ''GET'' name ?dg = Inr ((respond 200 (blob_headers ?dg (length b)) [])\<lparr>rs_stream := Some ?dg\<rparr>)"
    by (simp add: handle_blob_get_def c q k assms(2) h del: append.simps)
  moreover have "blob_stream s now ?dg n = (Inr (chunks_of CHUNK_SIZE b), snd (update_metadata s now ?dg ''pull''))"
  proof -
    have "fst (update_metadata s now ?dg ''pull'') = Inr ()" using update_metadata_has[OF inv assms(4)] has by blast
    then obtain s' where "update_metadata s now ?dg ''pull'' = (Inr (), s')" by (metis prod.collapse)
    with assms(5) show ?thesis by (simp add: blob_stream_def k assms(2) Let_def del: append.simps)
  qed
  moreover have "concat (chunks_of CHUNK_SIZE b) = b" by (rule concat_chunks) (simp add: CHUNK_SIZE_def)
  moreover have "abs_store (snd (update_metadata s now ?dg ''pull'')) = spec_request now h (abs_store s)"
    unfolding update_metadata_abs[OF inv assms(4)] k ..
  ultimately show ?thesis by (simp add: respond_def del: append.simps)
qed

lemma demo_chunks: "length (chunks_of CHUNK_SIZE demo_blob) = 1"
  by (simp add: demo_blob_def CHUNK_SIZE_def chunks_of.simps)

theorem stored_blob_served_witness:
  "\<exists>r s'. handle_blob_get demo_store ''GET'' ''library/nginx'' demo_digest = Inr r \<and> rs_status r = 200
     \<and> blob_stream demo_store 9 demo_digest 2 = (Inr (chunks_of CHUNK_SIZE demo_blob), s')
     \<and> abs_store s' (strip_prefix demo_digest) = Some (demo_blob, 9, 1)"
proof -
  have g: "good_name ''library/nginx''" by code_simp
  have m: "(9 :: nat) < max_instant" by (simp add: max_instant_def)
  have n: "length (chunks_of CHUNK_SIZE demo_blob) < 2" using demo_chunks by simp
  have d: "''sha256:'' @ strip_prefix demo_digest = demo_digest"
    unfolding demo_digest_def strip_prefix_digest ..
  from stored_blob_served[OF demo_reachable demo_file g m n] obtain r s' where
    r: "handle_blob_get demo_store ''GET'' ''library/nginx'' demo_digest = Inr r" "rs_status r = 200"
      "blob_stream demo_store 9 demo_digest 2 = (Inr (chunks_of CHUNK_SIZE demo_blob), s')"
      "abs_store s' = spec_request 9 (strip_prefix demo_digest) (abs_store demo_store)"
    unfolding d by blast
  have "abs_store s' (strip_prefix demo_digest) = Some (demo_blob, 9, 1)"
    unfolding r(4) by (simp add: demo_abs spec_request_def)
  with r(1-3) show ?thesis by blast
qed

theorem blob_get_integrity_witness:
  "\<exists>r data. handle_blob_get demo_store ''GET'' ''library/nginx'' demo_digest = Inr r \<and> ''sha256:'' @ sha256_hex data = demo_digest
     \<and> rs_stream r = Some demo_digest"
proof -
  have g: "good_name ''library/nginx''" by code_simp
  have dg: "demo_digest = ''sha256:'' @ sha256_hex demo_blob" by (rule demo_digest_def)
  have has: "has_blob demo_store demo_digest" unfolding has_blob_def using file_bytes_exists[OF demo_file] .
  then obtain q where q: "get_blob demo_store demo_digest = Inr q" using get_blob_has by blast
  have "digest_re demo_digest" unfolding dg by (rule digest_re_hash)
  with g has have c: "blob_checks demo_store ''GET'' ''library/nginx'' demo_digest = None" unfolding blob_checks_None by blast
  have "handle_blob_get demo_store ''GET'' ''library/nginx'' demo_digest =
      Inr ((respond 200 (blob_headers demo_digest (length demo_blob)) [])\<lparr>rs_stream := Some demo_digest\<rparr>)"
    unfolding handle_blob_get_def c q option.case rbind.simps demo_file dg[symmetric] by simp
  then obtain r where r: "handle_blob_get demo_store ''GET'' ''library/nginx'' demo_digest = Inr r" "rs_status r = 200"
    by (simp add: respond_def)
  have n: "length (chunks_of CHUNK_SIZE (the (file_bytes (st_blobs demo_store) (strip_prefix demo_digest)))) \<le> 1"
    unfolding demo_file using demo_chunks by simp
  from blob_get_integrity[OF r n zero_less_one] r(1) show ?thesis by blast
qed

end
