(* ===== verification/Fetch_Cache.thy ===== *)
theory Fetch_Cache
  imports Content_Store
begin

text \<open>
  \<open>buncker_fetch/cache.py\<close>: the cache of downloaded blobs on the online side. The directory
  \<open>blobs/sha256\<close> is a list of named entries, each with the modification time \<open>stat\<close> reports,
  in microseconds. A method takes the cache and the current time.
\<close>

section \<open>Operations\<close>

type_synonym cache = "(string \<times> node \<times> int) list"

definition cache_exists :: "cache \<Rightarrow> string \<Rightarrow> bool" where
  "cache_exists c name = (case dget c name of None \<Rightarrow> False | Some (n, t) \<Rightarrow> node_exists n)"

definition cache_has_blob :: "cache \<Rightarrow> string \<Rightarrow> bool" where
  "cache_has_blob c digest = cache_exists c (removeprefix digest ''sha256:'')"

text \<open>\<open>get_blob\<close> gives the path; \<open>cache_read\<close> is the read of the file behind it.\<close>

definition cache_get_blob :: "cache \<Rightarrow> string \<Rightarrow> string res" where
  "cache_get_blob c digest =
     (let hex_digest = removeprefix digest ''sha256:'' in
      if \<not> cache_exists c hex_digest then Inl (StoreError (''Blob not in cache: '' @ digest) [(''digest'', PStr digest)])
      else Inr hex_digest)"

definition cache_bytes :: "cache \<Rightarrow> string \<Rightarrow> bytes option" where
  "cache_bytes c name = Option.bind (dget c name) (\<lambda>(n, t). node_bytes n)"

definition cache_read :: "cache \<Rightarrow> string \<Rightarrow> bytes res" where
  "cache_read c name = (case cache_bytes c name of Some b \<Rightarrow> Inr b | None \<Rightarrow> Inl is_a_directory_error)"

definition store_blob :: "cache \<Rightarrow> instant \<Rightarrow> string \<Rightarrow> bytes \<Rightarrow> string res \<times> cache" where
  "store_blob c now digest data =
     (let hex_digest = removeprefix digest ''sha256:''; actual = sha256_hex data in
      if actual \<noteq> hex_digest then
        (Inl (StoreError (''SHA256 mismatch for '' @ digest) [(''expected'', PStr hex_digest), (''actual'', PStr actual)]), c)
      else if cache_exists c hex_digest then (Inr hex_digest, c)
      else (Inr hex_digest, dset c hex_digest (RegFile (os_write data), int now)))"

definition cutoff_time :: "instant \<Rightarrow> int \<Rightarrow> int" where
  "cutoff_time now older_than_days = int now - older_than_days * 86400000000"

text \<open>The loop of \<open>cache_clean\<close>: the count, the bytes freed and the entries kept.\<close>

fun clean_loop :: "int \<Rightarrow> cache \<Rightarrow> nat \<times> nat \<times> cache" where
  "clean_loop cutoff [] = (0, 0, [])"
| "clean_loop cutoff ((name, n, t) # es) =
     (let (count, freed, kept) = clean_loop cutoff es in
      case node_bytes n of
        Some b \<Rightarrow> if t < cutoff then (Suc count, length b + freed, kept) else (count, freed, (name, n, t) # kept)
      | None \<Rightarrow> (count, freed, (name, n, t) # kept))"

definition cache_clean :: "cache \<Rightarrow> instant \<Rightarrow> int \<Rightarrow> dict \<times> cache" where
  "cache_clean c now older_than_days =
     (let (count, freed, kept) = clean_loop (cutoff_time now older_than_days) c
      in ([(''count'', PInt (int count)), (''bytes_freed'', PInt (int freed))], kept))"

record cache_stats =
  blob_count :: nat
  total_size :: nat
  oldest :: "int option"
  newest :: "int option"

definition cached_files :: "cache \<Rightarrow> (bytes \<times> int) list" where
  "cached_files c = concat (map (\<lambda>(name, n, t). case node_bytes n of Some b \<Rightarrow> [(b, t)] | None \<Rightarrow> []) c)"

definition stats :: "cache \<Rightarrow> cache_stats" where
  "stats c =
     (let fs = cached_files c; ts = map snd fs in
      \<lparr>blob_count = length fs, total_size = sum_list (map (length \<circ> fst) fs),
       oldest = (case ts of [] \<Rightarrow> None | t # ts \<Rightarrow> Some (fold min ts t)),
       newest = (case ts of [] \<Rightarrow> None | t # ts \<Rightarrow> Some (fold max (t # ts) 0))\<rparr>)"

section \<open>The contract\<close>

text \<open>Every entry is a regular file under the hash of its contents.\<close>

definition cache_inv :: "cache \<Rightarrow> bool" where
  "cache_inv c = (distinct (dkeys c) \<and> (\<forall>name n t. (name, n, t) \<in> set c \<longrightarrow> (\<exists>b. n = RegFile b \<and> sha256_hex b = name)))"

definition cache_fits :: "instant \<Rightarrow> bytes \<Rightarrow> bool" where
  "cache_fits now data = (length data \<le> max_rw_count)"

lemma cache_inv_entry:
  assumes "cache_inv c" "dget c name = Some (n, t)"
  shows "\<exists>b. n = RegFile b \<and> sha256_hex b = name"
  using assms dget_in_set[OF assms(2)] unfolding cache_inv_def by blast

lemma cache_bytes_exists: "cache_inv c \<Longrightarrow> cache_exists c name \<longleftrightarrow> cache_bytes c name \<noteq> None"
  by (cases "dget c name") (auto simp: cache_exists_def cache_bytes_def dest: cache_inv_entry)

lemma cache_bytes_hash: "cache_inv c \<Longrightarrow> cache_bytes c name = Some b \<Longrightarrow> sha256_hex b = name"
  by (auto simp: cache_bytes_def split: bind_splits dest: cache_inv_entry)

lemma cache_inv_update:
  assumes "cache_inv c" "sha256_hex b = name"
  shows "cache_inv (dset c name (RegFile b, t))"
proof -
  have "(x, n, u) \<in> set (dset c name (RegFile b, t)) \<Longrightarrow> \<exists>b. n = RegFile b \<and> sha256_hex b = x" for x n u
  proof -
    assume "(x, n, u) \<in> set (dset c name (RegFile b, t))"
    moreover have "distinct (dkeys (dset c name (RegFile b, t)))" using assms(1) by (simp add: cache_inv_def)
    ultimately have "dget (dset c name (RegFile b, t)) x = Some (n, u)" using in_set_dget by metis
    then show ?thesis using assms cache_inv_entry[OF assms(1), of x n u] by (auto split: if_splits)
  qed
  with assms(1) show ?thesis by (auto simp: cache_inv_def)
qed

interpretation fc: content_store "\<lambda>c now data dg. store_blob c now dg data" cache_bytes cache_inv cache_fits
proof
  fix c :: cache and now data dg h
  assume a: "cache_inv c" "cache_fits now data" "sha256_hex data = blob_key dg"
  then show "\<exists>r. fst (store_blob c now dg data) = Inr r" by (simp add: store_blob_def blob_key_def Let_def)
  show "cache_bytes (snd (store_blob c now dg data)) h = (if h = blob_key dg \<and> cache_bytes c h = None then Some data else cache_bytes c h)"
    using a cache_bytes_exists[OF a(1), of "blob_key dg"]
    by (auto simp: store_blob_def blob_key_def Let_def cache_bytes_def cache_fits_def)
next
  fix c :: cache and now data dg
  show "sha256_hex data \<noteq> blob_key dg \<Longrightarrow> \<exists>e. store_blob c now dg data = (Inl e, c)"
    by (simp add: store_blob_def blob_key_def Let_def)
  show "cache_inv c \<Longrightarrow> cache_fits now data \<Longrightarrow> cache_inv (snd (store_blob c now dg data))"
    by (simp add: store_blob_def Let_def cache_fits_def cache_inv_update)
next
  fix c :: cache and h b
  show "cache_inv c \<Longrightarrow> cache_bytes c h = Some b \<Longrightarrow> sha256_hex b = h" by (rule cache_bytes_hash)
qed

section \<open>Cleaning\<close>

definition expired :: "int \<Rightarrow> string \<times> node \<times> int \<Rightarrow> bool" where
  "expired cutoff e = (is_file (fst (snd e)) \<and> snd (snd e) < cutoff)"

lemma expired_entry [simp]: "expired cutoff (name, n, t) \<longleftrightarrow> is_file n \<and> t < cutoff"
  by (simp add: expired_def)

lemma clean_loop_parts:
  "clean_loop cutoff c =
     (length (filter (expired cutoff) c),
      sum_list (map (\<lambda>e. case node_bytes (fst (snd e)) of Some b \<Rightarrow> length b | None \<Rightarrow> 0) (filter (expired cutoff) c)),
      filter (\<lambda>e. \<not> expired cutoff e) c)"
  by (induction cutoff c rule: clean_loop.induct) (auto simp: is_file_def split: option.splits)

lemma dget_filter: "distinct (dkeys c) \<Longrightarrow> dget (filter P c) k = (case dget c k of Some v \<Rightarrow> if P (k, v) then Some v else None | None \<Rightarrow> None)"
proof (induction c)
  case (Cons x c)
  then show ?case by (cases x) (auto simp: map_of_eq_None_iff split: option.splits)
qed simp

lemma cache_clean_inv: "cache_inv c \<Longrightarrow> cache_inv (snd (cache_clean c now days))"
  unfolding cache_clean_def clean_loop_parts cache_inv_def by (simp add: distinct_map_filter) blast

lemma cache_clean_bytes:
  assumes "cache_inv c"
  shows "cache_bytes (snd (cache_clean c now days)) h =
    (case dget c h of Some (n, t) \<Rightarrow> if t < cutoff_time now days then None else node_bytes n | None \<Rightarrow> None)"
proof (cases "dget c h")
  case (Some e)
  then obtain b t where "e = (RegFile b, t)" using cache_inv_entry[OF assms, of h] by (cases e) auto
  with Some assms show ?thesis
    by (simp add: cache_clean_def clean_loop_parts cache_bytes_def dget_filter cache_inv_def)
qed (use assms in \<open>simp add: cache_clean_def clean_loop_parts cache_bytes_def dget_filter cache_inv_def\<close>)

text \<open>The files cleaned and the files kept together are the files there were.\<close>

lemma cache_clean_totals:
  "total_size (stats c) = total_size (stats (snd (cache_clean c now days)))
     + fst (snd (clean_loop (cutoff_time now days) c))"
  "blob_count (stats c) = blob_count (stats (snd (cache_clean c now days))) + fst (clean_loop (cutoff_time now days) c)"
proof -
  have "sum_list (map (length \<circ> fst) (cached_files c)) = sum_list (map (length \<circ> fst) (cached_files (filter (\<lambda>e. \<not> expired x e) c)))
      + sum_list (map (\<lambda>e. case node_bytes (fst (snd e)) of Some b \<Rightarrow> length b | None \<Rightarrow> 0) (filter (expired x) c))
    \<and> length (cached_files c) = length (cached_files (filter (\<lambda>e. \<not> expired x e) c)) + length (filter (expired x) c)" for x
    by (induction c) (auto simp: cached_files_def is_file_def split: option.splits)
  then show "total_size (stats c) = total_size (stats (snd (cache_clean c now days))) + fst (snd (clean_loop (cutoff_time now days) c))"
    and "blob_count (stats c) = blob_count (stats (snd (cache_clean c now days))) + fst (clean_loop (cutoff_time now days) c)"
    by (simp_all add: stats_def cache_clean_def clean_loop_parts Let_def)
qed

end
