(* ===== verification/Transfer_Fetch.thy ===== *)
theory Transfer_Fetch
  imports Transfer_Server Fetch_Cache
begin

text \<open>
  \<open>buncker_fetch/transfer.py\<close>: the transfer files of the online side, requests read and
  responses written. The response is the list of archive members in the order they are added;
  the text of the archive is the parameter of \<open>Archive\<close>. A blob descriptor of a request is a
  dictionary.
\<close>

section \<open>Requests\<close>

definition process_request :: "aead \<Rightarrow> bytes \<Rightarrow> bytes \<Rightarrow> bytes \<Rightarrow> string \<Rightarrow> pyval res" where
  "process_request A encrypted_data aes_key hmac_key request_path =
     (case decrypt A encrypted_data aes_key of
        Inl e \<Rightarrow> Inl (CryptoError ''Failed to decrypt transfer request. Wrong key or corrupted file.'' [(''path'', PStr request_path)])
      | Inr decrypted \<Rightarrow>
          let last_newline = rfind CHR 0x0A decrypted in
          if last_newline = -1 then
            Inl (CryptoError ''Invalid transfer request format - no HMAC signature found'' [(''path'', PStr request_path)])
          else
            let json_bytes = take (nat last_newline) decrypted in
            rbind (py_decode (drop (nat (last_newline + 1)) decrypted)) (\<lambda>sig.
            rbind (verify json_bytes hmac_key sig) (\<lambda>ok.
            if \<not> ok then
              Inl (CryptoError ''HMAC verification failed - transfer request is tampered or wrong key'' [(''path'', PStr request_path)])
            else
              case json_loads_bytes json_bytes of
                Inl e \<Rightarrow> Inl (if is_json_error e then TransferError ''Invalid JSON in transfer request'' [(''path'', PStr request_path)] else e)
              | Inr doc \<Rightarrow>
                  rbind (vget doc ''source_id'' PNone) (\<lambda>_.
                  rbind (vget doc ''blobs'' (PList [])) (\<lambda>blobs.
                  rbind (vlen blobs) (\<lambda>_. Inr doc))))))"

section \<open>Responses\<close>

definition FETCH_OCI_LAYOUT :: string where
  "FETCH_OCI_LAYOUT = ''{\"imageLayoutVersion\":\"1.0.0\"}'' @ [CHR 0x0A]"

definition add_bytes_to_tar :: "member list \<Rightarrow> string \<Rightarrow> bytes \<Rightarrow> member list" where
  "add_bytes_to_tar tar name data = tar @ [(name, Regular data)]"

definition add_string_to_tar :: "member list \<Rightarrow> string \<Rightarrow> string \<Rightarrow> member list" where
  "add_string_to_tar tar name content = add_bytes_to_tar tar name (py_encode content)"

text \<open>The blobs: the members, the digests added and the errors of the ones missing from the cache.\<close>

fun add_blobs :: "cache \<Rightarrow> member list \<Rightarrow> dict list \<Rightarrow> (member list \<times> string list \<times> pyval list) res" where
  "add_blobs c tar [] = Inr (tar, [], [])"
| "add_blobs c tar (b # bs) =
     rbind (rbind (dindex b ''digest'') (\<lambda>v. case v of PStr s \<Rightarrow> Inr s | _ \<Rightarrow> Inl (attr_error v ''removeprefix''))) (\<lambda>digest.
     case rbind (cache_get_blob c digest) (cache_read c) of
       Inr data \<Rightarrow>
         rbind (add_blobs c (add_bytes_to_tar tar (''blobs/sha256/'' @ removeprefix digest ''sha256:'') data) bs) (\<lambda>(tar, ds, es).
         Inr (tar, digest # ds, es))
     | Inl e \<Rightarrow>
         rbind (add_blobs c tar bs) (\<lambda>(tar, ds, es). Inr (tar, ds, blob_error digest (exc_str e) # es)))"

definition index_data :: "string list \<Rightarrow> pyval" where
  "index_data digests = PDict [(''imageLayoutVersion'', PStr ''1.0.0''), (''blobs'', PList (map PStr digests))]"

record fetched_manifest =
  fm_registry :: string
  fm_repository :: string
  fm_tag :: string
  fm_platform :: string
  fm_manifest :: dict

definition manifest_path :: "fetched_manifest \<Rightarrow> string" where
  "manifest_path m = ''manifests/'' @ fm_registry m @ ''/'' @ fm_repository m @ ''/'' @ fm_tag m @ ''/'' @ fm_platform m @ ''.json''"

fun add_manifests :: "member list \<Rightarrow> fetched_manifest list \<Rightarrow> member list" where
  "add_manifests tar [] = tar"
| "add_manifests tar (m # ms) = add_manifests (add_string_to_tar tar (manifest_path m) (json_pretty 0 (PDict (fm_manifest m)))) ms"

text \<open>The members of the response, and the errors with those of the missing blobs added.\<close>

definition response_members ::
  "cache \<Rightarrow> dict list \<Rightarrow> pyval list \<Rightarrow> bytes \<Rightarrow> (string \<times> bytes) option \<Rightarrow> fetched_manifest list \<Rightarrow> (member list \<times> pyval list) res" where
  "response_members c blobs errs hmac_key deb manifests =
     rbind (add_blobs c (add_string_to_tar [] ''oci-layout'' FETCH_OCI_LAYOUT) blobs) (\<lambda>(tar, blob_digests, missing).
     let errs = errs @ missing;
         tar = add_string_to_tar tar ''index.json'' (json_dumps False (index_data blob_digests));
         manifest_data = py_encode (json_dumps False (PList (map PStr blob_digests)));
         tar = add_string_to_tar tar ''MANIFEST.sig'' (sign manifest_data hmac_key);
         tar = (if errs \<noteq> [] then add_string_to_tar tar ''ERRORS.json'' (json_dumps False (PList errs)) else tar);
         tar = add_manifests tar manifests;
         tar = (case deb of None \<Rightarrow> tar | Some (name, data) \<Rightarrow> add_bytes_to_tar tar name data)
     in Inr (tar, errs))"

definition build_response ::
  "aead \<Rightarrow> tar_codec \<Rightarrow> bytes \<Rightarrow> instant \<Rightarrow> cache \<Rightarrow> dict list \<Rightarrow> pyval list \<Rightarrow> bytes \<Rightarrow> bytes \<Rightarrow> string \<Rightarrow>
   (string \<times> bytes) option \<Rightarrow> fetched_manifest list \<Rightarrow> (string \<times> bytes \<times> pyval list) res" where
  "build_response A T nonce now c blobs errs aes_key hmac_key source_id deb manifests =
     rbind (response_members c blobs errs hmac_key deb manifests) (\<lambda>(members, errs).
     rbind (seal A nonce (tar_pack T now members) aes_key hmac_key) (\<lambda>encrypted.
     Inr (''buncker-response-'' @ stamp now @ ''-'' @ source_id @ ''.tar.enc'', encrypted, errs)))"

end
