(* ===== verification/Transfer_Props.thy ===== *)
theory Transfer_Props
  imports Transfer_Fetch
begin

text \<open>
  The encrypted files that cross the air gap. What one side seals the other side opens, and what
  is opened was signed with the shared key.
\<close>

section \<open>The contract of a channel\<close>

text \<open>
  Both directions of the transfer are channels: \<open>wrap\<close> seals a payload under a nonce, \<open>unwrap\<close>
  opens a file. \<open>sendable\<close> holds of the payloads the format carries.
\<close>

locale channel =
  fixes wrap :: "bytes \<Rightarrow> 'a \<Rightarrow> bytes res"
    and unwrap :: "bytes \<Rightarrow> 'a res"
    and sendable :: "'a \<Rightarrow> bool"
    and signed :: "'a \<Rightarrow> bytes \<Rightarrow> bool"
  assumes unwrap_wrap: "length nonce = 12 \<Longrightarrow> sendable x \<Longrightarrow> wrap nonce x = Inr c \<Longrightarrow> unwrap c = Inr x"
    and unwrap_signed: "unwrap c = Inr x \<Longrightarrow> signed x c"
begin

lemma wrap_inject:
  assumes "length nonce = 12" "length nonce' = 12" "sendable x" "sendable y" "wrap nonce x = Inr c" "wrap nonce' y = Inr c"
  shows "x = y"
  using unwrap_wrap[OF assms(1,3,5)] unwrap_wrap[OF assms(2,4,6)] by simp

lemma wrap_signed: "length nonce = 12 \<Longrightarrow> sendable x \<Longrightarrow> wrap nonce x = Inr c \<Longrightarrow> signed x c"
  by (rule unwrap_signed[OF unwrap_wrap])

end

section \<open>Sealing\<close>

lemma newline_notin_hex: "CHR 0x0A \<notin> set (hex_str bs)"
proof -
  have "CHR 0x0A \<notin> set hex_chars" by code_simp
  then show ?thesis using set_hex_str by blast
qed

lemma sign_facts: "CHR 0x0A \<notin> set (sign data k)" "is_ascii (sign data k)" "py_encode (sign data k) = sign data k"
  by (simp_all add: sign_def newline_notin_hex)

lemma seal_decrypt:
  assumes "aead_inverse A" "length nonce = 12" "seal A nonce data aes_key hmac_key = Inr c"
  shows "decrypt A c aes_key = Inr (data @ CHR 0x0A # sign data hmac_key)"
  using decrypt_inverts[OF assms(1,2)] assms(3) by (simp add: seal_def sign_facts Let_def)

lemma verify_True: "verify data k sig = Inr True \<longleftrightarrow> sig = sign data k"
  by (auto simp: verify_def compare_digest_def sign_facts split: if_splits)

text \<open>The parts behind and before the last line break.\<close>

lemma split_signed:
  assumes "CHR 0x0A \<notin> set sig"
  shows "rfind CHR 0x0A (data @ CHR 0x0A # sig) = int (length data)"
    "take (nat (int (length data))) (data @ CHR 0x0A # sig) = data"
    "drop (nat (int (length data) + 1)) (data @ CHR 0x0A # sig) = sig"
proof -
  show "rfind CHR 0x0A (data @ CHR 0x0A # sig) = int (length data)" using assms by (rule rfind_append)
  show "take (nat (int (length data))) (data @ CHR 0x0A # sig) = data" by simp
  have "nat (int (length data) + 1) = Suc (length data)" by simp
  then show "drop (nat (int (length data) + 1)) (data @ CHR 0x0A # sig) = sig" by simp
qed

lemma last_newline_cases:
  obtains (none) "rfind CHR 0x0A d = -1"
    | (some) u t where "d = u @ CHR 0x0A # t" "CHR 0x0A \<notin> set t" "rfind CHR 0x0A d = int (length u)"
  using rfind_last[of "CHR 0x0A" d] rfind_notin[of "CHR 0x0A" d] by blast

text \<open>A response opens exactly when it decrypts to data that carries its own signature.\<close>

lemma open_response_iff:
  "open_response A c aes_key hmac_key p = Inr data \<longleftrightarrow> decrypt A c aes_key = Inr (data @ CHR 0x0A # sign data hmac_key)"
proof
  assume "decrypt A c aes_key = Inr (data @ CHR 0x0A # sign data hmac_key)"
  then show "open_response A c aes_key hmac_key p = Inr data"
    using split_signed[OF sign_facts(1), of data data hmac_key] verify_True[of data hmac_key "sign data hmac_key"]
    by (simp add: open_response_def Let_def ascii_decode_def sign_facts)
next
  assume o: "open_response A c aes_key hmac_key p = Inr data"
  then obtain d where d: "decrypt A c aes_key = Inr d"
    by (auto simp: open_response_def split: sum.splits exc.splits error_kind.splits)
  show "decrypt A c aes_key = Inr (data @ CHR 0x0A # sign data hmac_key)"
  proof (cases rule: last_newline_cases[of d])
    case none
    with o d show ?thesis by (simp add: open_response_def)
  next
    case (some u t)
    from o have "is_ascii t" "verify u hmac_key t = Inr True" "data = u"
      using split_signed[OF some(2), of u] some
      by (auto simp: open_response_def d Let_def ascii_decode_def rbind_Inr_iff split: if_splits)
    with d some(1) show ?thesis by (simp add: verify_True)
  qed
qed

text \<open>Bytes that decode to ASCII text are that text.\<close>

lemma decode_ascii: "py_decode bs = Inr s \<Longrightarrow> is_ascii s \<Longrightarrow> bs = s"
proof (induction bs arbitrary: s rule: py_decode.induct)
  case (2 b bs)
  show ?case
  proof (cases "code b < 128")
    case True
    with 2 show ?thesis by (auto simp: rbind_Inr_iff is_ascii_def)
  next
    case False
    with "2.prems"(1) obtain c cs r where c: "bs = c # cs" "code b = 194 \<or> code b = 195" "128 \<le> code c" "code c < 192"
        "s = char_of ((code b - 192) * 64 + (code c - 128)) # r"
      by (auto simp: rbind_Inr_iff split: list.splits if_splits)
    then have "code (char_of ((code b - 192) * 64 + (code c - 128))) = (code b - 192) * 64 + (code c - 128)"
      by (intro code_char_of) auto
    with c "2.prems"(2) show ?thesis by (auto simp: is_ascii_def)
  qed
qed simp

lemma process_request_signed:
  assumes "process_request A c aes_key hmac_key p = Inr doc"
  shows "\<exists>json. decrypt A c aes_key = Inr (json @ CHR 0x0A # sign json hmac_key) \<and> json_loads_bytes json = Inr doc"
proof -
  from assms obtain d where d: "decrypt A c aes_key = Inr d" by (auto simp: process_request_def split: sum.splits)
  show ?thesis
  proof (cases rule: last_newline_cases[of d])
    case none
    with assms d show ?thesis by (simp add: process_request_def)
  next
    case (some u t)
    from assms obtain sig where s: "py_decode t = Inr sig" "verify u hmac_key sig = Inr True" "json_loads_bytes u = Inr doc"
      using split_signed[OF some(2), of u] some
      by (auto simp: process_request_def d Let_def rbind_Inr_iff split: if_splits sum.splits)
    have sig: "sig = sign u hmac_key" using s(2) by (simp add: verify_True)
    have "t = sig" by (rule decode_ascii[OF s(1)]) (simp add: sig sign_facts)
    with s(3) d some(1) sig show ?thesis by auto
  qed
qed

section \<open>Requests\<close>

lemma wf_request_data: "list_all wf_json blobs \<Longrightarrow> wf_json (request_data now v source_id blobs)"
  by (simp add: request_data_def)

text \<open>What the online side accepts as a request.\<close>

definition request_doc :: "pyval \<Rightarrow> bool" where
  "request_doc doc = (wf_json doc \<and> (\<exists>d. doc = PDict d \<and> (\<exists>n. vlen (dget_or d ''blobs'' (PList [])) = Inr n)))"

lemma process_sealed:
  assumes "aead_inverse A" "length nonce = 12" "request_doc doc"
    and "seal A nonce (py_encode (json_dumps False doc)) aes_key hmac_key = Inr c"
  shows "process_request A c aes_key hmac_key p = Inr doc"
proof -
  let ?j = "py_encode (json_dumps False doc)"
  have "json_loads_bytes ?j = Inr doc" using assms(3) json_loads_bytes_dumps unfolding request_doc_def by blast
  moreover have "py_decode (sign ?j hmac_key) = Inr (sign ?j hmac_key)" using py_decode_encode[of "sign ?j hmac_key"] by (simp add: sign_facts)
  ultimately show ?thesis
    using seal_decrypt[OF assms(1,2,4)] split_signed[OF sign_facts(1), of ?j ?j hmac_key] assms(3)
      verify_True[of ?j hmac_key "sign ?j hmac_key"]
    by (auto simp: process_request_def Let_def request_doc_def)
qed

interpretation requests: channel
  "\<lambda>nonce doc. seal A nonce (py_encode (json_dumps False doc)) aes_key hmac_key"
  "\<lambda>c. process_request A c aes_key hmac_key p"
  "\<lambda>doc. aead_inverse A \<and> request_doc doc"
  "\<lambda>doc c. \<exists>json. decrypt A c aes_key = Inr (json @ CHR 0x0A # sign json hmac_key) \<and> json_loads_bytes json = Inr doc"
  for A aes_key hmac_key p
  by unfold_locales (auto intro: process_sealed process_request_signed)

text \<open>
  The online side reads from a generated request exactly what the offline side put into it, for
  any list of blob descriptors that JSON carries, whatever the keys, the nonce and the time.
\<close>

theorem process_generated_request:
  assumes "aead_inverse A" "length nonce = 12" "list_all wf_json missing_blobs"
    and "generate_request A nonce now now' missing_blobs aes_key hmac_key source_id v = Inr (filename, encrypted)"
  shows "process_request A encrypted aes_key hmac_key p = Inr (request_data now v source_id missing_blobs)"
proof (rule requests.unwrap_wrap[OF assms(2)])
  show "aead_inverse A \<and> request_doc (request_data now v source_id missing_blobs)"
    using assms(1) wf_request_data[OF assms(3)] by (simp add: request_doc_def request_data_def dget_or_def vlen_def)
  show "seal A nonce (py_encode (json_dumps False (request_data now v source_id missing_blobs))) aes_key hmac_key = Inr encrypted"
    using assms(4) by (auto simp: generate_request_def rbind_Inr_iff)
qed

theorem process_generated_request_witness:
  "\<exists>filename encrypted. generate_request toy_aead (replicate 12 CHR ''n'') 5 6 [PDict [(''size'', PInt 7)]] (replicate 32 CHR ''k'') ''hm'' ''site'' ''1''
       = Inr (filename, encrypted)
     \<and> process_request toy_aead encrypted (replicate 32 CHR ''k'') ''hm'' ''f'' = Inr (request_data 5 ''1'' ''site'' [PDict [(''size'', PInt 7)]])"
proof -
  have w: "list_all wf_json [PDict [(''size'', PInt 7)]]" by code_simp
  obtain filename encrypted where g: "generate_request toy_aead (replicate 12 CHR ''n'') 5 6 [PDict [(''size'', PInt 7)]]
      (replicate 32 CHR ''k'') ''hm'' ''site'' ''1'' = Inr (filename, encrypted)"
    by (simp add: generate_request_def seal_def encrypt_def Let_def toy_aead_def)
  from process_generated_request[OF toy_aead_inverse _ w g, of "''f''"] g show ?thesis by simp
qed

text \<open>
  C27. Nothing but a signed file is imported: a response is opened to some archive exactly when it
  decrypts to that archive followed by a line break and its HMAC under the shared key.
\<close>

theorem open_response_authentic:
  "open_response A encrypted aes_key hmac_key p = Inr tar_bytes \<longleftrightarrow>
     decrypt A encrypted aes_key = Inr (tar_bytes @ [CHR 0x0A] @ sign tar_bytes hmac_key)"
  by (simp add: open_response_iff)

end
