(* ===== verification/Archive_Props.thy ===== *)
theory Archive_Props
  imports Archive "HOL-Library.Sublist" "HOL-Library.Multiset"
begin

text \<open>
  What extraction leaves: for members with plain relative names, none of them a directory of
  another, exactly their files and the directories above them, on every Python version.
\<close>

section \<open>Directories\<close>

definition no_file_on :: "tree \<Rightarrow> string list \<Rightarrow> string list \<Rightarrow> bool" where
  "no_file_on t base cs = (\<forall>q b. q \<noteq> [] \<longrightarrow> prefix q cs \<longrightarrow> dget t (base @ q) \<noteq> Some (TFile b))"

definition dir_on :: "string list \<Rightarrow> string list \<Rightarrow> string list \<Rightarrow> bool" where
  "dir_on base cs p = (\<exists>q. q \<noteq> [] \<and> prefix q cs \<and> p = base @ q)"

lemma dir_on_Nil [simp]: "\<not> dir_on base [] p"
  by (simp add: dir_on_def)

lemma dir_on_Cons: "dir_on base (c # cs) p \<longleftrightarrow> p = base @ [c] \<or> dir_on (base @ [c]) cs p"
proof
  assume "dir_on base (c # cs) p"
  then obtain q where q: "q \<noteq> []" "prefix q (c # cs)" "p = base @ q" by (auto simp: dir_on_def)
  then obtain q' where "q = c # q'" "prefix q' cs" by (cases q) auto
  with q(3) show "p = base @ [c] \<or> dir_on (base @ [c]) cs p" by (cases "q' = []") (auto simp: dir_on_def)
next
  assume "p = base @ [c] \<or> dir_on (base @ [c]) cs p"
  then show "dir_on base (c # cs) p" by (fastforce simp: dir_on_def)
qed

lemma make_dirs_spec:
  assumes "no_file_on t base cs" "distinct (dkeys t)"
  shows "\<exists>t'. make_dirs t base cs = Inr t' \<and> distinct (dkeys t') \<and>
    (\<forall>p. dget t' p = (if dget t p = None \<and> dir_on base cs p then Some TDir else dget t p))"
  using assms
proof (induction cs arbitrary: t base)
  case (Cons c cs)
  have nf: "no_file_on u (base @ [c]) cs" if "\<And>p. dget u p = dget t p \<or> dget u p = Some TDir" for u
    unfolding no_file_on_def
  proof (intro allI impI notI)
    fix q b assume q: "q \<noteq> []" "prefix q cs" "dget u ((base @ [c]) @ q) = Some (TFile b)"
    then have "dget t (base @ (c # q)) = Some (TFile b)" using that[of "(base @ [c]) @ q"] by auto
    with Cons.prems(1) q(2) show False unfolding no_file_on_def by force
  qed
  have c: "dget t (base @ [c]) \<noteq> Some (TFile b)" for b using Cons.prems(1) by (auto simp: no_file_on_def)
  consider (new) "dget t (base @ [c]) = None" | (old) "dget t (base @ [c]) = Some TDir"
    using c by (cases "dget t (base @ [c])"; cases "the (dget t (base @ [c]))") auto
  then show ?case
  proof cases
    case new
    let ?u = "dset t (base @ [c]) TDir"
    have "no_file_on ?u (base @ [c]) cs" by (rule nf) simp
    moreover have "distinct (dkeys ?u)" using Cons.prems(2) by simp
    ultimately obtain t' where t': "make_dirs ?u (base @ [c]) cs = Inr t'" "distinct (dkeys t')"
      "\<forall>p. dget t' p = (if dget ?u p = None \<and> dir_on (base @ [c]) cs p then Some TDir else dget ?u p)"
      using Cons.IH by blast
    have "dget t' p = (if dget t p = None \<and> dir_on base (c # cs) p then Some TDir else dget t p)" for p
      using t'(3) new by (auto simp: dir_on_Cons)
    with t'(1,2) new show ?thesis by auto
  next
    case old
    obtain t' where t': "make_dirs t (base @ [c]) cs = Inr t'" "distinct (dkeys t')"
      "\<forall>p. dget t' p = (if dget t p = None \<and> dir_on (base @ [c]) cs p then Some TDir else dget t p)"
      using Cons.IH[OF nf Cons.prems(2)] by blast
    have "dget t' p = (if dget t p = None \<and> dir_on base (c # cs) p then Some TDir else dget t p)" for p
      using t'(3) old by (auto simp: dir_on_Cons)
    with t'(1,2) old show ?thesis by auto
  qed
qed simp

section \<open>Files\<close>

text \<open>A tree that holds the given files and the directories above them.\<close>

definition tree_of :: "tree \<Rightarrow> (string list \<times> bytes) list \<Rightarrow> bool" where
  "tree_of t fs = (distinct (dkeys t) \<and> (\<forall>p. dget t p =
     (case map_of (rev fs) p of
        Some b \<Rightarrow> Some (TFile b)
      | None \<Rightarrow> if p \<noteq> [] \<and> (\<exists>q \<in> fst ` set fs. strict_prefix p q) then Some TDir else None)))"

definition prefix_free :: "string list set \<Rightarrow> bool" where
  "prefix_free ps = ([] \<notin> ps \<and> (\<forall>p \<in> ps. \<forall>q \<in> ps. \<not> strict_prefix p q))"

lemma dir_on_butlast: "path \<noteq> [] \<Longrightarrow> dir_on [] (butlast path) p \<longleftrightarrow> p \<noteq> [] \<and> strict_prefix p path"
proof -
  assume "path \<noteq> []"
  then obtain xs x where "path = xs @ [x]" by (cases path rule: rev_cases) auto
  then show ?thesis by (auto simp: dir_on_def strict_prefix_def prefix_snoc)
qed

lemma put_file_spec:
  assumes "tree_of t fs" "prefix_free (insert path (fst ` set fs))"
  shows "\<exists>t'. put_file t path b = Inr t' \<and> tree_of t' (fs @ [(path, b)])"
proof -
  have path: "path \<noteq> []" using assms(2) by (auto simp: prefix_free_def)
  have t: "distinct (dkeys t)" "\<And>p. dget t p = (case map_of (rev fs) p of Some b \<Rightarrow> Some (TFile b)
      | None \<Rightarrow> if p \<noteq> [] \<and> (\<exists>q \<in> fst ` set fs. strict_prefix p q) then Some TDir else None)"
    using assms(1) by (auto simp: tree_of_def)
  have none: "map_of (rev fs) p = None" if "strict_prefix p path" for p
    using that assms(2) by (auto simp: prefix_free_def map_of_eq_None_iff)
  have nf: "no_file_on t [] (butlast path)"
    unfolding no_file_on_def
  proof (intro allI impI)
    fix q c assume "q \<noteq> []" "prefix q (butlast path)"
    then have "strict_prefix q path" using dir_on_butlast[OF path, of q] by (auto simp: dir_on_def)
    then show "dget t ([] @ q) \<noteq> Some (TFile c)" using none by (simp add: t(2))
  qed
  obtain t1 where t1: "make_dirs t [] (butlast path) = Inr t1" "distinct (dkeys t1)"
      "\<And>p. dget t1 p = (if dget t p = None \<and> p \<noteq> [] \<and> strict_prefix p path then Some TDir else dget t p)"
    using make_dirs_spec[OF nf t(1)] unfolding dir_on_butlast[OF path] by blast
  have "dget t1 path \<noteq> Some TDir"
    using assms(2) by (auto simp: t1(3) t(2) prefix_free_def split: option.splits)
  then have "put_file t path b = Inr (dset t1 path (TFile b))" using path t1(1) by (simp add: put_file_def)
  moreover have "tree_of (dset t1 path (TFile b)) (fs @ [(path, b)])"
    unfolding tree_of_def
  proof (intro conjI allI)
    show "distinct (dkeys (dset t1 path (TFile b)))" using t1(2) by simp
    fix p
    show "dget (dset t1 path (TFile b)) p = (case map_of (rev (fs @ [(path, b)])) p of Some b \<Rightarrow> Some (TFile b)
        | None \<Rightarrow> if p \<noteq> [] \<and> (\<exists>q \<in> fst ` set (fs @ [(path, b)]). strict_prefix p q) then Some TDir else None)"
      using none[of p] by (auto simp: t1(3) t(2) split: option.splits)
  qed
  ultimately show ?thesis by blast
qed

text \<open>A member the program writes: a regular file with a plain relative name.\<close>

definition file_path :: "member \<Rightarrow> string list" where
  "file_path m = path_parts (fst m)"

definition safe_name :: "string \<Rightarrow> bool" where
  "safe_name name = (\<not> startswith name ''/'' \<and> \<not> str_in ''..'' name)"

definition file_of :: "member \<Rightarrow> string list \<times> bytes" where
  "file_of m = (file_path m, (case snd m of Regular b \<Rightarrow> b | _ \<Rightarrow> []))"

definition safe_file :: "member \<Rightarrow> bool" where
  "safe_file m = (safe_name (fst m) \<and> (\<exists>b. snd m = Regular b))"

lemma split_on_ne: "split_on c s \<noteq> []"
  by (cases s) (auto split: list.splits)

lemma split_on_prefix: "split_on c s = y # ys \<Longrightarrow> \<exists>v. s = y @ v"
proof (induction s arbitrary: y ys)
  case (Cons x s)
  then show ?case by (cases "split_on c s") (auto simp: split_on_ne split: if_splits)
qed simp

lemma split_on_infix: "w \<in> set (split_on c s) \<Longrightarrow> \<exists>u v. s = u @ w @ v"
proof (induction s arbitrary: w)
  case (Cons x s)
  obtain y ys where y: "split_on c s = y # ys" by (cases "split_on c s") (auto simp: split_on_ne)
  have pre: "\<exists>v. s = y @ v" using split_on_prefix[OF y] .
  show ?case
  proof (cases "x = c")
    case True
    with Cons show ?thesis by (auto intro: exI[of _ "[]"]) (metis append_Cons)
  next
    case False
    with Cons.prems y consider "w = x # y" | "w \<in> set ys" by auto
    then show ?thesis
    proof cases
      case 1
      with pre show ?thesis by (metis append_Cons append_Nil)
    next
      case 2
      with Cons.IH[of w] y show ?thesis by (metis append_Cons list.set_intros(2))
    qed
  qed
qed simp

lemma safe_name_parts: "safe_name name \<Longrightarrow> ''..'' \<notin> set (path_parts name)"
  using split_on_infix[of "''..''" "CHR ''/''" name] by (auto simp: safe_name_def path_parts_def str_in_iff)

lemma not_escapes: "''..'' \<notin> set ps \<Longrightarrow> \<not> escapes n ps"
  by (induction ps arbitrary: n) auto

lemma data_filter_safe: "safe_file m \<Longrightarrow> data_filter m = Inr (file_path m)"
  using safe_name_parts[of "fst m"] not_escapes
  by (auto simp: data_filter_def safe_file_def file_path_def Let_def)

lemma extract_member_safe: "safe_file m \<Longrightarrow> extract_member t (file_path m) (snd m) = put_file t (file_path m) (snd (file_of m))"
  by (auto simp: extract_member_def safe_file_def file_of_def)

lemma extract_files:
  assumes "list_all safe_file ms" "prefix_free (fst ` set (fs @ map file_of ms))" "tree_of t fs"
  shows "\<exists>t'. extract_filtered t ms = Inr t' \<and> extract_all t ms = Inr t' \<and> tree_of t' (fs @ map file_of ms)"
  using assms
proof (induction ms arbitrary: t fs)
  case (Cons m ms)
  have pf: "prefix_free (insert (file_path m) (fst ` set fs))"
    using Cons.prems(2) by (auto simp: prefix_free_def file_of_def)
  obtain t1 where t1: "put_file t (file_path m) (snd (file_of m)) = Inr t1" "tree_of t1 (fs @ [(file_path m, snd (file_of m))])"
    using put_file_spec[OF Cons.prems(3) pf] by blast
  have f: "(file_path m, snd (file_of m)) = file_of m" by (simp add: file_of_def)
  have "\<exists>t'. extract_filtered t1 ms = Inr t' \<and> extract_all t1 ms = Inr t' \<and> tree_of t' ((fs @ [file_of m]) @ map file_of ms)"
    using Cons.prems(1,2) t1(2) by (intro Cons.IH) (auto simp: f)
  then show ?case
    using Cons.prems(1) t1(1) data_filter_safe[of m] extract_member_safe[of m t] by (auto simp: file_path_def)
qed auto

lemma tree_of_Nil: "tree_of [] []"
  by (simp add: tree_of_def)

section \<open>Any archive\<close>

text \<open>Extraction makes the directory of every entry, whatever the archive holds.\<close>

definition wf_tree :: "tree \<Rightarrow> bool" where
  "wf_tree t = (distinct (dkeys t) \<and> (\<forall>p n. dget t p = Some n \<longrightarrow> p \<noteq> [] \<and> (1 < length p \<longrightarrow> dget t (butlast p) = Some TDir)))"

lemma wf_tree_put:
  assumes "wf_tree t" "p \<noteq> []" "1 < length p \<Longrightarrow> dget t (butlast p) = Some TDir" "dget t p \<noteq> Some TDir"
  shows "wf_tree (dset t p n)"
proof -
  have "q \<noteq> [] \<and> (1 < length q \<longrightarrow> dget (dset t p n) (butlast q) = Some TDir)" if "dget (dset t p n) q = Some m" for q m
  proof (cases "q = p")
    case True
    have "butlast p \<noteq> p" using assms(2) by (metis append_butlast_last_id not_Cons_self2 self_append_conv)
    with True assms show ?thesis by simp
  next
    case False
    with that have "dget t q = Some m" by simp
    with assms(1) have q: "q \<noteq> [] \<and> (1 < length q \<longrightarrow> dget t (butlast q) = Some TDir)" by (auto simp: wf_tree_def)
    with assms(4) show ?thesis by auto
  qed
  with assms(1) show ?thesis by (simp add: wf_tree_def)
qed

lemma make_dirs_wf:
  "make_dirs t base cs = Inr t' \<Longrightarrow> wf_tree t \<Longrightarrow> base = [] \<or> dget t base = Some TDir \<Longrightarrow>
     wf_tree t' \<and> (\<forall>p n. dget t p = Some n \<longrightarrow> dget t' p = Some n) \<and> (cs \<noteq> [] \<longrightarrow> dget t' (base @ cs) = Some TDir)"
proof (induction cs arbitrary: t base)
  case (Cons c cs)
  consider (new) "dget t (base @ [c]) = None" | (old) "dget t (base @ [c]) = Some TDir"
    using Cons.prems(1) by (auto split: option.splits tnode.splits)
  then show ?case
  proof cases
    case new
    let ?u = "dset t (base @ [c]) TDir"
    have u: "wf_tree ?u" using Cons.prems(2,3) new by (intro wf_tree_put) auto
    have "make_dirs ?u (base @ [c]) cs = Inr t'" using Cons.prems(1) new by simp
    from Cons.IH[OF this u] have ih: "wf_tree t'" "\<forall>p n. dget ?u p = Some n \<longrightarrow> dget t' p = Some n"
      "cs \<noteq> [] \<longrightarrow> dget t' ((base @ [c]) @ cs) = Some TDir" by auto
    have "dget t' p = Some n" if "dget t p = Some n" for p n
    proof -
      from that new have "dget ?u p = Some n" by auto
      with ih(2) show ?thesis by blast
    qed
    moreover have "dget t' (base @ [c]) = Some TDir" using ih(2) by simp
    ultimately show ?thesis using ih(1,3) by (cases "cs = []") auto
  next
    case old
    then have "make_dirs t (base @ [c]) cs = Inr t'" using Cons.prems(1) by simp
    from Cons.IH[OF this Cons.prems(2)] old show ?thesis by (cases "cs = []") auto
  qed
qed simp

lemma put_file_wf: "put_file t path b = Inr t' \<Longrightarrow> wf_tree t \<Longrightarrow> wf_tree t'"
proof -
  assume a: "put_file t path b = Inr t'" "wf_tree t"
  then obtain t1 where t1: "path \<noteq> []" "make_dirs t [] (butlast path) = Inr t1" "dget t1 path \<noteq> Some TDir" "t' = dset t1 path (TFile b)"
    by (auto simp: put_file_def rbind_Inr_iff split: if_splits)
  from make_dirs_wf[OF t1(2) a(2)] have w: "wf_tree t1" "butlast path \<noteq> [] \<longrightarrow> dget t1 (butlast path) = Some TDir" by auto
  have "1 < length path \<Longrightarrow> butlast path \<noteq> []" by (cases path rule: rev_cases) auto
  then show "wf_tree t'" unfolding t1(4) using w t1(1,3) by (intro wf_tree_put) auto
qed

lemma extract_member_wf: "extract_member t path k = Inr t' \<Longrightarrow> wf_tree t \<Longrightarrow> wf_tree t'"
  using put_file_wf make_dirs_wf[of t "[]" path t'] by (auto simp: extract_member_def split: member_kind.splits)

lemma extract_wf:
  "extract_filtered t ms = Inr t' \<Longrightarrow> wf_tree t \<Longrightarrow> wf_tree t'"
  "extract_all t ms = Inr t' \<Longrightarrow> wf_tree t \<Longrightarrow> wf_tree t'"
  by (induction ms arbitrary: t) (auto simp: rbind_Inr_iff dest: extract_member_wf)

section \<open>Listings\<close>

text \<open>A listing has the entries of the tree in some order.\<close>

definition listing :: "(tree \<Rightarrow> tree) \<Rightarrow> bool" where
  "listing ls = (\<forall>t. mset (ls t) = mset t)"

lemma listing_set: "listing ls \<Longrightarrow> set (ls t) = set t"
  unfolding listing_def by (metis set_mset_mset)

lemma listing_dkeys: "listing ls \<Longrightarrow> distinct (dkeys (ls t)) \<longleftrightarrow> distinct (dkeys t)"
proof -
  assume "listing ls"
  then have "mset (dkeys (ls t)) = mset (dkeys t)" by (simp add: listing_def)
  then show ?thesis by (rule mset_eq_imp_distinct_iff)
qed

lemma listing_dget: "listing ls \<Longrightarrow> distinct (dkeys t) \<Longrightarrow> dget (ls t) p = dget t p"
  using map_of_inject_set[of "ls t" t] listing_dkeys[of ls t] listing_set[of ls t] by simp

lemma in_children: "(name, n) \<in> set (children t dir) \<longleftrightarrow> (dir @ [name], n) \<in> set t"
proof -
  have p: "p \<noteq> [] \<and> butlast p = dir \<and> last p = name \<longleftrightarrow> p = dir @ [name]" for p
    by (cases p rule: rev_cases) auto
  have "(name, n) \<in> set (children t dir) \<longleftrightarrow> (\<exists>p. (p, n) \<in> set t \<and> p \<noteq> [] \<and> butlast p = dir \<and> last p = name)"
    unfolding children_def set_map set_filter image_def by auto
  then show ?thesis unfolding p by simp
qed

lemma children_nodir:
  assumes "wf_tree t" "dget t dir = None" "dir \<noteq> []"
  shows "children t dir = []"
proof -
  have "(name, n) \<notin> set (children t dir)" for name n
  proof
    assume "(name, n) \<in> set (children t dir)"
    then have "dget t (dir @ [name]) = Some n" using assms(1) by (simp add: in_children wf_tree_def)
    with assms show False unfolding wf_tree_def by fastforce
  qed
  then show ?thesis by (metis list.set_intros(1) neq_Nil_conv surj_pair)
qed

end
