(* ===== verification/Import_Props.thy ===== *)
theory Import_Props
  imports Transfer_Props Archive_Props Store_Spec
begin

text \<open>
  Importing a response: which blobs it adds to the store, and what it reports. The blob store is
  used through its contract.
\<close>

section \<open>The blobs of a response\<close>

text \<open>The imports the loop makes: the files that match their name.\<close>

fun import_calls :: "(nat \<Rightarrow> instant) \<Rightarrow> nat \<Rightarrow> (string \<times> tnode) list \<Rightarrow> (instant \<times> bytes \<times> string) list" where
  "import_calls clock i [] = []"
| "import_calls clock i ((name, TDir) # fs) = import_calls clock i fs"
| "import_calls clock i ((name, TFile data) # fs) =
     (if sha256_hex data = name then (clock i, data, ''sha256:'' @ name) # import_calls clock (Suc i) fs
      else import_calls clock i fs)"

fun mismatches :: "(string \<times> tnode) list \<Rightarrow> pyval list" where
  "mismatches [] = []"
| "mismatches ((name, TDir) # fs) = mismatches fs"
| "mismatches ((name, TFile data) # fs) =
     (if sha256_hex data = name then mismatches fs else blob_error (''sha256:'' @ name) ''SHA256 mismatch'' # mismatches fs)"

definition files_fit :: "(nat \<Rightarrow> instant) \<Rightarrow> (string \<times> tnode) list \<Rightarrow> bool" where
  "files_fit clock fs = (\<forall>i name data. (name, TFile data) \<in> set fs \<longrightarrow> fits (clock i) data)"

lemma files_fit_Cons: "files_fit clock ((name, n) # fs) \<longleftrightarrow> (\<forall>i data. n = TFile data \<longrightarrow> fits (clock i) data) \<and> files_fit clock fs"
  by (auto simp: files_fit_def)

lemma calls_fit: "files_fit clock fs \<Longrightarrow> bs.all_fit (import_calls clock i fs)"
  by (induction clock i fs rule: import_calls.induct) (auto simp: files_fit_Cons bs.all_fit_def)

lemma blob_key_digest [simp]: "blob_key (''sha256:'' @ name) = name"
  unfolding blob_key_def by (rule removeprefix_append)

lemma import_files_calls:
  "store_inv s \<Longrightarrow> files_fit clock fs \<Longrightarrow>
     import_files s clock i fs =
       ((length (import_calls clock i fs), length (mismatches fs), mismatches fs),
        snd (bs.put_all octet_stream None s (import_calls clock i fs)))"
proof (induction clock i fs arbitrary: s rule: import_calls.induct)
  case (3 clock i name data fs)
  note ft = "3.prems"(2)[unfolded files_fit_Cons]
  show ?case
  proof (cases "sha256_hex data = name")
    case True
    have d: "fits (clock i) data" "sha256_hex data = blob_key (''sha256:'' @ name)" using ft True by (simp_all del: append.simps)
    obtain p s1 where i: "import_blob s (clock i) data (''sha256:'' @ name) octet_stream None = (Inr p, s1)"
      using bs.put_ok[OF "3.prems"(1) d, of octet_stream None] by (metis prod.collapse)
    have "store_inv s1" using bs.put_inv[OF "3.prems"(1) d(1), of _ octet_stream None] i by (metis snd_conv)
    with "3.IH"(1)[OF True] ft i True show ?thesis by (simp add: Let_def case_prod_beta del: append.simps)
  next
    case False
    with "3.IH"(2)[OF False "3.prems"(1)] ft show ?thesis by (simp add: Let_def del: append.simps)
  qed
qed (auto simp: files_fit_Cons)

text \<open>The entries of the blob directory of a tree: a name and the contents.\<close>

definition response_blobs :: "tree \<Rightarrow> (string \<times> bytes) set" where
  "response_blobs t = {(h, b). ([''blobs'', ''sha256'', h], TFile b) \<in> set t}"

definition blob_entry :: "string list \<times> tnode \<Rightarrow> bool" where
  "blob_entry e = (\<exists>h b. e = ([''blobs'', ''sha256'', h], TFile b))"

definition good_entry :: "string list \<times> tnode \<Rightarrow> bool" where
  "good_entry e = (\<exists>h b. e = ([''blobs'', ''sha256'', h], TFile b) \<and> sha256_hex b = h)"

lemma calls_members:
  "(now, b, dg) \<in> set (import_calls clock i fs) \<Longrightarrow> \<exists>h. dg = ''sha256:'' @ h \<and> (h, TFile b) \<in> set fs \<and> sha256_hex b = h"
  "(h, TFile b) \<in> set fs \<Longrightarrow> sha256_hex b = h \<Longrightarrow> \<exists>now. (now, b, ''sha256:'' @ h) \<in> set (import_calls clock i fs)"
  by (induction clock i fs rule: import_calls.induct) (auto split: if_splits simp del: append.simps)

lemma calls_members_key:
  assumes "(now, b, dg) \<in> set (import_calls clock i fs)"
  shows "(blob_key dg, TFile b) \<in> set fs \<and> sha256_hex b = blob_key dg"
proof -
  obtain h where "dg = ''sha256:'' @ h" "(h, TFile b) \<in> set fs" "sha256_hex b = h" using calls_members(1)[OF assms] by blast
  then show ?thesis by (simp del: append.simps)
qed

lemma calls_length:
  "length (import_calls clock i fs) = length (filter (\<lambda>(name, n). \<exists>b. n = TFile b \<and> sha256_hex b = name) fs)"
  "length (mismatches fs) + length (import_calls clock i fs) = length (filter (\<lambda>(name, n). \<exists>b. n = TFile b) fs)"
  by (induction clock i fs rule: import_calls.induct) auto

lemma length_filter_children:
  assumes "\<And>p n. P (last p) n \<and> p \<noteq> [] \<and> butlast p = dir \<longleftrightarrow> Q (p, n)"
  shows "length (filter (\<lambda>(name, n). P name n) (children t dir)) = length (filter Q t)"
proof (induction t)
  case (Cons e t)
  obtain p n where e: "e = (p, n)" by fastforce
  show ?case using Cons assms[of p n] by (auto simp: children_def e)
qed (simp add: children_def)

lemma children_counts:
  "length (import_calls clock i (children t [''blobs'', ''sha256''])) = length (filter good_entry t)"
  "length (mismatches (children t [''blobs'', ''sha256''])) + length (filter good_entry t) = length (filter blob_entry t)"
proof -
  have p: "p \<noteq> [] \<and> butlast p = [''blobs'', ''sha256''] \<longleftrightarrow> (\<exists>h. p = [''blobs'', ''sha256'', h])" for p :: "string list"
    by (cases p rule: rev_cases) auto
  show g: "length (import_calls clock i (children t [''blobs'', ''sha256''])) = length (filter good_entry t)" for i
    unfolding calls_length(1) by (rule length_filter_children) (use p in \<open>auto simp: good_entry_def\<close>)
  show "length (mismatches (children t [''blobs'', ''sha256''])) + length (filter good_entry t) = length (filter blob_entry t)"
    unfolding g[of i, symmetric] calls_length(2) by (rule length_filter_children) (use p in \<open>auto simp: blob_entry_def\<close>)
qed

text \<open>The import of any tree the archive left.\<close>

lemma import_blobs_spec:
  assumes "store_inv s" "wf_tree t" "\<forall>i. clock i < max_instant" "\<forall>(h, b) \<in> response_blobs t. length b \<le> max_rw_count"
    and "import_blobs s clock t = (Inr (n, k, errs), s')"
  shows "store_inv s' \<and> n = length (filter good_entry t) \<and> n + k = length (filter blob_entry t) \<and> length errs = k
    \<and> (\<forall>h b. file_bytes (st_blobs s') h = Some b \<longleftrightarrow> file_bytes (st_blobs s) h = Some b
        \<or> (file_bytes (st_blobs s) h = None \<and> (h, b) \<in> response_blobs t \<and> sha256_hex b = h))"
proof -
  let ?fs = "children t [''blobs'', ''sha256'']"
  let ?xs = "import_calls clock 0 ?fs"
  have mem: "(h, TFile b) \<in> set ?fs \<longleftrightarrow> (h, b) \<in> response_blobs t" for h b
    by (simp add: in_children response_blobs_def)
  have ft: "files_fit clock ?fs" using assms(3,4) by (auto simp: files_fit_def fits_def mem)
  have i: "import_blobs s clock t = (case import_files s clock 0 ?fs of (r, s) \<Rightarrow> (Inr r, s))"
  proof (cases "dget t [''blobs'', ''sha256'']")
    case None
    then have "?fs = []" using assms(2) by (intro children_nodir) auto
    with None show ?thesis by (simp add: import_blobs_def)
  next
    case (Some nd)
    with assms(5) show ?thesis by (cases nd) (simp_all add: import_blobs_def)
  qed
  then have r: "n = length ?xs" "k = length (mismatches ?fs)" "errs = mismatches ?fs" "s' = snd (bs.put_all octet_stream None s ?xs)"
    using assms(5) import_files_calls[OF assms(1) ft] by auto
  note cf = calls_fit[OF ft, of 0]
  have inv: "store_inv s'" unfolding r(4) by (rule bs.put_all_inv[OF assms(1) cf])
  moreover have "file_bytes (st_blobs s') h = Some b \<longleftrightarrow> file_bytes (st_blobs s) h = Some b
      \<or> (file_bytes (st_blobs s) h = None \<and> (h, b) \<in> response_blobs t \<and> sha256_hex b = h)" for h b
  proof
    assume b: "file_bytes (st_blobs s') h = Some b"
    show "file_bytes (st_blobs s) h = Some b \<or> (file_bytes (st_blobs s) h = None \<and> (h, b) \<in> response_blobs t \<and> sha256_hex b = h)"
    proof (cases "file_bytes (st_blobs s) h")
      case None
      from bs.put_all_only[OF assms(1) cf b[unfolded r(4)] None] obtain now dg where "(now, b, dg) \<in> set ?xs" "blob_key dg = h" by blast
      with calls_members_key[of now b dg clock 0 ?fs] None show ?thesis by (simp add: mem)
    next
      case (Some c)
      with bs.put_all_kept[OF assms(1) cf Some, of octet_stream None] b show ?thesis by (simp add: r(4))
    qed
  next
    assume a: "file_bytes (st_blobs s) h = Some b \<or> (file_bytes (st_blobs s) h = None \<and> (h, b) \<in> response_blobs t \<and> sha256_hex b = h)"
    show "file_bytes (st_blobs s') h = Some b"
    proof (cases "file_bytes (st_blobs s) h")
      case (Some c)
      with a bs.put_all_kept[OF assms(1) cf Some, of octet_stream None] show ?thesis by (simp add: r(4))
    next
      case None
      with a have b: "(h, TFile b) \<in> set ?fs" "sha256_hex b = h" by (simp_all add: mem)
      obtain now where x: "(now, b, ''sha256:'' @ h) \<in> set ?xs" using calls_members(2)[OF b] by blast
      have m: "sha256_hex b = blob_key (''sha256:'' @ h)" using b(2) by (simp del: append.simps)
      obtain c where c: "file_bytes (st_blobs s') h = Some c"
        using bs.put_all_stored[OF assms(1) cf x m, of octet_stream None] by (auto simp: r(4) simp del: append.simps)
      from bs.put_all_only[OF assms(1) cf c[unfolded r(4)] None] obtain now' dg where "(now', c, dg) \<in> set ?xs" "blob_key dg = h" by blast
      with calls_members_key[of now' c dg clock 0 ?fs] have "(h, c) \<in> response_blobs t" by (simp add: mem)
      then have "([''blobs'', ''sha256'', h], TFile c) \<in> set t" by (simp add: response_blobs_def)
      moreover have "([''blobs'', ''sha256'', h], TFile b) \<in> set t" using b(1) unfolding in_children by simp
      moreover have "distinct (dkeys t)" using assms(2) by (simp add: wf_tree_def)
      ultimately have "c = b" by (metis in_set_dget option.inject tnode.inject)
      with c show ?thesis by simp
    qed
  qed
  ultimately show ?thesis using children_counts(2)[of t] by (simp add: r(1-3) children_counts(1))
qed

section \<open>The whole import\<close>

text \<open>The other steps of an import leave the blobs alone.\<close>

definition keeps_blobs :: "store \<Rightarrow> store \<Rightarrow> bool" where
  "keeps_blobs s s' = (\<exists>ms. s' = s\<lparr>st_manifests := ms\<rparr>)"

lemma keeps_blobs_refl [simp]: "keeps_blobs s s"
  unfolding keeps_blobs_def by (rule exI[of _ "st_manifests s"]) simp

lemma keeps_blobs_upd [simp]: "keeps_blobs s (s\<lparr>st_manifests := ms\<rparr>)"
  by (auto simp: keeps_blobs_def)

lemma keeps_blobs_trans: "keeps_blobs s s1 \<Longrightarrow> keeps_blobs s1 s2 \<Longrightarrow> keeps_blobs s s2"
  by (auto simp: keeps_blobs_def)

lemma cache_value_store: "keeps_blobs s (snd (cache_value s now registry repository tag platform v))"
  by (simp add: cache_value_def cache_manifest_def Let_def split: pyval.splits sum.splits)

lemma cache_file_store: "cache_file s now parts n = (r, s') \<Longrightarrow> keeps_blobs s s'"
  unfolding cache_file_def Let_def
  by (auto split: sum.splits prod.splits if_splits) (metis cache_value_store snd_conv)+

lemma cache_files_store: "cache_files s now fs = (r, s') \<Longrightarrow> keeps_blobs s s'"
proof (induction s now fs arbitrary: r rule: cache_files.induct)
  case (2 s now parts n fs)
  obtain q s1 where f: "cache_file s now parts n = (q, s1)" by fastforce
  show ?case
  proof (cases q)
    case (Inl e)
    with f "2.prems" cache_file_store[OF f] show ?thesis by simp
  next
    case (Inr u)
    with f "2.prems" have "cache_files s1 now fs = (r, s')" by simp
    with "2.IH"[OF f[symmetric] Inr] cache_file_store[OF f] keeps_blobs_trans show ?thesis by blast
  qed
qed simp

definition response_tree :: "aead \<Rightarrow> tar_codec \<Rightarrow> bool \<Rightarrow> bytes \<Rightarrow> bytes \<Rightarrow> bytes \<Rightarrow> string \<Rightarrow> tree res" where
  "response_tree A T py312 encrypted_data aes_key hmac_key response_path =
     rbind (open_response A encrypted_data aes_key hmac_key response_path) (extract_tar T py312)"

lemma response_tree_wf: "response_tree A T py312 c aes_key hmac_key p = Inr t \<Longrightarrow> wf_tree t"
proof -
  assume "response_tree A T py312 c aes_key hmac_key p = Inr t"
  then obtain ms where "extract_filtered [] ms = Inr t \<or> extract_all [] ms = Inr t"
    by (auto simp: response_tree_def extract_tar_def rbind_Inr_iff split: if_splits sum.splits exc.splits option.splits)
  moreover have "wf_tree []" by (simp add: wf_tree_def)
  ultimately show "wf_tree t" using extract_wf by blast
qed

lemma listing_wf: "listing ls \<Longrightarrow> wf_tree t \<Longrightarrow> wf_tree (ls t)"
  using listing_dkeys[of ls t] listing_dget[of ls t] unfolding wf_tree_def by simp

lemma listing_filter: "listing ls \<Longrightarrow> length (filter P (ls t)) = length (filter P t)"
  unfolding listing_def by (metis mset_filter size_mset)

lemma import_response_cases:
  assumes "import_response A T py312 ls clock off p c aes_key hmac_key wc = (Inr r, off')"
  obtains t s errs n k blob_errs where "response_tree A T py312 c aes_key hmac_key p = Inr t"
    "import_blobs (off_store off) clock (ls t) = (Inr (n, k, blob_errs), s)" "keeps_blobs s (off_store off')"
    "fetch_errors (ls t) = Inr errs" "is_imported r = n" "is_skipped r = k" "is_errors r = errs @ blob_errs"
    "wc \<Longrightarrow> fst (cache_manifests_from_response s (clock (length (ls t))) (ls t)) = Inr ()"
    "wc \<Longrightarrow> snd (cache_manifests_from_response s (clock (length (ls t))) (ls t)) = off_store off'"
proof -
  obtain t where t: "response_tree A T py312 c aes_key hmac_key p = Inr t"
    using assms by (auto simp: import_response_def response_tree_def split: sum.splits)
  obtain errs where e: "fetch_errors (ls t) = Inr errs"
    using assms t by (auto simp: import_response_def response_tree_def Let_def split: sum.splits)
  obtain n k blob_errs s where b: "import_blobs (off_store off) clock (ls t) = (Inr (n, k, blob_errs), s)"
    using assms t e by (auto simp: import_response_def response_tree_def Let_def split: sum.splits prod.splits)
  let ?m = "if wc then cache_manifests_from_response s (clock (length (ls t))) (ls t) else (Inr (), s)"
  obtain s1 where s1: "?m = (Inr (), s1)"
    using assms t e b by (auto simp: import_response_def response_tree_def Let_def split: sum.splits prod.splits if_splits)
  have m: "keeps_blobs s s1"
    using s1 cache_files_store[of s "clock (length (ls t))"] unfolding cache_manifests_from_response_def by (cases wc) auto
  have "off_store off' = s1 \<and> is_imported r = n \<and> is_skipped r = k \<and> is_errors r = errs @ blob_errs"
    using assms t e b s1 unfolding import_response_def response_tree_def[symmetric]
    by (auto simp: Let_def extract_deb_update_def split: prod.splits option.splits tnode.splits)
  with t e b m s1 show thesis by (intro that[of t n k blob_errs s errs]) (auto split: if_splits)
qed

end
