(* ===== verification/Delivery.thy ===== *)
theory Delivery
  imports Import_Props Manifest_Cache_Props
begin

text \<open>
  Both sides of the air gap together: the archive \<open>build_response\<close> writes is the one
  \<open>import_response\<close> reads, and the blobs asked for arrive in the store.
\<close>

declare map_of_eq_Some_iff [simp del]

section \<open>JSON files\<close>

lemma read_json_dumps: "wf_json v \<Longrightarrow> read_json_text (TFile (py_encode (json_dumps False v))) = Inr v"
  by (simp add: read_json_text_def read_tree_def load_text_dumps)

lemma read_json_pretty: "wf_json v \<Longrightarrow> read_json_text (TFile (py_encode (json_pretty k v))) = Inr v"
  by (simp add: read_json_text_def read_tree_def load_text_pretty)

section \<open>The members of a response\<close>

text \<open>The member of a cached blob.\<close>

definition blob_member :: "string \<Rightarrow> bytes \<Rightarrow> member" where
  "blob_member h data = (''blobs/sha256/'' @ h, Regular data)"

definition cached_member :: "cache \<Rightarrow> member \<Rightarrow> bool" where
  "cached_member c m = (\<exists>h data. m = blob_member h data \<and> cache_bytes c h = Some data)"

definition error_dict :: "pyval \<Rightarrow> bool" where
  "error_dict v = (wf_json v \<and> (\<exists>d. v = PDict d))"

lemma error_dict_blob [simp]: "error_dict (blob_error dg m)"
  by (simp add: error_dict_def blob_error_def)

lemma absent_bytes: "\<not> node_exists n \<Longrightarrow> node_bytes n = None"
  by (cases n) (simp_all add: node_exists_def is_file_def)

lemma add_blobs_spec:
  "add_blobs c tar bs = Inr (tar', ds, es) \<Longrightarrow>
     \<exists>ms. tar' = tar @ ms \<and> list_all (cached_member c) ms \<and> list_all error_dict es
       \<and> (\<forall>b d data. b \<in> set bs \<longrightarrow> dget b ''digest'' = Some (PStr d) \<longrightarrow> cache_bytes c (blob_key d) = Some data \<longrightarrow>
            blob_member (blob_key d) data \<in> set ms)"
proof (induction bs arbitrary: tar ds es)
  case (Cons b bs)
  from Cons.prems obtain d where d: "dget b ''digest'' = Some (PStr d)"
    by (auto simp: rbind_Inr_iff dindex_def split: option.splits pyval.splits)
  show ?case
  proof (cases "rbind (cache_get_blob c d) (cache_read c)")
    case (Inr data)
    then have data: "cache_bytes c (blob_key d) = Some data"
      by (auto simp: rbind_Inr_iff cache_get_blob_def cache_read_def blob_key_def Let_def split: option.splits if_splits)
    from Cons.prems d Inr obtain ds' where
      r: "add_blobs c (tar @ [blob_member (blob_key d) data]) bs = Inr (tar', ds', es)"
      by (auto simp: rbind_Inr_iff dindex_def add_bytes_to_tar_def blob_member_def blob_key_def)
    from Cons.IH[OF this] obtain ms where ms: "tar' = tar @ blob_member (blob_key d) data # ms" "list_all (cached_member c) ms" "list_all error_dict es"
       "\<forall>b d data. b \<in> set bs \<longrightarrow> dget b ''digest'' = Some (PStr d) \<longrightarrow> cache_bytes c (blob_key d) = Some data \<longrightarrow>
            blob_member (blob_key d) data \<in> set ms" by auto
    have "cached_member c (blob_member (blob_key d) data)" using data by (auto simp: cached_member_def)
    with ms d data show ?thesis by (intro exI[of _ "blob_member (blob_key d) data # ms"]) auto
  next
    case (Inl e)
    then have none: "cache_bytes c (blob_key d) = None"
      by (auto simp: cache_get_blob_def cache_read_def blob_key_def cache_exists_def cache_bytes_def Let_def absent_bytes
          split: option.splits if_splits node.splits bind_splits)
    from Cons.prems d Inl obtain es' where
      r: "add_blobs c tar bs = Inr (tar', ds, es')" "es = blob_error d (exc_str e) # es'"
      by (auto simp: rbind_Inr_iff dindex_def)
    from Cons.IH[OF this(1)] none d r(2) show ?thesis by auto
  qed
qed simp

lemma add_blobs_errors:
  "add_blobs c tar bs = Inr (tar', ds, es) \<Longrightarrow> b \<in> set bs \<Longrightarrow>
     \<exists>d. dget b ''digest'' = Some (PStr d) \<and> (cache_bytes c (blob_key d) = None \<longrightarrow> (\<exists>m. blob_error d m \<in> set es))"
proof (induction bs arbitrary: tar ds es)
  case (Cons x bs)
  from Cons.prems obtain d where d: "dget x ''digest'' = Some (PStr d)"
    by (auto simp: rbind_Inr_iff dindex_def split: option.splits pyval.splits)
  show ?case
  proof (cases "rbind (cache_get_blob c d) (cache_read c)")
    case (Inr data)
    then have data: "cache_bytes c (blob_key d) = Some data"
      by (auto simp: rbind_Inr_iff cache_get_blob_def cache_read_def blob_key_def Let_def split: option.splits if_splits)
    from Cons.prems d Inr obtain tar1 ds' where "add_blobs c tar1 bs = Inr (tar', ds', es)"
      by (auto simp: rbind_Inr_iff dindex_def)
    from Cons.IH[OF this] Cons.prems(2) d data show ?thesis by auto
  next
    case (Inl e)
    with Cons.prems d obtain es' where r: "add_blobs c tar bs = Inr (tar', ds, es')" "es = blob_error d (exc_str e) # es'"
      by (auto simp: rbind_Inr_iff dindex_def)
    show ?thesis
    proof (cases "b = x")
      case True
      with d r(2) show ?thesis by auto
    next
      case False
      with Cons.IH[OF r(1)] Cons.prems(2) r(2) show ?thesis by (metis list.set_intros(2) set_ConsD)
    qed
  qed
qed simp

lemma add_string: "add_string_to_tar tar name s = tar @ [(name, Regular (py_encode s))]"
  by (simp add: add_string_to_tar_def add_bytes_to_tar_def)

lemma add_manifests_map:
  "add_manifests tar ms = tar @ map (\<lambda>m. (manifest_path m, Regular (py_encode (json_pretty 0 (PDict (fm_manifest m)))))) ms"
  by (induction tar ms rule: add_manifests.induct) (simp_all add: add_string_to_tar_def add_bytes_to_tar_def)

definition errors_member :: "pyval list \<Rightarrow> member list" where
  "errors_member errs = (if errs \<noteq> [] then [(''ERRORS.json'', Regular (py_encode (json_dumps False (PList errs))))] else [])"

definition manifest_members :: "fetched_manifest list \<Rightarrow> member list" where
  "manifest_members ms = map (\<lambda>m. (manifest_path m, Regular (py_encode (json_pretty 0 (PDict (fm_manifest m)))))) ms"

definition deb_member :: "(string \<times> bytes) option \<Rightarrow> member list" where
  "deb_member deb = (case deb of None \<Rightarrow> [] | Some (name, data) \<Rightarrow> [(name, Regular data)])"

lemma response_members_value:
  assumes "add_blobs c (add_string_to_tar [] ''oci-layout'' FETCH_OCI_LAYOUT) blobs = Inr (tar, ds, missing)"
  shows "response_members c blobs errs hmac_key deb manifests = Inr (tar @
       [(''index.json'', Regular (py_encode (json_dumps False (index_data ds)))),
        (''MANIFEST.sig'', Regular (py_encode (sign (py_encode (json_dumps False (PList (map PStr ds)))) hmac_key)))]
       @ errors_member (errs @ missing) @ manifest_members manifests @ deb_member deb, errs @ missing)"
proof -
  have d: "(case deb of None \<Rightarrow> t | Some (name, data) \<Rightarrow> add_bytes_to_tar t name data) = t @ deb_member deb" for t
    by (simp add: deb_member_def add_bytes_to_tar_def split: option.split)
  have e: "(if es \<noteq> [] then add_string_to_tar t ''ERRORS.json'' (json_dumps False (PList es)) else t) = t @ errors_member es" for es t
    by (simp add: errors_member_def add_string del: json_dumps.simps)
  show ?thesis
    unfolding response_members_def assms rbind.simps prod.case Let_def e d
    unfolding add_manifests_map manifest_members_def[symmetric] add_string
    by (simp del: json_dumps.simps json_pretty.simps)
qed

text \<open>What the archive holds, in order.\<close>

lemma response_members_spec:
  assumes "response_members c blobs errs hmac_key deb manifests = Inr (ms, errs')"
  obtains bms missing index sig where
    "ms = (''oci-layout'', Regular (py_encode FETCH_OCI_LAYOUT)) # bms @
       [(''index.json'', Regular index), (''MANIFEST.sig'', Regular sig)] @ errors_member errs' @ manifest_members manifests @ deb_member deb"
    "list_all (cached_member c) bms" "list_all error_dict missing" "errs' = errs @ missing"
    "\<forall>b d data. b \<in> set blobs \<longrightarrow> dget b ''digest'' = Some (PStr d) \<longrightarrow> cache_bytes c (blob_key d) = Some data \<longrightarrow>
       blob_member (blob_key d) data \<in> set bms"
proof -
  let ?tar = "add_string_to_tar [] ''oci-layout'' FETCH_OCI_LAYOUT"
  obtain tar ds missing where a: "add_blobs c ?tar blobs = Inr (tar, ds, missing)"
    using assms by (auto simp: response_members_def rbind_Inr_iff)
  from add_blobs_spec[OF this] obtain bms where b: "tar = ?tar @ bms" "list_all (cached_member c) bms" "list_all error_dict missing"
    "\<forall>b d data. b \<in> set blobs \<longrightarrow> dget b ''digest'' = Some (PStr d) \<longrightarrow> cache_bytes c (blob_key d) = Some data \<longrightarrow>
       blob_member (blob_key d) data \<in> set bms" by blast
  have "errs' = errs @ missing" "ms = (''oci-layout'', Regular (py_encode FETCH_OCI_LAYOUT)) # bms @
       [(''index.json'', Regular (py_encode (json_dumps False (index_data ds)))),
        (''MANIFEST.sig'', Regular (py_encode (sign (py_encode (json_dumps False (PList (map PStr ds)))) hmac_key)))]
       @ errors_member errs' @ manifest_members manifests @ deb_member deb"
    using assms unfolding response_members_value[OF a] by (auto simp: b(1) add_string simp del: json_dumps.simps)
  with b show thesis by (intro that[of bms _ _ missing]) auto
qed

lemma response_members_errors:
  assumes "response_members c blobs errs hmac_key deb manifests = Inr (ms, errs')" "b \<in> set blobs"
  shows "\<exists>d. dget b ''digest'' = Some (PStr d) \<and> (cache_bytes c (blob_key d) = None \<longrightarrow> (\<exists>m. blob_error d m \<in> set errs'))"
proof -
  obtain tar ds missing where a: "add_blobs c (add_string_to_tar [] ''oci-layout'' FETCH_OCI_LAYOUT) blobs = Inr (tar, ds, missing)"
    using assms(1) by (auto simp: response_members_def rbind_Inr_iff)
  have "errs' = errs @ missing" using assms(1) unfolding response_members_value[OF a] by simp
  with add_blobs_errors[OF a assms(2)] show ?thesis by auto
qed

section \<open>Its paths\<close>

definition manifests_ok :: "fetched_manifest list \<Rightarrow> bool" where
  "manifests_ok ms = ((\<forall>m \<in> set ms. safe_name (manifest_path m) \<and> CHR 0x00 \<notin> set (manifest_path m))
     \<and> prefix_free ((\<lambda>m. path_parts (manifest_path m)) ` set ms))"

definition deb_ok :: "(string \<times> bytes) option \<Rightarrow> bool" where
  "deb_ok deb = (case deb of None \<Rightarrow> True
     | Some (name, data) \<Rightarrow> clean_part name \<and> endswith name ''.deb'' \<and> \<not> str_in ''..'' name \<and> CHR 0x00 \<notin> set name)"

lemma hash_part: "CHR ''/'' \<notin> set (sha256_hex b)" "CHR ''.'' \<notin> set (sha256_hex b)" "CHR 0x00 \<notin> set (sha256_hex b)"
proof -
  have "CHR ''/'' \<notin> set hex_chars" "CHR ''.'' \<notin> set hex_chars" "CHR 0x00 \<notin> set hex_chars" by code_simp+
  then show "CHR ''/'' \<notin> set (sha256_hex b)" "CHR ''.'' \<notin> set (sha256_hex b)" "CHR 0x00 \<notin> set (sha256_hex b)"
    using set_hex_str[of "sha256 b"] unfolding sha256_hex_def by blast+
qed

lemma hash_nonempty: "sha256_hex b \<noteq> []"
  using length_sha256_hex[of b] by (metis list.size(3) zero_neq_numeral)

lemma clean_part_parts: "clean_part c \<Longrightarrow> path_parts c = [c]"
  by (simp add: path_parts_def split_on_notin clean_part_def)

lemma path_parts_under: "CHR ''/'' \<notin> set w \<Longrightarrow> path_parts (w @ CHR ''/'' # s) = path_parts w @ path_parts s"
  by (simp add: path_parts_def split_on_append split_on_notin)

lemma blob_member_path: "path_parts (''blobs/sha256/'' @ sha256_hex b) = [''blobs'', ''sha256'', sha256_hex b]"
proof -
  have c: "clean_part (sha256_hex b)" "clean_part ''blobs''" "clean_part ''sha256''"
    using hash_part[of b] hash_nonempty[of b] by (auto simp: clean_part_def)
  have "path_parts (''blobs'' @ CHR ''/'' # ''sha256'' @ CHR ''/'' # sha256_hex b) = [''blobs'', ''sha256'', sha256_hex b]"
    by (subst path_parts_under, simp, subst path_parts_under, simp) (simp only: clean_part_parts c append_Cons append_Nil)
  then show ?thesis by (simp only: append_Cons append_Nil)
qed

lemma manifest_path_under: "path_parts (manifest_path m) =
    ''manifests'' # path_parts (fm_registry m @ ''/'' @ fm_repository m @ ''/'' @ fm_tag m @ ''/'' @ fm_platform m @ ''.json'')"
proof -
  have "manifest_path m = ''manifests'' @ CHR ''/'' # fm_registry m @ ''/'' @ fm_repository m @ ''/'' @ fm_tag m @ ''/'' @ fm_platform m @ ''.json''"
    by (simp add: manifest_path_def)
  moreover have "CHR ''/'' \<notin> set ''manifests''" "path_parts ''manifests'' = [''manifests'']" by code_simp+
  ultimately show ?thesis using path_parts_under by (metis append_Cons append_Nil)
qed

text \<open>No member is a directory of another.\<close>

lemma prefix_free_subset: "prefix_free P \<Longrightarrow> Q \<subseteq> P \<Longrightarrow> prefix_free Q"
  unfolding prefix_free_def by blast

lemma prefix_free_groups:
  assumes "A \<subseteq> {[x] | x. x \<noteq> ''blobs'' \<and> x \<noteq> ''manifests''}" "B \<subseteq> {[''blobs'', ''sha256'', h] | h. True}"
    "prefix_free M" "\<forall>p \<in> M. hd p = ''manifests''"
  shows "prefix_free (A \<union> B \<union> M)"
proof -
  have "\<not> strict_prefix p q" if "p \<in> A \<union> B \<union> M" "q \<in> A \<union> B \<union> M" for p q
  proof
    assume "strict_prefix p q"
    then have pq: "prefix p q" "p \<noteq> q" by auto
    note mem = that
    have ne: "p \<noteq> []" "q \<noteq> []" using that assms by (auto simp: prefix_free_def)
    then have h: "hd p = hd q" using pq(1) by (metis hd_append2 prefixE)
    have "''blobs'' \<noteq> ''manifests''" by simp
    moreover have k: "x \<in> A \<Longrightarrow> hd x \<noteq> ''blobs'' \<and> hd x \<noteq> ''manifests''" "x \<in> B \<Longrightarrow> hd x = ''blobs''" "x \<in> M \<Longrightarrow> hd x = ''manifests''" for x
      using assms(1,2,4) by auto
    ultimately consider "p \<in> A" "q \<in> A" | "p \<in> B" "q \<in> B" | "p \<in> M" "q \<in> M"
      using mem h k[of p] k[of q] by auto
    then show False
    proof cases
      case 1
      then obtain x y where "p = [x]" "q = [y]" using assms(1) by blast
      with pq show False by simp
    next
      case 2
      then obtain x y where "p = [''blobs'', ''sha256'', x]" "q = [''blobs'', ''sha256'', y]" using assms(2) by blast
      with pq show False by simp
    next
      case 3
      with assms(3) \<open>strict_prefix p q\<close> show False by (auto simp: prefix_free_def)
    qed
  qed
  moreover have "[] \<notin> A \<union> B \<union> M" using assms(1,2,3) by (auto simp: prefix_free_def)
  ultimately show ?thesis by (auto simp: prefix_free_def)
qed

section \<open>Its extraction\<close>

lemma no_dots: "CHR ''.'' \<notin> set s \<Longrightarrow> \<not> str_in ''..'' s"
  by (auto simp: str_in_iff)

definition good_member :: "member \<Rightarrow> bool" where
  "good_member m = (plain_member m \<and> safe_file m)"

lemma good_member_iff: "good_member (name, Regular b) \<longleftrightarrow>
    name \<noteq> [] \<and> last name \<noteq> CHR ''/'' \<and> CHR 0x00 \<notin> set name \<and> \<not> startswith name ''/'' \<and> \<not> str_in ''..'' name"
  by (auto simp: good_member_def plain_member_def safe_file_def safe_name_def)

lemma good_fixed [simp]:
  "good_member (''oci-layout'', Regular b)" "good_member (''index.json'', Regular b)"
  "good_member (''MANIFEST.sig'', Regular b)" "good_member (''ERRORS.json'', Regular b)"
  unfolding good_member_iff by code_simp+

lemma good_blob: "good_member (blob_member (sha256_hex b) data)"
proof -
  have "CHR ''.'' \<notin> set (''blobs/sha256/'' @ sha256_hex b)" "CHR 0x00 \<notin> set (''blobs/sha256/'' @ sha256_hex b)"
    using hash_part[of b] by auto
  moreover have "last (''blobs/sha256/'' @ sha256_hex b) \<noteq> CHR ''/''"
    using hash_part(1)[of b] hash_nonempty[of b] last_in_set[of "sha256_hex b"] by (metis last_appendR)
  ultimately show ?thesis using no_dots by (simp add: blob_member_def good_member_iff)
qed

lemma good_deb: "deb_ok deb \<Longrightarrow> list_all good_member (deb_member deb)"
proof (cases deb)
  case (Some nd)
  moreover assume "deb_ok deb"
  ultimately obtain name data where n: "deb = Some (name, data)" "clean_part name" "\<not> str_in ''..'' name" "CHR 0x00 \<notin> set name"
    by (cases nd) (auto simp: deb_ok_def)
  then have "name \<noteq> []" "CHR ''/'' \<notin> set name" by (auto simp: clean_part_def)
  then have "last name \<noteq> CHR ''/''" "\<not> startswith name ''/''" using last_in_set[of name] by (cases name; auto)+
  with n show ?thesis by (simp add: deb_member_def good_member_iff \<open>name \<noteq> []\<close>)
qed (simp add: deb_member_def)

lemma last_append_json: "last (x @ ''.json'') = CHR ''n''"
  by simp

lemma good_manifests: "manifests_ok ms \<Longrightarrow> list_all good_member (manifest_members ms)"
proof -
  assume a: "manifests_ok ms"
  have "good_member (manifest_path m, Regular b)" if "m \<in> set ms" for m b
  proof -
    have "manifest_path m = (''manifests/'' @ fm_registry m @ ''/'' @ fm_repository m @ ''/'' @ fm_tag m @ ''/'' @ fm_platform m) @ ''.json''"
      by (simp add: manifest_path_def)
    then have "last (manifest_path m) = CHR ''n''" "manifest_path m \<noteq> []" by (metis last_append_json) (simp add: manifest_path_def)
    with a that show ?thesis by (auto simp: good_member_iff manifests_ok_def safe_name_def)
  qed
  then show ?thesis by (auto simp: manifest_members_def list_all_iff)
qed

lemma cached_member_hash: "cache_inv c \<Longrightarrow> cached_member c m \<Longrightarrow> \<exists>data. m = blob_member (sha256_hex data) data"
  by (auto simp: cached_member_def dest: cache_bytes_hash)

lemma fixed_paths:
  "path_parts ''oci-layout'' = [''oci-layout'']" "path_parts ''index.json'' = [''index.json'']"
  "path_parts ''MANIFEST.sig'' = [''MANIFEST.sig'']" "path_parts ''ERRORS.json'' = [''ERRORS.json'']"
  by code_simp+

text \<open>The archive of a response is extracted whole, on every version of Python.\<close>

lemma response_extract:
  assumes "tar_inverse T" "cache_inv c" "list_all (cached_member c) bms" "manifests_ok manifests" "deb_ok deb"
    and "ms = (''oci-layout'', Regular lay) # bms @ [(''index.json'', Regular index), (''MANIFEST.sig'', Regular sig)]
       @ errors_member errs @ manifest_members manifests @ deb_member deb"
  shows "\<exists>t. extract_tar T py312 (tar_pack T now ms) = Inr t \<and> tree_of t (map file_of ms)"
proof -
  have blobs: "\<exists>data. m = blob_member (sha256_hex data) data" if "m \<in> set bms" for m
    using that assms(2,3) cached_member_hash by (auto simp: list_all_iff)
  have good: "list_all good_member ms"
    using good_deb[OF assms(5)] good_manifests[OF assms(4)] good_blob blobs
    by (fastforce simp: assms(6) errors_member_def list_all_iff)
  then have g: "list_all plain_member ms" "list_all safe_file ms" by (auto simp: list_all_iff good_member_def)
  let ?A = "{[''oci-layout''], [''index.json''], [''MANIFEST.sig''], [''ERRORS.json'']} \<union> (case deb of None \<Rightarrow> {} | Some (name, data) \<Rightarrow> {[name]})"
  let ?B = "{[''blobs'', ''sha256'', h] | h. True}"
  let ?M = "(\<lambda>m. path_parts (manifest_path m)) ` set manifests"
  have pf: "prefix_free (?A \<union> ?B \<union> ?M)"
  proof (rule prefix_free_groups)
    show "?A \<subseteq> {[x] | x. x \<noteq> ''blobs'' \<and> x \<noteq> ''manifests''}"
      using assms(5) by (auto simp: deb_ok_def endswith_def split: option.splits)
    show "prefix_free ?M" using assms(4) by (simp add: manifests_ok_def)
    show "\<forall>p \<in> ?M. hd p = ''manifests''" by (simp add: manifest_path_under)
  qed simp
  have f: "file_path m \<in> ?A \<union> ?B \<union> ?M" if "m \<in> set ms" for m
  proof -
    have "file_path m \<in> ?B" if "m \<in> set bms"
      using blobs[OF that] by (auto simp: file_path_def blob_member_def blob_member_path simp del: append.simps)
    moreover have "file_path m \<in> ?A" if "m \<in> set (deb_member deb)"
      using that assms(5) by (auto simp: deb_member_def deb_ok_def file_path_def clean_part_parts split: option.splits)
    moreover have "file_path m \<in> ?M" if "m \<in> set (manifest_members manifests)"
      using that by (auto simp: manifest_members_def file_path_def)
    moreover have "file_path m \<in> ?A" if "m \<in> set (errors_member errs)"
      using that by (auto simp: errors_member_def file_path_def fixed_paths split: if_splits)
    ultimately show ?thesis using that unfolding assms(6) by (auto simp: file_path_def fixed_paths)
  qed
  have "fst ` set ([] @ map file_of ms) = file_path ` set ms" by (simp add: file_of_def image_image)
  also have "\<dots> \<subseteq> ?A \<union> ?B \<union> ?M" by (rule image_subsetI) (rule f)
  finally have "fst ` set ([] @ map file_of ms) \<subseteq> ?A \<union> ?B \<union> ?M" .
  from prefix_free_subset[OF pf this] have "prefix_free (fst ` set ([] @ map file_of ms))" .
  from extract_files[OF g(2) this tree_of_Nil] obtain t where t: "extract_filtered [] ms = Inr t" "extract_all [] ms = Inr t" "tree_of t (map file_of ms)"
    by auto
  have "find unsafe_member ms = None"
    using g(2) by (auto simp: find_None_iff list_all_iff safe_file_def safe_name_def unsafe_member_def is_link_def)
  moreover have "tar_unpack T (tar_pack T now ms) = Inr ms" using assms(1) g(1) by (simp add: tar_inverse_def)
  ultimately show ?thesis using t by (auto simp: extract_tar_def)
qed

section \<open>Its blobs\<close>

lemma map_of_unique: "(k, v) \<in> set xs \<Longrightarrow> \<forall>w. (k, w) \<in> set xs \<longrightarrow> w = v \<Longrightarrow> map_of xs k = Some v"
  by (metis map_of_SomeD weak_map_of_SomeI)

lemma tree_of_dget: "tree_of t fs \<Longrightarrow> dget t p = (case map_of (rev fs) p of
        Some b \<Rightarrow> Some (TFile b)
      | None \<Rightarrow> if p \<noteq> [] \<and> (\<exists>q \<in> fst ` set fs. strict_prefix p q) then Some TDir else None)"
  by (simp add: tree_of_def)

lemma tree_of_file:
  assumes "tree_of t fs" "(p, b) \<in> set fs" "\<forall>c. (p, c) \<in> set fs \<longrightarrow> c = b"
  shows "dget t p = Some (TFile b)"
proof -
  have r: "(p, b) \<in> set (rev fs)" "\<forall>c. (p, c) \<in> set (rev fs) \<longrightarrow> c = b" unfolding set_rev by (rule assms(2), rule assms(3))
  show ?thesis unfolding tree_of_dget[OF assms(1)] map_of_unique[OF r] by (rule option.case(2))
qed

lemma tree_of_files: "tree_of t fs \<Longrightarrow> dget t p = Some (TFile b) \<Longrightarrow> (p, b) \<in> set fs"
proof -
  assume t: "tree_of t fs" and p: "dget t p = Some (TFile b)"
  have "map_of (rev fs) p = Some b"
    using p unfolding tree_of_dget[OF t] by (cases "map_of (rev fs) p") (simp_all split: if_splits)
  from map_of_SomeD[OF this] show ?thesis by simp
qed

text \<open>The blob files of the tree are the cached blobs the archive was given, the errors file is the list of errors.\<close>

lemma member_paths:
  assumes "cache_inv c" "list_all (cached_member c) bms" "deb_ok deb"
    and "ms = (''oci-layout'', Regular lay) # bms @ [(''index.json'', Regular index), (''MANIFEST.sig'', Regular sig)]
       @ errors_member errs @ manifest_members manifests @ deb_member deb"
  shows "([''blobs'', ''sha256'', h], b) \<in> set (map file_of ms) \<longleftrightarrow> blob_member h b \<in> set bms"
    and "([''ERRORS.json''], b) \<in> set (map file_of ms) \<longleftrightarrow> errs \<noteq> [] \<and> b = py_encode (json_dumps False (PList errs))"
    and "([''blobs'', ''sha256''], b) \<notin> set (map file_of ms)"
    and "x \<in> set (map file_of ms) \<Longrightarrow> hd (fst x) = ''ERRORS.json'' \<Longrightarrow> fst x = [''ERRORS.json'']"
proof -
  have bl: "\<exists>x. m = blob_member (sha256_hex x) x" if "m \<in> set bms" for m
    using that cached_member_hash[OF assms(1)] assms(2) by (auto simp: list_all_iff)
  have bf: "file_of (blob_member (sha256_hex x) y) = ([''blobs'', ''sha256'', sha256_hex x], y)" for x y
    by (simp add: file_of_def file_path_def blob_member_def blob_member_path del: append.simps)
  have kinds: "x \<in> file_of ` set bms \<Longrightarrow> length (fst x) = 3"
    "x \<in> file_of ` set (manifest_members manifests) \<Longrightarrow> hd (fst x) = ''manifests''"
    "x \<in> file_of ` set (deb_member deb) \<Longrightarrow> length (fst x) = 1 \<and> endswith (hd (fst x)) ''.deb''"
    "x \<in> file_of ` set (errors_member errs) \<Longrightarrow> errs \<noteq> [] \<and> x = ([''ERRORS.json''], py_encode (json_dumps False (PList errs)))" for x
  proof -
    show "x \<in> file_of ` set bms \<Longrightarrow> length (fst x) = 3" using bl bf by force
    show "x \<in> file_of ` set (manifest_members manifests) \<Longrightarrow> hd (fst x) = ''manifests''"
      by (auto simp: manifest_members_def file_of_def file_path_def manifest_path_under)
    show "x \<in> file_of ` set (deb_member deb) \<Longrightarrow> length (fst x) = 1 \<and> endswith (hd (fst x)) ''.deb''"
      using assms(3) by (auto simp: deb_member_def deb_ok_def file_of_def file_path_def clean_part_parts split: option.splits)
    show "x \<in> file_of ` set (errors_member errs) \<Longrightarrow> errs \<noteq> [] \<and> x = ([''ERRORS.json''], py_encode (json_dumps False (PList errs)))"
      by (auto simp: errors_member_def file_of_def file_path_def fixed_paths simp del: json_dumps.simps split: if_splits)
  qed
  have fx: "file_of (''oci-layout'', Regular x) = ([''oci-layout''], x)" "file_of (''index.json'', Regular x) = ([''index.json''], x)"
      "file_of (''MANIFEST.sig'', Regular x) = ([''MANIFEST.sig''], x)" for x
    by (simp_all add: file_of_def file_path_def fixed_paths)
  have split: "x \<in> set (map file_of ms) \<longleftrightarrow> x \<in> {([''oci-layout''], lay), ([''index.json''], index), ([''MANIFEST.sig''], sig)}
      \<or> x \<in> file_of ` set bms \<or> x \<in> file_of ` set (errors_member errs) \<or> x \<in> file_of ` set (manifest_members manifests)
      \<or> x \<in> file_of ` set (deb_member deb)" for x
    unfolding assms(4) by (auto simp: fx)
  show "([''blobs'', ''sha256'', h], b) \<in> set (map file_of ms) \<longleftrightarrow> blob_member h b \<in> set bms"
  proof
    assume m: "blob_member h b \<in> set bms"
    from bl[OF m] have "h = sha256_hex b" by (auto simp: blob_member_def)
    with bf[of b b] have "file_of (blob_member h b) = ([''blobs'', ''sha256'', h], b)" by simp
    with m show "([''blobs'', ''sha256'', h], b) \<in> set (map file_of ms)" unfolding split by (metis image_eqI)
  next
    assume a: "([''blobs'', ''sha256'', h], b) \<in> set (map file_of ms)"
    have "([''blobs'', ''sha256'', h], b) \<notin> file_of ` set (manifest_members manifests)" using kinds(2) by fastforce
    with a have "([''blobs'', ''sha256'', h], b) \<in> file_of ` set bms"
      unfolding split using kinds(3,4)[of "([''blobs'', ''sha256'', h], b)"] by auto
    then obtain m x where "m \<in> set bms" "([''blobs'', ''sha256'', h], b) = file_of m" "m = blob_member (sha256_hex x) x" using bl by blast
    with bf[of x x] show "blob_member h b \<in> set bms" by simp
  qed
  have nd: "\<not> endswith ''ERRORS.json'' ''.deb''" by code_simp
  show "([''ERRORS.json''], b) \<in> set (map file_of ms) \<longleftrightarrow> errs \<noteq> [] \<and> b = py_encode (json_dumps False (PList errs))"
  proof
    assume a: "([''ERRORS.json''], b) \<in> set (map file_of ms)"
    have "([''ERRORS.json''], b) \<notin> file_of ` set (manifest_members manifests)" "([''ERRORS.json''], b) \<notin> file_of ` set bms"
      "([''ERRORS.json''], b) \<notin> file_of ` set (deb_member deb)"
      using kinds(1,2,3)[of "([''ERRORS.json''], b)"] nd by auto
    with a have "([''ERRORS.json''], b) \<in> file_of ` set (errors_member errs)" unfolding split by auto
    from kinds(4)[OF this] show "errs \<noteq> [] \<and> b = py_encode (json_dumps False (PList errs))" by (simp del: json_dumps.simps)
  next
    assume a: "errs \<noteq> [] \<and> b = py_encode (json_dumps False (PList errs))"
    then obtain m where m: "m \<in> set (errors_member errs)" by (simp add: errors_member_def del: json_dumps.simps)
    with a kinds(4)[of "file_of m"] have "file_of m = ([''ERRORS.json''], b)" by blast
    with m show "([''ERRORS.json''], b) \<in> set (map file_of ms)" unfolding split by (metis image_eqI)
  qed
  have "([''blobs'', ''sha256''], b) \<notin> file_of ` set (manifest_members manifests)" "([''blobs'', ''sha256''], b) \<notin> file_of ` set bms"
    "([''blobs'', ''sha256''], b) \<notin> file_of ` set (deb_member deb)" "([''blobs'', ''sha256''], b) \<notin> file_of ` set (errors_member errs)"
    using kinds[of "([''blobs'', ''sha256''], b)"] by auto
  then show "([''blobs'', ''sha256''], b) \<notin> set (map file_of ms)" unfolding split by auto
  show "x \<in> set (map file_of ms) \<Longrightarrow> hd (fst x) = ''ERRORS.json'' \<Longrightarrow> fst x = [''ERRORS.json'']"
  proof -
    assume x: "x \<in> set (map file_of ms)" "hd (fst x) = ''ERRORS.json''"
    have "x \<notin> file_of ` set bms"
    proof
      assume "x \<in> file_of ` set bms"
      then obtain m y where "m = blob_member (sha256_hex y) y" "x = file_of m" using bl by blast
      with bf[of y y] x(2) show False by simp
    qed
    with x kinds(2,3,4)[of x] nd show "fst x = [''ERRORS.json'']" unfolding split by auto
  qed
qed

lemma errors_file:
  assumes "tree_of t (map file_of ms)"
    and "\<And>b. ([''ERRORS.json''], b) \<in> set (map file_of ms) \<longleftrightarrow> errs \<noteq> [] \<and> b = py_encode (json_dumps False (PList errs))"
    and "\<And>x. x \<in> set (map file_of ms) \<Longrightarrow> hd (fst x) = ''ERRORS.json'' \<Longrightarrow> fst x = [''ERRORS.json'']"
  shows "dget t [''ERRORS.json''] = (if errs = [] then None else Some (TFile (py_encode (json_dumps False (PList errs)))))"
proof (cases "errs = []")
  case False
  then have f: "([''ERRORS.json''], py_encode (json_dumps False (PList errs))) \<in> set (map file_of ms)" using assms(2) by blast
  have "\<forall>c. ([''ERRORS.json''], c) \<in> set (map file_of ms) \<longrightarrow> c = py_encode (json_dumps False (PList errs))" using assms(2) by blast
  from tree_of_file[OF assms(1) f this] show ?thesis using False by (simp only: if_False)
next
  case True
  have "[''ERRORS.json''] \<notin> fst ` set (rev (map file_of ms))" using assms(2) True by force
  then have "map_of (rev (map file_of ms)) [''ERRORS.json''] = None" unfolding map_of_eq_None_iff .
  moreover have "\<not> strict_prefix [''ERRORS.json''] q" if "q \<in> fst ` set (map file_of ms)" for q
  proof
    assume p: "strict_prefix [''ERRORS.json''] q"
    then have "hd q = ''ERRORS.json''" by (auto simp: strict_prefix_def prefix_def)
    with that assms(3) have "q = [''ERRORS.json'']" by blast
    with p show False by simp
  qed
  ultimately show ?thesis unfolding tree_of_dget[OF assms(1)] using True by simp
qed

text \<open>The import of such a tree: the errors are read back and the blobs are imported.\<close>

lemma import_blobs_dir: "\<forall>b. dget t [''blobs'', ''sha256''] \<noteq> Some (TFile b) \<Longrightarrow> \<exists>r s'. import_blobs s clock t = (Inr r, s')"
  by (cases "import_files s clock 0 (children t [''blobs'', ''sha256''])")
    (auto simp: import_blobs_def split: option.splits tnode.splits)

lemma fetch_errors_ok:
  assumes "list_all error_dict errs"
    and "dget t [''ERRORS.json''] = (if errs = [] then None else Some (TFile (py_encode (json_dumps False (PList errs)))))"
  shows "fetch_errors t = Inr errs"
proof (cases "errs = []")
  case False
  have "wf_json (PList errs)" using assms(1) by (auto simp: list_all_iff error_dict_def)
  moreover have "\<exists>us. rmap has_get errs = Inr us" using assms(1)
    by (induction errs) (auto simp: error_dict_def has_get_def)
  ultimately show ?thesis using False assms(2)
    by (auto simp: fetch_errors_def read_json_dumps viter_def simp del: json_dumps.simps)
qed (use assms in \<open>simp add: fetch_errors_def\<close>)

lemma import_response_store:
  assumes "response_tree A T py312 enc aes_key hmac_key p = Inr t" "fetch_errors (ls t) = Inr errs"
    and "import_blobs (off_store off) clock (ls t) = (Inr r, s)"
  shows "keeps_blobs s (off_store (snd (import_response A T py312 ls clock off p enc aes_key hmac_key wc)))"
proof -
  obtain n k es where r: "r = (n, k, es)" by (cases r)
  obtain q s1 where m: "(if wc then cache_manifests_from_response s (clock (length (ls t))) (ls t) else (Inr (), s)) = (q, s1)" by fastforce
  then have s: "keeps_blobs s s1"
    using cache_files_store[of s "clock (length (ls t))"] unfolding cache_manifests_from_response_def by (cases wc) auto
  then show ?thesis
    unfolding import_response_def assms(1)[unfolded response_tree_def] sum.case Let_def assms(2,3) r prod.case m
    by (auto simp: extract_deb_update_def split: sum.splits option.splits tnode.splits prod.splits)
qed

lemma import_response_ok:
  assumes "response_tree A T py312 enc aes_key hmac_key p = Inr t" "fetch_errors (ls t) = Inr errs"
    and "import_blobs (off_store off) clock (ls t) = (Inr q, s)"
  shows "\<exists>r off'. import_response A T py312 ls clock off p enc aes_key hmac_key False = (Inr r, off')"
proof -
  obtain n k es where q: "q = (n, k, es)" by (metis prod_cases3)
  obtain deb off' where "extract_deb_update (off\<lparr>off_store := s\<rparr>) (ls t) = (deb, off')" by fastforce
  then show ?thesis
    unfolding import_response_def assms(1)[unfolded response_tree_def] sum.case Let_def assms(2,3) q prod.case if_False by simp
qed

section \<open>Delivery\<close>

text \<open>A toy archive format, for the witnesses: a name ended by NUL, the length in unary, the contents.\<close>

definition toy_entry :: "member \<Rightarrow> bytes" where
  "toy_entry m = (case snd m of
     Regular b \<Rightarrow> fst m @ CHR 0x00 # replicate (length b) CHR ''1'' @ CHR ''0'' # b | _ \<Rightarrow> [])"

fun toy_read :: "nat \<Rightarrow> bytes \<Rightarrow> member list" where
  "toy_read 0 s = []"
| "toy_read (Suc k) s =
     (if s = [] then []
      else let n = takeWhile (\<lambda>c. c \<noteq> CHR 0x00) s; r = drop (Suc (length n)) s;
               l = length (takeWhile (\<lambda>c. c = CHR ''1'') r); d = drop (Suc l) r
           in (n, Regular (take l d)) # toy_read k (drop l d))"

definition toy_tar :: tar_codec where
  "toy_tar = \<lparr>tar_pack = (\<lambda>now ms. concat (map toy_entry ms)), tar_unpack = (\<lambda>s. Inr (toy_read (length s) s))\<rparr>"

lemma toy_read_entries: "list_all plain_member ms \<Longrightarrow> length ms \<le> k \<Longrightarrow> toy_read k (concat (map toy_entry ms)) = ms"
proof (induction ms arbitrary: k)
  case Nil
  show ?case by (cases k) simp_all
next
  case (Cons m ms)
  then obtain n b where m: "m = (n, Regular b)" "CHR 0x00 \<notin> set n" by (cases m) (auto simp: plain_member_def)
  obtain j where k: "k = Suc j" using Cons.prems(2) by (cases k) auto
  let ?r = "concat (map toy_entry ms)"
  have n: "takeWhile (\<lambda>c. c \<noteq> CHR 0x00) (n @ CHR 0x00 # u) = n" for u
    using m(2) by (induction n) auto
  have l: "takeWhile (\<lambda>c. c = CHR ''1'') (replicate i CHR ''1'' @ CHR ''0'' # u) = replicate i CHR ''1''" for i u
    by (induction i) auto
  have e: "toy_entry m = n @ CHR 0x00 # replicate (length b) CHR ''1'' @ CHR ''0'' # b" by (simp add: m(1) toy_entry_def)
  have "toy_read j ?r = ms" using Cons k by simp
  then show ?case by (simp add: k e n l Let_def) (simp add: m(1))
qed

lemma toy_tar_inverse: "tar_inverse toy_tar"
proof -
  have "length ms \<le> length (concat (map toy_entry ms))" if "list_all plain_member ms" for ms
    using that by (induction ms) (auto simp: toy_entry_def plain_member_def)
  then show ?thesis by (simp add: tar_inverse_def toy_tar_def toy_read_entries)
qed

text \<open>A response as it is extracted: the blobs it holds are the requested ones of the cache, and its errors are read back.\<close>

lemma built_response:
  assumes "aead_inverse A" "tar_inverse T" "length nonce = 12" "listing ls" "cache_inv c"
    and "list_all error_dict errs" "manifests_ok manifests" "deb_ok deb"
    and "build_response A T nonce now c blobs errs aes_key hmac_key source_id deb manifests = Inr (filename, encrypted, errs')"
  obtains t where "response_tree A T py312 encrypted aes_key hmac_key p = Inr t" "fetch_errors (ls t) = Inr errs'"
    "\<And>h x. (h, x) \<in> response_blobs (ls t) \<Longrightarrow> cache_bytes c h = Some x"
    "\<And>b d data. b \<in> set blobs \<Longrightarrow> dget b ''digest'' = Some (PStr d) \<Longrightarrow> cache_bytes c (blob_key d) = Some data \<Longrightarrow>
       (blob_key d, data) \<in> response_blobs (ls t)"
    "\<And>s clock. \<exists>q s'. import_blobs s clock (ls t) = (Inr q, s')"
    "\<And>b. b \<in> set blobs \<Longrightarrow> \<exists>d. dget b ''digest'' = Some (PStr d) \<and> (cache_bytes c (blob_key d) = None \<longrightarrow>
       (\<exists>m. blob_error d m \<in> set errs'))"
proof -
  obtain ms where m: "response_members c blobs errs hmac_key deb manifests = Inr (ms, errs')"
      "seal A nonce (tar_pack T now ms) aes_key hmac_key = Inr encrypted"
    using assms(9) by (auto simp: build_response_def rbind_Inr_iff)
  from m(1) obtain bms missing index sig where
    b: "ms = (''oci-layout'', Regular (py_encode FETCH_OCI_LAYOUT)) # bms @
       [(''index.json'', Regular index), (''MANIFEST.sig'', Regular sig)] @ errors_member errs' @ manifest_members manifests @ deb_member deb"
    "list_all (cached_member c) bms" "list_all error_dict missing" "errs' = errs @ missing"
    "\<forall>b d data. b \<in> set blobs \<longrightarrow> dget b ''digest'' = Some (PStr d) \<longrightarrow> cache_bytes c (blob_key d) = Some data \<longrightarrow>
       blob_member (blob_key d) data \<in> set bms" by (rule response_members_spec)
  obtain t where t: "extract_tar T py312 (tar_pack T now ms) = Inr t" "tree_of t (map file_of ms)"
    using response_extract[OF assms(2,5) b(2) assms(7,8) b(1)] by blast
  note paths = member_paths[OF assms(5) b(2) assms(8) b(1)]
  have tree: "response_tree A T py312 encrypted aes_key hmac_key p = Inr t"
    using open_response_iff[THEN iffD2] seal_decrypt[OF assms(1,3) m(2)] t(1) by (simp add: response_tree_def)
  have dist: "distinct (dkeys t)" using t(2) by (simp add: tree_of_def)
  note ls = listing_dget[OF assms(4) dist] listing_set[OF assms(4), of t]
  have errs: "dget t [''ERRORS.json''] = (if errs' = [] then None else Some (TFile (py_encode (json_dumps False (PList errs')))))"
    by (rule errors_file[OF t(2) paths(2)]) (use paths(4) in blast)
  have read: "fetch_errors (ls t) = Inr errs'"
    using fetch_errors_ok[of errs' "ls t"] errs assms(6) b(3,4) by (simp add: ls(1))
  have import: "\<exists>q s'. import_blobs s clock (ls t) = (Inr q, s')" for s clock
    using import_blobs_dir[of "ls t" s clock] tree_of_files[OF t(2)] paths(3) unfolding ls(1) by blast
  have uniq: "blob_member h x \<in> set bms \<Longrightarrow> cache_bytes c h = Some x" for h x
    using b(2) by (auto simp: list_all_iff cached_member_def blob_member_def)
  have rb: "(h, x) \<in> response_blobs (ls t) \<longleftrightarrow> blob_member h x \<in> set bms" for h x
  proof -
    have "(h, x) \<in> response_blobs (ls t) \<longleftrightarrow> dget t [''blobs'', ''sha256'', h] = Some (TFile x)"
      unfolding response_blobs_def by (simp add: ls(2) in_set_dget[OF dist])
    also have "\<dots> \<longleftrightarrow> ([''blobs'', ''sha256'', h], x) \<in> set (map file_of ms)"
    proof
      assume a: "([''blobs'', ''sha256'', h], x) \<in> set (map file_of ms)"
      have "y = x" if "([''blobs'', ''sha256'', h], y) \<in> set (map file_of ms)" for y
        using uniq[of h x] uniq[of h y] a that unfolding paths(1) by simp
      then show "dget t [''blobs'', ''sha256'', h] = Some (TFile x)" using tree_of_file[OF t(2) a] by blast
    qed (rule tree_of_files[OF t(2)])
    finally show ?thesis unfolding paths(1) .
  qed
  show thesis
  proof (rule that[OF tree read _ _ import])
    show "(h, x) \<in> response_blobs (ls t) \<Longrightarrow> cache_bytes c h = Some x" for h x unfolding rb by (rule uniq)
    show "b \<in> set blobs \<Longrightarrow> dget b ''digest'' = Some (PStr d) \<Longrightarrow> cache_bytes c (blob_key d) = Some data \<Longrightarrow>
       (blob_key d, data) \<in> response_blobs (ls t)" for b d data unfolding rb using b(5) by blast
    show "b \<in> set blobs \<Longrightarrow> \<exists>d. dget b ''digest'' = Some (PStr d) \<and> (cache_bytes c (blob_key d) = None \<longrightarrow>
       (\<exists>m. blob_error d m \<in> set errs'))" for b using response_members_errors[OF m(1)] by blast
  qed
qed

text \<open>What a response brings: one blob that was requested and that the cache held.\<close>

lemma delivered_blob:
  assumes "aead_inverse A" "tar_inverse T" "length nonce = 12" "listing ls"
    and "cache_inv c" "\<forall>h b. cache_bytes c h = Some b \<longrightarrow> length b \<le> max_rw_count"
    and "store_inv (off_store off)" "\<forall>i. clock i < max_instant"
    and "list_all error_dict errs" "manifests_ok manifests" "deb_ok deb"
    and "build_response A T nonce now c blobs errs aes_key hmac_key source_id deb manifests = Inr (filename, encrypted, errs')"
    and "import_response A T py312 ls clock off p encrypted aes_key hmac_key with_cache = (r, off')"
    and "b \<in> set blobs" "dget b ''digest'' = Some (PStr d)" "cache_bytes c (blob_key d) = Some data"
  shows "store_inv (off_store off') \<and> (\<exists>x. file_bytes (st_blobs (off_store off')) (blob_key d) = Some x \<and> sha256_hex x = blob_key d
    \<and> (file_bytes (st_blobs (off_store off)) (blob_key d) = None \<longrightarrow> x = data))"
proof -
  obtain t where t: "response_tree A T py312 encrypted aes_key hmac_key p = Inr t" "fetch_errors (ls t) = Inr errs'"
    "\<And>h x. (h, x) \<in> response_blobs (ls t) \<Longrightarrow> cache_bytes c h = Some x"
    "\<And>b d data. b \<in> set blobs \<Longrightarrow> dget b ''digest'' = Some (PStr d) \<Longrightarrow> cache_bytes c (blob_key d) = Some data \<Longrightarrow>
       (blob_key d, data) \<in> response_blobs (ls t)"
    "\<And>s clock. \<exists>q s'. import_blobs s clock (ls t) = (Inr q, s')"
    by (rule built_response[OF assms(1-5,9-12), of py312 p]) blast
  obtain q s where i: "import_blobs (off_store off) clock (ls t) = (Inr q, s)" using t(5) by blast
  have same: "keeps_blobs s (off_store off')"
    using import_response_store[OF t(1), of ls errs' off clock q s with_cache] t(2) i assms(13) by simp
  have fits: "\<forall>(h, x) \<in> response_blobs (ls t). length x \<le> max_rw_count" using t(3) assms(6) by blast
  obtain u k es where q: "q = (u, k, es)" by (cases q) auto
  note after = import_blobs_spec[OF assms(7) listing_wf[OF assms(4) response_tree_wf[OF t(1)]] assms(8) fits i[unfolded q]]
  have st: "store_inv (off_store off') \<and> st_blobs (off_store off') = st_blobs s"
    using same after manifests_inv by (auto simp: keeps_blobs_def)
  have "(blob_key d, data) \<in> response_blobs (ls t)" using t(4) assms(14,15,16) by blast
  moreover have "sha256_hex data = blob_key d" by (rule cache_bytes_hash[OF assms(5,16)])
  moreover have bytes: "file_bytes (st_blobs (off_store off')) h = Some x \<longleftrightarrow> file_bytes (st_blobs (off_store off)) h = Some x
        \<or> (file_bytes (st_blobs (off_store off)) h = None \<and> (h, x) \<in> response_blobs (ls t) \<and> sha256_hex x = h)" for h x
    using st after by simp
  ultimately obtain x where x: "file_bytes (st_blobs (off_store off')) (blob_key d) = Some x"
      "file_bytes (st_blobs (off_store off)) (blob_key d) = None \<longrightarrow> x = data"
    by (cases "file_bytes (st_blobs (off_store off)) (blob_key d)") auto
  have hash: "sha256_hex x = blob_key d" using bs.get_hash[OF conjunct1[OF st] x(1)] .
  show ?thesis by (intro conjI exI[of _ x] conjunct1[OF st] x hash)
qed

text \<open>The errors of the response are among those the import reports.\<close>

lemma delivered_errors:
  assumes "aead_inverse A" "tar_inverse T" "length nonce = 12" "listing ls" "cache_inv c"
    and "list_all error_dict errs" "manifests_ok manifests" "deb_ok deb"
    and "build_response A T nonce now c blobs errs aes_key hmac_key source_id deb manifests = Inr (filename, encrypted, errs')"
    and "import_response A T py312 ls clock off p encrypted aes_key hmac_key with_cache = (Inr r, off')"
  shows "set errs' \<subseteq> set (is_errors r)
    \<and> (\<forall>b \<in> set blobs. \<exists>d. dget b ''digest'' = Some (PStr d) \<and> (cache_bytes c (blob_key d) = None \<longrightarrow> (\<exists>m. blob_error d m \<in> set errs')))"
proof -
  obtain t where t: "response_tree A T py312 encrypted aes_key hmac_key p = Inr t" "fetch_errors (ls t) = Inr errs'"
    "\<And>b. b \<in> set blobs \<Longrightarrow> \<exists>d. dget b ''digest'' = Some (PStr d) \<and> (cache_bytes c (blob_key d) = None \<longrightarrow>
       (\<exists>m. blob_error d m \<in> set errs'))"
    by (rule built_response[OF assms(1-9), of py312 p]) blast
  have "set errs' \<subseteq> set (is_errors r)"
    using assms(10) unfolding import_response_def t(1)[unfolded response_tree_def] sum.case Let_def t(2)
    by (auto split: sum.splits prod.splits)
  with t(3) show ?thesis by blast
qed

text \<open>
  Every blob the offline side asked for and the online side had in its cache is in the store after
  the response was imported, whatever else the response holds and in whatever order its files are
  listed, on every version of Python; a blob the store already had stays as it was.
\<close>

theorem response_delivers:
  assumes "aead_inverse A" "tar_inverse T" "length nonce = 12" "listing ls"
    and "cache_inv c" "\<forall>h b. cache_bytes c h = Some b \<longrightarrow> length b \<le> max_rw_count"
    and "store_inv (off_store off)" "\<forall>i. clock i < max_instant"
    and "list_all error_dict errs" "manifests_ok manifests" "deb_ok deb"
    and "build_response A T nonce now c blobs errs aes_key hmac_key source_id deb manifests = Inr (filename, encrypted, errs')"
    and "import_response A T py312 ls clock off p encrypted aes_key hmac_key with_cache = (r, off')"
    and "b \<in> set blobs" "dget b ''digest'' = Some (PStr d)" "cache_bytes c (blob_key d) = Some data"
  shows "store_inv (off_store off') \<and> (\<exists>x. file_bytes (st_blobs (off_store off')) (blob_key d) = Some x \<and> sha256_hex x = blob_key d
    \<and> (file_bytes (st_blobs (off_store off)) (blob_key d) = None \<longrightarrow> x = data))"
  by (rule delivered_blob[OF assms])

text \<open>A cache with one blob and an offline side without any.\<close>

declare demo_match [simp del]

definition demo_cache :: cache where
  "demo_cache = [(sha256_hex demo_blob, RegFile demo_blob, 0)]"

definition demo_offline :: offline where
  "demo_offline = \<lparr>off_store = store_init (empty_disk ''/var''), off_updates = []\<rparr>"

lemma demo_key: "blob_key demo_digest = sha256_hex demo_blob"
  unfolding demo_digest_def by (rule blob_key_digest)

lemma demo_cache_bytes: "cache_bytes demo_cache h = (if h = sha256_hex demo_blob then Some demo_blob else None)"
  by (simp add: demo_cache_def cache_bytes_def)

lemma demo_cache_inv: "cache_inv demo_cache"
  by (simp add: cache_inv_def demo_cache_def)

lemma demo_offline_store: "store_inv (off_store demo_offline)" "file_bytes (st_blobs (off_store demo_offline)) h = None"
  using reachable_inv[OF reachable.init[of "''/var''"]]
  by (simp_all add: demo_offline_def store_init_def empty_disk_def file_bytes_def)

lemma listing_id: "listing (\<lambda>t. t)"
  by (simp add: listing_def)

lemma demo_add_blobs: "dget b ''digest'' = Some (PStr demo_digest) \<Longrightarrow> \<exists>x. add_blobs demo_cache tar [b] = Inr x"
proof -
  assume d: "dget b ''digest'' = Some (PStr demo_digest)"
  have "cache_get_blob demo_cache demo_digest = Inr (sha256_hex demo_blob)"
    using demo_key by (simp add: cache_get_blob_def cache_exists_def demo_cache_def blob_key_def Let_def node_exists_def is_file_def)
  moreover have "cache_read demo_cache (sha256_hex demo_blob) = Inr demo_blob"
    by (simp add: cache_read_def demo_cache_bytes)
  ultimately show ?thesis using d by (simp add: dindex_def)
qed

lemma demo_build_keys:
  assumes "dget b ''digest'' = Some (PStr demo_digest)" "length aes_key = 32"
  shows "\<exists>filename encrypted errs'. build_response toy_aead toy_tar (replicate 12 CHR ''n'') 5 demo_cache [b] []
       aes_key hmac_key source_id None [] = Inr (filename, encrypted, errs')"
proof -
  obtain x where x: "add_blobs demo_cache (add_string_to_tar [] ''oci-layout'' FETCH_OCI_LAYOUT) [b] = Inr x"
    using demo_add_blobs[OF assms(1)] by blast
  obtain tar ds es where "x = (tar, ds, es)" by (metis prod_cases3)
  from response_members_value[OF x[unfolded this]] obtain ms where
    m: "response_members demo_cache [b] [] hmac_key None [] = Inr (ms, es)" by auto
  obtain e where "seal toy_aead (replicate 12 CHR ''n'') (tar_pack toy_tar 5 ms) aes_key hmac_key = Inr e"
    using assms(2) by (simp add: seal_def encrypt_def Let_def toy_aead_def)
  with m show ?thesis by (auto simp: build_response_def)
qed

lemma demo_build:
  "dget b ''digest'' = Some (PStr demo_digest) \<Longrightarrow>
     \<exists>filename encrypted errs'. build_response toy_aead toy_tar (replicate 12 CHR ''n'') 5 demo_cache [b] []
       (replicate 32 CHR ''k'') ''hm'' ''site'' None [] = Inr (filename, encrypted, errs')"
  by (rule demo_build_keys) simp_all

lemma demo_cache_small: "\<forall>h b. cache_bytes demo_cache h = Some b \<longrightarrow> length b \<le> max_rw_count"
  by (simp add: demo_cache_bytes demo_blob_def max_rw_count_def)

theorem response_delivers_witness:
  "\<exists>filename encrypted errs' r off'.
     build_response toy_aead toy_tar (replicate 12 CHR ''n'') 5 demo_cache [[(''digest'', PStr demo_digest)]] []
       (replicate 32 CHR ''k'') ''hm'' ''site'' None [] = Inr (filename, encrypted, errs')
     \<and> import_response toy_aead toy_tar True (\<lambda>t. t) (\<lambda>i. 7) demo_offline ''f'' encrypted (replicate 32 CHR ''k'') ''hm'' True = (r, off')
     \<and> file_bytes (st_blobs (off_store off')) (blob_key demo_digest) = Some demo_blob"
proof -
  obtain filename encrypted errs' where b: "build_response toy_aead toy_tar (replicate 12 CHR ''n'') 5 demo_cache
      [[(''digest'', PStr demo_digest)]] [] (replicate 32 CHR ''k'') ''hm'' ''site'' None [] = Inr (filename, encrypted, errs')"
    using demo_build[of "[(''digest'', PStr demo_digest)]"] by auto
  obtain r off' where i: "import_response toy_aead toy_tar True (\<lambda>t. t) (\<lambda>i. 7) demo_offline ''f'' encrypted (replicate 32 CHR ''k'') ''hm'' True = (r, off')"
    by fastforce
  have clock: "\<forall>i. (7 :: nat) < max_instant" by (simp add: max_instant_def)
  have ok: "list_all error_dict []" "manifests_ok []" "deb_ok None" by (simp_all add: manifests_ok_def prefix_free_def deb_ok_def)
  have d: "[(''digest'', PStr demo_digest)] \<in> set [[(''digest'', PStr demo_digest)]]" "dget [(''digest'', PStr demo_digest)] ''digest'' = Some (PStr demo_digest)"
    "cache_bytes demo_cache (blob_key demo_digest) = Some demo_blob" by (simp_all add: demo_cache_bytes demo_key)
  have "length (replicate 12 CHR ''n'') = 12" by simp
  from response_delivers[OF toy_aead_inverse toy_tar_inverse this listing_id demo_cache_inv demo_cache_small demo_offline_store(1) clock ok b i d]
  have "file_bytes (st_blobs (off_store off')) (blob_key demo_digest) = Some demo_blob"
    unfolding demo_offline_store(2) by auto
  with b i show ?thesis by (intro exI conjI)
qed

section \<open>What an import adds\<close>

text \<open>
  C5. Whatever a response holds, importing it adds exactly the files of its blob directory that match
  their name, keeps every blob the store had, leaves the store well-formed, and counts what it
  imported and what it skipped.
\<close>

theorem import_verified:
  assumes "store_inv (off_store off)" "listing ls" "\<forall>i. clock i < max_instant"
    and "response_tree A T py312 encrypted aes_key hmac_key p = Inr t" "\<forall>(h, b) \<in> response_blobs t. length b \<le> max_rw_count"
    and "import_response A T py312 ls clock off p encrypted aes_key hmac_key with_cache = (Inr r, off')"
  shows "store_inv (off_store off')
    \<and> (\<forall>h b. file_bytes (st_blobs (off_store off')) h = Some b \<longleftrightarrow> file_bytes (st_blobs (off_store off)) h = Some b
        \<or> (file_bytes (st_blobs (off_store off)) h = None \<and> (h, b) \<in> response_blobs t \<and> sha256_hex b = h))
    \<and> is_imported r = length (filter good_entry t) \<and> is_imported r + is_skipped r = length (filter blob_entry t)"
proof (rule import_response_cases[OF assms(6)])
  fix t' s errs n k blob_errs
  assume a: "response_tree A T py312 encrypted aes_key hmac_key p = Inr t'"
    "import_blobs (off_store off) clock (ls t') = (Inr (n, k, blob_errs), s)" "keeps_blobs s (off_store off')"
    "is_imported r = n" "is_skipped r = k"
  have t: "t' = t" using a(1) assms(4) by simp
  have rb: "response_blobs (ls t) = response_blobs t" by (simp add: response_blobs_def listing_set[OF assms(2)])
  note after = import_blobs_spec[OF assms(1) listing_wf[OF assms(2) response_tree_wf[OF assms(4)]] assms(3) _ a(2)[unfolded t], unfolded rb]
  have "store_inv (off_store off') \<and> st_blobs (off_store off') = st_blobs s"
    using a(3) after[OF assms(5)] manifests_inv by (auto simp: keeps_blobs_def)
  with after[OF assms(5)] a(4,5) show ?thesis by (simp add: listing_filter[OF assms(2)])
qed

text \<open>An archive of one blob, and the tree it is extracted to.\<close>

definition demo_member :: member where
  "demo_member = blob_member (sha256_hex demo_blob) demo_blob"

definition demo_tree :: tree where
  "demo_tree = [([''blobs''], TDir), ([''blobs'', ''sha256''], TDir), ([''blobs'', ''sha256'', sha256_hex demo_blob], TFile demo_blob)]"

lemma demo_extract: "list_all plain_member [demo_member]" "find unsafe_member [demo_member] = None" "extract_all [] [demo_member] = Inr demo_tree"
proof -
  have g: "good_member demo_member" unfolding demo_member_def by (rule good_blob)
  then show "list_all plain_member [demo_member]" "find unsafe_member [demo_member] = None"
    by (auto simp: good_member_def safe_file_def safe_name_def unsafe_member_def is_link_def)
  have "path_parts (fst demo_member) = [''blobs'', ''sha256'', sha256_hex demo_blob]"
    by (simp add: demo_member_def blob_member_def blob_member_path del: append.simps)
  moreover have "snd demo_member = Regular demo_blob" by (simp add: demo_member_def blob_member_def)
  ultimately show "extract_all [] [demo_member] = Inr demo_tree"
    by (simp add: extract_member_def put_file_def demo_tree_def)
qed

lemma demo_tree_blobs: "response_blobs demo_tree = {(sha256_hex demo_blob, demo_blob)}" "fetch_errors demo_tree = Inr []"
  "filter good_entry demo_tree = [([''blobs'', ''sha256'', sha256_hex demo_blob], TFile demo_blob)]"
  "(h, b) \<in> response_blobs demo_tree \<Longrightarrow> length b \<le> max_rw_count"
  by (auto simp: demo_tree_def response_blobs_def fetch_errors_def good_entry_def demo_blob_def max_rw_count_def)

theorem import_verified_witness:
  "\<exists>encrypted r off'. import_response toy_aead toy_tar False (\<lambda>t. t) (\<lambda>i. 7) demo_offline ''f'' encrypted (replicate 32 CHR ''k'') ''hm'' False
       = (Inr r, off')
     \<and> is_imported r = 1 \<and> file_bytes (st_blobs (off_store off')) (sha256_hex demo_blob) = Some demo_blob"
proof -
  obtain e where e: "seal toy_aead (replicate 12 CHR ''n'') (tar_pack toy_tar 5 [demo_member]) (replicate 32 CHR ''k'') ''hm'' = Inr e"
    by (simp add: seal_def encrypt_def Let_def toy_aead_def)
  have x: "extract_tar toy_tar False (tar_pack toy_tar 5 [demo_member]) = Inr demo_tree"
    using demo_extract toy_tar_inverse by (simp add: extract_tar_def tar_inverse_def)
  have "open_response toy_aead e (replicate 32 CHR ''k'') ''hm'' ''f'' = Inr (tar_pack toy_tar 5 [demo_member])"
    by (rule open_response_iff[THEN iffD2]) (rule seal_decrypt[OF toy_aead_inverse _ e], simp)
  then have tree: "response_tree toy_aead toy_tar False e (replicate 32 CHR ''k'') ''hm'' ''f'' = Inr demo_tree" using x by (simp add: response_tree_def)
  have small: "\<forall>(h, b) \<in> response_blobs demo_tree. length b \<le> max_rw_count" using demo_tree_blobs(4) by blast
  have clock: "\<forall>i. (7 :: nat) < max_instant" by (simp add: max_instant_def)
  obtain q s where "import_blobs (off_store demo_offline) (\<lambda>i. 7) demo_tree = (Inr q, s)"
    using import_blobs_dir[of demo_tree "off_store demo_offline" "\<lambda>i. 7"] by (auto simp: demo_tree_def)
  from import_response_ok[OF tree, where ls = "\<lambda>t. t", OF demo_tree_blobs(2) this] obtain r off' where
    i: "import_response toy_aead toy_tar False (\<lambda>t. t) (\<lambda>i. 7) demo_offline ''f'' e (replicate 32 CHR ''k'') ''hm'' False = (Inr r, off')"
    by blast
  from import_verified[OF demo_offline_store(1) listing_id clock tree small i] i show ?thesis
    unfolding demo_tree_blobs(1,3) demo_offline_store(2) by (intro exI conjI) auto
qed

end
