(* ===== verification/Store_GC_Spec.thy ===== *)
theory Store_GC_Spec
  imports Store_Spec
begin

text \<open>
  Properties of the blob store's garbage collection and integrity check: the report is
  exactly the blobs idle since the cutoff, a blob in use survives, deletion follows the
  specification, the impact report misses no image, and what verification detects.
\<close>

section \<open>Garbage collection\<close>

text \<open>
  A report whose cutoff is a representable date succeeds in every reachable state, changes no
  blob, and holds the digest of exactly the blobs whose last request is older than the cutoff.
\<close>

theorem gc_report_exact:
  assumes "reachable p s" "minus_days now n = Inr cutoff"
  shows "\<exists>cs ds. gc_report s now n = (Inr cs, s\<lparr>st_gc_report := Some ds\<rparr>)
    \<and> map (\<lambda>c. vindex c ''digest'') cs = map Inr ds
    \<and> set ds = {PStr (''sha256:'' @ h) | h. h \<in> spec_idle (abs_store s) cutoff}"
  using gc_report_ok[OF reachable_inv[OF assms(1)] assms(2)]
  by (simp only: idle_since_abs[OF reachable_inv[OF assms(1)]])

lemma demo_cutoff: "minus_days (10 * day_us) 3 = Inr (7 * int day_us)"
  by (simp add: minus_days_def day_us_def max_instant_def)

theorem gc_report_exact_witness:
  "\<exists>cs ds. gc_report demo_store (10 * day_us) 3 = (Inr cs, demo_store\<lparr>st_gc_report := Some ds\<rparr>)
    \<and> map (\<lambda>c. vindex c ''digest'') cs = map Inr ds
    \<and> set ds = {PStr (''sha256:'' @ h) | h. h \<in> spec_idle (abs_store demo_store) (7 * int day_us)}"
  by (rule gc_report_exact[OF demo_reachable demo_cutoff])

text \<open>
  C17. A blob that was requested survives garbage collection: after a request at \<open>now\<close>, a
  report with a cutoff no later than \<open>now\<close>, and the deletion of any digests, it is still stored.
\<close>

theorem requested_blob_survives:
  assumes "reachable p s" "has_blob s dg" "now < max_instant"
    and "minus_days now' n = Inr cutoff" "cutoff \<le> int now"
  shows "has_blob (snd (gc_execute (snd (gc_report (snd (update_metadata s now dg ev)) now' n)) ds op)) dg"
proof -
  let ?h = "strip_prefix dg" and ?s1 = "snd (update_metadata s now dg ev)"
  note inv = reachable_inv[OF assms(1)]
  have inv1: "store_inv ?s1" by (rule update_metadata_inv[OF inv assms(3)])
  obtain b t c where "abs_store s ?h = Some (b, t, c)"
    using assms(2) has_blob_abs[OF inv, of dg] by auto
  then have a1: "abs_store ?s1 ?h = Some (b, int now, c + 1)"
    by (simp add: update_metadata_abs[OF inv assms(3)] spec_request_def)
  obtain cs rep where rep: "snd (gc_report ?s1 now' n) = ?s1\<lparr>st_gc_report := Some rep\<rparr>"
    "set rep = {PStr (''sha256:'' @ h) | h. idle_since ?s1 cutoff h}"
    using gc_report_ok[OF inv1 assms(4)] by auto
  let ?s2 = "?s1\<lparr>st_gc_report := Some rep\<rparr>"
  have inv2: "store_inv ?s2" using gc_report_inv[OF inv1, of now' n] by (simp add: rep(1))
  have "?h \<notin> spec_idle (abs_store ?s1) cutoff" using a1 assms(5) by (simp add: spec_idle_def)
  then have "\<not> idle_since ?s1 cutoff ?h" by (simp add: idle_since_abs[OF inv1])
  then have "PStr d \<in> set rep \<Longrightarrow> strip_prefix d \<noteq> ?h" for d
    unfolding rep(2) by (auto simp del: append.simps)
  then have "?h \<notin> strip_prefix ` set (takeWhile (\<lambda>d. PStr d \<in> set rep) ds)"
    using set_takeWhileD by (metis (no_types, lifting) imageE)
  moreover have "abs_store ?s2 ?h = Some (b, int now, c + 1)" using a1 by (simp add: abs_store_def)
  ultimately have "abs_store (snd (gc_execute ?s2 ds op)) ?h = Some (b, int now, c + 1)"
    using gc_execute_abs[OF inv2, of rep ds op] by (simp add: spec_delete_def)
  then show ?thesis
    unfolding rep(1) by (simp add: has_blob_abs[OF gc_execute_inv[OF inv2]])
qed

lemma demo_has: "has_blob demo_store demo_digest"
  by (simp add: has_blob_abs[OF reachable_inv[OF demo_reachable]] demo_abs)

theorem requested_blob_survives_witness:
  "has_blob (snd (gc_execute (snd (gc_report (snd (update_metadata demo_store (8 * day_us) demo_digest ''pull''))
     (10 * day_us) 3)) [demo_digest] ''op'')) demo_digest"
  by (rule requested_blob_survives[OF demo_reachable demo_has _ demo_cutoff])
    (simp_all add: day_us_def max_instant_def)

text \<open>
  C18. Deletion refines the specification. Without a report it is refused and changes nothing;
  otherwise the digests up to the first one that was not reported are deleted, it succeeds exactly when all
  were reported, and then it gives the number of digests and the size of the blobs removed.
\<close>

theorem gc_execute_refines:
  assumes "reachable p s"
  shows "case st_gc_report s of
      None \<Rightarrow> \<exists>e. gc_execute s ds op = (Inl e, s)
    | Some rep \<Rightarrow>
        abs_store (snd (gc_execute s ds op)) =
          spec_delete (strip_prefix ` set (takeWhile (\<lambda>d. PStr d \<in> set rep) ds)) (abs_store s)
        \<and> (if \<forall>d \<in> set ds. PStr d \<in> set rep
           then fst (gc_execute s ds op) = Inr (length ds, sum (blob_size s) (strip_prefix ` set ds))
           else \<exists>e. fst (gc_execute s ds op) = Inl e)"
proof (cases "st_gc_report s")
  case None
  then show ?thesis by (simp add: gc_execute_def)
next
  case (Some rep)
  note inv = reachable_inv[OF assms]
  let ?r = "gc_execute s ds op"
  have e: "?r = gc_delete_loop rep ds 0 0 s" using Some by (simp add: gc_execute_def)
  note L = gc_delete_loop_ok[OF inv, of rep ds 0 0] gc_delete_loop_bytes[OF inv, of rep ds 0 0]
  have "if \<forall>d \<in> set ds. PStr d \<in> set rep
     then fst ?r = Inr (length ds, sum (blob_size s) (strip_prefix ` set ds)) else \<exists>e. fst ?r = Inl e"
  proof (cases "fst ?r")
    case (Inl x)
    then show ?thesis using L(2) by (simp add: e)
  next
    case (Inr x)
    then show ?thesis using L(2,3,4) by (cases x) (simp add: e)
  qed
  with gc_execute_abs[OF inv Some] Some show ?thesis by simp
qed

definition demo_manifest :: pyval where
  "demo_manifest = PDict [(''config'', PDict [(''mediaType'', PStr ''t'')]), (''layers'', PList [PDict [(''digest'', PStr demo_digest)]])]"

definition demo_parts :: "string list" where
  "demo_parts = [''docker.io'', ''library'', ''nginx'', ''latest'', ''linux-amd64.json'']"

definition demo_manifests :: store where
  "demo_manifests = demo_store\<lparr>st_manifests := Some [(demo_parts, JsonFile demo_manifest)]\<rparr>"

text \<open>The store with a cached manifest after a report.\<close>

definition demo_reported :: store where
  "demo_reported = snd (gc_report demo_manifests (10 * day_us) 3)"

lemma demo_manifests_reachable: "reachable ''/var'' demo_manifests"
  unfolding demo_manifests_def by (intro reachable.step[OF demo_reachable] store_step.manifests)

lemma demo_reported_reachable: "reachable ''/var'' demo_reported"
  unfolding demo_reported_def by (intro reachable.step[OF demo_manifests_reachable] store_step.report)

lemma demo_prefix: "startswith demo_digest ''sha256:''"
  unfolding demo_digest_def by (rule startswith_append)

lemma demo_prefixed: "''sha256:'' @ strip_prefix demo_digest = demo_digest"
  unfolding demo_digest_def by (simp only: strip_prefix_digest)

lemma demo_report:
  obtains rep where "demo_reported = demo_manifests\<lparr>st_gc_report := Some rep\<rparr>" "set rep = {PStr demo_digest}"
proof -
  have a: "abs_store demo_manifests = abs_store demo_store" by (simp add: fun_eq_iff abs_store_def demo_manifests_def)
  have "{PStr (''sha256:'' @ h) | h. h \<in> spec_idle (abs_store demo_manifests) (7 * int day_us)} = {PStr demo_digest}"
    unfolding a demo_abs spec_idle_def using demo_prefixed by (auto simp: day_us_def simp del: append.simps)
  with gc_report_ok[OF reachable_inv[OF demo_manifests_reachable] demo_cutoff] that show thesis
    unfolding demo_reported_def idle_since_abs[OF reachable_inv[OF demo_manifests_reachable]] by force
qed

lemma demo_reported_abs: "abs_store demo_reported = [strip_prefix demo_digest \<mapsto> (demo_blob, 7, 0)]"
proof (rule demo_report)
  fix rep
  assume r: "demo_reported = demo_manifests\<lparr>st_gc_report := Some rep\<rparr>"
  show ?thesis unfolding r demo_abs[symmetric] by (simp add: fun_eq_iff demo_manifests_def abs_store_def)
qed

theorem gc_execute_refines_witness:
  "abs_store (snd (gc_execute demo_reported [demo_digest] ''op'')) = Map.empty
   \<and> fst (gc_execute demo_reported [demo_digest] ''op'') = Inr (1, 5)"
proof (rule demo_report)
  fix rep
  assume r: "demo_reported = demo_manifests\<lparr>st_gc_report := Some rep\<rparr>" "set rep = {PStr demo_digest}"
  have "st_gc_report demo_reported = Some rep" unfolding r(1) by simp
  moreover have "blob_size demo_reported (strip_prefix demo_digest) = 5"
    unfolding r(1) using demo_file by (simp add: blob_size_def demo_manifests_def demo_blob_def)
  ultimately show ?thesis
    using gc_execute_refines[OF demo_reported_reachable, of "[demo_digest]" "''op''"] r(2)
    by (simp add: demo_reported_abs spec_delete_def restrict_map_def fun_eq_iff)
qed

section \<open>Impact\<close>

lemma takeWhile_subset: "set (takeWhile P xs) \<subseteq> set xs"
  by (auto dest: set_takeWhileD)

lemma strip_prefix_inject:
  assumes "startswith a ''sha256:''" "startswith b ''sha256:''"
  shows "strip_prefix a = strip_prefix b \<longleftrightarrow> a = b"
proof -
  obtain x y where "a = ''sha256:'' @ x" "b = ''sha256:'' @ y"
    using assms by (auto dest!: startswithE simp del: append.simps)
  then show ?thesis by (simp del: append.simps)
qed

lemma gc_execute_keeps:
  assumes "store_inv s" "h \<notin> strip_prefix ` set ds"
  shows "abs_store (snd (gc_execute s ds op)) h = abs_store s h"
proof (cases "st_gc_report s")
  case None
  then show ?thesis by (simp add: gc_execute_def)
next
  case (Some rep)
  have "h \<notin> strip_prefix ` set (takeWhile (\<lambda>d. PStr d \<in> set rep) ds)"
    using assms(2) takeWhile_subset[of "\<lambda>d. PStr d \<in> set rep" ds] by blast
  then show ?thesis by (simp add: gc_execute_abs[OF assms(1) Some] spec_delete_def)
qed

text \<open>The blobs an image consists of, read off its manifest: the digest of its config and those of its layers.\<close>

definition names_blob :: "pyval \<Rightarrow> string \<Rightarrow> bool" where
  "names_blob m d =
     (\<exists>mm. m = PDict mm
        \<and> ((\<exists>c. dget mm ''config'' = Some (PDict c) \<and> dget c ''digest'' = Some (PStr d))
          \<or> (\<exists>ls l. dget mm ''layers'' = Some (PList ls) \<and> PDict l \<in> set ls \<and> dget l ''digest'' = Some (PStr d))))"

text \<open>The digest of a part of a manifest, if it has one.\<close>

definition part_digest :: "pyval \<Rightarrow> pyval list res" where
  "part_digest v = rbind (vin ''digest'' v) (\<lambda>h. if h then rbind (vindex v ''digest'') (\<lambda>d. Inr [d]) else Inr [])"

lemma part_digest_iff: "part_digest v = Inr ds \<Longrightarrow> x \<in> set ds \<longleftrightarrow> (\<exists>d. v = PDict d \<and> dget d ''digest'' = Some x)"
  by (cases v) (auto simp: part_digest_def vin_def vindex_def rbind_Inr_iff dindex_Inr_iff split: if_splits)

lemma needed_digests_parts:
  "needed_digests m = rbind (vget m ''config'' (PDict [])) (\<lambda>config. rbind (part_digest config) (\<lambda>cfg.
     rbind (vget m ''layers'' (PList [])) (\<lambda>ls. rbind (viter ls) (\<lambda>layers. rbind (rmap part_digest layers) (\<lambda>lds. Inr (cfg @ concat lds))))))"
proof -
  have assoc: "rbind (rbind a f) g = rbind a (\<lambda>x. rbind (f x) g)" for a :: "'a res" and f :: "'a \<Rightarrow> 'b res" and g :: "'b \<Rightarrow> 'c res"
    by (cases a) simp_all
  show ?thesis unfolding needed_digests_def part_digest_def assoc ..
qed

lemma needed_digests_names:
  assumes "needed_digests m = Inr needed"
  shows "PStr d \<in> set needed \<longleftrightarrow> names_blob m d"
proof -
  from assms obtain mm config cfg ls layers lds where m: "m = PDict mm" "config = dget_or mm ''config'' (PDict [])"
    "part_digest config = Inr cfg" "ls = dget_or mm ''layers'' (PList [])" "viter ls = Inr layers"
    "rmap part_digest layers = Inr lds" "needed = cfg @ concat lds"
    unfolding needed_digests_parts by (auto simp: rbind_Inr_iff vget_def split: pyval.splits)
  have "PStr d \<in> set cfg \<longleftrightarrow> (\<exists>c. dget mm ''config'' = Some (PDict c) \<and> dget c ''digest'' = Some (PStr d))"
    using part_digest_iff[OF m(3), of "PStr d"] by (auto simp: m(2) dget_or_def split: option.splits)
  moreover have "PStr d \<in> set (concat lds) \<longleftrightarrow> (\<exists>l. PDict l \<in> set layers \<and> dget l ''digest'' = Some (PStr d))"
    using m(6)
  proof (induction layers arbitrary: lds)
    case (Cons v vs)
    then obtain x xs where x: "part_digest v = Inr x" "rmap part_digest vs = Inr xs" "lds = x # xs" by (auto simp: rbind_Inr_iff)
    with Cons.IH[OF x(2)] part_digest_iff[OF x(1), of "PStr d"] show ?case by auto
  qed simp
  moreover have "PDict l \<in> set layers \<longleftrightarrow> (\<exists>ls'. dget mm ''layers'' = Some (PList ls') \<and> PDict l \<in> set ls')" for l
    using m(5) by (auto simp: m(4) dget_or_def viter_def split: option.splits pyval.splits)
  ultimately show ?thesis by (auto simp: m(1,7) names_blob_def)
qed

text \<open>The entries of a report for the image of a cached file.\<close>

definition listed_image :: "string list \<Rightarrow> pyval \<Rightarrow> bool" where
  "listed_image parts e =
     (vindex e ''image'' = Inr (PStr (fst (impact_image parts))) \<and> vindex e ''platform'' = Inr (PStr (snd (impact_image parts))))"

lemma impact_entry_spec:
  assumes "impact_entry s ds (parts, JsonFile m) = Inr es"
  shows "if \<exists>d \<in> set ds. names_blob m d
    then \<exists>e bs. es = [e] \<and> listed_image parts e \<and> vindex e ''missing_blobs'' = Inr (PList bs) \<and> set bs = {PStr d | d. d \<in> set ds \<and> names_blob m d}
    else es = []"
proof -
  from assms obtain needed where n: "needed_digests m = Inr needed" by (auto simp: impact_entry_def rbind_Inr_iff)
  have a: "set (filter (in_digests ds) needed) = {PStr d | d. d \<in> set ds \<and> names_blob m d}"
  proof (intro set_eqI iffI)
    fix x
    assume "x \<in> set (filter (in_digests ds) needed)"
    then have "in_digests ds x" "x \<in> set needed" by simp_all
    then obtain d where "x = PStr d" "d \<in> set ds" "PStr d \<in> set needed" by (auto simp: in_digests_def split: pyval.splits)
    then show "x \<in> {PStr d | d. d \<in> set ds \<and> names_blob m d}" using needed_digests_names[OF n] by blast
  qed (use needed_digests_names[OF n] in \<open>auto simp: in_digests_def\<close>)
  then have e: "filter (in_digests ds) needed = [] \<longleftrightarrow> \<not> (\<exists>d \<in> set ds. names_blob m d)"
  proof -
    have "filter (in_digests ds) needed = [] \<longleftrightarrow> set (filter (in_digests ds) needed) = {}" by (simp only: set_empty)
    then show ?thesis unfolding a by blast
  qed
  show ?thesis
  proof (cases "filter (in_digests ds) needed = []")
    case True
    with assms n e show ?thesis by (auto simp: impact_entry_def rbind_Inr_iff)
  next
    case False
    obtain k where es: "es = [PDict [(''image'', PStr (fst (impact_image parts))), (''platform'', PStr (snd (impact_image parts))),
        (''missing_blobs'', PList (filter (in_digests ds) needed)), (''missing_count'', PInt (int (length (filter (in_digests ds) needed)))),
        (''total_blobs'', PInt (int (length needed))), (''missing_size'', PInt k)]]"
      using assms False unfolding impact_entry_def prod.case jfile.case n rbind.simps Let_def rbind_Inr_iff by (simp only: if_False rbind_Inr_iff) blast
    have named: "\<exists>d \<in> set ds. names_blob m d" using False e by blast
    show ?thesis
      unfolding if_P[OF named] a[symmetric] es listed_image_def
      by (intro exI conjI) (rule refl | simp only: vindex_PDict dindex_def map_of.simps fst_conv snd_conv fun_upd_apply | simp)+
  qed
qed

text \<open>
  C23. The impact report misses no image: every cached manifest that names a blob to be deleted as its config or as
  one of its layers is in the report, with exactly the blobs it loses; and an image that is not in the
  report keeps every blob its manifest names when the digests are deleted, if digests are written with their
  algorithm.
\<close>

theorem gc_impact_complete:
  assumes "reachable p s" "gc_impact_report s ds = Inr impact" "st_manifests s = Some ms"
    and "(parts, JsonFile m) \<in> set ms" "parts \<noteq> []" "endswith (last parts) ''.json''"
  shows "((\<exists>d \<in> set ds. names_blob m d) \<longrightarrow>
        (\<exists>e \<in> set impact. listed_image parts e
          \<and> (\<exists>bs. vindex e ''missing_blobs'' = Inr (PList bs) \<and> set bs = {PStr d | d. d \<in> set ds \<and> names_blob m d})))
    \<and> ((\<forall>e \<in> set impact. \<not> listed_image parts e) \<longrightarrow> (\<forall>d \<in> set ds. startswith d ''sha256:'') \<longrightarrow>
        (\<forall>d. names_blob m d \<longrightarrow> startswith d ''sha256:'' \<longrightarrow> has_blob s d \<longrightarrow> has_blob (snd (gc_execute s ds op)) d))"
proof -
  note inv = reachable_inv[OF assms(1)]
  obtain ess where ess: "rmap (impact_entry s ds)
      (filter (\<lambda>(parts, f). parts \<noteq> [] \<and> endswith (last parts) ''.json'') ms) = Inr ess" "impact = concat ess"
    using assms(2,3) by (auto simp: gc_impact_report_def rbind_Inr_iff)
  have "(parts, JsonFile m) \<in> set (filter (\<lambda>(parts, f). parts \<noteq> [] \<and> endswith (last parts) ''.json'') ms)"
    using assms(4-6) by simp
  then obtain es where es0: "impact_entry s ds (parts, JsonFile m) = Inr es" "es \<in> set ess"
    using rmap_Inr_in[OF ess(1)] by blast
  then have es: "impact_entry s ds (parts, JsonFile m) = Inr es" "set es \<subseteq> set impact" by (auto simp: ess(2))
  note spec = impact_entry_spec[OF es(1)]
  have kept: "has_blob (snd (gc_execute s ds op)) d"
    if "\<forall>e \<in> set impact. \<not> listed_image parts e" "\<forall>d \<in> set ds. startswith d ''sha256:''" "names_blob m d" "startswith d ''sha256:''" "has_blob s d" for d
  proof -
    have "\<not> (\<exists>d \<in> set ds. names_blob m d)"
    proof
      assume "\<exists>d \<in> set ds. names_blob m d"
      with spec obtain e where "es = [e]" "listed_image parts e" by auto
      with es(2) that(1) show False by simp
    qed
    then have "d \<notin> set ds" using that(3) by blast
    then have "strip_prefix d \<notin> strip_prefix ` set ds" using that(2,4) by (auto simp: strip_prefix_inject)
    then show ?thesis
      using that(5) gc_execute_keeps[OF inv] by (simp add: has_blob_abs[OF gc_execute_inv[OF inv]] has_blob_abs[OF inv])
  qed
  have "\<exists>e \<in> set impact. listed_image parts e
      \<and> (\<exists>bs. vindex e ''missing_blobs'' = Inr (PList bs) \<and> set bs = {PStr d | d. d \<in> set ds \<and> names_blob m d})" if "\<exists>d \<in> set ds. names_blob m d"
  proof -
    from spec that obtain e bs where "es = [e]" "listed_image parts e" "vindex e ''missing_blobs'' = Inr (PList bs)"
      "set bs = {PStr d | d. d \<in> set ds \<and> names_blob m d}" by (simp only: if_True) blast
    with es(2) show ?thesis by (intro bexI[of _ e] conjI exI[of _ bs]) simp_all
  qed
  with kept show ?thesis by (intro conjI impI allI) simp_all
qed

text \<open>On a store of the daemon the size of any blobs is computed without an error.\<close>

lemma meta_size_ok:
  assumes "store_inv s"
  shows "\<exists>n. meta_size s d acc = Inr n"
proof (cases "dget (st_meta s) (sidecar_name (strip_prefix d))")
  case None
  then show ?thesis by (simp add: meta_size_def get_metadata_def)
next
  case (Some f)
  then have "sidecar_ok (sidecar_name (strip_prefix d)) f" using store_invD(2)[OF assms] by (simp add: meta_ok_def)
  with Some show ?thesis by (auto simp: meta_size_def get_metadata_def sidecar_ok_def dget_or_def)
qed

lemma affected_size_ok: "store_inv s \<Longrightarrow> \<exists>n. affected_size s ds acc = Inr n"
proof (induction ds arbitrary: acc)
  case (Cons d ds)
  show ?case
  proof (cases d)
    case (PStr x)
    obtain n where "meta_size s x acc = Inr n" using meta_size_ok[OF Cons.prems] by blast
    with Cons PStr show ?thesis by simp
  qed (use Cons in simp_all)
qed simp

lemma demo_reported_simps:
  "st_manifests demo_reported = Some [(demo_parts, JsonFile demo_manifest)]" "has_blob demo_reported demo_digest"
proof -
  show "st_manifests demo_reported = Some [(demo_parts, JsonFile demo_manifest)]"
  proof (rule demo_report)
    fix rep
    assume r: "demo_reported = demo_manifests\<lparr>st_gc_report := Some rep\<rparr>"
    show ?thesis unfolding r by (simp add: demo_manifests_def)
  qed
  show "has_blob demo_reported demo_digest"
    by (simp add: has_blob_abs[OF reachable_inv[OF demo_reported_reachable]] demo_reported_abs)
qed

lemma demo_impact: "\<exists>impact. gc_impact_report demo_reported [demo_digest] = Inr impact"
proof -
  have n: "needed_digests demo_manifest = Inr [PStr demo_digest]"
    by (simp add: needed_digests_def demo_manifest_def dget_or_def viter_def vin_def)
  obtain k where "affected_size demo_reported [PStr demo_digest] 0 = Inr k"
    using affected_size_ok[OF reachable_inv[OF demo_reported_reachable]] by blast
  then have "\<exists>es. impact_entry demo_reported [demo_digest] (demo_parts, JsonFile demo_manifest) = Inr es"
    by (simp add: impact_entry_def n in_digests_def del: affected_size.simps)
  then show ?thesis by (auto simp: gc_impact_report_def demo_reported_simps)
qed

theorem gc_impact_complete_witness:
  "\<exists>impact e. gc_impact_report demo_reported [demo_digest] = Inr impact \<and> e \<in> set impact \<and> listed_image demo_parts e
     \<and> vindex e ''image'' = Inr (PStr ''docker.io/library/nginx:latest'')
     \<and> (\<exists>bs. vindex e ''missing_blobs'' = Inr (PList bs) \<and> set bs = {PStr demo_digest})
     \<and> \<not> has_blob (snd (gc_execute demo_reported [demo_digest] ''op'')) demo_digest"
proof -
  obtain impact where i: "gc_impact_report demo_reported [demo_digest] = Inr impact" using demo_impact by blast
  have p: "demo_parts \<noteq> []" "endswith (last demo_parts) ''.json''" by (simp_all add: demo_parts_def endswith_def)
  have n: "names_blob demo_manifest demo_digest" by (simp add: names_blob_def demo_manifest_def)
  then have "{PStr d | d. d \<in> set [demo_digest] \<and> names_blob demo_manifest d} = {PStr demo_digest}" by auto
  with gc_impact_complete[OF demo_reported_reachable i demo_reported_simps(1) _ p, of demo_manifest "''op''"] n
  obtain e where e: "e \<in> set impact" "listed_image demo_parts e"
    "\<exists>bs. vindex e ''missing_blobs'' = Inr (PList bs) \<and> set bs = {PStr demo_digest}" by (elim meta_impE) (simp, auto)
  have image: "fst (impact_image demo_parts) = ''docker.io/library/nginx:latest''" by code_simp
  have gone: "abs_store (snd (gc_execute demo_reported [demo_digest] ''op'')) (strip_prefix demo_digest) = None"
  proof (rule demo_report)
    fix rep
    assume r: "demo_reported = demo_manifests\<lparr>st_gc_report := Some rep\<rparr>" "set rep = {PStr demo_digest}"
    have "st_gc_report demo_reported = Some rep" unfolding r(1) by simp
    from gc_execute_abs[OF reachable_inv[OF demo_reported_reachable] this, of "[demo_digest]"] r(2)
    show ?thesis by (simp add: spec_delete_def restrict_map_def)
  qed
  then have "\<not> has_blob (snd (gc_execute demo_reported [demo_digest] ''op'')) demo_digest"
    by (simp add: has_blob_abs[OF gc_execute_inv[OF reachable_inv[OF demo_reported_reachable]]])
  with i e image show ?thesis by (auto simp: listed_image_def)
qed

section \<open>Integrity\<close>

lemma checked_blobs_set:
  assumes "distinct (dkeys (st_blobs s))"
  shows "(n, b) \<in> set (checked_blobs s) \<longleftrightarrow> file_bytes (st_blobs s) n = Some b \<and> \<not> startswith n ''.''"
proof -
  have "(n, b) \<in> set (concat (map (\<lambda>(n, nd). case node_bytes nd of
        Some b \<Rightarrow> if startswith n ''.'' then [] else [(n, b)] | None \<Rightarrow> []) d)) \<longleftrightarrow>
      (\<exists>nd. (n, nd) \<in> set d \<and> node_bytes nd = Some b \<and> \<not> startswith n ''.'')" for d
  proof (induction d)
    case (Cons x d)
    have "(n, b) \<in> set (case node_bytes nd of Some b \<Rightarrow> if startswith k ''.'' then [] else [(k, b)] | None \<Rightarrow> [])
        \<longleftrightarrow> k = n \<and> node_bytes nd = Some b \<and> \<not> startswith n ''.''" for k nd
      by (auto split: option.split)
    with Cons show ?case by (cases x) auto
  qed simp
  then have "(n, b) \<in> set (checked_blobs s) \<longleftrightarrow>
      (\<exists>nd. (n, nd) \<in> set (st_blobs s) \<and> node_bytes nd = Some b \<and> \<not> startswith n ''.'')"
    unfolding checked_blobs_def .
  also have "\<dots> \<longleftrightarrow> file_bytes (st_blobs s) n = Some b \<and> \<not> startswith n ''.''"
    unfolding in_set_dget[OF assms] file_bytes_def by (auto simp: bind_eq_Some_conv simp del: map_of_eq_Some_iff)
  finally show ?thesis .
qed

text \<open>
  Verification, on a directory in any state, counts every file once and lists exactly the
  files whose contents do not hash to their name.
\<close>

theorem verify_exact:
  assumes "distinct (dkeys (st_blobs s))"
  shows "v_total (verify_store s) = v_ok (verify_store s) + v_corrupted (verify_store s)
    \<and> set (v_corrupted_digests (verify_store s)) = {''sha256:'' @ n | n.
        \<not> startswith n ''.'' \<and> (\<exists>b. file_bytes (st_blobs s) n = Some b \<and> sha256_hex b \<noteq> n)}"
proof
  have "length xs = length (filter (\<lambda>(n, b). sha256_hex b = n) xs) + length (filter (\<lambda>(n, b). sha256_hex b \<noteq> n) xs)"
    for xs :: "(string \<times> bytes) list"
    by (induction xs) auto
  from this[of "checked_blobs s"]
  show "v_total (verify_store s) = v_ok (verify_store s) + v_corrupted (verify_store s)"
    by (simp add: verify_store_def Let_def)
  show "set (v_corrupted_digests (verify_store s)) = {''sha256:'' @ n | n.
        \<not> startswith n ''.'' \<and> (\<exists>b. file_bytes (st_blobs s) n = Some b \<and> sha256_hex b \<noteq> n)}"
  proof -
    have "set (v_corrupted_digests (verify_store s)) =
        {''sha256:'' @ n | n. \<exists>b. (n, b) \<in> set (checked_blobs s) \<and> sha256_hex b \<noteq> n}"
      by (force simp: verify_store_def Let_def simp del: append.simps)
    then show ?thesis unfolding checked_blobs_set[OF assms] by blast
  qed
qed

theorem verify_exact_witness:
  "''sha256:00'' \<in> set (v_corrupted_digests (verify_store ((empty_disk ''/var'')\<lparr>st_blobs := [(''00'', RegFile ''x'')]\<rparr>)))"
proof -
  have "sha256_hex ''x'' \<noteq> ''00''" using length_sha256_hex[of "''x''"] by force
  moreover have "''sha256:00'' = ''sha256:'' @ ''00''" by simp
  ultimately show ?thesis
    using verify_exact[of "(empty_disk ''/var'')\<lparr>st_blobs := [(''00'', RegFile ''x'')]\<rparr>"]
    by (auto simp: file_bytes_def empty_disk_def simp del: append.simps)
qed

text \<open>
  In a reachable state verification reports no corruption, and counts every blob of the store as intact.
\<close>

theorem verify_reachable:
  assumes "reachable p s"
  shows "verify_store s = \<lparr>v_total = length (st_blobs s), v_ok = length (st_blobs s), v_corrupted = 0, v_corrupted_digests = []\<rparr>"
proof -
  note ok = store_invD(1)[OF reachable_inv[OF assms]]
  have dist: "distinct (dkeys (st_blobs s))" using ok by (simp add: blobs_ok_def)
  have one: "(case node_bytes nd of Some b \<Rightarrow> if startswith n ''.'' then [] else [(n, b)] | None \<Rightarrow> []) = [(n, the (node_bytes nd))]
      \<and> sha256_hex (the (node_bytes nd)) = n"
    if mem: "(n, nd) \<in> set (st_blobs s)" for n nd
  proof -
    obtain b where b: "nd = RegFile b" "sha256_hex b = n"
      using blobs_okD[OF ok in_set_dget[OF dist, THEN iffD1, OF mem]] by blast
    have "\<not> startswith (sha256_hex b) ''.''"
    proof
      assume "startswith (sha256_hex b) ''.''"
      then have "CHR ''.'' \<in> set (sha256_hex b)" by (auto simp: startswith_iff)
      then show False using set_sha256_hex[of b] by (auto simp: hex_chars_def)
    qed
    with b show ?thesis by simp
  qed
  have cb: "checked_blobs s = map (\<lambda>(n, nd). (n, the (node_bytes nd))) (st_blobs s)"
  proof -
    have "map (\<lambda>(n, nd). case node_bytes nd of Some b \<Rightarrow> if startswith n ''.'' then [] else [(n, b)] | None \<Rightarrow> []) (st_blobs s)
        = map (\<lambda>x. [case x of (n, nd) \<Rightarrow> (n, the (node_bytes nd))]) (st_blobs s)"
      using one by (intro map_cong) auto
    then show ?thesis unfolding checked_blobs_def by (simp only: concat_map_singleton)
  qed
  have good: "filter (\<lambda>(n, b). sha256_hex b = n) (checked_blobs s) = checked_blobs s"
    "filter (\<lambda>(n, b). sha256_hex b \<noteq> n) (checked_blobs s) = []"
    unfolding cb using one by (auto simp: filter_id_conv filter_empty_conv)
  show ?thesis unfolding verify_store_def Let_def good by (simp add: cb)
qed

theorem verify_reachable_witness: "v_corrupted (verify_store demo_store) = 0"
  by (simp add: verify_reachable[OF demo_reachable])

section \<open>Large blobs\<close>

text \<open>
  A new blob longer than one \<open>write\<close> call transfers is cut: the import succeeds, but only the
  first 0x7ffff000 bytes are stored under the digest of the whole.
\<close>

theorem import_blob_cut:
  assumes "reachable p s" "now < max_instant" "\<not> has_blob s dg"
    and "sha256_hex data = strip_prefix dg" "max_rw_count < length data"
  shows "\<exists>path. fst (import_blob s now data dg mt r) = Inr path
    \<and> file_bytes (st_blobs (snd (import_blob s now data dg mt r))) (strip_prefix dg) = Some (take max_rw_count data)
    \<and> take max_rw_count data \<noteq> data"
proof -
  note inv = reachable_inv[OF assms(1)]
  let ?h = "strip_prefix dg"
  have none: "dget (st_blobs s) ?h = None" "\<not> entry_exists (st_blobs s) ?h"
    using assms(3) blobs_ok_entry[OF store_invD(1)[OF inv], of ?h] by (auto simp: has_blob_def)
  let ?s1 = "s\<lparr>st_blobs := dset (st_blobs s) ?h (RegFile (take max_rw_count data))\<rparr>"
  have "meta_ok (st_meta ?s1)" using store_invD(2)[OF inv] by simp
  from write_sidecar_ok[OF this assms(2), of ?h "int (length data)" mt r] obtain f where
    "write_sidecar ?s1 now ?h (int (length data)) mt r = (Inr (), ?s1\<lparr>st_meta := dset (st_meta ?s1) (sidecar_name ?h) f\<rparr>)"
    by blast
  then have "import_blob s now data dg mt r =
      (Inr (blob_path s ?h), ?s1\<lparr>st_meta := dset (st_meta s) (sidecar_name ?h) f\<rparr>)"
    using none assms(4) by (simp add: import_blob_def Let_def os_write_def blob_path_def)
  moreover have "length (take max_rw_count data) \<noteq> length data" using assms(5) by simp
  ultimately show ?thesis by (auto simp: file_bytes_update)
qed

theorem import_blob_cut_witness:
  "let data = replicate (Suc max_rw_count) CHR ''x''; s = store_init (empty_disk ''/var'') in
   \<exists>path. fst (import_blob s 7 data (''sha256:'' @ sha256_hex data) ''t'' None) = Inr path
    \<and> file_bytes (st_blobs (snd (import_blob s 7 data (''sha256:'' @ sha256_hex data) ''t'' None)))
        (strip_prefix (''sha256:'' @ sha256_hex data)) = Some (take max_rw_count data)
    \<and> take max_rw_count data \<noteq> data"
  unfolding Let_def
  by (rule import_blob_cut[OF reachable.init])
    (simp_all add: max_instant_def has_blob_def entry_exists_def store_init_def empty_disk_def
      del: append.simps replicate.simps take_replicate)

end
