(* ===== verification/Handler_Routes_Props.thy ===== *)
theory Handler_Routes_Props
  imports Handler_Routes
begin

text \<open>
  Access control of the handler: an admin endpoint is reached only with a sufficient token when
  the request path is one the URL parser leaves alone, and without any token when it is not.
\<close>

text \<open>The level each endpoint requires.\<close>

fun route_level :: "route \<Rightarrow> level option" where
  "route_level AdminStatus = Some Readonly"
| "route_level AdminHealth = Some Readonly"
| "route_level AdminGcReport = Some Readonly"
| "route_level AdminLogs = Some Readonly"
| "route_level AdminAnalyze = Some Admin"
| "route_level AdminGenerateManifest = Some Admin"
| "route_level AdminImport = Some Admin"
| "route_level AdminImportPut = Some Admin"
| "route_level AdminGcImpact = Some Admin"
| "route_level AdminGcExecute = Some Admin"
| "route_level _ = None"

text \<open>A request whose path information is plain; the query string may hold anything.\<close>

definition plain_request :: "http_request \<Rightarrow> string \<Rightarrow> bool" where
  "plain_request rq p = (plain_path p \<and> (rq_path rq = p \<or> (\<exists>q. rq_path rq = p @ ''?'' @ q)))"

lemma plain_path_facts:
  assumes "plain_path p"
  obtains cs where "p = CHR ''/'' # cs" "CHR ''?'' \<notin> set p" "CHR ''#'' \<notin> set p" "CHR '';'' \<notin> set p" "\<forall>x \<in> set p. 32 < code x"
proof -
  obtain cs where "p = CHR ''/'' # cs" using assms by (cases p) (auto simp: plain_path_def)
  then show thesis using that assms by (auto simp: plain_path_def list_all_iff)
qed

lemma url_path_query:
  assumes "plain_path p"
  shows "url_path ok (p @ ''?'' @ q) = Inr p"
proof -
  obtain cs where p: "p = CHR ''/'' # cs" "CHR ''?'' \<notin> set p" "CHR ''#'' \<notin> set p" "CHR '';'' \<notin> set p"
    "\<forall>x \<in> set p. 32 < code x" using assms by (rule plain_path_facts)
  define q' where "q' = filter (\<lambda>c. code c \<notin> {9, 10, 13}) q"
  have cl: "url_clean (p @ CHR ''?'' # q) = p @ CHR ''?'' # q'"
    using p(5) by (auto simp: url_clean_def lstrip_by_def p(1) q'_def filter_id_conv code_def)
  have al: "is_alpha CHR ''/'' = False" by code_simp
  have "split_scheme (p @ CHR ''?'' # q') = ('''', p @ CHR ''?'' # q')"
    by (simp add: split_scheme_def p(1) before_def Let_def al)
  moreover have "split_netloc ok (p @ CHR ''?'' # q') = Inr (p @ CHR ''?'' # q')"
  proof -
    have "\<not> startswith (p @ CHR ''?'' # q') ''//''" using assms p(1) by (cases cs) (auto simp: plain_path_def)
    then show ?thesis by (simp add: split_netloc_def)
  qed
  moreover have "before CHR ''?'' (before CHR ''#'' (p @ CHR ''?'' # q')) = p"
  proof -
    have "before CHR ''#'' (p @ CHR ''?'' # q') = p @ CHR ''?'' # before CHR ''#'' q'"
      using p(3) by (simp add: before_def takeWhile_notin)
    then show ?thesis using p(2) by simp
  qed
  moreover have "cut_params p = p"
  proof -
    have "takeWhile (\<lambda>c. c \<noteq> CHR '';'') (drop n p) = drop n p" for n
      using p(4) by (auto simp: takeWhile_eq_all_conv dest: in_set_dropD)
    then show ?thesis unfolding cut_params_def Let_def by (simp only: append_take_drop_id)
  qed
  ultimately show ?thesis by (simp add: url_path_def cl uses_params_def)
qed

lemma plain_request_paths:
  assumes "plain_request rq p"
  shows "url_path ok (rq_path rq) = Inr p" and "before CHR ''?'' (rq_path rq) = p"
proof -
  have p: "plain_path p" using assms by (simp add: plain_request_def)
  then have n: "CHR ''?'' \<notin> set p" by (rule plain_path_facts)
  show "url_path ok (rq_path rq) = Inr p"
    using assms url_path_plain[OF p] url_path_query[OF p] by (auto simp: plain_request_def)
  show "before CHR ''?'' (rq_path rq) = p"
    using assms n before_id[OF n] by (auto simp: plain_request_def)
qed

section \<open>With the contract\<close>

text \<open>A guard that is needed lets nothing through but what the check granted.\<close>

definition authenticated :: "server_state \<Rightarrow> http_request \<Rightarrow> level res" where
  "authenticated sv rq = authenticate_request (rq_path rq) (rq_command rq) (authorization rq) (sv_api_tokens sv)
     (sv_api_enabled sv) (sv_oci_restrict sv)"

lemma guarded_result:
  assumes "guarded needed sv now rq k = (Inr (r, l), sv')" "route_level r = Some x"
  shows "\<exists>l' sv1. k l' sv1 = (Inr (r, l), sv') \<and> (needed \<longrightarrow> authenticated sv rq = Inr l')
     \<and> authenticated sv1 rq = authenticated sv rq"
proof (cases needed)
  case False
  with assms show ?thesis by (auto simp: guarded_def)
next
  case True
  obtain ok rl where al: "is_allowed (sv_rate sv) now (rq_client rq) = (ok, rl)" by fastforce
  show ?thesis
  proof (cases "\<not> ok")
    case True
    with assms al \<open>needed\<close> show ?thesis by (auto simp: guarded_def check_auth_def)
  next
    case False
    show ?thesis
    proof (cases "authenticated sv rq")
      case (Inr l')
      then have "k l' (sv\<lparr>sv_rate := rl\<rparr>) = (Inr (r, l), sv')"
        using assms(1) al False \<open>needed\<close> by (simp add: guarded_def check_auth_def authenticated_def)
      moreover have "authenticated (sv\<lparr>sv_rate := rl\<rparr>) rq = authenticated sv rq" by (simp add: authenticated_def)
      ultimately show ?thesis using Inr by blast
    next
      case (Inl e)
      then have "check_auth sv now rq = (case e of AuthError s m c \<Rightarrow> (Inr (Refused (BadCredentials (nat s) m c)), sv\<lparr>sv_rate := rl\<rparr>)
          | _ \<Rightarrow> (Inl e, sv\<lparr>sv_rate := rl\<rparr>))"
        using al False by (simp add: check_auth_def authenticated_def split: exc.split)
      then show ?thesis using assms \<open>needed\<close> by (auto simp: guarded_def split: exc.splits)
    qed
  qed
qed

lemma oci_limited_level: "oci_limited path sv now rq l = (Inr (r, l'), sv') \<Longrightarrow> route_level r = None"
  by (auto simp: oci_limited_def oci_route_def Let_def split: prod.splits if_splits option.splits)

lemma admin_get_path: "admin_get_route p = Some r \<Longrightarrow> startswith p ''/admin/'' \<and> get_required_level p ''GET'' = route_level r"
  by (auto simp: admin_get_route_def get_required_level_def READONLY_ENDPOINTS_def split: if_splits)

lemma admin_post_path:
  "route_level (admin_post_route p) = Some r \<Longrightarrow> startswith p ''/admin/'' \<and> get_required_level p ''POST'' = Some r"
  by (auto simp: admin_post_route_def get_required_level_def READONLY_ENDPOINTS_def split: if_splits)

context access_policy
begin

lemma granted_at_least:
  assumes "required path meth = Some r" "grant path meth h = Inr l"
  shows "r \<le> l \<and> Local < l \<and> credential h l"
  using granted_level[OF assms] granted_credential[OF assms] credential_rank by blast

end

lemma not_v2: "startswith p ''/admin/'' \<Longrightarrow> \<not> startswith p ''/v2'' \<and> \<not> is_v2_root p"
  by (cases p; cases "tl p") (auto simp: is_v2_root_def)

text \<open>An admin endpoint's level is required of the path, and the level returned is the one granted.\<close>

lemma dispatch_admin:
  assumes "plain_request rq p" "dispatch ok sv now rq = (Inr (route, l), sv')" "route_level route = Some r"
  shows "authenticated sv rq = Inr l \<and> required_level oci (rq_path rq) (rq_command rq) = Some r"
proof -
  note u = plain_request_paths(1)[OF assms(1), of ok]
  have req: "required_level oci (rq_path rq) m = get_required_level p m" if "startswith p ''/admin/''" for m
    using plain_request_paths(2)[OF assms(1)] not_v2[OF that] by (simp add: required_level_def)
  consider (get) "rq_command rq = ''GET''" | (head) "rq_command rq = ''HEAD''" | (post) "rq_command rq = ''POST''"
    | (put) "rq_command rq = ''PUT''"
    using assms(2,3) by (auto simp: dispatch_def split: if_splits)
  then show ?thesis
  proof cases
    case get
    then have "do_GET ok sv now rq = (Inr (route, l), sv')" using assms(2) by (simp add: dispatch_def)
    from guarded_result[OF this[unfolded do_GET_def u sum.case] assms(3)]
    obtain l1 sv1 where s: "(if is_v2_root p then (Inr (V2Root, l1), sv1)
        else guarded (startswith p ''/admin/'') sv1 now rq (\<lambda>l' sv.
          let l = (if startswith p ''/admin/'' then l' else l1) in
          case admin_get_route p of Some r \<Rightarrow> (Inr (r, l), sv) | None \<Rightarrow> oci_limited p sv now rq l)) = (Inr (route, l), sv')"
      "authenticated sv1 rq = authenticated sv rq" by blast
    have "\<not> is_v2_root p" using s(1) assms(3) by auto
    from guarded_result[OF s(1)[unfolded if_not_P[OF this]] assms(3)]
    obtain l2 sv2 where t: "(let l = (if startswith p ''/admin/'' then l2 else l1) in
          case admin_get_route p of Some r \<Rightarrow> (Inr (r, l), sv2) | None \<Rightarrow> oci_limited p sv2 now rq l) = (Inr (route, l), sv')"
      "startswith p ''/admin/'' \<longrightarrow> authenticated sv1 rq = Inr l2" by blast
    from t(1) assms(3) have g: "admin_get_route p = Some route"
      by (auto simp: Let_def dest: oci_limited_level split: option.splits)
    with t s(2) admin_get_path[OF g] assms(3) req get show ?thesis by (auto simp: Let_def)
  next
    case head
    then have "do_HEAD ok sv now rq = (Inr (route, l), sv')" using assms(2) by (simp add: dispatch_def)
    from guarded_result[OF this[unfolded do_HEAD_def u sum.case] assms(3)]
    obtain l1 sv1 where "(if is_v2_root p then (Inr (V2Root, l1), sv1) else oci_limited p sv1 now rq l1) = (Inr (route, l), sv')"
      by blast
    with assms(3) have False by (auto dest: oci_limited_level split: if_splits)
    then show ?thesis ..
  next
    case post
    then have "do_POST ok sv now rq = (Inr (route, l), sv')" using assms(2) by (simp add: dispatch_def)
    from guarded_result[OF this[unfolded do_POST_def u sum.case] assms(3)]
    have s: "route = admin_post_route p" "startswith p ''/admin/'' \<longrightarrow> authenticated sv rq = Inr l" by auto
    with admin_post_path[of p r] assms(3) req post show ?thesis by auto
  next
    case put
    then have "do_PUT ok sv now rq = (Inr (route, l), sv')" using assms(2) by (simp add: dispatch_def)
    from guarded_result[OF this[unfolded do_PUT_def u sum.case] assms(3)]
    have s: "route = (if p = ''/admin/import'' then AdminImportPut else NotFound)"
      "startswith p ''/admin/'' \<longrightarrow> authenticated sv rq = Inr l" by auto
    from s(1) assms(3) have "p = ''/admin/import''" "r = Admin" by (auto split: if_splits)
    with s req[of "''PUT''"] put show ?thesis by (simp add: get_required_level_def READONLY_ENDPOINTS_def ADMIN_ENDPOINTS_def)
  qed
qed

lemma dispatch_guarded:
  assumes "plain_request rq p" "sv_api_enabled sv" "sv_api_tokens sv = Some ts"
    and "dispatch ok sv now rq = (Inr (route, l), sv')" "route_level route = Some r"
  shows "r \<le> l \<and> (\<exists>t. authorization rq = ''Bearer '' @ t \<and> t \<noteq> [] \<and> token_of ts l = Some (PStr t))"
proof -
  from dispatch_admin[OF assms(1,4,5), of "sv_oci_restrict sv"]
  have "required_level (sv_oci_restrict sv) (rq_path rq) (rq_command rq) = Some r"
    and "authenticate_request (rq_path rq) (rq_command rq) (authorization rq) (Some ts) True (sv_oci_restrict sv) = Inr l"
    using assms(2,3) by (simp_all add: authenticated_def)
  from tokens.granted_at_least[OF this] show ?thesis by (simp add: holds_token_def)
qed

text \<open>
  C4. With authentication on, a request whose path holds nothing the URL parser rewrites reaches an
  admin endpoint, whatever its query string, only when its bearer token is the configured one of
  the level it is granted, and that level is at least the one the endpoint requires.
\<close>

theorem admin_dispatch_guarded:
  assumes "plain_request rq p" "sv_api_enabled sv" "sv_api_tokens sv = Some ts"
    and "dispatch ok sv now rq = (Inr (route, l), sv')" "route_level route = Some r"
  shows "r \<le> l \<and> (\<exists>t. authorization rq = ''Bearer '' @ t \<and> t \<noteq> [] \<and> token_of ts l = Some (PStr t))"
  by (rule dispatch_guarded[OF assms])

definition demo_server :: server_state where
  "demo_server = \<lparr>sv_api_tokens = Some [(''readonly'', PStr ''ro''), (''admin'', PStr ''ad'')], sv_api_enabled = True,
     sv_oci_restrict = False, sv_rate = new_limiter RATE_LIMIT_MAX RATE_LIMIT_WINDOW,
     sv_oci_rate = new_limiter 200 RATE_LIMIT_WINDOW\<rparr>"

definition demo_request :: http_request where
  "demo_request = \<lparr>rq_path = ''/admin/gc/execute?x'', rq_command = ''POST'', rq_client = ''10.0.0.9'',
     rq_environ = [(''HTTP_AUTHORIZATION'', ''Bearer ad'')]\<rparr>"

theorem admin_dispatch_guarded_witness:
  "fst (dispatch (\<lambda>_. True) demo_server 0 demo_request) = Inr (AdminGcExecute, Admin) \<and> Admin \<le> Admin"
proof
  show a: "fst (dispatch (\<lambda>_. True) demo_server 0 demo_request) = Inr (AdminGcExecute, Admin)" by code_simp
  then have d: "dispatch (\<lambda>_. True) demo_server 0 demo_request
      = (Inr (AdminGcExecute, Admin), snd (dispatch (\<lambda>_. True) demo_server 0 demo_request))"
    by (metis prod.collapse)
  have "plain_path ''/admin/gc/execute''" by code_simp
  then have p: "plain_request demo_request ''/admin/gc/execute''" by (simp add: plain_request_def demo_request_def)
  have e: "sv_api_enabled demo_server" "sv_api_tokens demo_server = Some [(''readonly'', PStr ''ro''), (''admin'', PStr ''ad'')]"
    "route_level AdminGcExecute = Some Admin" by (simp_all add: demo_server_def)
  from admin_dispatch_guarded[OF p e(1,2) d e(3)] show "Admin \<le> Admin" by blast
qed

section \<open>Without it\<close>

text \<open>
  C38. The level is looked up under the raw request path and the endpoint under the parsed one. The
  parser drops a tab, so a POST of \<open>/<tab>admin/gc/execute\<close> reaches the deletion endpoint with no
  token at all, whatever the configured tokens and the headers of the request are.
\<close>

theorem tab_path_unauthenticated:
  assumes "rq_path rq = CHR ''/'' # CHR 0x09 # ''admin/gc/execute''" "rq_command rq = ''POST''"
    and "fst (is_allowed (sv_rate sv) now (rq_client rq))"
  shows "fst (dispatch ok sv now rq) = Inr (AdminGcExecute, Local)"
proof -
  have "plain_path ''/admin/gc/execute''" by code_simp
  then have u: "url_path ok (rq_path rq) = Inr ''/admin/gc/execute''"
    using url_path_tab[of "''admin/gc/execute''" ok] assms(1) by simp
  obtain rl where al: "is_allowed (sv_rate sv) now (rq_client rq) = (True, rl)"
    using assms(3) by (cases "is_allowed (sv_rate sv) now (rq_client rq)") auto
  have "get_required_level (rq_path rq) ''POST'' = None" unfolding assms(1) by code_simp
  moreover have "before CHR ''?'' (rq_path rq) = rq_path rq" "\<not> startswith (rq_path rq) ''/v2''"
    unfolding assms(1) by code_simp+
  ultimately have au: "authenticate_request (rq_path rq) ''POST'' h ts e oci = Inr Local" for h ts e oci
    by (simp add: authenticate_request_def split: option.split)
  show ?thesis
    by (simp add: dispatch_def do_POST_def u guarded_def check_auth_def al au assms(2) admin_post_route_def)
qed

theorem tab_path_unauthenticated_witness:
  "fst (dispatch (\<lambda>_. True) demo_server 0 (demo_request\<lparr>rq_path := CHR ''/'' # CHR 0x09 # ''admin/gc/execute'', rq_environ := []\<rparr>))
   = Inr (AdminGcExecute, Local)"
  by (rule tab_path_unauthenticated) (code_simp | simp add: demo_request_def)+

end
