(* ===== verification/Daemon.thy ===== *)
theory Daemon
  imports Handler_Admin Handler_OCI_Props Delivery Store_GC_Spec Handler_Routes_Props
begin

text \<open>
  The daemon as a whole: its steps are the requests it serves, the streams it sends and its restarts.
  Every step takes the store through steps of the store's own transition system, so what holds of
  every reachable store holds of the store of a running daemon.
\<close>

declare map_of_eq_Some_iff [simp del]

section \<open>Steps of the daemon\<close>

text \<open>A restart reads the store from disk; the uploads in progress are on disk too.\<close>

definition restarted :: "daemon \<Rightarrow> daemon" where
  "restarted D = (with_store D (store_init (dm_store D)))\<lparr>dm_last_analysis := None\<rparr>"

text \<open>What a daemon goes through: a request with its body in some surroundings, the sending of a blob, a restart.\<close>

datatype event =
    Request world settings nat int http_request bytes
  | Pull instant string nat
  | Restart server_state

inductive daemon_step :: "event \<Rightarrow> server_state \<times> daemon \<Rightarrow> server_state \<times> daemon \<Rightarrow> bool" where
  request: "serve W S dir_size sv monotonic D rq input = (x, sv', D') \<Longrightarrow>
     daemon_step (Request W S dir_size monotonic rq input) (sv, D) (sv', D')"
| pull: "daemon_step (Pull now digest n) (sv, D) (sv, with_store D (snd (blob_stream (dm_store D) now digest n)))"
| restart: "daemon_step (Restart sv') (sv, D) (sv', restarted D)"

text \<open>A run from an empty directory, with its events and the daemon each of them found.\<close>

inductive runs :: "string \<Rightarrow> (event \<times> daemon) list \<Rightarrow> server_state \<times> daemon \<Rightarrow> bool" for p where
  start: "runs p [] (sv, new_daemon (store_init (empty_disk p)))"
| step: "runs p tr d \<Longrightarrow> daemon_step ev d d' \<Longrightarrow> runs p (tr @ [(ev, snd d)]) d'"

inductive_cases daemon_stepE: "daemon_step ev (sv, D) d"

section \<open>What is assumed of the surroundings\<close>

text \<open>The clock stands before the end of the calendar, and directories are listed as some permutation.\<close>

definition sane_world :: "world \<Rightarrow> bool" where
  "sane_world W = (wd_now W < max_instant \<and> (\<forall>i. wd_clock W i < max_instant) \<and> listing (wd_ls W))"

definition sane_event :: "event \<Rightarrow> bool" where
  "sane_event ev = (case ev of Request W S dir_size monotonic rq input \<Rightarrow> sane_world W | Pull now digest n \<Rightarrow> now < max_instant | Restart sv \<Rightarrow> True)"

text \<open>
  The blobs in a response that opens are within what one write call stores; a request can carry a response
  as its body or as the end of one that is being uploaded.
\<close>

definition small_response :: "world \<Rightarrow> bytes \<times> bytes \<Rightarrow> bytes \<Rightarrow> bool" where
  "small_response W keys data =
     (\<forall>p t. response_tree (wd_aead W) (wd_tar W) (wd_py312 W) data (fst keys) (snd keys) p = Inr t \<longrightarrow>
        (\<forall>(h, b) \<in> response_blobs t. length b \<le> max_rw_count))"

definition small_request :: "world \<Rightarrow> settings \<Rightarrow> daemon \<Rightarrow> bytes \<Rightarrow> bool" where
  "small_request W S D input =
     (\<forall>keys n file. se_crypto_keys S = Some keys \<longrightarrow> file = [] \<or> file \<in> snd ` set (dm_uploads D) \<longrightarrow>
        small_response W keys (file @ take n input))"

definition small_event :: "event \<times> daemon \<Rightarrow> bool" where
  "small_event x = (case x of (Request W S dir_size monotonic rq input, D) \<Rightarrow> small_request W S D input | _ \<Rightarrow> True)"

section \<open>The store of the daemon\<close>

abbreviation store_steps :: "store \<Rightarrow> store \<Rightarrow> bool" where
  "store_steps \<equiv> store_step\<^sup>*\<^sup>*"

lemma reachable_steps: "store_steps s s' \<Longrightarrow> reachable p s \<Longrightarrow> reachable p s'"
  by (induction rule: rtranclp_induct) (auto intro: reachable.step)

lemma keeps_blobs_steps: "keeps_blobs s s' \<Longrightarrow> store_steps s s'"
  unfolding keeps_blobs_def by (auto intro: store_step.manifests)

lemma blob_stream_steps: "now < max_instant \<Longrightarrow> store_steps s (snd (blob_stream s now digest n))"
  using store_step.request[of now s digest "''pull''"]
  by (auto simp: blob_stream_def Let_def split: option.splits prod.splits sum.splits exc.splits error_kind.splits
    dest!: arg_cong[of _ _ snd])

lemma import_files_steps: "files_fit clock fs \<Longrightarrow> store_steps s (snd (import_files s clock i fs))"
proof (induction s clock i fs rule: import_files.induct)
  case (3 s clock i h data fs)
  from "3.prems" have ft: "files_fit clock fs" "fits (clock i) data" by (auto simp: files_fit_Cons)
  show ?case
  proof (cases "sha256_hex data = h")
    case False
    then show ?thesis using "3.IH"(1)[OF refl False ft(1)] by (simp add: Let_def case_prod_beta)
  next
    case True
    obtain q s1 where i: "import_blob s (clock i) data (''sha256:'' @ h) octet_stream None = (q, s1)" by fastforce
    have "store_step s (snd (import_blob s (clock i) data (''sha256:'' @ h) octet_stream None))"
      by (rule store_step.import[OF ft(2)])
    then have one: "store_step s s1" unfolding i by simp
    have "store_steps s1 (snd (import_files s1 clock (Suc i) fs))"
      using "3.IH"(2)[OF refl _ i[symmetric]] "3.IH"(3)[OF refl _ i[symmetric]] True ft(1) by (cases q) auto
    then have "store_steps s (snd (import_files s1 clock (Suc i) fs))" by (rule converse_rtranclp_into_rtranclp[where r = store_step, OF one])
    moreover have "snd (import_files s clock i ((h, TFile data) # fs)) = snd (import_files s1 clock (Suc i) fs)"
      using True by (cases q) (simp_all add: Let_def i case_prod_beta del: append.simps)
    ultimately show ?thesis by simp
  qed
qed (auto simp: files_fit_Cons)

lemma import_blobs_steps:
  assumes "\<forall>i. clock i < max_instant" "\<forall>(h, b) \<in> response_blobs t. length b \<le> max_rw_count"
  shows "store_steps s (snd (import_blobs s clock t))"
proof -
  have "files_fit clock (children t [''blobs'', ''sha256''])"
    using assms by (auto simp: files_fit_def fits_def in_children response_blobs_def)
  from import_files_steps[OF this, of s 0] show ?thesis
    by (auto simp: import_blobs_def case_prod_beta split: option.split tnode.split)
qed

lemma import_response_steps:
  assumes "\<forall>i. clock i < max_instant" "listing ls"
    and "\<And>t. response_tree A T py312 c aes_key hmac_key p = Inr t \<Longrightarrow> \<forall>(h, b) \<in> response_blobs t. length b \<le> max_rw_count"
  shows "store_steps (off_store off) (off_store (snd (import_response A T py312 ls clock off p c aes_key hmac_key wc)))"
proof (cases "response_tree A T py312 c aes_key hmac_key p")
  case (Inl e)
  then show ?thesis by (simp add: import_response_def response_tree_def)
next
  case (Inr t)
  have "response_blobs (ls t) = response_blobs t" by (simp add: response_blobs_def listing_set[OF assms(2)])
  with assms(3)[OF Inr] have blobs: "store_steps (off_store off) (snd (import_blobs (off_store off) clock (ls t)))"
    by (intro import_blobs_steps assms(1)) simp
  show ?thesis
  proof (cases "fetch_errors (ls t)")
    case (Inl e)
    with Inr show ?thesis by (simp add: import_response_def response_tree_def Let_def)
  next
    case errs: (Inr errs)
    obtain q s where b: "import_blobs (off_store off) clock (ls t) = (q, s)" by fastforce
    show ?thesis
    proof (cases q)
      case (Inl e)
      then show ?thesis using Inr errs b blobs by (simp add: import_response_def response_tree_def Let_def)
    next
      case (Inr r)
      from import_response_store[where ls = ls, OF \<open>response_tree A T py312 c aes_key hmac_key p = Inr t\<close> errs b[unfolded Inr]]
      have "store_steps s (off_store (snd (import_response A T py312 ls clock off p c aes_key hmac_key wc)))" by (rule keeps_blobs_steps)
      with blobs b show ?thesis by (metis rtranclp_trans snd_conv)
    qed
  qed
qed

section \<open>Requests\<close>

lemma with_store_simps [simp]:
  "dm_store (with_store D s) = s" "dm_uploads (with_store D s) = dm_uploads D" "dm_last_analysis (with_store D s) = dm_last_analysis D"
  by (simp_all add: with_store_def)

lemma gc_report_steps: "store_steps (dm_store D) (dm_store (snd (handle_admin_gc_report W D rq)))"
proof -
  have "dm_store (snd (handle_admin_gc_report W D rq)) = dm_store D
      \<or> (\<exists>n. dm_store (snd (handle_admin_gc_report W D rq)) = snd (gc_report (dm_store D) (wd_now W) n))"
  proof (cases "\<exists>v n. query_first (wd_bracket_ok W) (rq_path rq) ''inactive_days'' = Inr v \<and> py_int (case v of None \<Rightarrow> ''90'' | Some s \<Rightarrow> s) = Some n")
    case True
    then obtain v n where q: "query_first (wd_bracket_ok W) (rq_path rq) ''inactive_days'' = Inr v"
      "py_int (case v of None \<Rightarrow> ''90'' | Some s \<Rightarrow> s) = Some n" by blast
    obtain r s where g: "gc_report (dm_store D) (wd_now W) n = (r, s)" by fastforce
    have "dm_store (snd (handle_admin_gc_report W D rq)) = s"
      unfolding handle_admin_gc_report_def q(1) sum.case q(2) option.case g by (cases r) simp_all
    with g show ?thesis by (metis snd_conv)
  next
    case False
    then show ?thesis unfolding handle_admin_gc_report_def
      by (cases "query_first (wd_bracket_ok W) (rq_path rq) ''inactive_days''") auto
  qed
  then show ?thesis using store_step.report[of "dm_store D" "wd_now W"] by (metis r_into_rtranclp rtranclp.rtrancl_refl)
qed

lemma gc_execute_store:
  "dm_store (snd (handle_admin_gc_execute W D rq input)) = dm_store D
   \<or> (\<exists>ds op. dm_store (snd (handle_admin_gc_execute W D rq input)) = snd (gc_execute (dm_store D) ds op))"
proof -
  define P where "P x \<longleftrightarrow> dm_store (snd x) = dm_store D \<or> (\<exists>ds op. dm_store (snd x) = snd (gc_execute (dm_store D) ds op))" for x :: "response res \<times> daemon"
  have D: "P (r, D)" for r by (simp add: P_def)
  have G: "P (gc_answer D (gc_execute (dm_store D) ds op))" for ds op by (auto simp: P_def gc_answer_def)
  have "P (handle_admin_gc_execute W D rq input)"
    unfolding handle_admin_gc_execute_def by (auto simp only: D G split: sum.split pyval.split if_split)
  then show ?thesis by (simp only: P_def)
qed

lemma gc_execute_steps: "store_steps (dm_store D) (dm_store (snd (handle_admin_gc_execute W D rq input)))"
  using gc_execute_store[of W D rq input] store_step.delete[of "dm_store D"] by (metis r_into_rtranclp rtranclp.rtrancl_refl)

lemma analyze_store: "dm_store (snd (handle_admin_analyze W S D rq input)) = dm_store D"
  by (simp add: handle_admin_analyze_def Let_def split: sum.splits pyval.splits)

lemma generate_store: "dm_store (snd (handle_admin_generate_manifest W S D rq input)) = dm_store D"
  by (simp add: handle_admin_generate_manifest_def Let_def split: sum.splits pyval.splits option.splits prod.splits)

lemma run_import_steps:
  assumes "sane_world W" "small_response W keys data"
  shows "store_steps (dm_store D) (dm_store (snd (run_import W D p data keys)))"
proof -
  have "store_steps (dm_store D) (off_store (snd (import_response (wd_aead W) (wd_tar W) (wd_py312 W) (wd_ls W) (wd_clock W) (dm_offline D) p data
      (fst keys) (snd keys) True)))"
    by (rule import_response_steps) (use assms in \<open>auto simp: sane_world_def small_response_def\<close>)
  then show ?thesis by (simp add: run_import_def case_prod_beta)
qed

lemma import_steps:
  assumes "sane_world W" "small_request W S D input"
  shows "store_steps (dm_store D) (dm_store (snd (handle_admin_import W S D rq input)))"
proof -
  have small: "small_response W keys (take n input)" if "se_crypto_keys S = Some keys" for keys n
    using assms(2) that unfolding small_request_def by (metis append_Nil)
  have raw: "read_body W n input = Inr d \<Longrightarrow> d = take (nat n) input" for n d
    by (auto simp: read_body_def split: option.splits if_splits)
  show ?thesis
    using run_import_steps[OF assms(1) small, where D = D]
    by (auto simp: handle_admin_import_def split: sum.splits option.splits if_splits dest!: raw)
qed

text \<open>The body of an upload is kept in its file, behind what the old held or alone.\<close>

lemma upload_start_file: "upload_start D rq name = Inr (Inr old) \<Longrightarrow> old = [] \<or> old \<in> snd ` set (dm_uploads D)"
  by (auto simp: upload_start_def Let_def dget_or_def split: option.splits if_splits dest!: map_of_SomeD intro: rev_image_eqI)

lemma put_steps:
  assumes "sane_world W" "small_request W S D input"
  shows "store_steps (dm_store D) (dm_store (snd (handle_admin_import_put W S D rq input)))"
proof -
  have small: "small_response W keys (old @ take n input)"
    if "se_crypto_keys S = Some keys" "upload_start D rq name = Inr (Inr old)" for keys n name old
    using assms(2) that upload_start_file[OF that(2)] unfolding small_request_def by blast
  have written: "write_upload W D name old n input = (q, D') \<Longrightarrow>
      dm_store D' = dm_store D \<and> (\<forall>d. q = Inr d \<longrightarrow> d = old @ take (nat n) input)" for name old n q D'
    by (auto simp: write_upload_def read_body_def Let_def split: option.splits if_splits)
  have finish: "store_steps (dm_store D') (dm_store (snd (finish_upload W D' name hash data keys)))"
    if "small_response W keys data" for D' name hash data keys
    using run_import_steps[OF assms(1) that, of D']
    by (auto simp: finish_upload_def remove_upload_def split: prod.splits) (metis snd_conv)
  show ?thesis
    unfolding handle_admin_import_put_def Let_def
    by (auto simp: drained_def split: option.splits sum.splits prod.splits if_splits dest!: written intro!: finish small)
       (metis finish small)+
qed

lemmas endpoint_steps = gc_report_steps gc_execute_steps import_steps put_steps

lemma run_endpoint_steps:
  assumes "sane_world W" "small_request W S D input"
  shows "store_steps (dm_store D) (dm_store (snd (run_endpoint W S dir_size D rq input r)))"
  by (cases r) (simp_all add: run_endpoint_def Let_def case_prod_beta endpoint_steps assms analyze_store generate_store)

lemma serve_steps:
  assumes "sane_world W" "small_request W S D input" "serve W S dir_size sv monotonic D rq input = (x, sv', D')"
  shows "store_steps (dm_store D) (dm_store D')"
proof -
  obtain q sv1 where d: "dispatch (wd_bracket_ok W) sv monotonic rq = (q, sv1)" by fastforce
  show ?thesis
  proof (cases q)
    case (Inl e)
    with assms(3) d show ?thesis by (simp add: serve_def)
  next
    case (Inr r)
    obtain route l where "r = (route, l)" by (cases r)
    with Inr assms(3) d have "D' = snd (run_endpoint W S dir_size D rq input route)" by (auto simp: serve_def split: prod.splits)
    with run_endpoint_steps[OF assms(1,2)] show ?thesis by simp
  qed
qed

lemma daemon_step_store:
  "daemon_step ev (sv, D) d \<Longrightarrow> sane_event ev \<Longrightarrow> small_event (ev, D) \<Longrightarrow> store_steps (dm_store D) (dm_store (snd d))"
proof (erule daemon_stepE)
  fix W S dir_size monotonic rq input x sv' D'
  assume "ev = Request W S dir_size monotonic rq input" "d = (sv', D')" "serve W S dir_size sv monotonic D rq input = (x, sv', D')"
    "sane_event ev" "small_event (ev, D)"
  then show ?thesis using serve_steps by (simp add: sane_event_def small_event_def)
next
  fix now digest n
  assume "ev = Pull now digest n" "d = (sv, with_store D (snd (blob_stream (dm_store D) now digest n)))" "sane_event ev"
  then show ?thesis using blob_stream_steps by (simp add: sane_event_def)
next
  fix sv'
  assume "d = (sv', restarted D)"
  then show ?thesis using store_step.restart[of "dm_store D"] by (simp add: restarted_def)
qed

lemma runs_reachable:
  "runs p tr d \<Longrightarrow> list_all (sane_event \<circ> fst) tr \<Longrightarrow> list_all small_event tr \<Longrightarrow> reachable p (dm_store (snd d))"
proof (induction rule: runs.induct)
  case (start sv)
  then show ?case by (simp add: new_daemon_def reachable.init)
next
  case (step tr d ev d')
  then have "store_steps (dm_store (snd d)) (dm_store (snd d'))" using daemon_step_store[of ev "fst d" "snd d" d'] by simp
  with step show ?case using reachable_steps by simp
qed

lemma digest_re_prefix: "digest_re d \<Longrightarrow> ''sha256:'' @ strip_prefix d = d"
proof -
  assume "digest_re d"
  then have "startswith (dollar d) ''sha256:''" by (simp add: digest_re_def is_digest_def)
  moreover have "\<exists>r. d = dollar d @ r"
  proof (cases "d = []")
    case False
    then show ?thesis unfolding dollar_def by (metis append_Nil2 append_butlast_last_id)
  qed (simp add: dollar_def)
  ultimately obtain r where "d = ''sha256:'' @ r" unfolding startswith_iff by (metis append.assoc)
  then show ?thesis by (simp only: strip_prefix_digest)
qed


section \<open>A run\<close>

text \<open>One import request: a sealed response whose archive holds the one blob.\<close>

definition demo_world :: world where
  "demo_world = \<lparr>wd_now = 9, wd_clock = (\<lambda>i. 7), wd_disk = \<lparr>du_total = 10000, du_used = 0, du_free = 10000\<rparr>,
     wd_fs = \<lparr>fs_resolve = (\<lambda>p. p), fs_read = (\<lambda>p. None)\<rparr>, wd_tmp = ''/tmp/a'', wd_uuid = ''id'', wd_nonce = replicate 12 CHR ''n'',
     wd_aead = toy_aead, wd_tar = \<lparr>tar_pack = (\<lambda>now ms. []), tar_unpack = (\<lambda>b. Inr [demo_member])\<rparr>, wd_py312 = False,
     wd_yaml = (\<lambda>t. Inr PNone), wd_ls = (\<lambda>t. t), wd_set_order = (\<lambda>X. []), wd_bracket_ok = (\<lambda>b. True), wd_log = None, wd_cert = None,
     wd_broken = None\<rparr>"

definition demo_settings :: settings where
  "demo_settings = \<lparr>se_version = ''1'', se_crypto_keys = Some (replicate 32 CHR ''k'', ''hm''), se_source_id = ''site'', se_manifest_ttl = 0,
     se_start_time = None\<rparr>"

definition demo_sealed :: bytes where
  "demo_sealed = replicate 12 CHR ''n'' @ (CHR 0x0A # sign [] ''hm'') @ toy_tag (replicate 32 CHR ''k'')"

definition import_request :: http_request where
  "import_request = \<lparr>rq_path = ''/admin/import'', rq_command = ''POST'', rq_client = ''10.0.0.9'',
     rq_environ = [(''CONTENT_LENGTH'', ''93''), (''HTTP_AUTHORIZATION'', ''Bearer ad'')]\<rparr>"

lemma demo_sealed_facts: "seal toy_aead (replicate 12 CHR ''n'') [] (replicate 32 CHR ''k'') ''hm'' = Inr demo_sealed" "length demo_sealed = 93"
  by (simp_all add: seal_def encrypt_def Let_def toy_aead_def demo_sealed_def sign_facts sign_def hmac_sha256_def)

lemma demo_world_sane: "sane_world demo_world"
  by (simp add: sane_world_def demo_world_def max_instant_def listing_id)

lemma demo_response_tree: "response_tree toy_aead (wd_tar demo_world) False demo_sealed (replicate 32 CHR ''k'') ''hm'' p = Inr demo_tree"
proof -
  have "open_response toy_aead demo_sealed (replicate 32 CHR ''k'') ''hm'' p = Inr []"
    by (rule open_response_iff[THEN iffD2]) (rule seal_decrypt[OF toy_aead_inverse _ demo_sealed_facts(1)], simp)
  then show ?thesis using demo_extract by (simp add: response_tree_def extract_tar_def demo_world_def)
qed

lemma demo_world_small: "small_response demo_world keys data"
proof -
  have "response_tree A (wd_tar demo_world) False data k m p = Inr t \<Longrightarrow> t = demo_tree" for A k m p t
    using demo_extract by (auto simp: response_tree_def extract_tar_def demo_world_def rbind_Inr_iff)
  then show ?thesis using demo_tree_blobs(4) by (force simp: small_response_def demo_world_def)
qed

definition demo_start :: daemon where
  "demo_start = new_daemon (store_init (empty_disk ''/var''))"

lemma demo_imported:
  obtains s where "import_response toy_aead (wd_tar demo_world) False (\<lambda>t. t) (\<lambda>i. 7) demo_offline ''/tmp/a'' demo_sealed (replicate 32 CHR ''k'') ''hm'' True
      = (Inr \<lparr>is_imported = 1, is_skipped = 0, is_errors = [], is_update_deb = None\<rparr>, demo_offline\<lparr>off_store := s\<rparr>)"
    "file_bytes (st_blobs s) (sha256_hex demo_blob) = Some demo_blob"
proof -
  obtain n k es s where b: "import_blobs (off_store demo_offline) (\<lambda>i. 7) demo_tree = (Inr (n, k, es), s)"
    using import_blobs_dir[of demo_tree "off_store demo_offline" "\<lambda>i. 7"] by (auto simp: demo_tree_def)
  have c: "cache_manifests_from_response s (7 :: nat) demo_tree = (Inr (), s)"
    by (simp add: cache_manifests_from_response_def demo_tree_def below_def)
  have "\<forall>i. (7 :: nat) < max_instant" by (simp add: max_instant_def)
  from import_blobs_spec[OF demo_offline_store(1) response_tree_wf[OF demo_response_tree] this _ b]
  have n: "n = length (filter good_entry demo_tree)" "n + k = length (filter blob_entry demo_tree)" "length es = k"
    and f: "file_bytes (st_blobs s) (sha256_hex demo_blob) = Some demo_blob"
    using demo_tree_blobs demo_offline_store(2) by auto
  have "length (filter good_entry demo_tree) = 1" "length (filter blob_entry demo_tree) = 1"
    using demo_tree_blobs(3) by (simp, simp add: blob_entry_def demo_tree_def)
  then have q: "n = 1" "k = 0" "es = []" using n by simp_all
  show thesis
    by (rule that[OF _ f]) (use demo_response_tree[of "''/tmp/a''", unfolded response_tree_def] in
      \<open>simp add: import_response_def demo_tree_blobs(2) b q c extract_deb_update_def, simp add: demo_tree_def children_def\<close>)
qed

lemma demo_import:
  "\<exists>r sv D. serve demo_world demo_settings 0 demo_server 0 demo_start import_request demo_sealed = (Inr r, sv, D)
     \<and> rs_status r = 200 \<and> file_bytes (st_blobs (dm_store D)) (sha256_hex demo_blob) = Some demo_blob"
proof -
  have off: "dm_offline demo_start = demo_offline" by (simp add: demo_start_def new_daemon_def demo_offline_def)
  obtain s where i: "import_response toy_aead (wd_tar demo_world) False (\<lambda>t. t) (\<lambda>i. 7) demo_offline ''/tmp/a'' demo_sealed (replicate 32 CHR ''k'') ''hm'' True
      = (Inr \<lparr>is_imported = 1, is_skipped = 0, is_errors = [], is_update_deb = None\<rparr>, demo_offline\<lparr>off_store := s\<rparr>)"
    and f: "file_bytes (st_blobs s) (sha256_hex demo_blob) = Some demo_blob" by (rule demo_imported)
  obtain sv where d: "dispatch (\<lambda>b. True) demo_server 0 import_request = (Inr (AdminImport, Admin), sv)"
  proof -
    have "fst (dispatch (\<lambda>b. True) demo_server 0 import_request) = Inr (AdminImport, Admin)" by code_simp
    then show thesis using that by (metis prod.collapse)
  qed
  have h: "handle_admin_import demo_world demo_settings demo_start import_request demo_sealed
      = (Inr (send_json 200 (PDict (summary_dict \<lparr>is_imported = 1, is_skipped = 0, is_errors = [], is_update_deb = None\<rparr>))),
         demo_start\<lparr>dm_offline := demo_offline\<lparr>off_store := s\<rparr>\<rparr>)"
  proof -
    have w: "wd_tmp demo_world = ''/tmp/a''" "wd_aead demo_world = toy_aead" "wd_py312 demo_world = False" "wd_ls demo_world = (\<lambda>t. t)"
      "wd_clock demo_world = (\<lambda>i. 7)" "se_crypto_keys demo_settings = Some (replicate 32 CHR ''k'', ''hm'')"
      by (simp_all add: demo_world_def demo_settings_def)
    have c: "content_length import_request = Some 93" by code_simp
    have disk: "check_disk_space demo_world 93 = None" by (simp add: check_disk_space_def demo_world_def)
    have body: "read_body demo_world 93 demo_sealed = Inr demo_sealed" using demo_sealed_facts(2) by (simp add: read_body_def demo_world_def)
    show ?thesis unfolding handle_admin_import_def w c option.case disk body sum.case run_import_def off fst_conv snd_conv i prod.case
      by (simp only: MAX_IMPORT_SIZE_def) simp
  qed
  have "wd_bracket_ok demo_world = (\<lambda>b. True)" by (simp add: demo_world_def)
  with d h have "serve demo_world demo_settings 0 demo_server 0 demo_start import_request demo_sealed =
      (Inr (send_json 200 (PDict (summary_dict \<lparr>is_imported = 1, is_skipped = 0, is_errors = [], is_update_deb = None\<rparr>))), sv,
       demo_start\<lparr>dm_offline := demo_offline\<lparr>off_store := s\<rparr>\<rparr>)"
    by (simp only: serve_def run_endpoint_def Let_def prod.case sum.case route.case rbind.simps)
  moreover have "rs_status (send_json 200 v) = 200" for v by (simp add: send_json_def respond_def Let_def)
  ultimately show ?thesis using f
    by (intro exI conjI) (assumption | simp)+
qed


end
