(* ===== verification/Handler_Props.thy ===== *)
theory Handler_Props
  imports Daemon Transfer_Props
begin

text \<open>
  The administration endpoints: what a generated request holds and that an analysis is used once, an
  upload that breaks and is resumed, what the log query gives, and three requests that are not
  handled the way the code means to.
\<close>

declare map_of_eq_Some_iff [simp del]

section \<open>Uploads\<close>

lemma update_again: "dset (dset d k v) k w = dset d k w"
  by (induction d) auto

lemma delete_new: "dget d k = None \<Longrightarrow> ddel (dset d k v) k = d"
  by (induction d) (auto simp: AList.delete_eq split: if_splits)

text \<open>The headers of an upload of \<open>n\<close> bytes, in one piece or from an offset.\<close>

definition upload_request :: "http_request \<Rightarrow> string \<Rightarrow> nat \<Rightarrow> bool" where
  "upload_request rq hash n =
     (header rq ''X-Buncker-Checksum'' = ''sha256:'' @ hash \<and> content_length rq = Some (int n) \<and> header rq ''Content-Range'' = [])"

definition resume_request :: "http_request \<Rightarrow> string \<Rightarrow> nat \<Rightarrow> nat \<Rightarrow> bool" where
  "resume_request rq hash off n =
     (header rq ''X-Buncker-Checksum'' = ''sha256:'' @ hash \<and> content_length rq = Some (int n) \<and> header rq ''Content-Range'' \<noteq> []
      \<and> (\<exists>ds. range_start (header rq ''Content-Range'') = Some ds \<and> length ds \<le> int_limit \<and> digits_val ds = off))"

lemma checksum_re_hash: "checksum_re (sha256_hex b)"
proof -
  have n: "CHR 0x0A \<notin> set hex_chars" by code_simp
  have ne: "sha256_hex b \<noteq> []" using length_sha256_hex[of b] by (metis list.size(3) zero_neq_numeral)
  have h: "set (sha256_hex b) \<subseteq> set hex_chars" by (simp add: sha256_hex_def set_hex_str)
  then have "dollar (sha256_hex b) = sha256_hex b" using n last_in_set[OF ne] by (auto simp: dollar_def)
  then show ?thesis using h by (simp add: checksum_re_def list_all_iff subset_iff)
qed

text \<open>An upload past the checks of its headers.\<close>

lemma put_checked:
  assumes "header rq ''X-Buncker-Checksum'' = ''sha256:'' @ sha256_hex whole" "content_length rq = Some (int n)"
    and "0 < n" "int n \<le> MAX_IMPORT_SIZE" "se_crypto_keys S = Some keys" "2 * n \<le> du_free (wd_disk W)"
    and "upload_start D rq (upload_name rq (sha256_hex whole)) = Inr (Inr old)"
  shows "handle_admin_import_put W S D rq input =
    (case write_upload W D (upload_name rq (sha256_hex whole)) old (int n) input of
       (Inl e, D) \<Rightarrow> (Inl e, D)
     | (Inr data, D) \<Rightarrow> finish_upload W D (upload_name rq (sha256_hex whole)) (sha256_hex whole) data keys)"
proof -
  define c where "c = ''sha256:'' @ sha256_hex whole"
  have c: "header rq ''X-Buncker-Checksum'' = c" "startswith c ''sha256:''" "drop 7 c = sha256_hex whole"
    using assms(1) by (simp_all add: c_def startswith_append)
  have "check_disk_space W (int n) = None" using assms(6) by (simp add: check_disk_space_def)
  then show ?thesis
    unfolding handle_admin_import_put_def Let_def c(1,3)
    using assms(3,4) checksum_re_hash[of whole] c(2) by (simp add: assms(2,5,7))
qed

text \<open>
  C14. An upload whose connection breaks after \<open>k\<close> bytes fails and leaves the chunks that were complete. A
  request that continues at that offset with the rest of the bytes gives the answer and the state
  that the upload in one piece would have given.
\<close>

theorem broken_upload_resumes:
  assumes "upload_request rq (sha256_hex whole) (length whole)" "int (length whole) \<le> MAX_IMPORT_SIZE" "se_crypto_keys S = Some keys"
    and "wd_broken W = Some k" "k < length whole" "2 * length whole \<le> du_free (wd_disk W)" "2 * length whole \<le> du_free (wd_disk W')"
    and "wd_broken W' = None" "off = CHUNK_SIZE * (k div CHUNK_SIZE)"
    and "resume_request rq' (sha256_hex whole) off (length whole - off)" "rq_client rq' = rq_client rq"
    and "handle_admin_import_put W S D rq whole = (x, D')"
  shows "x = Inl connection_error
    \<and> handle_admin_import_put W' S D' rq' (drop off whole) = handle_admin_import_put W' S D rq whole"
proof -
  let ?name = "upload_name rq (sha256_hex whole)"
  have n: "0 < length whole" using assms(5) by auto
  have ur: "header rq ''X-Buncker-Checksum'' = ''sha256:'' @ sha256_hex whole" "content_length rq = Some (int (length whole))"
    "upload_start D rq ?name = Inr (Inr [])" for D
    using assms(1) by (simp_all add: upload_request_def upload_start_def)
  have "off \<le> k" unfolding assms(9) by (rule times_div_less_eq_dividend)
  then have off: "off < length whole" using assms(5) by simp
  have "handle_admin_import_put W S D rq whole = (Inl connection_error, D\<lparr>dm_uploads := dset (dm_uploads D) ?name (take off whole)\<rparr>)"
    unfolding put_checked[OF ur(1,2) n assms(2,3,6) ur(3)]
    using assms(5,9) by (simp add: write_upload_def read_body_def assms(4) Let_def)
  then have x: "x = Inl connection_error" and D': "D' = D\<lparr>dm_uploads := dset (dm_uploads D) ?name (take off whole)\<rparr>"
    using assms(12) by simp_all
  have name: "upload_name rq' (sha256_hex whole) = ?name" by (simp add: upload_name_def assms(11))
  obtain ds where r: "header rq' ''X-Buncker-Checksum'' = ''sha256:'' @ sha256_hex whole"
      "content_length rq' = Some (int (length whole - off))" "header rq' ''Content-Range'' \<noteq> []"
      "range_start (header rq' ''Content-Range'') = Some ds" "length ds \<le> int_limit" "digits_val ds = off"
    using assms(10) by (auto simp: resume_request_def)
  have start: "upload_start D' rq' (upload_name rq' (sha256_hex whole)) = Inr (Inr (take off whole))"
    using r(3-6) off by (simp add: upload_start_def name D' dget_or_def Let_def)
  have rest: "0 < length whole - off" "int (length whole - off) \<le> MAX_IMPORT_SIZE" "2 * (length whole - off) \<le> du_free (wd_disk W')"
    using off assms(2,7) by simp_all
  have "handle_admin_import_put W' S D' rq' (drop off whole) =
      finish_upload W' (D\<lparr>dm_uploads := dset (dm_uploads D) ?name whole\<rparr>) ?name (sha256_hex whole) whole keys"
    unfolding put_checked[OF r(1,2) rest(1,2) assms(3) rest(3) start] name
    by (simp add: write_upload_def read_body_def assms(8) D' update_again)
  moreover have "handle_admin_import_put W' S D rq whole =
      finish_upload W' (D\<lparr>dm_uploads := dset (dm_uploads D) ?name whole\<rparr>) ?name (sha256_hex whole) whole keys"
    unfolding put_checked[OF ur(1,2) n assms(2,3,7) ur(3)] by (simp add: write_upload_def read_body_def assms(8))
  ultimately show ?thesis using x by simp
qed

text \<open>One byte more than a chunk, with the connection broken after the chunk.\<close>

definition big_upload :: bytes where
  "big_upload = replicate (CHUNK_SIZE + 1) CHR ''x''"

definition put_request :: "string \<Rightarrow> string \<Rightarrow> http_request" where
  "put_request n cr = \<lparr>rq_path = ''/admin/import'', rq_command = ''PUT'', rq_client = ''10.0.0.9'',
     rq_environ = [(''CONTENT_LENGTH'', n), (''HTTP_CONTENT_RANGE'', cr), (''HTTP_X_BUNCKER_CHECKSUM'', ''sha256:'' @ sha256_hex big_upload)]\<rparr>"

definition roomy_world :: "nat option \<Rightarrow> world" where
  "roomy_world broken = demo_world\<lparr>wd_disk := \<lparr>du_total = 4000000, du_used = 0, du_free = 4000000\<rparr>, wd_broken := broken\<rparr>"

lemma put_request_headers:
  "header (put_request n cr) ''X-Buncker-Checksum'' = ''sha256:'' @ sha256_hex big_upload"
  "header (put_request n cr) ''Content-Range'' = cr" "n \<noteq> [] \<Longrightarrow> content_length (put_request n cr) = py_int n"
proof -
  have k: "lower ''X-Buncker-Checksum'' = ''x-buncker-checksum''" "lower ''Content-Range'' = ''content-range''"
    "lower ''Content-Length'' = ''content-length''"
    "''HTTP_'' @ replace_char CHR ''-'' CHR ''_'' (upper ''X-Buncker-Checksum'') = ''HTTP_X_BUNCKER_CHECKSUM''"
    "''HTTP_'' @ replace_char CHR ''-'' CHR ''_'' (upper ''Content-Range'') = ''HTTP_CONTENT_RANGE''" by code_simp+
  show "header (put_request n cr) ''X-Buncker-Checksum'' = ''sha256:'' @ sha256_hex big_upload"
    "header (put_request n cr) ''Content-Range'' = cr" "n \<noteq> [] \<Longrightarrow> content_length (put_request n cr) = py_int n"
    unfolding header_def content_length_def header_get_def k by (simp_all add: put_request_def dget_or_def)
qed

theorem broken_upload_resumes_witness:
  "\<exists>D'. handle_admin_import_put (roomy_world (Some CHUNK_SIZE)) demo_settings demo_start (put_request ''1048577'' []) big_upload
       = (Inl connection_error, D')
     \<and> handle_admin_import_put (roomy_world None) demo_settings D' (put_request ''1'' ''bytes 1048576-1048576/1048577'') ''x''
       = handle_admin_import_put (roomy_world None) demo_settings demo_start (put_request ''1048577'' []) big_upload"
proof -
  have len: "length big_upload = 1048577" by (simp add: big_upload_def CHUNK_SIZE_def)
  have rest: "drop CHUNK_SIZE big_upload = ''x''" by (simp add: big_upload_def drop_replicate del: replicate_Suc, simp)
  obtain x D' where p: "handle_admin_import_put (roomy_world (Some CHUNK_SIZE)) demo_settings demo_start (put_request ''1048577'' []) big_upload
      = (x, D')" by fastforce
  have d: "digits_val ''1048577'' = 1048577" "digits_val ''1048576'' = 1048576" by (simp_all add: digits_val_def code_def)
  have i: "int_digits ''1048577'' = Some ''1048577''" "strip ''1048577'' = ''1048577''" "startswith ''1048577'' ''-'' = False"
    "startswith ''1048577'' ''+'' = False" by code_simp+
  have "py_int ''1048577'' = Some 1048577" unfolding py_int_def i(2-4) Let_def by (simp add: i(1) d)
  moreover have "py_int ''1'' = Some 1" by code_simp
  ultimately have u: "upload_request (put_request ''1048577'' []) (sha256_hex big_upload) (length big_upload)"
    and c: "content_length (put_request ''1'' cr) = Some 1" for cr
    by (simp_all add: upload_request_def put_request_headers len)
  have "range_start ''bytes 1048576-1048576/1048577'' = Some ''1048576''" by code_simp
  then have r: "resume_request (put_request ''1'' ''bytes 1048576-1048576/1048577'') (sha256_hex big_upload) CHUNK_SIZE (length big_upload - CHUNK_SIZE)"
    unfolding resume_request_def put_request_headers(1,2) c len by (simp add: CHUNK_SIZE_def d int_limit_def)
  have w: "wd_broken (roomy_world b) = b" "du_free (wd_disk (roomy_world b)) = 4000000" for b by (simp_all add: roomy_world_def)
  have e: "CHUNK_SIZE = CHUNK_SIZE * (CHUNK_SIZE div CHUNK_SIZE)" by (simp add: CHUNK_SIZE_def)
  have m: "int (length big_upload) \<le> MAX_IMPORT_SIZE" "CHUNK_SIZE < length big_upload" "2 * length big_upload \<le> du_free (wd_disk (roomy_world b))" for b
    by (simp_all add: len w MAX_IMPORT_SIZE_def CHUNK_SIZE_def)
  have k: "se_crypto_keys demo_settings = Some (replicate 32 CHR ''k'', ''hm'')" by (simp add: demo_settings_def)
  from broken_upload_resumes[OF u m(1) k w(1) m(2) m(3) m(3) w(1) e r _ p] p show ?thesis
    unfolding rest by (simp add: put_request_def)
qed

section \<open>Generated requests\<close>

definition external :: "resolved_image \<Rightarrow> bool" where
  "external im = (\<not> ri_is_internal im \<and> \<not> ri_is_private im)"

definition image_key :: "resolved_image \<Rightarrow> string" where
  "image_key im = py_key (ri_registry im) (ri_repository im) (str_of (opt_str (ri_tag im)))"

lemma request_images_spec:
  "request_images ims seen = (es, seen') \<Longrightarrow>
     set (map entry_key es) = image_key ` {im \<in> set ims. external im} - set seen \<and> distinct (map entry_key es)
     \<and> (\<forall>e \<in> set es. wf_json (PDict e))"
proof (induction ims arbitrary: seen es)
  case (Cons im ims)
  show ?case
  proof (cases "external im")
    case False
    then have "{x \<in> set (im # ims). external x} = {x \<in> set ims. external x}" by auto
    moreover have "request_images ims seen = (es, seen')" using Cons.prems False by (simp add: external_def split: if_splits)
    ultimately show ?thesis using Cons.IH by simp
  next
    case True
    then have e: "{x \<in> set (im # ims). external x} = insert im {x \<in> set ims. external x}" by auto
    let ?e = "[(''registry'', PStr (ri_registry im)), (''repository'', PStr (ri_repository im)), (''tag'', opt_str (ri_tag im)),
          (''platform'', PStr (if some_truthy (ri_platform im) then the (ri_platform im) else ''linux/amd64''))]"
    have step: "request_images (im # ims) seen = (if image_key im \<in> set seen then request_images ims seen
        else let (rest, s) = request_images ims (image_key im # seen) in (?e # rest, s))"
      using True by (simp add: external_def image_key_def Let_def)
    show ?thesis
    proof (cases "image_key im \<in> set seen")
      case True
      with Cons.prems step have "request_images ims seen = (es, seen')" by simp
      from Cons.IH[OF this] True show ?thesis unfolding e by auto
    next
      case False
      obtain rest s where r: "request_images ims (image_key im # seen) = (rest, s)" by fastforce
      have es: "es = ?e # rest" "s = seen'" using Cons.prems False step r by simp_all
      have "entry_key ?e = image_key im" by (simp add: entry_key_def image_key_def dget_or_def str_of_def)
      moreover have "wf_json (PDict ?e)" by (simp add: opt_str_def split: option.split)
      ultimately show ?thesis unfolding e es using False Cons.IH[OF r[unfolded es(2)]] by auto
    qed
  qed
qed simp

lemma request_document_ok:
  assumes "\<forall>b \<in> set missing. wf_json (mb_size b) \<and> wf_json (mb_media_type b)" "\<forall>e \<in> set images. wf_json (PDict e)"
  shows "request_doc (request_document now S images missing)"
proof -
  have "\<forall>b \<in> set missing. wf_json (missing_dict b)" using assms(1) by (simp add: missing_dict_def)
  with assms(2) have "wf_json (request_document now S images missing)"
    by (auto simp: request_document_def list_all_iff simp del: wf_json.simps(4)) (simp add: list_all_iff)
  then show ?thesis by (auto simp: request_doc_def request_document_def vlen_def)
qed

text \<open>The answer with the request, opened with the same keys, and the state after it.\<close>

lemma generated_request_data:
  assumes "read_json_body W rq input = Inr (Inr (PDict body))" "dget_or body ''analysis_id'' PNone = PStr i" "i \<noteq> []"
    and "\<not> truthy (dget_or body ''refresh_stale'' (PBool False))" "dm_last_analysis D = Some (i, a)" "an_missing a \<noteq> []"
    and "\<forall>b \<in> set (an_missing a). wf_json (mb_size b) \<and> wf_json (mb_media_type b)"
    and "se_crypto_keys S = Some (aes_key, hmac_key)" "aead_inverse (wd_aead W)" "length (wd_nonce W) = 12"
    and "handle_admin_generate_manifest W S D rq input = (Inr r, D')"
  shows "rs_status r = 200
    \<and> (\<exists>d images. process_request (wd_aead W) (rs_body r) aes_key hmac_key p = Inr (PDict d)
         \<and> dget d ''blobs'' = Some (PList (map missing_dict (an_missing a))) \<and> dget d ''images'' = Some (PList (map PDict images))
         \<and> distinct (map entry_key images) \<and> set (map entry_key images) = image_key ` {im \<in> set (an_images a). external im})
    \<and> D' = D\<lparr>dm_last_analysis := None\<rparr>
    \<and> (\<exists>q. handle_admin_generate_manifest W S D' rq input = (Inr q, D') \<and> rs_status q = 409)"
proof -
  obtain images seen where im: "request_images (an_images a) [] = (images, seen)" by fastforce
  note images = request_images_spec[OF im]
  let ?doc = "request_document (wd_now W) S images (an_missing a)"
  have t: "truthy (PStr i)" using assms(3) by simp
  have g: "generate_from W S False a = rbind (seal (wd_aead W) (wd_nonce W) (py_encode (json_dumps False ?doc)) aes_key hmac_key)
      (\<lambda>encrypted. Inr (request_response (wd_now W) S encrypted, True))"
    using assms(6) by (simp only: generate_from_def im Let_def prod.case assms(8) option.case if_False HOL.simp_thms)
  have f: "truthy (dget_or body ''refresh_stale'' (PBool False)) = False" using assms(4) by simp
  have h: "handle_admin_generate_manifest W S D rq input =
      (case generate_from W S False a of Inl e \<Rightarrow> (Inl e, D) | Inr (r, used) \<Rightarrow> (Inr r, if used then D\<lparr>dm_last_analysis := None\<rparr> else D))"
    using t unfolding handle_admin_generate_manifest_def assms(1) sum.case pyval.case assms(2,5) Let_def option.case prod.case f by simp
  obtain c where c: "seal (wd_aead W) (wd_nonce W) (py_encode (json_dumps False ?doc)) aes_key hmac_key = Inr c"
    "r = request_response (wd_now W) S c" "D' = D\<lparr>dm_last_analysis := None\<rparr>"
    using assms(11) unfolding h g by (cases "seal (wd_aead W) (wd_nonce W) (py_encode (json_dumps False ?doc)) aes_key hmac_key") auto
  have "process_request (wd_aead W) c aes_key hmac_key p = Inr ?doc"
    by (rule process_sealed[OF assms(9,10) request_document_ok[OF assms(7)] c(1)]) (use images in blast)
  moreover have "rs_body r = c" "rs_status r = 200" by (simp_all add: c(2) request_response_def respond_def Let_def)
  moreover have "\<exists>q. handle_admin_generate_manifest W S D' rq input = (Inr q, D') \<and> rs_status q = 409"
    unfolding handle_admin_generate_manifest_def assms(1) sum.case pyval.case assms(2) Let_def c(3) using t
    by (simp add: send_admin_error_def send_json_def respond_def Let_def)
  ultimately show ?thesis using images c(3) by (simp add: request_document_def) (rule exI[of _ images], simp)
qed

text \<open>
  A request generated from the last analysis is opened by the online side: it lists exactly the
  missing blobs of the analysis and, once each, the images that are neither internal nor private.
  The analysis is used up: asking again is answered with a conflict and changes nothing.
\<close>

theorem generated_request_opens:
  assumes "read_json_body W rq input = Inr (Inr (PDict body))" "dget_or body ''analysis_id'' PNone = PStr i" "i \<noteq> []"
    and "\<not> truthy (dget_or body ''refresh_stale'' (PBool False))" "dm_last_analysis D = Some (i, a)" "an_missing a \<noteq> []"
    and "\<forall>b \<in> set (an_missing a). wf_json (mb_size b) \<and> wf_json (mb_media_type b)"
    and "se_crypto_keys S = Some (aes_key, hmac_key)" "aead_inverse (wd_aead W)" "length (wd_nonce W) = 12"
    and "handle_admin_generate_manifest W S D rq input = (Inr r, D')"
  shows "rs_status r = 200
    \<and> (\<exists>d images. process_request (wd_aead W) (rs_body r) aes_key hmac_key p = Inr (PDict d)
         \<and> dget d ''blobs'' = Some (PList (map missing_dict (an_missing a))) \<and> dget d ''images'' = Some (PList (map PDict images))
         \<and> distinct (map entry_key images) \<and> set (map entry_key images) = image_key ` {im \<in> set (an_images a). external im})
    \<and> D' = D\<lparr>dm_last_analysis := None\<rparr>
    \<and> (\<exists>q. handle_admin_generate_manifest W S D' rq input = (Inr q, D') \<and> rs_status q = 409)"
  by (rule generated_request_data[OF assms])

definition demo_missing :: missing_blob where
  "demo_missing = \<lparr>mb_registry = ''docker.io'', mb_repository = ''library/nginx'', mb_digest = demo_digest, mb_size = PInt 3, mb_media_type = PNone\<rparr>"

definition demo_image :: resolved_image where
  "demo_image = \<lparr>ri_raw = ''nginx'', ri_resolved = ''docker.io/library/nginx:latest'', ri_registry = ''docker.io'', ri_repository = ''library/nginx'',
     ri_tag = Some ''latest'', ri_digest = None, ri_platform = None, ri_alias = None, ri_is_internal = False, ri_is_private = False, ri_line_number = 1\<rparr>"

definition demo_result :: analysis where
  "demo_result = (new_analysis ''/Dockerfile'' [] [demo_image, demo_image])\<lparr>an_missing := [demo_missing]\<rparr>"

definition generate_body :: bytes where
  "generate_body = ''{'' @ [CHR 0x22] @ ''analysis_id'' @ [CHR 0x22] @ '': '' @ [CHR 0x22] @ ''id'' @ [CHR 0x22] @ ''}''"

definition generate_rq :: http_request where
  "generate_rq = \<lparr>rq_path = ''/admin/generate-manifest'', rq_command = ''POST'', rq_client = ''10.0.0.9'', rq_environ = [(''CONTENT_LENGTH'', ''21'')]\<rparr>"

definition generate_start :: daemon where
  "generate_start = demo_start\<lparr>dm_last_analysis := Some (''id'', demo_result)\<rparr>"

lemma demo_generate_facts:
  "read_json_body demo_world generate_rq generate_body = Inr (Inr (PDict [(''analysis_id'', PStr ''id'')]))"
  "dget_or [(''analysis_id'', PStr ''id'')] ''analysis_id'' PNone = PStr ''id''" "''id'' \<noteq> []"
  "\<not> truthy (dget_or [(''analysis_id'', PStr ''id'')] ''refresh_stale'' (PBool False))"
  "dm_last_analysis generate_start = Some (''id'', demo_result)" "an_missing demo_result \<noteq> []"
  "\<forall>b \<in> set (an_missing demo_result). wf_json (mb_size b) \<and> wf_json (mb_media_type b)"
  "se_crypto_keys demo_settings = Some (replicate 32 CHR ''k'', ''hm'')" "aead_inverse (wd_aead demo_world)" "length (wd_nonce demo_world) = 12"
  "an_missing demo_result = [demo_missing]"
proof -
  have "content_length generate_rq = Some 21" "json_loads_bytes (take 21 generate_body) = Inr (PDict [(''analysis_id'', PStr ''id'')])" by code_simp+
  then show "read_json_body demo_world generate_rq generate_body = Inr (Inr (PDict [(''analysis_id'', PStr ''id'')]))"
    by (simp add: read_json_body_def read_body_def demo_world_def MAX_JSON_BODY_SIZE_def)
qed (simp_all add: dget_or_def generate_start_def demo_result_def demo_missing_def nat_str.simps int_limit_def demo_settings_def
  demo_world_def toy_aead_inverse)

lemma demo_generated: "\<exists>r D'. handle_admin_generate_manifest demo_world demo_settings generate_start generate_rq generate_body = (Inr r, D')"
proof -
  note i = demo_generate_facts
  have w: "wd_aead demo_world = toy_aead" "wd_nonce demo_world = replicate 12 CHR ''n''" by (simp_all add: demo_world_def)
  obtain c where c: "seal toy_aead (replicate 12 CHR ''n'') data (replicate 32 CHR ''k'') ''hm'' = Inr (c data)" for data
    by (rule that[of "\<lambda>data. replicate 12 CHR ''n'' @ (data @ [CHR 0x0A] @ py_encode (sign data ''hm'')) @ toy_tag (replicate 32 CHR ''k'')"])
      (simp add: seal_def encrypt_def Let_def toy_aead_def)
  obtain images seen where im: "request_images (an_images demo_result) [] = (images, seen)" by fastforce
  show ?thesis
    unfolding handle_admin_generate_manifest_def i(1) sum.case pyval.case i(2,5) Let_def option.case prod.case
    by (simp add: i(11) dget_or_def generate_from_def im i(8) c w)
qed

theorem generated_request_opens_witness:
  "\<exists>r D' d. handle_admin_generate_manifest demo_world demo_settings generate_start generate_rq generate_body
       = (Inr r, D') \<and> process_request toy_aead (rs_body r) (replicate 32 CHR ''k'') ''hm'' ''f'' = Inr (PDict d)
     \<and> dget d ''blobs'' = Some (PList [missing_dict demo_missing]) \<and> dm_last_analysis D' = None"
proof -
  obtain r D' where h: "handle_admin_generate_manifest demo_world demo_settings generate_start generate_rq generate_body = (Inr r, D')"
    using demo_generated by blast
  have w: "wd_aead demo_world = toy_aead" by (simp add: demo_world_def)
  from generated_request_opens[OF demo_generate_facts(1-10) h, of "''f''"] h show ?thesis
    unfolding w demo_generate_facts(11) by auto
qed

section \<open>The log\<close>

text \<open>The entry of a line, when it passes the filters.\<close>

definition passing :: "string option \<Rightarrow> (nat \<times> int option) option \<Rightarrow> string \<Rightarrow> pyval option" where
  "passing event_filter since line =
     (if strip line = [] then None
      else case json_loads (strip line) of
        Inl e \<Rightarrow> None
      | Inr entry \<Rightarrow> if entry_passes event_filter since entry = Inr True then Some entry else None)"

lemma log_entries_take:
  "log_entries event_filter since limit taken lines = Inr es \<Longrightarrow>
     es = take (max 1 (nat (limit - int taken))) (List.map_filter (passing event_filter since) lines)"
proof (induction lines arbitrary: taken es)
  case (Cons line lines)
  show ?case
  proof (cases "passing event_filter since line")
    case None
    have "log_entries event_filter since limit taken lines = Inr es"
      using Cons.prems None by (auto simp: passing_def Let_def rbind_Inr_iff split: if_splits sum.splits)
    from Cons.IH[OF this] None show ?thesis by (simp add: map_filter_simps)
  next
    case (Some entry)
    then have l: "strip line \<noteq> []" "json_loads (strip line) = Inr entry" "entry_passes event_filter since entry = Inr True"
      by (auto simp: passing_def split: if_splits sum.splits)
    show ?thesis
    proof (cases "limit \<le> int (Suc taken)")
      case True
      then have "es = [entry]" using Cons.prems l by (simp add: Let_def)
      moreover have "max 1 (nat (limit - int taken)) = 1" using True by simp
      ultimately show ?thesis using Some by (simp add: map_filter_simps)
    next
      case False
      then obtain es' where es: "log_entries event_filter since limit (Suc taken) lines = Inr es'" "es = entry # es'"
        using Cons.prems l by (auto simp: Let_def rbind_Inr_iff)
      have "max 1 (nat (limit - int taken)) = Suc (max 1 (nat (limit - int (Suc taken))))" using False by simp
      then show ?thesis using Some Cons.IH[OF es(1)] by (simp add: es(2) map_filter_simps)
    qed
  qed
qed (simp add: map_filter_simps)

text \<open>
  C39. A log query that succeeds gives the first entries that pass its filters, in the order of the file,
  as many as the limit says, but one where the limit is zero.
\<close>

theorem log_query_exact:
  assumes "read_log W event_filter since limit = Inr r" "wd_log W = Some bs"
  shows "\<exists>t. read_text bs = Inr t
    \<and> r = send_json 200 (PList (take (max 1 (nat limit)) (List.map_filter (passing event_filter since) (split_on CHR 0x0A t))))"
proof -
  from assms obtain t es where t: "read_text bs = Inr t" "log_entries event_filter since limit 0 (split_on CHR 0x0A t) = Inr es"
    "r = send_json 200 (PList es)"
    by (auto simp: read_log_def rbind_Inr_iff)
  from log_entries_take[OF t(2)] t show ?thesis by simp
qed

definition demo_log :: bytes where
  "demo_log = ''1'' @ [CHR 0x0A] @ ''x'' @ [CHR 0x0A, CHR 0x0A] @ ''2'' @ [CHR 0x0A]"

theorem log_query_exact_witness:
  "read_log (demo_world\<lparr>wd_log := Some demo_log\<rparr>) None None 5 = Inr (send_json 200 (PList [PInt 1, PInt 2]))
   \<and> read_log (demo_world\<lparr>wd_log := Some demo_log\<rparr>) None None 0 = Inr (send_json 200 (PList [PInt 1]))"
proof -
  have t: "read_text demo_log = Inr demo_log" by code_simp
  have l: "log_entries None None 5 0 (split_on CHR 0x0A demo_log) = Inr [PInt 1, PInt 2]" "log_entries None None 0 0 (split_on CHR 0x0A demo_log) = Inr [PInt 1]"
    by code_simp+
  have p: "List.map_filter (passing None None) (split_on CHR 0x0A demo_log) = [PInt 1, PInt 2]" by code_simp
  have r: "read_log (demo_world\<lparr>wd_log := Some demo_log\<rparr>) None None k = Inr (send_json 200 (PList es))"
    if "log_entries None None k 0 (split_on CHR 0x0A demo_log) = Inr es" for k es
    unfolding read_log_def by (simp add: t that)
  have w: "wd_log (demo_world\<lparr>wd_log := Some demo_log\<rparr>) = Some demo_log" by simp
  show ?thesis
  proof
    from log_query_exact[OF r[OF l(1)] w] show "read_log (demo_world\<lparr>wd_log := Some demo_log\<rparr>) None None 5 = Inr (send_json 200 (PList [PInt 1, PInt 2]))"
      unfolding r[OF l(1)] t p by simp
    from log_query_exact[OF r[OF l(2)] w] show "read_log (demo_world\<lparr>wd_log := Some demo_log\<rparr>) None None 0 = Inr (send_json 200 (PList [PInt 1]))"
      unfolding r[OF l(2)] t p by simp
  qed
qed

section \<open>Requests that go wrong\<close>

text \<open>
  A length that is no number: the upload by POST is refused, the same upload by PUT ends in an
  exception, because the body is drained with the length parsed again outside the handler of the error.
\<close>

theorem put_bad_length_raises:
  assumes "content_length rq = None" "se_crypto_keys S = Some keys"
  shows "(\<exists>e. handle_admin_import_put W S D rq input = (Inl e, D))
    \<and> (\<exists>r. handle_admin_import W S D rq input = (Inr r, D) \<and> rs_status r = 400)"
proof

  have d: "\<exists>e. drained W rq input D r = (Inl e, D)" for r by (simp add: drained_def drain_body_def assms(1))
  show "\<exists>e. handle_admin_import_put W S D rq input = (Inl e, D)"
    unfolding handle_admin_import_put_def Let_def assms(1) option.case using d[unfolded drained_def] by (simp add: drained_def)
  show "\<exists>r. handle_admin_import W S D rq input = (Inr r, D) \<and> rs_status r = 400"
    unfolding handle_admin_import_def assms option.case
    by (simp add: invalid_length_def send_admin_error_def send_json_def respond_def Let_def)
qed

definition bad_length_request :: http_request where
  "bad_length_request = \<lparr>rq_path = ''/admin/import'', rq_command = ''PUT'', rq_client = ''10.0.0.9'', rq_environ = [(''CONTENT_LENGTH'', ''1x'')]\<rparr>"

theorem put_bad_length_raises_witness:
  "\<exists>e r. handle_admin_import_put demo_world demo_settings demo_start bad_length_request ''x'' = (Inl e, demo_start)
     \<and> handle_admin_import demo_world demo_settings demo_start bad_length_request ''x'' = (Inr r, demo_start) \<and> rs_status r = 400"
proof -
  have "content_length bad_length_request = None" by code_simp
  moreover have "se_crypto_keys demo_settings = Some (replicate 32 CHR ''k'', ''hm'')" by (simp add: demo_settings_def)
  ultimately show ?thesis using put_bad_length_raises[of bad_length_request demo_settings] by blast
qed

text \<open>
  The check of a repository name lets an absolute second part through: such a name is looked up
  outside the directory of the manifests, at a path from the root of the file system.
\<close>

theorem absolute_name_escapes:
  assumes "\<not> str_in ''..'' (''localhost//'' @ x)" "\<not> startswith tag ''/''"
  shows "validate_name command (''localhost//'' @ x) = None
    \<and> (let (registry, repository) = split_name (''localhost//'' @ x) in
         \<exists>parts. cache_path_of registry repository tag platform = ''/'' # parts)"
proof -
  have "split_name (''localhost//'' @ x) = (''localhost'', ''/'' @ x)" by (simp add: split_name_def before_def after_def)
  then show ?thesis using assms by (simp add: validate_name_def cache_path_of_def cache_dir_of_def path_join_def startswith_def)
qed

theorem absolute_name_escapes_witness:
  "validate_name ''GET'' ''localhost//etc'' = None
   \<and> cache_path_of ''localhost'' ''/etc'' ''latest'' ''linux/amd64'' = [''/'', ''etc'', ''latest'', ''linux-amd64.json'']"
proof
  have "\<not> str_in ''..'' (''localhost//'' @ ''etc'')" "\<not> startswith ''latest'' ''/''" by code_simp+
  from absolute_name_escapes[OF this] show "validate_name ''GET'' ''localhost//etc'' = None" by simp
qed code_simp

end
