(* ===== verification/Server_Start.thy ===== *)
theory Server_Start
  imports Server_Setup Handler_Admin
begin

text \<open>
  \<open>buncker serve\<close> and the server it starts: \<open>_cmd_serve\<close> of \<open>buncker/__main__.py\<close> and
  \<open>BunckerServer.__init__\<close> and \<open>start\<close> of \<open>buncker/server.py\<close>. The server holds what the request
  handler works on. Logging, signals and the threads are left out: a request is one step of \<open>serve\<close>.
\<close>

section \<open>The server\<close>

record server =
  bs_bind :: pyval
  bs_port :: pyval
  bs_max_workers :: pyval
  bs_use_tls :: bool
  bs_settings :: settings
  bs_state :: server_state
  bs_daemon :: daemon

definition OCI_RATE_LIMIT_MAX :: nat where
  "OCI_RATE_LIMIT_MAX = 200"

definition new_server_state :: "dict option \<Rightarrow> bool \<Rightarrow> bool \<Rightarrow> server_state" where
  "new_server_state api_tokens api_enabled oci_restrict =
     \<lparr>sv_api_tokens = api_tokens, sv_api_enabled = api_enabled, sv_oci_restrict = oci_restrict,
      sv_rate = new_limiter RATE_LIMIT_MAX RATE_LIMIT_WINDOW, sv_oci_rate = new_limiter OCI_RATE_LIMIT_MAX RATE_LIMIT_WINDOW\<rparr>"

text \<open>
  Listening on an address and loading a certificate are the network's and the TLS library's; they
  give the port bound, or fail.
\<close>

record listener =
  li_bind :: "pyval \<Rightarrow> pyval \<Rightarrow> int res"
  li_load_cert :: "unit res"

definition server_start :: "listener \<Rightarrow> instant \<Rightarrow> server \<Rightarrow> (int \<times> server) res" where
  "server_start L now srv =
     rbind (li_bind L (bs_bind srv) (bs_port srv)) (\<lambda>actual_port.
     rbind (if bs_use_tls srv then li_load_cert L else Inr ()) (\<lambda>_.
     Inr (actual_port, srv\<lparr>bs_settings := (bs_settings srv)\<lparr>se_start_time := Some now\<rparr>\<rparr>)))"

section \<open>The mnemonic\<close>

text \<open>From the encrypted variable, the plain one, or the line typed, in that order; an empty one counts as none.\<close>

definition env_mnemonic :: "aead \<Rightarrow> host \<Rightarrow> (string \<times> string) list \<Rightarrow> string res" where
  "env_mnemonic A H environ =
     (let enc_value = dget_or environ ''BUNCKER_MNEMONIC_ENC'' [] in
      rbind (if enc_value = [] then Inr []
             else (case decrypt_env_value A (dget (ho_files H)) enc_value MACHINE_ID (Some DEFAULT_KEY_MATERIAL_PATH) of
                     Inl e \<Rightarrow> Inl (sys_exit 1)
                   | Inr m \<Rightarrow> Inr m)) (\<lambda>mnemonic.
      Inr (if mnemonic = [] then dget_or environ ''BUNCKER_MNEMONIC'' [] else mnemonic)))"

definition serve_mnemonic :: "aead \<Rightarrow> host \<Rightarrow> (string \<times> string) list \<Rightarrow> string option \<Rightarrow> string res" where
  "serve_mnemonic A H environ stdin =
     rbind (env_mnemonic A H environ) (\<lambda>mnemonic.
     rbind (if mnemonic \<noteq> [] then Inr mnemonic
            else (case stdin of None \<Rightarrow> Inl (sys_exit 1) | Some line \<Rightarrow> Inr (strip line))) (\<lambda>mnemonic.
     if mnemonic = [] then Inl (sys_exit 1) else Inr mnemonic))"

definition MNEMONIC_ITERATIONS :: int where
  "MNEMONIC_ITERATIONS = 1200000"

text \<open>The keys, if the mnemonic is the one whose hash the configuration holds.\<close>

definition serve_keys :: "aead \<Rightarrow> dict \<Rightarrow> string \<Rightarrow> (bytes \<times> bytes) res" where
  "serve_keys A config mnemonic =
     (case split_mnemonic mnemonic of
        Inl e \<Rightarrow> Inl (sys_exit 1)
      | Inr (mnemonic_12, salt) \<Rightarrow>
          rbind (vget (dget_or config ''crypto'' (PDict [])) ''mnemonic_hash'' (PStr [])) (\<lambda>expected_hash.
          if truthy expected_hash \<and> PStr (mnemonic_hash_of mnemonic_12) \<noteq> expected_hash then Inl (sys_exit 1)
          else Inr (derive_keys A mnemonic_12 salt MNEMONIC_ITERATIONS)))"

section \<open>The command\<close>

text \<open>The checks before anything is started: whether the API is enabled, and whether pulls are restricted.\<close>

definition serve_flags :: "dict \<Rightarrow> bool \<Rightarrow> (bool \<times> bool) res" where
  "serve_flags config restrict_oci =
     rbind (vget (dget_or config ''api'' (PDict [])) ''enabled'' PNone) (\<lambda>enabled.
     if truthy enabled \<and> \<not> truthy (dget_or config ''tls'' PNone) then Inl (sys_exit 1)
     else
       rbind (if restrict_oci then Inr (PBool True) else vget (dget_or config ''oci'' (PDict [])) ''restrict'' (PBool False)) (\<lambda>restrict.
       if truthy restrict \<and> \<not> truthy enabled then Inl (sys_exit 1)
       else Inr (truthy enabled, truthy restrict)))"

definition TLS_EXPIRY_WARNING_DAYS :: int where
  "TLS_EXPIRY_WARNING_DAYS = 30"

text \<open>The warning about the certificate, whose end of validity is read by a library.\<close>

definition check_tls_cert_expiry :: "instant \<Rightarrow> instant res option \<Rightarrow> string option" where
  "check_tls_cert_expiry now cert =
     (case cert of
        Some (Inr not_valid_after) \<Rightarrow>
          (let days_left = (int not_valid_after - int now) div 86400000000 in
           if days_left \<le> 0 then
             Some (''WARNING: TLS certificate has expired ('' @ int_str (- days_left) @ '' days ago). Regenerate with '' @ [CHR 0x27]
               @ ''buncker api-setup'' @ [CHR 0x27] @ ''.'')
           else if days_left \<le> TLS_EXPIRY_WARNING_DAYS then
             Some (''WARNING: TLS certificate expires in '' @ int_str days_left @ '' days. Regenerate with '' @ [CHR 0x27]
               @ ''buncker api-setup'' @ [CHR 0x27] @ ''.'')
           else None)
      | _ \<Rightarrow> None)"

text \<open>The token file, read when the API is enabled; anything in it but an object is outside the model.\<close>

definition serve_tokens :: "host \<Rightarrow> string \<Rightarrow> bool \<Rightarrow> dict option res" where
  "serve_tokens H config_path api_enabled =
     (if \<not> api_enabled then Inr None
      else rbind (load_api_tokens H (tokens_path_of config_path)) (\<lambda>v.
        case v of PNone \<Rightarrow> Inr None | PDict d \<Rightarrow> Inr (Some d) | _ \<Rightarrow> Inl not_modelled))"

text \<open>What the constructor of the server is given; a source id that is no string is outside the model.\<close>

definition make_server :: "string \<Rightarrow> dict \<Rightarrow> (bytes \<times> bytes) \<Rightarrow> dict option \<Rightarrow> bool \<Rightarrow> bool \<Rightarrow> offline \<times> (string \<times> bytes) list \<Rightarrow> server res" where
  "make_server version config keys api_tokens api_enabled oci_restrict disk =
     (case (dget_or config ''source_id'' (PStr []), as_int (dget_or config ''manifest_ttl'' (PInt 30))) of
        (PStr source_id, Some ttl) \<Rightarrow>
          Inr \<lparr>bs_bind = dget_or config ''bind'' (PStr ''127.0.0.1''), bs_port = dget_or config ''port'' (PInt 5000),
               bs_max_workers = dget_or config ''max_workers'' (PInt 16), bs_use_tls = truthy (dget_or config ''tls'' PNone),
               bs_settings = \<lparr>se_version = version, se_crypto_keys = Some keys, se_source_id = source_id, se_manifest_ttl = ttl,
                              se_start_time = None\<rparr>,
               bs_state = new_server_state api_tokens api_enabled oci_restrict,
               bs_daemon = \<lparr>dm_offline = fst disk, dm_uploads = snd disk, dm_last_analysis = None\<rparr>\<rparr>
      | _ \<Rightarrow> Inl not_modelled)"

definition cmd_serve ::
  "aead \<Rightarrow> string \<Rightarrow> host \<Rightarrow> (string \<times> string) list \<Rightarrow> string option \<Rightarrow> string option \<Rightarrow> bool \<Rightarrow> server res \<times> host" where
  "cmd_serve A version H environ stdin config_arg restrict_oci =
     (let config_path = config_path_of config_arg in
      case rbind (read_host_config H config_path) (\<lambda>config.
           rbind (serve_flags config restrict_oci) (\<lambda>(api_enabled, oci_restrict).
           rbind (serve_mnemonic A H environ stdin) (\<lambda>mnemonic.
           rbind (serve_keys A config mnemonic) (\<lambda>keys.
           rbind (serve_tokens H config_path api_enabled) (\<lambda>api_tokens.
           rbind (dindex config ''store_path'') (\<lambda>store_path.
           Inr (config, keys, api_tokens, api_enabled, oci_restrict, store_path))))))) of
        Inl e \<Rightarrow> (Inl e, H)
      | Inr (config, keys, api_tokens, api_enabled, oci_restrict, PStr store_path) \<Rightarrow>
          let H = init_store H store_path
          in (make_server version config keys api_tokens api_enabled oci_restrict (ho_disk H store_path), H)
      | Inr _ \<Rightarrow> (Inl (type_error ''argument should be a str or an os.PathLike object''), H))"

end
