(* ===== verification/Setup_Props.thy ===== *)
theory Setup_Props
  imports Server_Start Handler_Routes_Props
begin

text \<open>
  What the setup commands and the start of the daemon guarantee together: the secrets shown are the
  ones that open the daemon, the checks before the start hold of the server that runs, and rotation
  replaces the keys.
\<close>

declare map_of_eq_Some_iff [simp del]

section \<open>Paths\<close>

text \<open>The configuration is a file \<open>.json\<close> beside the token file.\<close>

definition config_file :: "string \<Rightarrow> bool" where
  "config_file path = (endswith path ''.json'' \<and> path \<noteq> tokens_path_of path)"

lemma endswith_last: "endswith s p \<Longrightarrow> p \<noteq> [] \<Longrightarrow> s \<noteq> [] \<and> last s = last p"
  by (auto dest: endswithE)

lemma sibling_last: "name \<noteq> [] \<Longrightarrow> sibling path name \<noteq> [] \<and> last (sibling path name) = last name"
  by (simp add: sibling_def)

lemma last_neq: "last s \<noteq> last t \<Longrightarrow> s \<noteq> t"
  by auto

lemma path_facts:
  "sibling p ''env'' \<noteq> MACHINE_ID" "sibling p ''env'' \<noteq> DEFAULT_KEY_MATERIAL_PATH"
  "tokens_path_of p \<noteq> sibling q ''ca.pem''" "x \<noteq> [] \<Longrightarrow> last x = CHR ''m'' \<Longrightarrow> tokens_path_of p \<noteq> tls_file s x"
  by (auto intro!: last_neq simp: sibling_last MACHINE_ID_def DEFAULT_KEY_MATERIAL_PATH_def tokens_path_of_def tls_file_def)

lemma config_file_neq:
  assumes "config_file p"
  shows "p \<noteq> sibling q ''env''" "p \<noteq> sibling q ''key-material''" "p \<noteq> sibling q ''ca.pem''" "p \<noteq> tokens_path_of p"
    "x \<noteq> [] \<Longrightarrow> last x = CHR ''m'' \<Longrightarrow> p \<noteq> tls_file s x"
proof -
  have "last p = CHR ''n''" using assms endswith_last[of p "''.json''"] by (simp add: config_file_def)
  then show "p \<noteq> sibling q ''env''" "p \<noteq> sibling q ''key-material''" "p \<noteq> sibling q ''ca.pem''"
    "x \<noteq> [] \<Longrightarrow> last x = CHR ''m'' \<Longrightarrow> p \<noteq> tls_file s x"
    by (auto intro!: last_neq simp: sibling_last tls_file_def)
  show "p \<noteq> tokens_path_of p" using assms by (simp add: config_file_def)
qed

lemma put_file_get [simp]: "dget (ho_files (put_file H p b)) q = (if q = p then Some b else dget (ho_files H) q)"
  by (simp add: put_file_def)

lemma init_store_files [simp]: "ho_files (init_store H p) = ho_files H"
  by (simp add: init_store_def case_prod_beta)

lemma put_file_disk [simp]: "ho_disk (put_file H p b) = ho_disk H"
  by (simp add: put_file_def)

section \<open>The environment variable\<close>

lemma derive_env_key_cong:
  "f mid = g mid \<Longrightarrow> (\<forall>p. km = Some p \<longrightarrow> f p = g p) \<Longrightarrow> derive_env_key A f mid km = derive_env_key A g mid km"
  by (cases km; cases "g mid") (simp_all add: derive_env_key_def Let_def cong: if_cong)

lemma b64encode_nonempty: "bs \<noteq> [] \<Longrightarrow> b64encode bs \<noteq> []"
  by (cases bs rule: b64encode.cases) (simp_all add: Let_def)

text \<open>The variable a command wrote gives the mnemonic back, as long as the machine's identity and the key material stay.\<close>

lemma env_setting_mnemonic:
  assumes "aead_inverse A" "length nonce = 12" "mnemonic \<noteq> []"
    and "\<forall>p \<in> {MACHINE_ID, DEFAULT_KEY_MATERIAL_PATH}. dget (ho_files H') p = dget (ho_files H) p"
  shows "env_mnemonic A H' [env_setting A H nonce mnemonic] = Inr mnemonic"
proof (cases "encrypt_env_value A (dget (ho_files H)) nonce mnemonic MACHINE_ID (Some DEFAULT_KEY_MATERIAL_PATH)")
  case (Inl e)
  then show ?thesis using assms(3) by (simp add: env_setting_def env_mnemonic_def dget_or_def)
next
  case (Inr c)
  have k: "derive_env_key A (dget (ho_files H')) MACHINE_ID (Some DEFAULT_KEY_MATERIAL_PATH)
      = derive_env_key A (dget (ho_files H)) MACHINE_ID (Some DEFAULT_KEY_MATERIAL_PATH)"
    by (rule derive_env_key_cong) (use assms(4) in auto)
  from Inr obtain key ct where ct: "derive_env_key A (dget (ho_files H)) MACHINE_ID (Some DEFAULT_KEY_MATERIAL_PATH) = Inr key"
    "encrypt A nonce (py_encode mnemonic) key = Inr ct" "c = b64encode ct"
    by (auto simp: encrypt_env_value_def rbind_Inr_iff)
  have "ct \<noteq> []" using ct(2) assms(2) by (auto simp: encrypt_def rbind_Inr_iff)
  then have c: "c \<noteq> []" using ct(3) b64encode_nonempty by simp
  have "decrypt_env_value A (dget (ho_files H')) c MACHINE_ID (Some DEFAULT_KEY_MATERIAL_PATH) = Inr mnemonic"
    using ct k decrypt_inverts[OF assms(1,2) ct(2)] by (simp add: decrypt_env_value_def)
  then show ?thesis using Inr c assms(3) by (simp add: env_setting_def env_mnemonic_def dget_or_def)
qed

lemma split_nonempty: "split_mnemonic m = Inr r \<Longrightarrow> m \<noteq> []"
  by (auto simp: split_mnemonic_def split_ws_def strip_by_def lstrip_by_def rstrip_by_def)

text \<open>Serving with a mnemonic whose hash is the configured one.\<close>

lemma serve_keys_ok:
  assumes "split_mnemonic mnemonic = Inr (m12, salt)"
    and "dget config ''crypto'' = Some (PDict c)" "dget c ''mnemonic_hash'' = Some (PStr (mnemonic_hash_of m12))"
  shows "serve_keys A config mnemonic = Inr (derive_keys A m12 salt MNEMONIC_ITERATIONS)"
  using assms by (simp add: serve_keys_def dget_or_def)

lemma serve_keys_refused:
  assumes "dget config ''crypto'' = Some (PDict c)" "dget c ''mnemonic_hash'' = Some (PStr h)" "h \<noteq> []"
    and "\<And>m12 salt. split_mnemonic mnemonic = Inr (m12, salt) \<Longrightarrow> mnemonic_hash_of m12 \<noteq> h"
  shows "serve_keys A config mnemonic = Inl (sys_exit 1)"
  using assms by (auto simp: serve_keys_def dget_or_def split: sum.split)

section \<open>Setup, then serve\<close>

lemma setup_config_loads:
  assumes "sp \<noteq> []" and f: "dget (ho_files H) p = Some (save_config (setup_config rv sp salt h))"
  shows "read_host_config H p = Inr (dmerge DEFAULTS (setup_config rv sp salt h))"
proof -
  let ?c = "setup_config rv sp salt h"
  have "wf_json (PDict ?c)" by (simp add: setup_config_def wf_small_int del: wf_json.simps(2))
  then have "load_text (save_config ?c) = Inr (PDict ?c)" unfolding save_config_def by (rule load_text_pretty)
  moreover have "validate_config (dmerge DEFAULTS ?c) = Inr ()"
    using assms(1) by (simp add: validate_config_def setup_config_def dmerge_def DEFAULTS_def dget_or_def int_between_def
      check_field_def LOG_LEVELS_def Let_def)
  moreover have "rmap check_hash (map (\<lambda>p. PStr (fst p)) ?c) = Inr (map (\<lambda>_. ()) (map (\<lambda>p. PStr (fst p)) ?c))"
    by (rule rmap_map) auto
  ultimately show ?thesis
    by (simp add: read_host_config_def f load_config_def read_config_def dict_update_def viter_def)
qed

lemma setup_config_fields:
  assumes "c = dmerge DEFAULTS (setup_config rv sp salt h)"
  shows "dget c ''crypto'' = Some (PDict [(''salt'', PStr (b64encode salt)), (''mnemonic_hash'', PStr h)])"
    "dget c ''store_path'' = Some (PStr sp)" "dget c ''bind'' = Some (PStr ''127.0.0.1'')" "dget c ''tls'' = Some (PBool False)"
    "dget c ''api'' = None" "dget c ''oci'' = None" "dget c ''source_id'' = Some (PStr (''buncker-'' @ hex_str (rv_source rv)))"
    "dget c ''manifest_ttl'' = Some (PInt 30)"
  unfolding assms by (simp_all add: dmerge_def setup_config_def DEFAULTS_def)

text \<open>What a successful setup leaves behind.\<close>

lemma setup_leaves:
  assumes "cmd_setup A rv km H config_arg store_arg = (Inr mnemonic, H')" "config_file (config_path_of config_arg)"
  obtains m12 salt where "split_mnemonic mnemonic = Inr (m12, salt)"
    "dget (ho_files H') (config_path_of config_arg) = Some (save_config
       (setup_config rv (case store_arg of None \<Rightarrow> ''/var/lib/buncker'' | Some p \<Rightarrow> p) salt (mnemonic_hash_of m12)))"
    "\<exists>H0. dget (ho_files H') (sibling (config_path_of config_arg) ''env'') = Some (env_text (env_setting A H0 (rv_nonce rv) mnemonic))
       \<and> (\<forall>p \<in> {MACHINE_ID, DEFAULT_KEY_MATERIAL_PATH}. dget (ho_files H') p = dget (ho_files H0) p)"
    "ho_disk H' = ho_disk (init_store H (case store_arg of None \<Rightarrow> ''/var/lib/buncker'' | Some p \<Rightarrow> p))"
proof -
  let ?m = "generate_mnemonic (rv_entropy rv) (rv_salt rv)"
  obtain m12 salt where s: "split_mnemonic ?m = Inr (m12, salt)" unfolding split_generate_mnemonic by simp
  define cp sp where "cp = config_path_of config_arg"
    and "sp = (case store_arg of None \<Rightarrow> ''/var/lib/buncker'' | Some p \<Rightarrow> p)"
  define H3 where "H3 = put_file (put_file (init_store H sp) cp (save_config (setup_config rv sp salt (mnemonic_hash_of m12))))
    (sibling cp ''key-material'') (rv_key_material rv)"
  have "km \<and> dget (ho_files H) cp = None \<and> mnemonic = ?m"
    using assms(1) s by (auto simp: cmd_setup_def Let_def cp_def split: if_splits)
  then have H': "H' = put_file H3 (sibling cp ''env'') (env_text (env_setting A H3 (rv_nonce rv) mnemonic))" and m: "mnemonic = ?m"
    using assms(1) s by (simp_all add: cmd_setup_def Let_def H3_def flip: cp_def sp_def)
  show thesis
  proof (rule that, fold cp_def sp_def)
    show "split_mnemonic mnemonic = Inr (m12, salt)" using s m by simp
    show "dget (ho_files H') cp = Some (save_config (setup_config rv sp salt (mnemonic_hash_of m12)))"
      using config_file_neq[OF assms(2)] by (simp add: H' H3_def flip: cp_def)
    show "\<exists>H0. dget (ho_files H') (sibling cp ''env'') = Some (env_text (env_setting A H0 (rv_nonce rv) mnemonic))
        \<and> (\<forall>p \<in> {MACHINE_ID, DEFAULT_KEY_MATERIAL_PATH}. dget (ho_files H') p = dget (ho_files H0) p)"
      using path_facts(1,2) path_facts(1,2)[symmetric] by (intro exI[of _ H3]) (auto simp: H')
    show "ho_disk H' = ho_disk (init_store H sp)" by (simp add: H' H3_def)
  qed
qed

text \<open>Serving with a configuration without an API.\<close>

lemma serve_plain:
  assumes "read_host_config H (config_path_of config_arg) = Inr c" "dget c ''api'' = None" "dget c ''oci'' = None"
    and "serve_mnemonic A H environ stdin = Inr mnemonic" "serve_keys A c mnemonic = Inr keys"
    and "dget c ''store_path'' = Some (PStr sp)" "dget c ''source_id'' = Some (PStr src)" "dget c ''manifest_ttl'' = Some (PInt ttl)"
  obtains srv H' where "cmd_serve A version H environ stdin config_arg False = (Inr srv, H')"
    "se_crypto_keys (bs_settings srv) = Some keys" "\<not> sv_api_enabled (bs_state srv)"
    "bs_bind srv = dget_or c ''bind'' (PStr ''127.0.0.1'')" "dm_store (bs_daemon srv) = store_init (off_store (fst (ho_disk H sp)))"
proof -
  have f: "serve_flags c False = Inr (False, False)" using assms(2,3) by (simp add: serve_flags_def dget_or_def)
  have t: "serve_tokens H p False = Inr None" for p by (simp add: serve_tokens_def)
  show thesis
    by (rule that, unfold cmd_serve_def Let_def assms(1,4,5) rbind.simps f prod.case t dindex_Some[OF assms(6)] sum.case pyval.case)
      (simp add: make_server_def dget_or_def assms(7,8), simp_all add: dget_or_def new_server_state_def init_store_def case_prod_beta)
qed

text \<open>The environment the setup writes starts the daemon with the keys of its mnemonic, and no other does.\<close>

lemma setup_serves:
  assumes "cmd_setup A rv km H config_arg store_arg = (Inr mnemonic, H')" and "config_file (config_path_of config_arg)"
    and "aead_inverse A" and "length (rv_nonce rv) = 12" and "store_arg \<noteq> Some []"
  shows "\<exists>v m12 salt srv H''. dget (ho_files H') (sibling (config_path_of config_arg) ''env'') = Some (env_text v)
    \<and> split_mnemonic mnemonic = Inr (m12, salt)
    \<and> cmd_serve A version H' [v] stdin config_arg False = (Inr srv, H'')
    \<and> se_crypto_keys (bs_settings srv) = Some (derive_keys A m12 salt MNEMONIC_ITERATIONS)
    \<and> bs_bind srv = PStr ''127.0.0.1'' \<and> \<not> sv_api_enabled (bs_state srv)
    \<and> (\<forall>other. (\<forall>w s. split_mnemonic other = Inr (w, s) \<longrightarrow> mnemonic_hash_of w \<noteq> mnemonic_hash_of m12) \<longrightarrow>
        (\<exists>H2. cmd_serve A version H' [(''BUNCKER_MNEMONIC'', other)] None config_arg False = (Inl (sys_exit 1), H2)))
    \<and> (\<forall>other w s. split_mnemonic other = Inr (w, s) \<longrightarrow> mnemonic_hash_of w = mnemonic_hash_of m12 \<longrightarrow>
        (\<exists>srv2 H2. cmd_serve A version H' [(''BUNCKER_MNEMONIC'', other)] None config_arg False = (Inr srv2, H2)
          \<and> se_crypto_keys (bs_settings srv2) = Some (derive_keys A w s MNEMONIC_ITERATIONS)))"
proof -
  define sp where "sp = (case store_arg of None \<Rightarrow> ''/var/lib/buncker'' | Some p \<Rightarrow> p)"
  obtain m12 salt H0 where s: "split_mnemonic mnemonic = Inr (m12, salt)"
    and c: "dget (ho_files H') (config_path_of config_arg) = Some (save_config (setup_config rv sp salt (mnemonic_hash_of m12)))"
    and e: "dget (ho_files H') (sibling (config_path_of config_arg) ''env'') = Some (env_text (env_setting A H0 (rv_nonce rv) mnemonic))"
    and i: "\<forall>p \<in> {MACHINE_ID, DEFAULT_KEY_MATERIAL_PATH}. dget (ho_files H') p = dget (ho_files H0) p"
    using setup_leaves[OF assms(1,2)] unfolding sp_def by metis
  have "sp \<noteq> []" using assms(5) by (auto simp: sp_def split: option.splits)
  note conf = setup_config_loads[OF this c] and fields = setup_config_fields[OF refl, of rv sp salt "mnemonic_hash_of m12"]
  have m: "serve_mnemonic A H' [env_setting A H0 (rv_nonce rv) mnemonic] stdin = Inr mnemonic"
    using env_setting_mnemonic[OF assms(3,4) split_nonempty[OF s] i] split_nonempty[OF s] by (simp add: serve_mnemonic_def)
  have k: "serve_keys A (dmerge DEFAULTS (setup_config rv sp salt (mnemonic_hash_of m12))) mnemonic
      = Inr (derive_keys A m12 salt MNEMONIC_ITERATIONS)"
    by (rule serve_keys_ok[OF s fields(1)]) simp
  obtain srv H'' where run: "cmd_serve A version H' [env_setting A H0 (rv_nonce rv) mnemonic] stdin config_arg False = (Inr srv, H'')"
    "se_crypto_keys (bs_settings srv) = Some (derive_keys A m12 salt MNEMONIC_ITERATIONS)" "\<not> sv_api_enabled (bs_state srv)"
    "bs_bind srv = PStr ''127.0.0.1''"
    using serve_plain[OF conf fields(5,6) m k fields(2,7,8)] dget_or_Some[OF fields(3)] by metis
  have "\<exists>H2. cmd_serve A version H' [(''BUNCKER_MNEMONIC'', other)] None config_arg False = (Inl (sys_exit 1), H2)"
    if o: "\<forall>w s. split_mnemonic other = Inr (w, s) \<longrightarrow> mnemonic_hash_of w \<noteq> mnemonic_hash_of m12" for other
  proof -
    have r: "serve_keys A (dmerge DEFAULTS (setup_config rv sp salt (mnemonic_hash_of m12))) other = Inl (sys_exit 1)"
      by (rule serve_keys_refused[OF fields(1)]) (use o in \<open>auto simp: mnemonic_hash_of_def\<close>)
    have f: "serve_flags (dmerge DEFAULTS (setup_config rv sp salt (mnemonic_hash_of m12))) False = Inr (False, False)"
      using fields(5,6) by (simp add: serve_flags_def dget_or_def)
    show ?thesis using r by (simp add: cmd_serve_def Let_def conf f serve_mnemonic_def env_mnemonic_def dget_or_def)
  qed
  moreover have "\<exists>srv2 H2. cmd_serve A version H' [(''BUNCKER_MNEMONIC'', other)] None config_arg False = (Inr srv2, H2)
      \<and> se_crypto_keys (bs_settings srv2) = Some (derive_keys A w x MNEMONIC_ITERATIONS)"
    if o: "split_mnemonic other = Inr (w, x)" "mnemonic_hash_of w = mnemonic_hash_of m12" for other w x
  proof -
    have "serve_mnemonic A H' [(''BUNCKER_MNEMONIC'', other)] None = Inr other"
      using split_nonempty[OF o(1)] by (simp add: serve_mnemonic_def env_mnemonic_def dget_or_def)
    moreover have "serve_keys A (dmerge DEFAULTS (setup_config rv sp salt (mnemonic_hash_of m12))) other = Inr (derive_keys A w x MNEMONIC_ITERATIONS)"
      by (rule serve_keys_ok[OF o(1) fields(1)]) (simp add: o(2))
    ultimately show ?thesis using serve_plain[OF conf fields(5,6) _ _ fields(2,7,8)] by metis
  qed
  ultimately show ?thesis using e s run by blast
qed

text \<open>
  C29. The daemon starts with what the setup wrote: after a setup on a host without a configuration, the
  environment file sets one variable with which the daemon starts, whatever is typed, on the local
  address and without the API, and its keys are those of the mnemonic that was shown. A mnemonic whose first
  twelve words have another hash does not start it; one with the right twelve words does, whatever
  its four salt words are, with the keys that these give.
\<close>

theorem setup_then_serve:
  assumes "cmd_setup A rv km H config_arg store_arg = (Inr mnemonic, H')" and "config_file (config_path_of config_arg)"
    and "aead_inverse A" and "length (rv_nonce rv) = 12" and "store_arg \<noteq> Some []"
  shows "\<exists>v m12 salt srv H''. dget (ho_files H') (sibling (config_path_of config_arg) ''env'') = Some (env_text v)
    \<and> split_mnemonic mnemonic = Inr (m12, salt)
    \<and> cmd_serve A version H' [v] stdin config_arg False = (Inr srv, H'')
    \<and> se_crypto_keys (bs_settings srv) = Some (derive_keys A m12 salt MNEMONIC_ITERATIONS)
    \<and> bs_bind srv = PStr ''127.0.0.1'' \<and> \<not> sv_api_enabled (bs_state srv)
    \<and> (\<forall>other. (\<forall>w s. split_mnemonic other = Inr (w, s) \<longrightarrow> mnemonic_hash_of w \<noteq> mnemonic_hash_of m12) \<longrightarrow>
        (\<exists>H2. cmd_serve A version H' [(''BUNCKER_MNEMONIC'', other)] None config_arg False = (Inl (sys_exit 1), H2)))
    \<and> (\<forall>other w s. split_mnemonic other = Inr (w, s) \<longrightarrow> mnemonic_hash_of w = mnemonic_hash_of m12 \<longrightarrow>
        (\<exists>srv2 H2. cmd_serve A version H' [(''BUNCKER_MNEMONIC'', other)] None config_arg False = (Inr srv2, H2)
          \<and> se_crypto_keys (bs_settings srv2) = Some (derive_keys A w s MNEMONIC_ITERATIONS)))"
  by (rule setup_serves[OF assms])

lemma setup_succeeds:
  "dget (ho_files H) (config_path_of ca) = None \<Longrightarrow> fst (cmd_setup A rv True H ca sa) = Inr (generate_mnemonic (rv_entropy rv) (rv_salt rv))"
  by (simp add: cmd_setup_def Let_def split_generate_mnemonic)

definition demo_random :: random_values where
  "demo_random = \<lparr>rv_entropy = replicate 16 CHR ''e'', rv_salt = replicate 6 CHR ''s'', rv_source = ''4444'', rv_key_material = ''km'',
     rv_nonce = replicate 12 CHR ''n'', rv_readonly = ''ro'', rv_admin = ''ad''\<rparr>"

definition demo_host :: host where
  "demo_host = \<lparr>ho_files = [(''/etc/machine-id'', ''0f2a'')], ho_disk = (\<lambda>p. (\<lparr>off_store = empty_disk p, off_updates = []\<rparr>, []))\<rparr>"

definition after_setup :: host where
  "after_setup = snd (cmd_setup toy_aead demo_random True demo_host None None)"

definition demo_mnemonic :: string where
  "demo_mnemonic = generate_mnemonic (rv_entropy demo_random) (rv_salt demo_random)"

lemma demo_setup: "cmd_setup toy_aead demo_random True demo_host None None = (Inr demo_mnemonic, after_setup)"
proof -
  have "dget (ho_files demo_host) (config_path_of None) = None" by code_simp
  from setup_succeeds[OF this] show ?thesis unfolding after_setup_def demo_mnemonic_def by (metis prod.collapse)
qed

lemma default_config_file: "config_file (config_path_of None)"
  by code_simp

theorem setup_then_serve_witness:
  "\<exists>v m12 salt srv H''. split_mnemonic demo_mnemonic = Inr (m12, salt)
     \<and> cmd_serve toy_aead ''1'' after_setup [v] None None False = (Inr srv, H'')
     \<and> se_crypto_keys (bs_settings srv) = Some (derive_keys toy_aead m12 salt MNEMONIC_ITERATIONS)"
  using setup_then_serve[OF demo_setup default_config_file toy_aead_inverse, where stdin = None and version = "''1''"]
  by (simp add: demo_random_def) blast

section \<open>What a started server guarantees\<close>

lemma serve_parts:
  assumes "cmd_serve A version H environ stdin config_arg restrict = (Inr srv, H')"
  obtains config e r mnemonic keys tokens sp where "read_host_config H (config_path_of config_arg) = Inr config"
    "serve_flags config restrict = Inr (e, r)" "serve_mnemonic A H environ stdin = Inr mnemonic" "serve_keys A config mnemonic = Inr keys"
    "serve_tokens H (config_path_of config_arg) e = Inr tokens" "dget config ''store_path'' = Some (PStr sp)"
    "make_server version config keys tokens e r (ho_disk H' sp) = Inr srv"
  using assms unfolding cmd_serve_def Let_def
  by (auto simp: rbind_Inr_iff dindex_Inr_iff split: sum.splits pyval.splits)

lemma make_server_fields:
  assumes "make_server version config keys tokens e r disk = Inr srv"
  shows "bs_use_tls srv = truthy (dget_or config ''tls'' PNone)" "se_crypto_keys (bs_settings srv) = Some keys"
    "sv_api_tokens (bs_state srv) = tokens" "sv_api_enabled (bs_state srv) = e" "sv_oci_restrict (bs_state srv) = r"
  using assms by (auto simp: make_server_def new_server_state_def split: pyval.splits option.splits)

lemma serve_flags_ok:
  assumes "serve_flags config restrict = Inr (e, r)"
  shows "(e \<longrightarrow> truthy (dget_or config ''tls'' PNone)) \<and> (r \<longrightarrow> e) \<and> (restrict \<longrightarrow> r)"
  using assms by (auto simp: serve_flags_def rbind_Inr_iff split: if_splits)

lemma serve_keys_of:
  assumes "serve_keys A config mnemonic = Inr keys"
  obtains m12 salt where "split_mnemonic mnemonic = Inr (m12, salt)" "keys = derive_keys A m12 salt MNEMONIC_ITERATIONS"
    "\<forall>c h. dget config ''crypto'' = Some (PDict c) \<longrightarrow> dget c ''mnemonic_hash'' = Some (PStr h) \<longrightarrow> h \<noteq> [] \<longrightarrow> h = mnemonic_hash_of m12"
proof -
  from assms obtain m12 salt x where k: "split_mnemonic mnemonic = Inr (m12, salt)" "keys = derive_keys A m12 salt MNEMONIC_ITERATIONS"
    "vget (dget_or config ''crypto'' (PDict [])) ''mnemonic_hash'' (PStr []) = Inr x" "truthy x \<longrightarrow> PStr (mnemonic_hash_of m12) = x"
    by (auto simp: serve_keys_def rbind_Inr_iff split: sum.splits if_splits)
  show thesis by (rule that[OF k(1,2)]) (use k(3,4) in \<open>auto simp: dget_or_def\<close>)
qed

text \<open>
  C9. What a started daemon enforces: the API is enabled only over TLS, pulls are restricted only when it is, and the
  flag is obeyed; its keys are derived from the mnemonic whose hash the configuration holds. Requests are
  checked exactly when it has loaded tokens: then the API is enabled, and a path, as it was sent, that requires a
  level is granted at that level or above and only to the token of the level granted. When it has none, because the API is
  off or the token file is missing, every request is granted.
\<close>

theorem serve_safe:
  assumes "cmd_serve A version H environ stdin config_arg restrict = (Inr srv, H')"
  shows "(sv_api_enabled (bs_state srv) \<longrightarrow> bs_use_tls srv)
    \<and> (sv_oci_restrict (bs_state srv) \<longrightarrow> sv_api_enabled (bs_state srv)) \<and> (restrict \<longrightarrow> sv_oci_restrict (bs_state srv))
    \<and> (\<exists>config mnemonic m12 salt. read_host_config H (config_path_of config_arg) = Inr config
        \<and> serve_mnemonic A H environ stdin = Inr mnemonic \<and> split_mnemonic mnemonic = Inr (m12, salt)
        \<and> se_crypto_keys (bs_settings srv) = Some (derive_keys A m12 salt MNEMONIC_ITERATIONS)
        \<and> (\<forall>c h. dget config ''crypto'' = Some (PDict c) \<longrightarrow> dget c ''mnemonic_hash'' = Some (PStr h) \<longrightarrow> h \<noteq> [] \<longrightarrow>
             h = mnemonic_hash_of m12))
    \<and> (case sv_api_tokens (bs_state srv) of
         None \<Rightarrow> \<forall>path meth h. authenticate_request path meth h None (sv_api_enabled (bs_state srv)) (sv_oci_restrict (bs_state srv)) = Inr Local
       | Some ts \<Rightarrow> sv_api_enabled (bs_state srv) \<and> dget (ho_files H) (tokens_path_of (config_path_of config_arg)) \<noteq> None
           \<and> (\<forall>path meth h r l. required_level (sv_oci_restrict (bs_state srv)) path meth = Some r \<longrightarrow>
                authenticate_request path meth h (Some ts) (sv_api_enabled (bs_state srv)) (sv_oci_restrict (bs_state srv)) = Inr l \<longrightarrow>
                r \<le> l \<and> (\<exists>t. h = ''Bearer '' @ t \<and> t \<noteq> [] \<and> token_of ts l = Some (PStr t))))"
proof -
  from assms obtain config e r mnemonic keys tokens sp where p: "read_host_config H (config_path_of config_arg) = Inr config"
    "serve_flags config restrict = Inr (e, r)" "serve_mnemonic A H environ stdin = Inr mnemonic" "serve_keys A config mnemonic = Inr keys"
    "serve_tokens H (config_path_of config_arg) e = Inr tokens" "make_server version config keys tokens e r (ho_disk H' sp) = Inr srv"
    by (rule serve_parts) blast
  from p(4) obtain m12 salt where k: "split_mnemonic mnemonic = Inr (m12, salt)" "keys = derive_keys A m12 salt MNEMONIC_ITERATIONS"
    "\<forall>c h. dget config ''crypto'' = Some (PDict c) \<longrightarrow> dget c ''mnemonic_hash'' = Some (PStr h) \<longrightarrow> h \<noteq> [] \<longrightarrow> h = mnemonic_hash_of m12"
    by (rule serve_keys_of)
  have checked: "case tokens of None \<Rightarrow> \<forall>path meth h. authenticate_request path meth h None e r = Inr Local
       | Some ts \<Rightarrow> e \<and> dget (ho_files H) (tokens_path_of (config_path_of config_arg)) \<noteq> None
           \<and> (\<forall>path meth h q l. required_level r path meth = Some q \<longrightarrow> authenticate_request path meth h (Some ts) e r = Inr l \<longrightarrow>
                q \<le> l \<and> (\<exists>t. h = ''Bearer '' @ t \<and> t \<noteq> [] \<and> token_of ts l = Some (PStr t)))"
  proof (cases tokens)
    case None
    then show ?thesis by (simp add: authenticate_request_def Let_def)
  next
    case (Some ts)
    with p(5) have f: e "dget (ho_files H) (tokens_path_of (config_path_of config_arg)) \<noteq> None"
      by (auto simp: serve_tokens_def load_api_tokens_def split: if_splits option.splits)
    with Some authenticate_sound show ?thesis by simp
  qed
  show ?thesis unfolding make_server_fields[OF p(6)] using serve_flags_ok[OF p(2)] p(1,3) k checked by blast
qed

text \<open>A token file that is missing turns authentication off: every request is granted without a token.\<close>

theorem missing_tokens_open:
  assumes "cmd_serve A version H environ stdin config_arg restrict = (Inr srv, H')"
    and "dget (ho_files H) (tokens_path_of (config_path_of config_arg)) = None"
  shows "authenticate_request path meth h (sv_api_tokens (bs_state srv)) (sv_api_enabled (bs_state srv)) (sv_oci_restrict (bs_state srv))
    = Inr Local"
proof -
  from assms(1) obtain config e r mnemonic keys tokens sp where p: "serve_tokens H (config_path_of config_arg) e = Inr tokens"
    "make_server version config keys tokens e r (ho_disk H' sp) = Inr srv"
    by (rule serve_parts) blast
  have "tokens = None" using p(1) assms(2) by (auto simp: serve_tokens_def load_api_tokens_def split: if_splits)
  then show ?thesis unfolding make_server_fields[OF p(2)] by (simp add: authenticate_request_def Let_def)
qed

section \<open>Activating the API\<close>

lemma copy2_other: "copy2 H s t = (r, H') \<Longrightarrow> q \<noteq> t \<Longrightarrow> dget (ho_files H') q = dget (ho_files H) q"
  by (auto simp: copy2_def split: option.splits if_splits)

lemma setup_tls_other:
  assumes "setup_tls ce H sp cert key = (r, H')" "\<And>x. x \<noteq> [] \<Longrightarrow> last x = CHR ''m'' \<Longrightarrow> q \<noteq> tls_file sp x"
  shows "dget (ho_files H') q = dget (ho_files H) q"
proof -
  have n: "q \<noteq> tls_file sp ''server.pem''" "q \<noteq> tls_file sp ''server-key.pem''" "q \<noteq> tls_file sp ''ca.pem''" "q \<noteq> tls_file sp ''ca-key.pem''"
    using assms(2) by simp_all
  show ?thesis
    using assms(1) n by (auto simp: setup_tls_def write_certs_def dest!: copy2_other[where q = q]
      split: option.splits if_splits prod.splits sum.splits)
qed

lemma copy_ca_other: "copy_ca H sp p = (r, H') \<Longrightarrow> q \<noteq> sibling p ''ca.pem'' \<Longrightarrow> dget (ho_files H') q = dget (ho_files H) q"
  by (auto simp: copy_ca_def Let_def dest: copy2_other split: if_splits)

lemma api_config_loads:
  assumes "load_config p raw = Inr c" "wf_json (PDict c)"
  shows "load_config p (Some (save_config (api_config c))) = Inr (api_config c)"
proof (rule saved_loads)
  show "extends DEFAULTS (api_config c)"
    using loaded_extends[OF assms(1)] by (simp add: api_config_def extends_dset)
  have "dget_or (api_config c) k w = dget_or c k w" if "k \<notin> {''api'', ''tls'', ''bind''}" for k w
    using that by (auto simp: api_config_def dget_or_def)
  then show "validate_config (api_config c) = Inr ()"
    using loaded_valid[OF assms(1)] by (simp add: validate_config_def)
  show "wf_json (PDict (api_config c))" unfolding api_config_def by (intro wf_dset assms(2)) simp_all
qed

text \<open>What a successful activation leaves behind.\<close>

lemma api_setup_leaves:
  assumes "cmd_api_setup rv ce H config_arg cert key = (Inr tokens, H')" and cf: "config_file (config_path_of config_arg)"
  obtains c where "read_host_config H (config_path_of config_arg) = Inr c" "tokens = generate_api_tokens rv"
    "dget (ho_files H') (config_path_of config_arg) = Some (save_config (api_config c))"
    "dget (ho_files H') (tokens_path_of (config_path_of config_arg)) = Some (py_encode (json_pretty 0 (PDict tokens)))"
proof -
  define cp tp where "cp = config_path_of config_arg" and "tp = tokens_path_of (config_path_of config_arg)"
  obtain c sp where c: "read_host_config H cp = Inr c" "dindex c ''store_path'' = Inr (PStr sp)" "tokens = generate_api_tokens rv"
    and rest: "\<exists>H2 H3. setup_tls ce (save_api_tokens H tokens tp) sp cert key = (Inr (), H2)
      \<and> copy_ca (put_file H2 cp (save_config (api_config c))) sp cp = (Inr (), H')"
    using assms(1) unfolding cmd_api_setup_def Let_def cp_def tp_def
    by (auto simp: rbind_Inr_iff split: if_splits sum.splits pyval.splits prod.splits)
  then obtain H2 where H2: "setup_tls ce (save_api_tokens H tokens tp) sp cert key = (Inr (), H2)"
    "copy_ca (put_file H2 cp (save_config (api_config c))) sp cp = (Inr (), H')" by blast
  note n = config_file_neq[OF cf, folded cp_def tp_def] and m = path_facts(3,4)[where p = cp]
  have tp: "tp = tokens_path_of cp" by (simp add: tp_def cp_def)
  have "dget (ho_files H') cp = Some (save_config (api_config c))"
    using copy_ca_other[OF H2(2), of cp] n(3)[of cp] by simp
  moreover have "dget (ho_files H2) tp = Some (py_encode (json_pretty 0 (PDict tokens)))"
    using setup_tls_other[OF H2(1), of tp] m(2) by (simp add: save_api_tokens_def tp)
  then have "dget (ho_files H') tp = Some (py_encode (json_pretty 0 (PDict tokens)))"
    using copy_ca_other[OF H2(2), of tp] m(1)[of cp] n(4) by (simp add: tp)
  ultimately show thesis using that c unfolding cp_def tp_def by blast
qed

text \<open>
  C10. Activating the API protects it against requests with plain paths: once \<open>api-setup\<close> has succeeded, a daemon
  started from its configuration speaks TLS, and as long as it runs a request whose path starts with a single
  slash and has, before the query, no white space or control character and no \<open>#\<close> or \<open>;\<close> reaches an administration endpoint only
  with one of the two tokens that were shown, of at least the level the endpoint requires. For other paths
  this is false (\<open>tab_path_unauthenticated\<close>).
\<close>

theorem api_setup_protects:
  assumes "cmd_api_setup rv ce H config_arg cert key = (Inr tokens, H')" and "config_file (config_path_of config_arg)"
    and "read_host_config H (config_path_of config_arg) = Inr c" and "wf_json (PDict c)"
    and "cmd_serve A version H' environ stdin config_arg restrict = (Inr srv, H'')"
    and "sv_api_tokens sv = sv_api_tokens (bs_state srv)" and "sv_api_enabled sv = sv_api_enabled (bs_state srv)"
    and "plain_request rq p" and "dispatch ok sv now rq = (Inr (route, l), sv')" and "route_level route = Some r"
  shows "bs_use_tls srv \<and> r \<le> l \<and> (\<exists>t. authorization rq = ''Bearer '' @ t \<and> token_of tokens l = Some (PStr t))"
proof -
  obtain c1 where l: "read_host_config H (config_path_of config_arg) = Inr c1" "tokens = generate_api_tokens rv"
    "dget (ho_files H') (config_path_of config_arg) = Some (save_config (api_config c1))"
    "dget (ho_files H') (tokens_path_of (config_path_of config_arg)) = Some (py_encode (json_pretty 0 (PDict tokens)))"
    by (rule api_setup_leaves[OF assms(1,2)])
  have c1: "c1 = c" using l(1) assms(3) by simp
  have t: "tokens = generate_api_tokens rv"
    and f: "dget (ho_files H') (config_path_of config_arg) = Some (save_config (api_config c))"
      "dget (ho_files H') (tokens_path_of (config_path_of config_arg)) = Some (py_encode (json_pretty 0 (PDict tokens)))"
    by (rule l(2), rule l(3)[unfolded c1], rule l(4))
  have conf: "read_host_config H' (config_path_of config_arg) = Inr (api_config c)"
    using api_config_loads[OF assms(3)[unfolded read_host_config_def] assms(4)] by (simp add: read_host_config_def f(1))
  have "wf_json (PDict tokens)" by (simp add: t generate_api_tokens_def)
  from load_text_pretty[OF this] have tok: "serve_tokens H' (config_path_of config_arg) True = Inr (Some tokens)"
    by (simp add: serve_tokens_def load_api_tokens_def f(2))
  from assms(5) obtain e r' mnemonic keys ts sp where p: "serve_flags (api_config c) restrict = Inr (e, r')"
    "serve_tokens H' (config_path_of config_arg) e = Inr ts" "make_server version (api_config c) keys ts e r' (ho_disk H'' sp) = Inr srv"
    by (rule serve_parts) (auto simp: conf)
  have e: "e" using p(1) by (auto simp: serve_flags_def api_config_def dget_or_def rbind_Inr_iff split: if_splits)
  then have ts: "ts = Some tokens" using p(2) tok by simp
  have tls: "bs_use_tls srv" using serve_flags_ok[OF p(1)] e by (simp add: make_server_fields[OF p(3)])
  have "sv_api_enabled sv" "sv_api_tokens sv = Some tokens" using assms(6,7) e ts by (simp_all add: make_server_fields[OF p(3)])
  from dispatch_guarded[OF assms(8) this assms(9,10)] tls show ?thesis by blast
qed

section \<open>Rotation\<close>

lemma vset_dict: "vset v k w = Inr u \<Longrightarrow> \<exists>d. v = PDict d \<and> u = PDict (dset d k w)"
  by (auto simp: vset_def split: pyval.splits)

text \<open>A host where only the keys of the configuration are others serves as before, with these.\<close>

lemma serves_again:
  assumes "cmd_serve A version H env0 stdin0 config_arg r = (Inr srv0, H0)" "read_host_config H (config_path_of config_arg) = Inr c"
    and "read_host_config H' (config_path_of config_arg) = Inr c'" "\<And>k. k \<noteq> ''crypto'' \<Longrightarrow> dget c' k = dget c k"
    and "dget (ho_files H') (tokens_path_of (config_path_of config_arg)) = dget (ho_files H) (tokens_path_of (config_path_of config_arg))"
    and "serve_mnemonic A H' environ stdin = Inr mnemonic" "serve_keys A c' mnemonic = Inr keys"
  shows "\<exists>srv H2. cmd_serve A version H' environ stdin config_arg r = (Inr srv, H2) \<and> se_crypto_keys (bs_settings srv) = Some keys"
proof -
  obtain e r' keys0 ts sp where p: "serve_flags c r = Inr (e, r')" "serve_tokens H (config_path_of config_arg) e = Inr ts"
    "dget c ''store_path'' = Some (PStr sp)" "make_server version c keys0 ts e r' (ho_disk H0 sp) = Inr srv0"
    by (rule serve_parts[OF assms(1)]) (simp add: assms(2))
  have other: "dget_or c' k w = dget_or c k w" if "k \<noteq> ''crypto''" for k w using assms(4)[OF that] by (simp add: dget_or_def)
  have "serve_flags c' r = serve_flags c r"
    unfolding serve_flags_def other[of "''api''", simplified] other[of "''tls''", simplified] other[of "''oci''", simplified] ..
  then have f: "serve_flags c' r = Inr (e, r')" using p(1) by simp
  have "serve_tokens H' (config_path_of config_arg) e = serve_tokens H (config_path_of config_arg) e"
    by (simp only: serve_tokens_def load_api_tokens_def assms(5))
  then have t: "serve_tokens H' (config_path_of config_arg) e = Inr ts" using p(2) by simp
  have sp: "dget c' ''store_path'' = Some (PStr sp)" using p(3) by (simp add: assms(4))
  obtain srv where srv: "make_server version c' keys ts e r' (ho_disk (init_store H' sp) sp) = Inr srv"
    using p(4) unfolding make_server_def other[of "''source_id''", simplified] other[of "''manifest_ttl''", simplified]
    by (auto split: pyval.splits option.splits)
  have "cmd_serve A version H' environ stdin config_arg r = (Inr srv, init_store H' sp)"
    unfolding cmd_serve_def Let_def assms(3) rbind.simps f prod.case assms(6,7) t dindex_Some[OF sp] sum.case pyval.case srv ..
  then show ?thesis using make_server_fields(2)[OF srv] by simp
qed

text \<open>What a started daemon was given, when the configuration holds the hash of some words.\<close>

lemma serves_only:
  assumes "read_host_config H (config_path_of config_arg) = Inr c"
    and "dget c ''crypto'' = Some (PDict cr)" "dget cr ''mnemonic_hash'' = Some (PStr (mnemonic_hash_of m12))"
    and "cmd_serve A version H environ stdin config_arg r = (Inr srv, H2)"
  shows "\<exists>used w s. serve_mnemonic A H environ stdin = Inr used \<and> split_mnemonic used = Inr (w, s)
    \<and> mnemonic_hash_of w = mnemonic_hash_of m12 \<and> se_crypto_keys (bs_settings srv) = Some (derive_keys A w s MNEMONIC_ITERATIONS)"
proof -
  obtain e r' used keys ts sp where p: "serve_mnemonic A H environ stdin = Inr used"
    "serve_keys A c used = Inr keys" "make_server version c keys ts e r' (ho_disk H2 sp) = Inr srv"
    by (rule serve_parts[OF assms(4)]) (simp add: assms(1))
  obtain w s where k: "split_mnemonic used = Inr (w, s)" "keys = derive_keys A w s MNEMONIC_ITERATIONS"
    "\<forall>c' h. dget c ''crypto'' = Some (PDict c') \<longrightarrow> dget c' ''mnemonic_hash'' = Some (PStr h) \<longrightarrow> h \<noteq> [] \<longrightarrow> h = mnemonic_hash_of w"
    by (rule serve_keys_of[OF p(2)])
  have "mnemonic_hash_of m12 \<noteq> []" by (simp add: mnemonic_hash_of_def)
  then have "mnemonic_hash_of w = mnemonic_hash_of m12" using k(3) assms(2,3) by auto
  with p(1) k(1,2) make_server_fields(2)[OF p(3)] show ?thesis by simp
qed

text \<open>What a successful rotation leaves behind.\<close>

lemma rotation_leaves:
  assumes "cmd_rotate_keys A rv now H config_arg grace = (Inr mnemonic, H')" and "config_file (config_path_of config_arg)"
    and "aead_inverse A" and "length (rv_nonce rv) = 12"
    and "read_host_config H (config_path_of config_arg) = Inr c" and "wf_json (PDict c)" and "\<bar>grace\<bar> < 10 ^ 18"
  obtains v m12 salt c' cr where "dget (ho_files H') (sibling (config_path_of config_arg) ''env'') = Some (env_text v)"
    "split_mnemonic mnemonic = Inr (m12, salt)" "\<And>stdin. serve_mnemonic A H' [v] stdin = Inr mnemonic"
    "read_host_config H' (config_path_of config_arg) = Inr c'" "\<And>k. k \<noteq> ''crypto'' \<Longrightarrow> dget c' k = dget c k"
    "dget c' ''crypto'' = Some (PDict cr)" "dget cr ''mnemonic_hash'' = Some (PStr (mnemonic_hash_of m12))"
    "dget (ho_files H') (tokens_path_of (config_path_of config_arg)) = dget (ho_files H) (tokens_path_of (config_path_of config_arg))"
proof -
  define cp where "cp = config_path_of config_arg"
  let ?m = "generate_mnemonic (rv_entropy rv) (rv_salt rv)"
  obtain m12 salt where s: "split_mnemonic ?m = Inr (m12, salt)" unfolding split_generate_mnemonic by simp
  note c = assms(5)[folded cp_def]
  from assms(1) c obtain d where d: "dget_or c ''crypto'' (PDict []) = PDict d"
    by (auto simp: cmd_rotate_keys_def Let_def rbind_Inr_iff simp flip: cp_def split: sum.splits dest!: vset_dict)
  define old where "old = PDict (dset (dset d ''deprecated_at'' (PStr (isoformat now))) ''grace_period_days'' (PInt grace))"
  define c' where "c' = dset c ''crypto'' (PDict [(''salt'', PStr (b64encode salt)), (''mnemonic_hash'', PStr (mnemonic_hash_of m12)),
    (''previous'', old)])"
  define H1 where "H1 = put_file H cp (save_config c')"
  have H': "H' = put_file H1 (sibling cp ''env'') (env_text (env_setting A H1 (rv_nonce rv) ?m))" and m: "mnemonic = ?m"
    using assms(1) c s by (auto simp: cmd_rotate_keys_def Let_def d old_def c'_def H1_def simp flip: cp_def)
  have wd: "wf_json (PDict d)"
  proof -
    from d have "d = [] \<or> (''crypto'', PDict d) \<in> set c" by (auto simp: dget_or_def split: option.splits dest: dget_in_set)
    then show ?thesis by (elim disjE) (simp, rule wf_dict_values[OF assms(6)])
  qed
  have wo: "wf_json old" unfolding old_def by (intro wf_dset wd wf_small_int assms(7)) simp
  then have w: "wf_json (PDict c')" unfolding c'_def by (intro wf_dset assms(6)) simp
  have ex: "extends DEFAULTS c'" unfolding c'_def
    using loaded_extends[OF c[unfolded read_host_config_def]] by (rule extends_dset)
  have "dget_or c' k x = dget_or c k x" if "k \<noteq> ''crypto''" for k x using that by (simp add: c'_def dget_or_def)
  then have "validate_config c' = Inr ()" using loaded_valid[OF c[unfolded read_host_config_def]] by (simp add: validate_config_def)
  from saved_loads[OF ex w this] have conf: "read_host_config H' cp = Inr c'"
    using config_file_neq[OF assms(2)] by (simp add: read_host_config_def H' H1_def flip: cp_def)
  have h: "dget c' ''crypto'' = Some (PDict [(''salt'', PStr (b64encode salt)), (''mnemonic_hash'', PStr (mnemonic_hash_of m12)), (''previous'', old)])"
    by (simp add: c'_def)
  define v where "v = env_setting A H1 (rv_nonce rv) ?m"
  have mn: "serve_mnemonic A H' [v] stdin = Inr ?m" for stdin
  proof -
    have "env_mnemonic A H' [v] = Inr ?m" unfolding v_def
      by (rule env_setting_mnemonic[OF assms(3,4) split_nonempty[OF s]])
        (use path_facts(1,2) path_facts(1,2)[symmetric] in \<open>auto simp: H'\<close>)
    then show ?thesis using split_nonempty[OF s] by (simp add: serve_mnemonic_def)
  qed
  have fields: "dget c' k = dget c k" if "k \<noteq> ''crypto''" for k using that by (simp add: c'_def)
  have "tokens_path_of cp \<noteq> sibling cp ''env''" by (rule last_neq) (simp add: tokens_path_of_def sibling_last)
  then have tok: "dget (ho_files H') (tokens_path_of cp) = dget (ho_files H) (tokens_path_of cp)"
    using config_file_neq(4)[OF assms(2)] by (simp add: H' H1_def flip: cp_def)
  have env: "dget (ho_files H') (sibling cp ''env'') = Some (env_text v)" by (simp add: H' v_def)
  show thesis
    by (rule that[OF env[unfolded cp_def] s[folded m] mn[folded m] conf[unfolded cp_def] fields h _ tok[unfolded cp_def]]) simp_all
qed

text \<open>
  C30. Rotation replaces the keys: the new mnemonic is in the environment file, and a daemon that started before starts
  with this file and has the keys of the new mnemonic. From then on a daemon starts only with a mnemonic whose first
  twelve words have the hash of the new one's, whatever the grace period, so not with the old one if its
  hash differs; its keys also depend on the four salt words, which are not checked. No other field of
  the configuration changes.
\<close>

theorem rotation_replaces_keys:
  assumes "cmd_rotate_keys A rv now H config_arg grace = (Inr mnemonic, H')" and "config_file (config_path_of config_arg)"
    and "aead_inverse A" and "length (rv_nonce rv) = 12"
    and "read_host_config H (config_path_of config_arg) = Inr c" and "wf_json (PDict c)" and "\<bar>grace\<bar> < 10 ^ 18"
  shows "\<exists>v m12 salt c'. dget (ho_files H') (sibling (config_path_of config_arg) ''env'') = Some (env_text v)
    \<and> split_mnemonic mnemonic = Inr (m12, salt)
    \<and> (\<forall>version env0 stdin0 stdin r srv0 H0. cmd_serve A version H env0 stdin0 config_arg r = (Inr srv0, H0) \<longrightarrow>
        (\<exists>srv H2. cmd_serve A version H' [v] stdin config_arg r = (Inr srv, H2)
          \<and> se_crypto_keys (bs_settings srv) = Some (derive_keys A m12 salt MNEMONIC_ITERATIONS)))
    \<and> (\<forall>version environ stdin r srv H2. cmd_serve A version H' environ stdin config_arg r = (Inr srv, H2) \<longrightarrow>
        (\<exists>used w s. serve_mnemonic A H' environ stdin = Inr used \<and> split_mnemonic used = Inr (w, s)
          \<and> mnemonic_hash_of w = mnemonic_hash_of m12 \<and> se_crypto_keys (bs_settings srv) = Some (derive_keys A w s MNEMONIC_ITERATIONS)))
    \<and> read_host_config H' (config_path_of config_arg) = Inr c' \<and> (\<forall>k. k \<noteq> ''crypto'' \<longrightarrow> dget c' k = dget c k)"
proof -
  obtain v m12 salt c' cr where L: "dget (ho_files H') (sibling (config_path_of config_arg) ''env'') = Some (env_text v)"
    "split_mnemonic mnemonic = Inr (m12, salt)" "\<And>stdin. serve_mnemonic A H' [v] stdin = Inr mnemonic"
    "read_host_config H' (config_path_of config_arg) = Inr c'" "\<And>k. k \<noteq> ''crypto'' \<Longrightarrow> dget c' k = dget c k"
    "dget c' ''crypto'' = Some (PDict cr)" "dget cr ''mnemonic_hash'' = Some (PStr (mnemonic_hash_of m12))"
    "dget (ho_files H') (tokens_path_of (config_path_of config_arg)) = dget (ho_files H) (tokens_path_of (config_path_of config_arg))"
    by (rule rotation_leaves[OF assms]) blast
  note starts = serves_again[OF _ assms(5) L(4,5,8,3) serve_keys_ok[OF L(2,6,7)]] and only = serves_only[OF L(4,6,7)]
  show ?thesis
    by (rule exI[of _ v], rule exI[of _ m12], rule exI[of _ salt], rule exI[of _ c']) (use L(1,2,4,5) starts only in simp)
qed

section \<open>Commands that cannot be completed\<close>

text \<open>A certificate path that does not exist ends the activation after the tokens are saved, and no later one gets past them.\<close>

theorem api_setup_stuck:
  assumes "read_host_config H (config_path_of config_arg) = Inr c" "dget (ho_files H) (config_path_of config_arg) \<noteq> None"
    and "dget (ho_files H) (tokens_path_of (config_path_of config_arg)) = None"
    and "config_file (config_path_of config_arg)" and "dget (ho_files H) cert = None" "cert \<noteq> tokens_path_of (config_path_of config_arg)"
  shows "\<exists>H'. cmd_api_setup rv ce H config_arg (Some cert) (Some key) = (Inl (sys_exit 1), H')
    \<and> (\<forall>rv' ce' a b. cmd_api_setup rv' ce' H' config_arg a b = (Inl (sys_exit 1), H'))
    \<and> read_host_config H' (config_path_of config_arg) = Inr c"
proof -
  define cp tp where "cp = config_path_of config_arg" and "tp = tokens_path_of (config_path_of config_arg)"
  have n: "cp \<noteq> tp" using config_file_neq(4)[OF assms(4)] by (simp add: cp_def tp_def)
  have tp: "tokens_path_of cp = tp" by (simp add: cp_def tp_def)
  define H' where "H' = save_api_tokens H (generate_api_tokens rv) tp"
  have f: "dget (ho_files H') cp = dget (ho_files H) cp" "dget (ho_files H') tp \<noteq> None" "dget (ho_files H') cert = None"
    using n assms(5,6) by (simp_all add: H'_def save_api_tokens_def flip: tp_def)
  have r: "read_host_config H' cp = Inr c" using assms(1) f(1) by (simp add: read_host_config_def flip: cp_def)
  obtain sp where sp: "dget c ''store_path'' = Some (PStr sp)"
    using loaded_checked[OF assms(1)[unfolded read_host_config_def]] by (auto simp: checked_fields_def)
  obtain raw where "dget (ho_files H) cp = Some raw" using assms(2) by (auto simp: cp_def)
  then have "cmd_api_setup rv ce H config_arg (Some cert) (Some key) = (Inl (sys_exit 1), H')"
    using assms(1,3) sp f(3) tp by (simp add: cmd_api_setup_def Let_def setup_tls_def H'_def flip: cp_def)
  moreover have "cmd_api_setup rv' ce' H' config_arg a b = (Inl (sys_exit 1), H')" for rv' ce' a b
    using assms(2) f r tp by (simp add: cmd_api_setup_def Let_def flip: cp_def)
  ultimately show ?thesis using r by (auto simp flip: cp_def)
qed

text \<open>Where the key material cannot be written the setup ends before it shows the mnemonic, and cannot be repeated.\<close>

theorem setup_lost_mnemonic:
  assumes "dget (ho_files H) (config_path_of config_arg) = None" "config_file (config_path_of config_arg)"
  shows "\<exists>H'. cmd_setup A rv False H config_arg store_arg = (Inl unbound_contextlib, H')
    \<and> cmd_setup A rv' km H' config_arg store_arg' = (Inl (sys_exit 1), H')"
proof -
  obtain H' where H': "cmd_setup A rv False H config_arg store_arg = (Inl unbound_contextlib, H')"
    using assms(1) by (simp add: cmd_setup_def Let_def split_generate_mnemonic)
  then have "dget (ho_files H') (config_path_of config_arg) \<noteq> None"
    using assms(1) config_file_neq(1)[OF assms(2)] by (auto simp: cmd_setup_def Let_def split_generate_mnemonic)
  then have "cmd_setup A rv' km H' config_arg store_arg' = (Inl (sys_exit 1), H')" by (simp add: cmd_setup_def Let_def)
  with H' show ?thesis by blast
qed

section \<open>Runs\<close>

text \<open>The demonstration host after a setup, after the activation of the API, and its daemon.\<close>

lemma setup_other:
  assumes "cmd_setup A rv km H config_arg store_arg = (r, H')"
    and "q \<notin> {config_path_of config_arg, sibling (config_path_of config_arg) ''key-material'', sibling (config_path_of config_arg) ''env''}"
  shows "dget (ho_files H') q = dget (ho_files H) q"
  using assms by (auto simp: cmd_setup_def Let_def split_generate_mnemonic split: if_splits)

lemma demo_configured:
  obtains salt h where "read_host_config after_setup (config_path_of None) = Inr (dmerge DEFAULTS (setup_config demo_random ''/var/lib/buncker'' salt h))"
    "\<exists>m12. split_mnemonic demo_mnemonic = Inr (m12, salt) \<and> h = mnemonic_hash_of m12"
proof (rule setup_leaves[OF demo_setup default_config_file])
  fix m12 salt
  assume s: "split_mnemonic demo_mnemonic = Inr (m12, salt)" and f: "dget (ho_files after_setup) (config_path_of None) = Some (save_config
       (setup_config demo_random (case None of None \<Rightarrow> ''/var/lib/buncker'' | Some p \<Rightarrow> p) salt (mnemonic_hash_of m12)))"
  have n: "''/var/lib/buncker'' \<noteq> []" by simp
  show thesis by (rule that[OF setup_config_loads[OF n f[unfolded option.case]]]) (use s in blast)
qed

lemma setup_config_wf: "wf_json (PDict (dmerge DEFAULTS (setup_config rv sp salt h)))"
  by (simp add: dmerge_def DEFAULTS_def setup_config_def wf_small_int del: wf_json.simps(2))

definition demo_certs :: certificates where
  "demo_certs = \<lparr>ce_ca = ''ca'', ce_ca_key = ''ck'', ce_cert = ''ce'', ce_key = ''k''\<rparr>"

lemma api_setup_succeeds:
  assumes "read_host_config H (config_path_of ca) = Inr c" "dget (ho_files H) (config_path_of ca) \<noteq> None"
    and "dget (ho_files H) (tokens_path_of (config_path_of ca)) = None" "dget c ''store_path'' = Some (PStr sp)"
    and "tls_file sp ''ca.pem'' \<noteq> sibling (config_path_of ca) ''ca.pem''"
  shows "fst (cmd_api_setup rv ce H ca None None) = Inr (generate_api_tokens rv)"
proof -
  have "fst (copy_ca X sp (config_path_of ca)) = Inr ()" for X
    using assms(5) by (auto simp: copy_ca_def copy2_def Let_def split: option.splits)
  then show ?thesis using assms(1-4) by (simp add: cmd_api_setup_def Let_def setup_tls_def case_prod_beta)
qed

definition after_api :: host where
  "after_api = snd (cmd_api_setup demo_random demo_certs after_setup None None None)"

lemma demo_api: "cmd_api_setup demo_random demo_certs after_setup None None None = (Inr (generate_api_tokens demo_random), after_api)"
proof (rule demo_configured)
  fix salt h
  assume c: "read_host_config after_setup (config_path_of None) = Inr (dmerge DEFAULTS (setup_config demo_random ''/var/lib/buncker'' salt h))"
  have e: "dget (ho_files after_setup) (config_path_of None) \<noteq> None"
    by (rule setup_leaves[OF demo_setup default_config_file]) simp
  have "tokens_path_of (config_path_of None) \<notin> {config_path_of None, sibling (config_path_of None) ''key-material'',
      sibling (config_path_of None) ''env''}" by code_simp
  note other = setup_other[OF demo_setup this]
  have "tokens_path_of (config_path_of None) \<noteq> ''/etc/machine-id''" by code_simp
  with other have t: "dget (ho_files after_setup) (tokens_path_of (config_path_of None)) = None"
    by (simp only: demo_host_def host.simps map_of.simps fst_conv snd_conv fun_upd_apply if_False simp_thms not_False_eq_True)
  have "tls_file ''/var/lib/buncker'' ''ca.pem'' \<noteq> sibling (config_path_of None) ''ca.pem''" by code_simp
  from api_setup_succeeds[OF c e t setup_config_fields(2)[OF refl] this]
  have "fst (cmd_api_setup demo_random demo_certs after_setup None None None) = Inr (generate_api_tokens demo_random)" .
  then show ?thesis unfolding after_api_def by (metis prod.collapse)
qed

lemma serve_runs:
  assumes "read_host_config H (config_path_of config_arg) = Inr c" "serve_flags c restrict = Inr (e, r)"
    and "serve_mnemonic A H environ stdin = Inr mnemonic" "serve_keys A c mnemonic = Inr keys"
    and "serve_tokens H (config_path_of config_arg) e = Inr ts"
    and "dget c ''store_path'' = Some (PStr sp)" "dget c ''source_id'' = Some (PStr src)" "dget c ''manifest_ttl'' = Some (PInt ttl)"
  shows "\<exists>srv H'. cmd_serve A version H environ stdin config_arg restrict = (Inr srv, H') \<and> bs_state srv = new_server_state ts e r"
  unfolding cmd_serve_def Let_def assms(1-5) rbind.simps prod.case dindex_Some[OF assms(6)] sum.case pyval.case
  by (simp add: make_server_def dget_or_def assms(7,8))

abbreviation demo_environ :: "(string \<times> string) list" where
  "demo_environ \<equiv> [(''BUNCKER_MNEMONIC'', demo_mnemonic)]"

lemma demo_serve_api:
  "\<exists>srv H'. cmd_serve toy_aead ''1'' after_api demo_environ None None r = (Inr srv, H')
     \<and> bs_state srv = new_server_state (Some (generate_api_tokens demo_random)) True r"
proof (rule demo_configured)
  fix salt h
  assume c: "read_host_config after_setup (config_path_of None) = Inr (dmerge DEFAULTS (setup_config demo_random ''/var/lib/buncker'' salt h))"
    and "\<exists>m12. split_mnemonic demo_mnemonic = Inr (m12, salt) \<and> h = mnemonic_hash_of m12"
  then obtain m12 where s: "split_mnemonic demo_mnemonic = Inr (m12, salt)" "h = mnemonic_hash_of m12" by blast
  let ?c = "dmerge DEFAULTS (setup_config demo_random ''/var/lib/buncker'' salt h)"
  note f = setup_config_fields[OF refl, of demo_random "''/var/lib/buncker''" salt h]
  from api_setup_leaves[OF demo_api default_config_file] obtain
    l: "dget (ho_files after_api) (config_path_of None) = Some (save_config (api_config ?c))"
      "dget (ho_files after_api) (tokens_path_of (config_path_of None)) = Some (py_encode (json_pretty 0 (PDict (generate_api_tokens demo_random))))"
    using c by (metis sum.inject(2))
  have conf: "read_host_config after_api (config_path_of None) = Inr (api_config ?c)"
    using api_config_loads[OF c[unfolded read_host_config_def] setup_config_wf] by (simp add: read_host_config_def l(1))
  have "wf_json (PDict (generate_api_tokens demo_random))" by (simp add: generate_api_tokens_def)
  from load_text_pretty[OF this] have tok: "serve_tokens after_api (config_path_of None) True = Inr (Some (generate_api_tokens demo_random))"
    by (simp add: serve_tokens_def load_api_tokens_def l(2))
  have flags: "serve_flags (api_config ?c) r = Inr (True, r)"
    using f(6) by (simp add: serve_flags_def api_config_def dget_or_def)
  have m: "serve_mnemonic toy_aead after_api demo_environ None = Inr demo_mnemonic"
    using split_nonempty[OF s(1)] by (simp add: serve_mnemonic_def env_mnemonic_def dget_or_def)
  have h: "dget (api_config ?c) ''crypto'' = Some (PDict [(''salt'', PStr (b64encode salt)), (''mnemonic_hash'', PStr h)])"
    by (simp add: api_config_def f(1))
  have k: "serve_keys toy_aead (api_config ?c) demo_mnemonic = Inr (derive_keys toy_aead m12 salt MNEMONIC_ITERATIONS)"
    by (rule serve_keys_ok[OF s(1) h]) (simp add: s(2))
  show ?thesis
    by (rule serve_runs[OF conf flags m k tok]) (simp_all add: api_config_def f)
qed

theorem serve_safe_witness:
  "\<exists>srv H'. cmd_serve toy_aead ''1'' after_api demo_environ None None True = (Inr srv, H') \<and> sv_oci_restrict (bs_state srv) \<and> bs_use_tls srv"
proof -
  obtain srv H' where r: "cmd_serve toy_aead ''1'' after_api demo_environ None None True = (Inr srv, H')"
    using demo_serve_api by blast
  from serve_safe[OF r] r show ?thesis by blast
qed

definition demo_status :: http_request where
  "demo_status = \<lparr>rq_path = ''/admin/status'', rq_command = ''GET'', rq_client = ''10.0.0.9'',
     rq_environ = [(''HTTP_AUTHORIZATION'', ''Bearer '' @ hex_str ''ro'')]\<rparr>"

theorem api_setup_protects_witness:
  "\<exists>srv H'. cmd_serve toy_aead ''1'' after_api demo_environ None None False = (Inr srv, H') \<and> bs_use_tls srv
     \<and> fst (dispatch (\<lambda>_. True) (bs_state srv) 0 demo_status) = Inr (AdminStatus, Readonly)
     \<and> token_of (generate_api_tokens demo_random) Readonly = Some (PStr (hex_str ''ro''))"
proof (rule demo_configured)
  fix salt h
  assume c: "read_host_config after_setup (config_path_of None) = Inr (dmerge DEFAULTS (setup_config demo_random ''/var/lib/buncker'' salt h))"
  obtain srv H' where r: "cmd_serve toy_aead ''1'' after_api demo_environ None None False = (Inr srv, H')"
    and st: "bs_state srv = new_server_state (Some (generate_api_tokens demo_random)) True False"
    using demo_serve_api by blast
  have "fst (dispatch (\<lambda>_. True) (new_server_state (Some (generate_api_tokens demo_random)) True False) 0 demo_status) = Inr (AdminStatus, Readonly)"
    by code_simp
  then have d: "dispatch (\<lambda>_. True) (bs_state srv) 0 demo_status = (Inr (AdminStatus, Readonly), snd (dispatch (\<lambda>_. True) (bs_state srv) 0 demo_status))"
    unfolding st by (metis prod.collapse)
  have "plain_path ''/admin/status''" by code_simp
  then have p: "plain_request demo_status ''/admin/status''" by (simp add: plain_request_def demo_status_def)
  have t: "token_of (generate_api_tokens demo_random) Readonly = Some (PStr (hex_str ''ro''))"
    by (simp add: generate_api_tokens_def token_of_def demo_random_def)
  have "bs_use_tls srv" using api_setup_protects[OF demo_api default_config_file c setup_config_wf r refl refl p d] by simp
  with r d t show ?thesis by (metis fst_conv)
qed

theorem rotation_replaces_keys_witness:
  "\<exists>H' v m12 salt srv H2. cmd_rotate_keys toy_aead demo_random 0 after_setup None 30 = (Inr demo_mnemonic, H')
     \<and> dget (ho_files H') (sibling (config_path_of None) ''env'') = Some (env_text v) \<and> split_mnemonic demo_mnemonic = Inr (m12, salt)
     \<and> cmd_serve toy_aead ''1'' H' [v] None None False = (Inr srv, H2)
     \<and> se_crypto_keys (bs_settings srv) = Some (derive_keys toy_aead m12 salt MNEMONIC_ITERATIONS)"
proof (rule demo_configured)
  fix salt h
  assume c: "read_host_config after_setup (config_path_of None) = Inr (dmerge DEFAULTS (setup_config demo_random ''/var/lib/buncker'' salt h))"
  note f = setup_config_fields[OF refl, of demo_random "''/var/lib/buncker''" salt h]
  have "fst (cmd_rotate_keys toy_aead demo_random 0 after_setup None 30) = Inr demo_mnemonic"
    by (simp add: cmd_rotate_keys_def Let_def c dget_or_def f(1) split_generate_mnemonic demo_mnemonic_def)
  then obtain H' where r: "cmd_rotate_keys toy_aead demo_random 0 after_setup None 30 = (Inr demo_mnemonic, H')" by (metis prod.collapse)
  have n: "length (rv_nonce demo_random) = 12" "\<bar>30\<bar> < (10 :: int) ^ 18" by (simp_all add: demo_random_def)
  obtain v0 srv0 H0 where "cmd_serve toy_aead ''1'' after_setup [v0] None None False = (Inr srv0, H0)"
    using setup_serves[OF demo_setup default_config_file toy_aead_inverse, where stdin = None and version = "''1''"]
    by (simp add: demo_random_def) blast
  with rotation_replaces_keys[OF r default_config_file toy_aead_inverse n(1) c setup_config_wf n(2)] r show ?thesis by fast
qed

end
