(* ===== verification/Oci.thy ===== *)
theory Oci
  imports Py_Json_File
begin

text \<open>
  \<open>shared/oci.py\<close>: OCI manifests and indexes as parsed from JSON, the choice of a platform, and the
  image layout directory. The fields of a parsed document are not checked, so they hold any value;
  a platform asked for has strings. The order of the set of digests is the argument \<open>order\<close>.
\<close>

declare map_of_eq_Some_iff [simp del]

section \<open>Documents\<close>

record 'a oci_platform =
  pl_architecture :: 'a
  pl_os :: 'a
  pl_variant :: "'a option"

record oci_layer =
  ly_media_type :: pyval
  ly_digest :: pyval
  ly_size :: pyval

record oci_manifest =
  om_schema_version :: pyval
  om_media_type :: pyval
  om_config :: oci_layer
  om_layers :: "oci_layer list"
  om_digest :: string

record oci_entry =
  oe_media_type :: pyval
  oe_digest :: pyval
  oe_size :: pyval
  oe_platform :: "pyval oci_platform option"

record oci_index =
  oi_schema_version :: pyval
  oi_media_type :: pyval
  oi_manifests :: "oci_entry list"

section \<open>Parsing\<close>

fun require_keys :: "string list \<Rightarrow> pyval \<Rightarrow> unit res" where
  "require_keys [] doc = Inr ()"
| "require_keys (k # ks) doc =
     rbind (vin k doc) (\<lambda>present. if present then require_keys ks doc else Inl (value_error (''Missing required field: '' @ k)))"

definition parse_layer :: "pyval \<Rightarrow> oci_layer res" where
  "parse_layer doc =
     rbind (vindex doc ''mediaType'') (\<lambda>mt. rbind (vindex doc ''digest'') (\<lambda>d. rbind (vindex doc ''size'') (\<lambda>n.
     Inr \<lparr>ly_media_type = mt, ly_digest = d, ly_size = n\<rparr>)))"

definition parse_manifest :: "bytes \<Rightarrow> oci_manifest res" where
  "parse_manifest raw =
     rbind (json_loads_bytes raw) (\<lambda>doc.
     rbind (require_keys [''schemaVersion'', ''mediaType'', ''config'', ''layers''] doc) (\<lambda>_.
     let digest = ''sha256:'' @ sha256_hex raw in
     rbind (rbind (vindex doc ''config'') parse_layer) (\<lambda>config.
     rbind (rbind (rbind (vindex doc ''layers'') viter) (rmap parse_layer)) (\<lambda>layers.
     rbind (vindex doc ''schemaVersion'') (\<lambda>v. rbind (vindex doc ''mediaType'') (\<lambda>mt.
     Inr \<lparr>om_schema_version = v, om_media_type = mt, om_config = config, om_layers = layers, om_digest = digest\<rparr>))))))"

definition none_if_null :: "pyval \<Rightarrow> pyval option" where
  "none_if_null v = (if v = PNone then None else Some v)"

definition parse_platform :: "pyval \<Rightarrow> pyval oci_platform res" where
  "parse_platform p =
     rbind (vindex p ''architecture'') (\<lambda>a. rbind (vindex p ''os'') (\<lambda>os. rbind (vget p ''variant'' PNone) (\<lambda>v.
     Inr \<lparr>pl_architecture = a, pl_os = os, pl_variant = none_if_null v\<rparr>)))"

definition parse_entry :: "pyval \<Rightarrow> oci_entry res" where
  "parse_entry m =
     rbind (vin ''platform'' m) (\<lambda>present.
     rbind (if present then rbind (rbind (vindex m ''platform'') parse_platform) (\<lambda>p. Inr (Some p)) else Inr None) (\<lambda>platform.
     rbind (vindex m ''mediaType'') (\<lambda>mt. rbind (vindex m ''digest'') (\<lambda>d. rbind (vindex m ''size'') (\<lambda>n.
     Inr \<lparr>oe_media_type = mt, oe_digest = d, oe_size = n, oe_platform = platform\<rparr>)))))"

definition parse_index :: "bytes \<Rightarrow> oci_index res" where
  "parse_index raw =
     rbind (json_loads_bytes raw) (\<lambda>doc.
     rbind (require_keys [''schemaVersion'', ''mediaType'', ''manifests''] doc) (\<lambda>_.
     rbind (rbind (rbind (vindex doc ''manifests'') viter) (rmap parse_entry)) (\<lambda>entries.
     rbind (vindex doc ''schemaVersion'') (\<lambda>v. rbind (vindex doc ''mediaType'') (\<lambda>mt.
     Inr \<lparr>oi_schema_version = v, oi_media_type = mt, oi_manifests = entries\<rparr>)))))"

section \<open>The platform\<close>

definition platform_matches :: "string oci_platform \<Rightarrow> pyval oci_platform \<Rightarrow> bool" where
  "platform_matches target p =
     (pl_architecture p = PStr (pl_architecture target) \<and> pl_os p = PStr (pl_os target)
      \<and> (pl_variant target = None \<or> pl_variant p = map_option PStr (pl_variant target)))"

definition variant_suffix :: "string option \<Rightarrow> string" where
  "variant_suffix v = (case v of None \<Rightarrow> [] | Some s \<Rightarrow> if s = [] then [] else ''/'' @ s)"

fun select_entry :: "oci_entry list \<Rightarrow> string oci_platform \<Rightarrow> pyval res" where
  "select_entry [] target =
     Inl (value_error (''No manifest found for platform '' @ pl_os target @ ''/'' @ pl_architecture target @ variant_suffix (pl_variant target)))"
| "select_entry (e # es) target =
     (case oe_platform e of
        None \<Rightarrow> select_entry es target
      | Some p \<Rightarrow> if platform_matches target p then Inr (oe_digest e) else select_entry es target)"

definition select_platform :: "oci_index \<Rightarrow> string oci_platform \<Rightarrow> pyval res" where
  "select_platform ix target = select_entry (oi_manifests ix) target"

section \<open>The image layout\<close>

definition IMAGE_LAYOUT :: string where
  "IMAGE_LAYOUT = ''{\"imageLayoutVersion\":\"1.0.0\"}'' @ [CHR 0x0A]"

definition platform_dict :: "pyval oci_platform \<Rightarrow> dict" where
  "platform_dict p =
     [(''architecture'', pl_architecture p), (''os'', pl_os p)]
     @ (case pl_variant p of None \<Rightarrow> [] | Some v \<Rightarrow> [(''variant'', v)])"

definition entry_dict :: "oci_entry \<Rightarrow> dict" where
  "entry_dict e =
     [(''mediaType'', oe_media_type e), (''digest'', oe_digest e), (''size'', oe_size e)]
     @ (case oe_platform e of None \<Rightarrow> [] | Some p \<Rightarrow> [(''platform'', PDict (platform_dict p))])"

definition index_dict :: "oci_index \<Rightarrow> dict" where
  "index_dict ix =
     [(''schemaVersion'', oi_schema_version ix), (''mediaType'', oi_media_type ix),
      (''manifests'', PList (map (\<lambda>e. PDict (entry_dict e)) (oi_manifests ix)))]"

definition build_index_json :: "oci_index \<Rightarrow> bytes" where
  "build_index_json ix = py_encode (json_pretty 0 (PDict (index_dict ix)))"

definition verify_blob :: "node \<Rightarrow> string \<Rightarrow> bool res" where
  "verify_blob n expected_digest =
     (let hash_hex = removeprefix expected_digest ''sha256:'' in
      case node_bytes n of
        None \<Rightarrow> Inl is_a_directory_error
      | Some b \<Rightarrow> Inr (sha256_hex b = hash_hex))"

text \<open>The output directory, of which each part may exist before.\<close>

record image_layout =
  il_layout :: "bytes option"
  il_blobs :: blob_dir
  il_index :: "bytes option"

text \<open>Writing a file that does not exist: a link to nothing has its target written.\<close>

definition write_new :: "blob_dir \<Rightarrow> string \<Rightarrow> bytes \<Rightarrow> blob_dir" where
  "write_new d name data =
     (case dget d name of Some (SymLink _) \<Rightarrow> dset d name (SymLink (Some data)) | _ \<Rightarrow> dset d name (RegFile data))"

definition copy_blob :: "blob_dir \<Rightarrow> pyval \<Rightarrow> blob_dir \<Rightarrow> unit res \<times> blob_dir" where
  "copy_blob blobs_dir d out =
     (case d of
        PStr digest \<Rightarrow>
          (let hash_hex = removeprefix digest ''sha256:'' in
           if \<not> entry_exists blobs_dir hash_hex then (Inl (PyError ''FileNotFoundError'' (''Blob not found: '' @ digest)), out)
           else
             let src = the (dget blobs_dir hash_hex) in
             (case verify_blob src digest of
                Inl e \<Rightarrow> (Inl e, out)
              | Inr False \<Rightarrow> (Inl (value_error (''Blob digest mismatch: '' @ digest)), out)
              | Inr True \<Rightarrow>
                  (Inr (), if entry_exists out hash_hex then out else write_new out hash_hex (the (node_bytes src)))))
      | v \<Rightarrow> (Inl (attr_error v ''removeprefix''), out))"

fun copy_blobs :: "blob_dir \<Rightarrow> pyval list \<Rightarrow> blob_dir \<Rightarrow> unit res \<times> blob_dir" where
  "copy_blobs blobs_dir [] out = (Inr (), out)"
| "copy_blobs blobs_dir (d # ds) out =
     (case copy_blob blobs_dir d out of
        (Inl e, out) \<Rightarrow> (Inl e, out)
      | (Inr _, out) \<Rightarrow> copy_blobs blobs_dir ds out)"

definition manifest_digest_list :: "oci_manifest \<Rightarrow> pyval list" where
  "manifest_digest_list m = ly_digest (om_config m) # map ly_digest (om_layers m) @ [PStr (om_digest m)]"

definition build_image_layout ::
  "(pyval list \<Rightarrow> pyval list) \<Rightarrow> blob_dir \<Rightarrow> oci_manifest list \<Rightarrow> oci_index \<Rightarrow> image_layout \<Rightarrow> unit res \<times> image_layout" where
  "build_image_layout order blobs_dir manifests ix out =
     (let out = out\<lparr>il_layout := Some IMAGE_LAYOUT\<rparr>;
          digests = concat (map manifest_digest_list manifests) in
      case rmap check_hash digests of
        Inl e \<Rightarrow> (Inl e, out)
      | Inr _ \<Rightarrow>
          (case copy_blobs blobs_dir (order (remdups digests)) (il_blobs out) of
             (Inl e, blobs) \<Rightarrow> (Inl e, out\<lparr>il_blobs := blobs\<rparr>)
           | (Inr _, blobs) \<Rightarrow> (Inr (), out\<lparr>il_blobs := blobs, il_index := Some (build_index_json ix)\<rparr>)))"

section \<open>Round trip\<close>

lemma parse_platform_dict:
  "pl_variant p \<noteq> Some PNone \<Longrightarrow> parse_platform (PDict (platform_dict p)) = Inr p"
  by (cases "pl_variant p") (auto simp: parse_platform_def platform_dict_def dindex_def dget_or_def none_if_null_def)

lemma parse_entry_dict:
  "\<forall>p. oe_platform e = Some p \<longrightarrow> pl_variant p \<noteq> Some PNone \<Longrightarrow> parse_entry (PDict (entry_dict e)) = Inr e"
  by (cases "oe_platform e") (auto simp: parse_entry_def entry_dict_def dindex_def parse_platform_dict)

definition proper_variants :: "oci_index \<Rightarrow> bool" where
  "proper_variants ix = (\<forall>e \<in> set (oi_manifests ix). \<forall>p. oe_platform e = Some p \<longrightarrow> pl_variant p \<noteq> Some PNone)"

text \<open>
  An index written into an image layout parses back as the same index: media types, digests,
  sizes and platforms of every entry, in order.
\<close>

theorem index_roundtrip:
  assumes "wf_json (PDict (index_dict ix))" and "proper_variants ix"
  shows "parse_index (build_index_json ix) = Inr ix"
proof -
  have "rmap parse_entry (map (\<lambda>e. PDict (entry_dict e)) es) = Inr es"
    if "\<forall>e \<in> set es. \<forall>p. oe_platform e = Some p \<longrightarrow> pl_variant p \<noteq> Some PNone" for es
    using that by (induction es) (auto simp: parse_entry_dict)
  from this[OF assms(2)[unfolded proper_variants_def]]
  have "rmap parse_entry (map (\<lambda>e. PDict (entry_dict e)) (oi_manifests ix)) = Inr (oi_manifests ix)" .
  then show ?thesis
    using json_loads_bytes_pretty[OF assms(1), of 0]
    by (simp add: parse_index_def build_index_json_def) (simp add: index_dict_def dindex_def)
qed

definition demo_platform :: "pyval oci_platform" where
  "demo_platform = \<lparr>pl_architecture = PStr ''arm64'', pl_os = PStr ''linux'', pl_variant = Some (PStr ''v8'')\<rparr>"

definition demo_entry :: oci_entry where
  "demo_entry = \<lparr>oe_media_type = PStr ''m'', oe_digest = PStr ''sha256:aa'', oe_size = PInt 7, oe_platform = Some demo_platform\<rparr>"

definition demo_index :: oci_index where
  "demo_index = \<lparr>oi_schema_version = PInt 2, oi_media_type = PStr ''i'', oi_manifests = [demo_entry, demo_entry\<lparr>oe_platform := None\<rparr>]\<rparr>"

theorem index_roundtrip_witness: "parse_index (build_index_json demo_index) = Inr demo_index"
proof (rule index_roundtrip)
  show "wf_json (PDict (index_dict demo_index))" by code_simp
  show "proper_variants demo_index" by (simp add: proper_variants_def demo_index_def demo_entry_def demo_platform_def)
qed

section \<open>What a layout holds\<close>

definition digest_key :: "string \<Rightarrow> string" where
  "digest_key d = removeprefix d ''sha256:''"

definition verified_at :: "blob_dir \<Rightarrow> string \<Rightarrow> bool" where
  "verified_at d h = (\<exists>data. file_bytes d h = Some data \<and> sha256_hex data = h)"

lemma write_new_bytes: "file_bytes (write_new d h data) h' = (if h' = h then Some data else file_bytes d h')"
  by (auto simp: write_new_def file_bytes_update split: option.splits node.splits)

lemma write_new_exists: "entry_exists (write_new d h data) h' = (if h' = h then True else entry_exists d h')"
  by (auto simp: write_new_def entry_exists_update node_exists_def is_file_def split: option.splits node.splits)

text \<open>One copy: every entry that exists afterwards and did not before is verified, and so is the blob copied.\<close>

definition all_verified :: "blob_dir \<Rightarrow> bool" where
  "all_verified d = (\<forall>h. entry_exists d h \<longrightarrow> verified_at d h)"

lemma copy_blob_verified:
  assumes "copy_blob src d out = (r, out')" "all_verified out"
  shows "all_verified out' \<and> (r = Inr () \<longrightarrow> (\<exists>s. d = PStr s \<and> verified_at out' (digest_key s)))
    \<and> (\<forall>h. verified_at out h \<longrightarrow> verified_at out' h)"
proof (cases d)
  case (PStr s)
  let ?h = "removeprefix s ''sha256:''"
  show ?thesis
  proof (cases "entry_exists src ?h \<and> verify_blob (the (dget src ?h)) s = Inr True")
    case True
    then obtain data where data: "node_bytes (the (dget src ?h)) = Some data" "sha256_hex data = ?h"
      by (auto simp: verify_blob_def Let_def split: option.splits)
    from True assms(1) PStr data have r: "r = Inr ()" "out' = (if entry_exists out ?h then out else write_new out ?h data)"
      by (auto simp: copy_blob_def Let_def split: if_splits)
    show ?thesis
      using assms(2) r data by (auto simp: PStr all_verified_def verified_at_def digest_key_def write_new_bytes write_new_exists)
  next
    case False
    then show ?thesis using assms PStr
      by (auto simp: copy_blob_def Let_def split: if_splits sum.splits bool.splits)
  qed
qed (use assms in \<open>auto simp: copy_blob_def\<close>)

lemma copy_blobs_verified:
  "copy_blobs src ds out = (r, out') \<Longrightarrow> all_verified out \<Longrightarrow>
     all_verified out' \<and> (r = Inr () \<longrightarrow> (\<forall>d \<in> set ds. \<exists>s. d = PStr s \<and> verified_at out' (digest_key s)))
     \<and> (\<forall>h. verified_at out h \<longrightarrow> verified_at out' h)"
proof (induction ds arbitrary: out)
  case (Cons d ds)
  obtain r1 out1 where c: "copy_blob src d out = (r1, out1)" by (cases "copy_blob src d out")
  note v = copy_blob_verified[OF c Cons.prems(2)]
  show ?case
  proof (cases r1)
    case (Inl e)
    then show ?thesis using Cons.prems v c by auto
  next
    case (Inr u)
    then have "copy_blobs src ds out1 = (r, out')" using Cons.prems(1) c by simp
    from Cons.IH[OF this] v Inr show ?thesis by auto
  qed
qed simp

text \<open>
  C36. A layout built into an empty directory is complete and holds nothing corrupt: when it succeeds,
  the configuration, every layer and the text of each manifest are there under their digests, whatever
  the source directory holds and in whatever order the set is walked; when it fails, what was copied
  before still matches its name.
\<close>

theorem layout_verified:
  assumes "build_image_layout order blobs_dir manifests ix out = (r, out')" and "il_blobs out = []"
    and "\<And>ds. set (order ds) = set ds"
  shows "(\<forall>h. entry_exists (il_blobs out') h \<longrightarrow> verified_at (il_blobs out') h)
    \<and> (r = Inr () \<longrightarrow>
        (\<forall>m \<in> set manifests. \<forall>d \<in> set (manifest_digest_list m). \<exists>s. d = PStr s \<and> verified_at (il_blobs out') (digest_key s))
        \<and> il_index out' = Some (build_index_json ix) \<and> il_layout out' = Some IMAGE_LAYOUT)"
proof -
  let ?ds = "concat (map manifest_digest_list manifests)"
  have v: "all_verified (il_blobs out)" by (simp add: assms(2) all_verified_def entry_exists_def)
  show ?thesis
  proof (cases "rmap check_hash ?ds")
    case (Inl e)
    then show ?thesis using assms(1) v by (auto simp: build_image_layout_def all_verified_def Let_def)
  next
    case (Inr u)
    obtain q b where c: "copy_blobs blobs_dir (order (remdups ?ds)) (il_blobs out) = (q, b)"
      by (cases "copy_blobs blobs_dir (order (remdups ?ds)) (il_blobs out)")
    note w = copy_blobs_verified[OF c v]
    have "out' = (case q of Inl e \<Rightarrow> out\<lparr>il_layout := Some IMAGE_LAYOUT, il_blobs := b\<rparr>
            | Inr _ \<Rightarrow> out\<lparr>il_layout := Some IMAGE_LAYOUT, il_blobs := b, il_index := Some (build_index_json ix)\<rparr>)"
      "r = Inr () \<longleftrightarrow> q = Inr ()"
      using assms(1) Inr c by (auto simp: build_image_layout_def Let_def split: sum.splits)
    with w show ?thesis unfolding assms(3) all_verified_def by (auto split: sum.splits)
  qed
qed

text \<open>A manifest whose configuration and text are the same blob, without layers.\<close>

definition layout_digest :: string where
  "layout_digest = ''sha256:'' @ sha256_hex ''blob''"

definition layout_manifest :: oci_manifest where
  "layout_manifest = \<lparr>om_schema_version = PInt 2, om_media_type = PStr ''m'',
     om_config = \<lparr>ly_media_type = PStr ''c'', ly_digest = PStr layout_digest, ly_size = PInt 4\<rparr>, om_layers = [], om_digest = layout_digest\<rparr>"

definition empty_layout :: image_layout where
  "empty_layout = \<lparr>il_layout = None, il_blobs = [], il_index = None\<rparr>"

theorem layout_verified_witness:
  "\<exists>out'. build_image_layout (\<lambda>ds. ds) [(sha256_hex ''blob'', RegFile ''blob'')] [layout_manifest] demo_index empty_layout = (Inr (), out')
     \<and> verified_at (il_blobs out') (sha256_hex ''blob'') \<and> il_index out' = Some (build_index_json demo_index)"
proof -
  let ?h = "sha256_hex ''blob''" and ?src = "[(sha256_hex ''blob'', RegFile ''blob'')]"
  have k: "removeprefix layout_digest ''sha256:'' = ?h" unfolding layout_digest_def by (rule removeprefix_append)
  have "copy_blob ?src (PStr layout_digest) out = (Inr (), if entry_exists out ?h then out else write_new out ?h ''blob'')" for out
    by (simp add: copy_blob_def k entry_exists_def verify_blob_def node_exists_def is_file_def Let_def)
  moreover have "remdups (concat (map manifest_digest_list [layout_manifest])) = [PStr layout_digest]"
    by (simp add: manifest_digest_list_def layout_manifest_def)
  moreover have "rmap check_hash (concat (map manifest_digest_list [layout_manifest])) = Inr [(), ()]"
    by (simp add: manifest_digest_list_def layout_manifest_def)
  ultimately obtain out' where b: "build_image_layout (\<lambda>ds. ds) ?src [layout_manifest] demo_index empty_layout = (Inr (), out')"
    by (simp add: build_image_layout_def Let_def del: concat.simps list.map)
  have e: "il_blobs empty_layout = []" by (simp add: empty_layout_def)
  have d: "PStr layout_digest \<in> set (manifest_digest_list layout_manifest)" by (simp add: manifest_digest_list_def layout_manifest_def)
  from layout_verified[OF b e] d have "verified_at (il_blobs out') (digest_key layout_digest)" "il_index out' = Some (build_index_json demo_index)"
    by force+
  with b show ?thesis by (simp add: digest_key_def k)
qed

end
