(* ===== verification/Fetcher.thy ===== *)
theory Fetcher
  imports Fetch_Cache
begin

text \<open>
  \<open>buncker_fetch/fetcher.py\<close>: downloading a list of blobs into the cache. The registry client
  is used through \<open>fetch_blob\<close> only, on a state of its own. The thread pool runs the downloads
  in some order, each of them as one step; the order in which they complete is the argument
  \<open>order\<close>, which lists the submitted descriptors. Progress output is left out.
\<close>

definition MAX_SHA_RETRIES :: nat where
  "MAX_SHA_RETRIES = 3"

record fetch_result =
  downloaded :: "string list"
  skipped :: "string list"
  errors :: "dict list"

text \<open>\<open>blob[k]\<close> where the value is then used as a string.\<close>

definition str_field :: "dict \<Rightarrow> string \<Rightarrow> string res" where
  "str_field d k = rbind (dindex d k) (\<lambda>v. case v of PStr s \<Rightarrow> Inr s | _ \<Rightarrow> Inl (attr_error v ''removeprefix''))"

text \<open>The retry loop, with the attempts that are left.\<close>

fun fetch_attempts ::
  "('c \<Rightarrow> string \<Rightarrow> string \<Rightarrow> bytes res \<times> 'c) \<Rightarrow> nat \<Rightarrow> 'c \<Rightarrow> cache \<Rightarrow> instant \<Rightarrow> string \<Rightarrow> string \<Rightarrow> unit res \<times> 'c \<times> cache" where
  "fetch_attempts fetch_blob 0 cl c now repository digest =
     (Inl (StoreError (''SHA256 mismatch after '' @ nat_str MAX_SHA_RETRIES @ '' attempts for '' @ digest) [(''digest'', PStr digest)]), cl, c)"
| "fetch_attempts fetch_blob (Suc n) cl c now repository digest =
     (case fetch_blob cl repository digest of
        (Inl e, cl) \<Rightarrow> (Inl e, cl, c)
      | (Inr data, cl) \<Rightarrow>
          if sha256_hex data = removeprefix digest ''sha256:'' then
            (case store_blob c now digest data of
               (Inl e, c) \<Rightarrow> (Inl e, cl, c)
             | (Inr _, c) \<Rightarrow> (Inr (), cl, c))
          else fetch_attempts fetch_blob n cl c now repository digest)"

definition fetch_one ::
  "('c \<Rightarrow> string \<Rightarrow> string \<Rightarrow> bytes res \<times> 'c) \<Rightarrow> 'c \<Rightarrow> cache \<Rightarrow> instant \<Rightarrow> dict \<Rightarrow> unit res \<times> 'c \<times> cache" where
  "fetch_one fetch_blob cl c now blob =
     (case rbind (str_field blob ''digest'') (\<lambda>d. rbind (str_field blob ''repository'') (\<lambda>r. Inr (d, r))) of
        Inl e \<Rightarrow> (Inl e, cl, c)
      | Inr (digest, repository) \<Rightarrow> fetch_attempts fetch_blob MAX_SHA_RETRIES cl c now repository digest)"

text \<open>The pool: every submitted download runs, whatever the others did.\<close>

fun run_pool ::
  "('c \<Rightarrow> string \<Rightarrow> string \<Rightarrow> bytes res \<times> 'c) \<Rightarrow> 'c \<Rightarrow> cache \<Rightarrow> instant \<Rightarrow> dict list \<Rightarrow> (dict \<times> unit res) list \<times> 'c \<times> cache" where
  "run_pool fetch_blob cl c now [] = ([], cl, c)"
| "run_pool fetch_blob cl c now (b # bs) =
     (let (r, cl, c) = fetch_one fetch_blob cl c now b;
          (rs, cl, c) = run_pool fetch_blob cl c now bs
      in ((b, r) # rs, cl, c))"

definition caught :: "exc \<Rightarrow> bool" where
  "caught e = (case e of BunckerError k m c \<Rightarrow> k = KRegistry \<or> k = KStore | _ \<Rightarrow> False)"

text \<open>The completed futures in order: an exception that is not caught leaves the loop.\<close>

fun collect :: "(dict \<times> unit res) list \<Rightarrow> fetch_result \<Rightarrow> fetch_result res" where
  "collect [] res = Inr res"
| "collect ((b, r) # rs) res =
     rbind (str_field b ''digest'') (\<lambda>digest.
     case r of
       Inr _ \<Rightarrow> collect rs (res\<lparr>downloaded := downloaded res @ [digest]\<rparr>)
     | Inl e \<Rightarrow>
         if caught e then collect rs (res\<lparr>errors := errors res @ [[(''digest'', PStr digest), (''error'', PStr (exc_str e))]]\<rparr>)
         else Inl e)"

text \<open>The cache check: the digests present and the descriptors to fetch.\<close>

fun check_cache :: "cache \<Rightarrow> dict list \<Rightarrow> (string list \<times> dict list) res" where
  "check_cache c [] = Inr ([], [])"
| "check_cache c (b # bs) =
     rbind (str_field b ''digest'') (\<lambda>digest.
     rbind (check_cache c bs) (\<lambda>(present, todo).
     Inr (if cache_has_blob c digest then (digest # present, todo) else (present, b # todo))))"

definition fetch ::
  "('c \<Rightarrow> string \<Rightarrow> string \<Rightarrow> bytes res \<times> 'c) \<Rightarrow> (dict list \<Rightarrow> dict list) \<Rightarrow> 'c \<Rightarrow> cache \<Rightarrow> instant \<Rightarrow> dict list \<Rightarrow>
   fetch_result res \<times> 'c \<times> cache" where
  "fetch fetch_blob order cl c now blobs =
     (case check_cache c blobs of
        Inl e \<Rightarrow> (Inl e, cl, c)
      | Inr (present, to_fetch) \<Rightarrow>
          let res = \<lparr>downloaded = [], skipped = present, errors = []\<rparr> in
          if to_fetch = [] then (Inr res, cl, c)
          else (case run_pool fetch_blob cl c now (order to_fetch) of
                  (rs, cl, c) \<Rightarrow> (collect rs res, cl, c)))"

end
