(* ===== verification/Registry_Client.thy ===== *)
theory Registry_Client
  imports Py_Url Py_Json_Loads Complex_Main
begin

text \<open>
  \<open>buncker_fetch/registry_client.py\<close>: the client of an online registry, with token discovery
  and retries. The network is a parameter: \<open>urlopen\<close> and \<open>opener\<close> answer a request in some
  state of the world and give the next state. A method returns its result, the client, the
  seconds it slept, one entry per sleep, and the world.
\<close>

section \<open>Requests and answers\<close>

record http_req =
  req_url :: string
  req_headers :: "(string \<times> string) list"

datatype answer =
    Answer bytes
  | HttpError int "(string \<times> string) list"
  | UrlError string
  | Broken exc

record 'w net =
  urlopen :: "'w \<Rightarrow> http_req \<Rightarrow> answer \<times> 'w"
  opener :: "'w \<Rightarrow> http_req \<Rightarrow> answer \<times> 'w"

record client =
  rc_registry :: string
  rc_credentials :: "(string \<times> string) list option"
  rc_tokens :: "(string \<times> pyval) list"

definition MAX_RETRIES :: nat where
  "MAX_RETRIES = 3"

definition MAX_RATE_LIMIT_WAIT :: rat where
  "MAX_RATE_LIMIT_WAIT = 120"

definition BACKOFF_BASE :: rat where
  "BACKOFF_BASE = 1"

definition OCI_MANIFEST_TYPES :: "string list" where
  "OCI_MANIFEST_TYPES = [''application/vnd.oci.image.manifest.v1+json'', ''application/vnd.oci.image.index.v1+json'',
     ''application/vnd.docker.distribution.manifest.v2+json'', ''application/vnd.docker.distribution.manifest.list.v2+json'']"

section \<open>Redirects\<close>

definition netloc_of :: "string \<Rightarrow> string" where
  "netloc_of url =
     (let rest = snd (split_scheme (url_clean url)) in
      if startswith rest ''//'' then takeWhile (\<lambda>c. c \<notin> set ''/?#'') (drop 2 rest) else [])"

text \<open>The request the library built for the new location, without the token on another host.\<close>

definition redirect_request :: "http_req \<Rightarrow> string \<Rightarrow> http_req option \<Rightarrow> http_req option" where
  "redirect_request req newurl new_req =
     (case new_req of
        None \<Rightarrow> None
      | Some r \<Rightarrow>
          if netloc_of (req_url req) \<noteq> netloc_of newurl then Some (r\<lparr>req_headers := ddel (req_headers r) ''Authorization''\<rparr>)
          else Some r)"

section \<open>Tokens\<close>

definition is_unreserved :: "char \<Rightarrow> bool" where
  "is_unreserved c = (is_alpha c \<or> is_digit c \<or> c \<in> set ''_.-~'')"

definition hex_upper :: "bytes \<Rightarrow> string" where
  "hex_upper bs = upper (hex_str bs)"

definition quote :: "string \<Rightarrow> string" where
  "quote s = concat (map (\<lambda>c. if is_unreserved c then [c] else CHR ''%'' # hex_upper [c]) (py_encode s))"

text \<open>
  \<open>Bearer\s+realm="([^"]+)"(?:,\s*service="([^"]*)")?(?:,\s*scope="([^"]*)")?\<close>, without regard to
  case: the realm and the service of the first match.
\<close>

definition quoted_param :: "string \<Rightarrow> string \<Rightarrow> (string \<times> string) option" where
  "quoted_param name s =
     (let v = drop (length name + 2) s in
      if lower (take (length name) s) = name \<and> take 2 (drop (length name) s) = [CHR ''='', CHR 0x22] \<and> CHR 0x22 \<in> set v
      then Some (before CHR 0x22 v, after CHR 0x22 v) else None)"

definition match_service :: "string \<Rightarrow> string" where
  "match_service s =
     (if startswith s '','' then
        (case quoted_param ''service'' (dropWhile is_space (drop 1 s)) of Some (v, r) \<Rightarrow> v | None \<Rightarrow> [])
      else [])"

definition match_bearer :: "string \<Rightarrow> (string \<times> string) option" where
  "match_bearer s =
     (let r = drop 6 s in
      if lower (take 6 s) = ''bearer'' \<and> r \<noteq> [] \<and> is_space (hd r) then
        (case quoted_param ''realm'' (dropWhile is_space r) of
           Some (realm, rest) \<Rightarrow> if realm = [] then None else Some (realm, match_service rest)
         | None \<Rightarrow> None)
      else None)"

fun search_bearer :: "string \<Rightarrow> (string \<times> string) option" where
  "search_bearer [] = None"
| "search_bearer (c # cs) = (case match_bearer (c # cs) of Some m \<Rightarrow> Some m | None \<Rightarrow> search_bearer cs)"

definition token_of_body :: "pyval \<Rightarrow> pyval res" where
  "token_of_body body =
     rbind (vget body ''token'' PNone) (\<lambda>t.
     if truthy t then Inr t else vget body ''access_token'' (PStr []))"

definition exchange_token ::
  "'w net \<Rightarrow> client \<Rightarrow> 'w \<Rightarrow> string \<Rightarrow> string \<Rightarrow> string \<Rightarrow> pyval res \<times> client \<times> 'w" where
  "exchange_token N cl w realm service scope =
     (let token_url = realm @ ''?service='' @ quote service @ ''&scope='' @ quote scope;
          headers = (case rc_credentials cl of
              None \<Rightarrow> Inr []
            | Some c \<Rightarrow> if c = [] then Inr [] else
                rbind (dindex c ''username'') (\<lambda>user. rbind (dindex c ''password'') (\<lambda>passwd.
                Inr [(''Authorization'', ''Basic '' @ b64encode (py_encode (user @ '':'' @ passwd)))])))
      in case headers of
           Inl e \<Rightarrow> (Inl e, cl, w)
         | Inr hs \<Rightarrow>
             (case urlopen N w \<lparr>req_url = token_url, req_headers = hs\<rparr> of
                (Answer body, w) \<Rightarrow>
                  (case rbind (json_loads_bytes body) token_of_body of
                     Inl e \<Rightarrow> (Inl e, cl, w)
                   | Inr token \<Rightarrow> (Inr token, cl\<lparr>rc_tokens := dset (rc_tokens cl) scope token\<rparr>, w))
              | (HttpError status hs, w) \<Rightarrow>
                  (Inl (RegistryError (''Token exchange failed: HTTP '' @ int_str status)
                     [(''realm'', PStr realm), (''service'', PStr service), (''scope'', PStr scope)]), cl, w)
              | (UrlError m, w) \<Rightarrow>
                  (Inl (RegistryError ''Token exchange connection failed'' [(''realm'', PStr realm), (''error'', PStr m)]), cl, w)
              | (Broken e, w) \<Rightarrow> (Inl e, cl, w)))"

definition get_token :: "'w net \<Rightarrow> client \<Rightarrow> 'w \<Rightarrow> string \<Rightarrow> pyval res \<times> client \<times> 'w" where
  "get_token N cl w scope =
     (case dget (rc_tokens cl) scope of
        Some t \<Rightarrow> (Inr t, cl, w)
      | None \<Rightarrow>
          let url = ''https://'' @ rc_registry cl @ ''/v2/'' in
          (case urlopen N w \<lparr>req_url = url, req_headers = []\<rparr> of
             (Answer body, w) \<Rightarrow> (Inr PNone, cl, w)
           | (HttpError status hs, w) \<Rightarrow>
               if status \<noteq> 401 then
                 (Inl (RegistryError (''Auth discovery failed: HTTP '' @ int_str status @ '' from '' @ rc_registry cl)
                    [(''url'', PStr url), (''status'', PInt status)]), cl, w)
               else
                 let www_auth = dget_or hs ''Www-Authenticate'' [] in
                 (case search_bearer www_auth of
                    None \<Rightarrow> (Inl (RegistryError (''Cannot parse Www-Authenticate header from '' @ rc_registry cl)
                               [(''header'', PStr www_auth)]), cl, w)
                  | Some (realm, service) \<Rightarrow> exchange_token N cl w realm service scope)
           | (UrlError m, w) \<Rightarrow>
               (Inl (RegistryError (''Connection failed to '' @ rc_registry cl) [(''url'', PStr url), (''error'', PStr m)]), cl, w)
           | (Broken e, w) \<Rightarrow> (Inl e, cl, w)))"

section \<open>Requests with retry\<close>

definition build_request ::
  "'w net \<Rightarrow> client \<Rightarrow> 'w \<Rightarrow> string \<Rightarrow> string \<Rightarrow> (string \<times> string) list \<Rightarrow> http_req res \<times> client \<times> 'w" where
  "build_request N cl w path scope extra_headers =
     (case get_token N cl w scope of
        (Inl e, cl, w) \<Rightarrow> (Inl e, cl, w)
      | (Inr token, cl, w) \<Rightarrow>
          (Inr \<lparr>req_url = ''https://'' @ rc_registry cl @ path,
                req_headers = (if truthy token then [(''Authorization'', ''Bearer '' @ str_of token)] else []) @ extra_headers\<rparr>, cl, w))"

text \<open>
  \<open>_parse_retry_after\<close>. The number is read by \<open>float\<close>: a decimal with an optional exponent, single
  underscores between digits, rounded to the nearest double, or one of the named values. A date is read
  by the library, which the argument stands for: the seconds from now to the date, \<open>None\<close> if it is not one.
\<close>

datatype float_value = Finite rat | PosInf | NegInf | NotANumber

fun drop_underscores :: "char \<Rightarrow> string \<Rightarrow> string option" where
  "drop_underscores prev [] = (if prev = CHR ''_'' then None else Some [])"
| "drop_underscores prev (c # cs) =
     (if c = CHR ''_'' then (if is_digit prev then drop_underscores c cs else None)
      else if prev = CHR ''_'' \<and> \<not> is_digit c then None
      else map_option ((#) c) (drop_underscores c cs))"

definition digits_int :: "string \<Rightarrow> int" where
  "digits_int s = foldl (\<lambda>v c. 10 * v + (int (code c) - 48)) 0 s"

definition exponent_of :: "string \<Rightarrow> int option" where
  "exponent_of r =
     (if r = [] then Some 0
      else
        let s = drop 1 r; neg = startswith s ''-''; ds = (if neg \<or> startswith s ''+'' then drop 1 s else s) in
        if lower (take 1 r) = ''e'' \<and> ds \<noteq> [] \<and> list_all is_digit ds
        then Some (if neg then - digits_int ds else digits_int ds) else None)"

definition scale :: "rat \<Rightarrow> int \<Rightarrow> rat" where
  "scale b e = (if 0 \<le> e then b ^ nat e else 1 / b ^ nat (- e))"

definition decimal :: "string \<Rightarrow> rat option" where
  "decimal s =
     (let whole = takeWhile is_digit s; r = dropWhile is_digit s;
          frac = (if startswith r ''.'' then takeWhile is_digit (drop 1 r) else []);
          r = (if startswith r ''.'' then dropWhile is_digit (drop 1 r) else r) in
      if whole @ frac = [] then None
      else map_option (\<lambda>e. of_int (digits_int (whole @ frac)) * scale 10 (e - int (length frac))) (exponent_of r))"

text \<open>Rounding a number that is not negative to 53 binary digits, to even in the middle, and no finer than the least double.\<close>

definition round_even :: "rat \<Rightarrow> int" where
  "round_even x =
     (let f = \<lfloor>x\<rfloor>; d = x - of_int f in if d < 1 / 2 \<or> d = 1 / 2 \<and> even f then f else f + 1)"

function bit_length :: "int \<Rightarrow> int" where
  "bit_length n = (if n \<le> 0 then 0 else 1 + bit_length (n div 2))"
  by auto
termination
  by (relation "measure nat") auto

declare bit_length.simps [simp del]

definition nearest_double :: "rat \<Rightarrow> float_value" where
  "nearest_double x =
     (if x = 0 then Finite 0
      else
        let (n, d) = quotient_of x; l = bit_length n - bit_length d;
            k = (if scale 2 l \<le> x then l else l - 1); u = max (k - 52) (-1074);
            y = of_int (round_even (x / scale 2 u)) * scale 2 u
        in if 1023 \<le> k \<and> 2 ^ 1024 \<le> y then PosInf else Finite y)"

fun negate :: "float_value \<Rightarrow> float_value" where
  "negate (Finite q) = Finite (- q)"
| "negate PosInf = NegInf"
| "negate NegInf = PosInf"
| "negate NotANumber = NotANumber"

definition py_float :: "string \<Rightarrow> float_value option" where
  "py_float s =
     (case drop_underscores CHR 0x00 (strip s) of
        None \<Rightarrow> None
      | Some t \<Rightarrow>
          let neg = startswith t ''-''; u = (if neg \<or> startswith t ''+'' then drop 1 t else t);
              v = (if lower u \<in> {''inf'', ''infinity''} then Some PosInf
                   else if lower u = ''nan'' then Some NotANumber
                   else map_option nearest_double (decimal u))
          in map_option (\<lambda>x. if neg then negate x else x) v)"

text \<open>Seconds to wait; \<open>None\<close> is an infinite wait.\<close>

definition parse_retry_after :: "(string \<Rightarrow> rat option) \<Rightarrow> string \<Rightarrow> rat option" where
  "parse_retry_after date_delta value =
     (if value = [] then Some 5
      else case py_float value of
        Some (Finite q) \<Rightarrow> Some (max 1 q)
      | Some PosInf \<Rightarrow> None
      | Some _ \<Rightarrow> Some 1
      | None \<Rightarrow> (case date_delta value of Some d \<Rightarrow> Some (max 1 d) | None \<Rightarrow> Some 5))"

definition wait_allowed :: "rat option \<Rightarrow> bool" where
  "wait_allowed wait = (case wait of Some q \<Rightarrow> q \<le> MAX_RATE_LIMIT_WAIT | None \<Rightarrow> False)"

text \<open>The loop over the attempts, \<open>left\<close> of which remain.\<close>

fun request_loop ::
  "'w net \<Rightarrow> (string \<Rightarrow> rat option) \<Rightarrow> nat \<Rightarrow> client \<Rightarrow> 'w \<Rightarrow> http_req \<Rightarrow> string \<Rightarrow> string \<Rightarrow> (string \<times> string) list \<Rightarrow>
   bytes res \<times> client \<times> rat list \<times> 'w" where
  "request_loop N date_delta 0 cl w req path scope extra =
     (Inl (RegistryError (''All '' @ nat_str MAX_RETRIES @ '' attempts failed for '' @ path) [(''registry'', PStr (rc_registry cl))]), cl, [], w)"
| "request_loop N date_delta (Suc left) cl w req path scope extra =
     (let attempt = MAX_RETRIES - Suc left in
      case opener N w req of
        (Answer data, w) \<Rightarrow> (Inr data, cl, [], w)
      | (HttpError status hs, w) \<Rightarrow>
          if status = 401 \<and> attempt = 0 then
            (case build_request N (cl\<lparr>rc_tokens := ddel (rc_tokens cl) scope\<rparr>) w path scope extra of
               (Inl e, cl, w) \<Rightarrow> (Inl e, cl, [], w)
             | (Inr req, cl, w) \<Rightarrow> request_loop N date_delta left cl w req path scope extra)
          else if status = 429 then
            (let retry_after = dget_or hs ''Retry-After'' []; wait = parse_retry_after date_delta retry_after in
             if attempt < MAX_RETRIES - 1 \<and> wait_allowed wait then
               (case request_loop N date_delta left cl w req path scope extra of
                  (r, cl, ws, w) \<Rightarrow> (r, cl, the wait # ws, w))
             else (Inl (RegistryError (''Rate limited by '' @ rc_registry cl @ ''. Retry after '' @
                      (if retry_after = [] then ''unknown'' else retry_after) @ ''s'')
                     [(''registry'', PStr (rc_registry cl)), (''status'', PInt 429)]), cl, [], w))
          else if 500 \<le> status \<and> attempt < MAX_RETRIES - 1 then
            (case request_loop N date_delta left cl w req path scope extra of
               (r, cl, ws, w) \<Rightarrow> (r, cl, BACKOFF_BASE * 3 ^ attempt # ws, w))
          else (Inl (RegistryError (''Registry request failed: HTTP '' @ int_str status)
                   [(''url'', PStr (req_url req)), (''status'', PInt status)]), cl, [], w)
      | (UrlError m, w) \<Rightarrow>
          if attempt < MAX_RETRIES - 1 then
            (case request_loop N date_delta left cl w req path scope extra of
               (r, cl, ws, w) \<Rightarrow> (r, cl, BACKOFF_BASE * 3 ^ attempt # ws, w))
          else (Inl (RegistryError (''Connection failed to '' @ rc_registry cl)
                   [(''url'', PStr (req_url req)), (''error'', PStr m)]), cl, [], w)
      | (Broken e, w) \<Rightarrow> (Inl e, cl, [], w))"

definition request ::
  "'w net \<Rightarrow> (string \<Rightarrow> rat option) \<Rightarrow> client \<Rightarrow> 'w \<Rightarrow> string \<Rightarrow> string \<Rightarrow> (string \<times> string) list \<Rightarrow>
   bytes res \<times> client \<times> rat list \<times> 'w" where
  "request N date_delta cl w path scope extra =
     (case build_request N cl w path scope extra of
        (Inl e, cl, w) \<Rightarrow> (Inl e, cl, [], w)
      | (Inr req, cl, w) \<Rightarrow> request_loop N date_delta MAX_RETRIES cl w req path scope extra)"

definition pull_scope :: "string \<Rightarrow> string" where
  "pull_scope repository = ''repository:'' @ repository @ '':pull''"

definition fetch_manifest ::
  "'w net \<Rightarrow> (string \<Rightarrow> rat option) \<Rightarrow> client \<Rightarrow> 'w \<Rightarrow> string \<Rightarrow> string \<Rightarrow> pyval res \<times> client \<times> rat list \<times> 'w" where
  "fetch_manifest N date_delta cl w repository reference =
     (case request N date_delta cl w (''/v2/'' @ repository @ ''/manifests/'' @ reference) (pull_scope repository)
             [(''Accept'', join '', '' OCI_MANIFEST_TYPES)] of
        (Inl e, cl, ws, w) \<Rightarrow> (Inl e, cl, ws, w)
      | (Inr data, cl, ws, w) \<Rightarrow>
          ((case json_loads_bytes data of
              Inl (PyError t m) \<Rightarrow>
                if t = ''JSONDecodeError'' then Inl (RegistryError (''Invalid manifest JSON from '' @ rc_registry cl)
                  [(''repository'', PStr repository), (''reference'', PStr reference)])
                else Inl (PyError t m)
            | r \<Rightarrow> r), cl, ws, w))"

definition fetch_blob ::
  "'w net \<Rightarrow> (string \<Rightarrow> rat option) \<Rightarrow> client \<Rightarrow> 'w \<Rightarrow> string \<Rightarrow> string \<Rightarrow> bytes list res \<times> client \<times> rat list \<times> 'w" where
  "fetch_blob N date_delta cl w repository digest =
     (case request N date_delta cl w (''/v2/'' @ repository @ ''/blobs/'' @ digest) (pull_scope repository) [] of
        (Inl e, cl, ws, w) \<Rightarrow> (Inl e, cl, ws, w)
      | (Inr data, cl, ws, w) \<Rightarrow> (Inr (chunks_of 65536 data), cl, ws, w))"

section \<open>Credentials\<close>

definition env_str :: "(string \<times> string) list \<Rightarrow> pyval \<Rightarrow> string res" where
  "env_str environ k = (case k of PStr s \<Rightarrow> Inr (dget_or environ s []) | v \<Rightarrow> Inl (type_error (''str expected, not '' @ type_name v)))"

definition load_credentials :: "(string \<times> string) list \<Rightarrow> dict \<Rightarrow> string \<Rightarrow> (string \<times> string) list option res" where
  "load_credentials environ config registry =
     rbind (vget (dget_or config ''registries'' (PDict [])) registry PNone) (\<lambda>reg_config.
     if \<not> truthy reg_config then Inr None
     else
       rbind (vget reg_config ''user_env'' (PStr [])) (\<lambda>user_env.
       rbind (vget reg_config ''pass_env'' (PStr [])) (\<lambda>pass_env.
       rbind (env_str environ user_env) (\<lambda>username.
       rbind (env_str environ pass_env) (\<lambda>password.
       Inr (if username = [] \<or> password = [] then None else Some [(''username'', username), (''password'', password)]))))))"

end
