(* ===== verification/Fetch_Main.thy ===== *)
theory Fetch_Main
  imports Config Oci Fetcher Registry_Client Transfer_Fetch Py_Query
begin

text \<open>
  \<open>buncker_fetch/__main__.py\<close>: the commands of the online side. A command takes the contents of the
  configuration file, the mnemonic typed and the state of the host: the blob cache, the file of
  manifest digests and the network. Its result is what it prints, or the message of an error that
  ends it with status 1. Progress output is left out. A registry, repository or tag that is no string
  is outside the model.
\<close>

section \<open>The host\<close>

record 'w online =
  on_cache :: cache
  on_digests :: "bytes option"
  on_world :: 'w

record 'w online_env =
  ev_net :: "'w net"
  ev_date :: "string \<Rightarrow> rat option"
  ev_environ :: "(string \<times> string) list"
  ev_now :: instant
  ev_order :: "dict list \<Rightarrow> dict list"

datatype outcome = Printed dict | Refused string

section \<open>Keys\<close>

definition FETCH_ITERATIONS :: int where
  "FETCH_ITERATIONS = 1200000"

definition PAIR_MARKER :: bytes where
  "PAIR_MARKER = ''buncker-pair-check''"

text \<open>Pairing: the configuration file afterwards, \<open>None\<close> where there is none.\<close>

definition cmd_pair :: "aead \<Rightarrow> bytes \<Rightarrow> string \<Rightarrow> string \<Rightarrow> bytes option \<Rightarrow> outcome res \<times> bytes option" where
  "cmd_pair A nonce line config_path raw =
     (let mnemonic_input = strip line; words = split_ws mnemonic_input in
      if length words \<noteq> 16 then
        (Inr (Refused (''Expected 16 words (12 secret + 4 salt), got '' @ nat_str (length words) @ ''.'')), raw)
      else case find (\<lambda>w. w \<notin> set WORDLIST) words of
        Some word \<Rightarrow> (Inr (Refused (''Word '' @ [CHR 0x27] @ word @ [CHR 0x27] @ '' not in BIP-39 wordlist. Check spelling.'')), raw)
      | None \<Rightarrow>
          (case split_mnemonic mnemonic_input of
             Inl e \<Rightarrow> (Inr (Refused (exc_str e)), raw)
           | Inr (mnemonic_12, salt) \<Rightarrow>
               let (aes_key, hmac_key) = derive_keys A mnemonic_12 salt FETCH_ITERATIONS in
               (case rbind (encrypt A nonce PAIR_MARKER aes_key) (\<lambda>check.
                     rbind (fetch_load_config config_path raw) (\<lambda>config.
                     Inr (dset (dset config ''salt'' (PStr (b64encode salt))) ''derived_key_check'' (PStr (b64encode check))))) of
                  Inl e \<Rightarrow> (Inl e, raw)
                | Inr config \<Rightarrow>
                    (Inr (Printed [(''status'', PStr ''success''), (''message'', PStr ''Pairing successful'')]), Some (fetch_save_config config)))))"

definition derive_keys_from_config :: "aead \<Rightarrow> dict \<Rightarrow> string \<Rightarrow> (bytes \<times> bytes) res" where
  "derive_keys_from_config A config line =
     (case split_mnemonic (strip line) of
        Inl e \<Rightarrow> Inl (CryptoError (exc_str e) [])
      | Inr (mnemonic_12, salt) \<Rightarrow>
          let (aes_key, hmac_key) = derive_keys A mnemonic_12 salt FETCH_ITERATIONS in
          rbind (dindex config ''derived_key_check'') (\<lambda>v.
          rbind (case v of PStr s \<Rightarrow> b64decode s | _ \<Rightarrow> Inl (type_error ''argument should be a bytes-like object or ASCII string'')) (\<lambda>check_data.
          case decrypt A check_data aes_key of
            Inl e \<Rightarrow> Inl (CryptoError ''Mnemonic verification failed. Wrong mnemonic or corrupted config.'' [])
          | Inr _ \<Rightarrow> Inr (aes_key, hmac_key))))"

text \<open>The start of \<open>inspect\<close> and \<open>fetch\<close>: the configuration and the keys.\<close>

definition open_config :: "aead \<Rightarrow> string \<Rightarrow> bytes option \<Rightarrow> string \<Rightarrow> (dict \<times> bytes \<times> bytes) res" where
  "open_config A config_path raw line =
     rbind (fetch_load_config config_path raw) (\<lambda>config.
     rbind (fetch_validate_config config) (\<lambda>_.
     rbind (derive_keys_from_config A config line) (\<lambda>keys.
     Inr (config, keys))))"

section \<open>Inspecting a request\<close>

fun registry_sizes :: "pyval list \<Rightarrow> string list \<Rightarrow> int \<Rightarrow> (string list \<times> int) res" where
  "registry_sizes [] registries sum_so_far = Inr (registries, sum_so_far)"
| "registry_sizes (blob # blobs) registries sum_so_far =
     rbind (vget blob ''registry'' (PStr ''unknown'')) (\<lambda>r.
     rbind (check_hash r) (\<lambda>_.
     case r of
       PStr s \<Rightarrow>
         rbind (vget blob ''size'' (PInt 0)) (\<lambda>n.
         rbind (vadd n sum_so_far) (\<lambda>sum_so_far.
         registry_sizes blobs (if s \<in> set registries then registries else registries @ [s]) sum_so_far))
     | _ \<Rightarrow> Inl not_modelled))"

definition inspect_summary :: "pyval \<Rightarrow> dict res" where
  "inspect_summary req_doc =
     rbind (vget req_doc ''blobs'' (PList [])) (\<lambda>blobs.
     rbind (viter blobs) (\<lambda>bs.
     rbind (registry_sizes bs [] 0) (\<lambda>(registries, sum_so_far).
     rbind (vget req_doc ''source_id'' PNone) (\<lambda>source_id.
     rbind (vget req_doc ''generated_at'' PNone) (\<lambda>generated_at.
     rbind (vget req_doc ''buncker_version'' PNone) (\<lambda>version.
     Inr [(''source_id'', source_id), (''generated_at'', generated_at), (''buncker_version'', version),
          (''blob_count'', PInt (int (length bs))), (''total_size'', PInt sum_so_far),
          (''registries'', PList (map PStr (sort registries)))]))))))"

definition cmd_inspect :: "aead \<Rightarrow> string \<Rightarrow> bytes option \<Rightarrow> string \<Rightarrow> string \<Rightarrow> bytes \<Rightarrow> outcome res" where
  "cmd_inspect A config_path raw line request_path encrypted_data =
     rbind (open_config A config_path raw line) (\<lambda>(config, aes_key, hmac_key).
     rbind (process_request A encrypted_data aes_key hmac_key request_path) (\<lambda>req_doc.
     rbind (inspect_summary req_doc) (\<lambda>summary. Inr (Printed summary))))"

section \<open>Blobs by registry\<close>

text \<open>\<open>by_registry.setdefault (reg, []).append (blob)\<close> for every descriptor.\<close>

fun group_blobs :: "pyval list \<Rightarrow> (string \<times> dict list) list \<Rightarrow> (string \<times> dict list) list res" where
  "group_blobs [] groups = Inr groups"
| "group_blobs (v # vs) groups =
     (case v of
        PDict blob \<Rightarrow>
          (case dget_or blob ''registry'' (PStr ''docker.io'') of
             PStr reg \<Rightarrow> group_blobs vs (dset groups reg (dget_or groups reg [] @ [blob]))
           | r \<Rightarrow> rbind (check_hash r) (\<lambda>_. Inl not_modelled))
      | _ \<Rightarrow> Inl (attr_error v ''get''))"

definition host_of :: "string \<Rightarrow> string" where
  "host_of registry = (if registry = ''docker.io'' then ''registry-1.docker.io'' else registry)"

definition new_client :: "string \<Rightarrow> (string \<times> string) list option \<Rightarrow> client" where
  "new_client registry credentials = \<lparr>rc_registry = host_of registry, rc_credentials = credentials, rc_tokens = []\<rparr>"

text \<open>The client as the fetcher uses it: the chunks joined, the waits left out.\<close>

definition blob_source :: "'w online_env \<Rightarrow> client \<times> 'w \<Rightarrow> string \<Rightarrow> string \<Rightarrow> bytes res \<times> client \<times> 'w" where
  "blob_source E s repository digest =
     (case fetch_blob (ev_net E) (ev_date E) (fst s) (snd s) repository digest of
        (r, cl, waits, w) \<Rightarrow> (rbind r (\<lambda>chunks. Inr (concat chunks)), cl, w))"

definition fetch_registry :: "'w online_env \<Rightarrow> dict \<Rightarrow> 'w online \<Rightarrow> string \<Rightarrow> dict list \<Rightarrow> fetch_result res \<times> 'w online" where
  "fetch_registry E config S registry blobs =
     (case load_credentials (ev_environ E) config registry of
        Inl e \<Rightarrow> (Inl e, S)
      | Inr credentials \<Rightarrow>
          (case fetch (blob_source E) (ev_order E) (new_client registry credentials, on_world S) (on_cache S) (ev_now E) blobs of
             (r, (cl, w), c) \<Rightarrow> (r, S\<lparr>on_cache := c, on_world := w\<rparr>)))"

fun fetch_registries ::
  "'w online_env \<Rightarrow> dict \<Rightarrow> 'w online \<Rightarrow> (string \<times> dict list) list \<Rightarrow> fetch_result \<Rightarrow> fetch_result res \<times> 'w online" where
  "fetch_registries E config S [] acc = (Inr acc, S)"
| "fetch_registries E config S ((registry, blobs) # groups) acc =
     (case fetch_registry E config S registry blobs of
        (Inl e, S) \<Rightarrow> (Inl e, S)
      | (Inr r, S) \<Rightarrow>
          fetch_registries E config S groups
            \<lparr>downloaded = downloaded acc @ downloaded r, skipped = skipped acc @ skipped r, errors = errors acc @ errors r\<rparr>)"

section \<open>Manifests\<close>

definition platform_target :: "string \<Rightarrow> string oci_platform" where
  "platform_target platform_str =
     (let parts = split_on CHR ''/'' platform_str
      in \<lparr>pl_architecture = (if length parts > 1 then parts ! 1 else ''amd64''), pl_os = (if parts \<noteq> [] then parts ! 0 else ''linux''),
          pl_variant = (if length parts > 2 then Some (parts ! 2) else None)\<rparr>)"

text \<open>The digest of the first entry for the platform that is no attestation.\<close>

fun find_entry :: "string oci_platform \<Rightarrow> pyval list \<Rightarrow> pyval option res" where
  "find_entry target [] = Inr None"
| "find_entry target (entry # es) =
     rbind (vget entry ''platform'' (PDict [])) (\<lambda>p.
     rbind (vget entry ''annotations'' (PDict [])) (\<lambda>annotations.
     rbind (vget annotations ''vnd.docker.reference.type'' PNone) (\<lambda>ref_type.
     if ref_type = PStr ''attestation-manifest'' then find_entry target es
     else
       rbind (vget p ''os'' PNone) (\<lambda>os.
       rbind (vget p ''architecture'' PNone) (\<lambda>arch.
       if \<not> (os = PStr (pl_os target) \<and> arch = PStr (pl_architecture target)) then find_entry target es
       else
         (case pl_variant target of
            None \<Rightarrow> rbind (vindex entry ''digest'') (\<lambda>d. Inr (Some d))
          | Some variant \<Rightarrow>
              rbind (vget p ''variant'' PNone) (\<lambda>v.
              if v \<noteq> PStr variant then find_entry target es else rbind (vindex entry ''digest'') (\<lambda>d. Inr (Some d)))))))))"

definition is_index :: "pyval \<Rightarrow> bool res" where
  "is_index raw_manifest =
     rbind (vget raw_manifest ''mediaType'' (PStr [])) (\<lambda>media_type.
     rbind (vin ''index'' media_type) (\<lambda>i. if i then Inr True else vin ''list'' media_type))"

text \<open>The manifest of the platform: the one served, or the one its index names.\<close>

definition platform_manifest ::
  "'w online_env \<Rightarrow> client \<Rightarrow> 'w \<Rightarrow> string \<Rightarrow> string \<Rightarrow> string \<Rightarrow> pyval option res \<times> 'w" where
  "platform_manifest E cl w repository tag platform_str =
     (case fetch_manifest (ev_net E) (ev_date E) cl w repository tag of
        (Inl e, cl, waits, w) \<Rightarrow> (Inl e, w)
      | (Inr raw_manifest, cl, waits, w) \<Rightarrow>
          (case is_index raw_manifest of
             Inl e \<Rightarrow> (Inl e, w)
           | Inr False \<Rightarrow> (Inr (Some raw_manifest), w)
           | Inr True \<Rightarrow>
               (case rbind (rbind (vget raw_manifest ''manifests'' (PList [])) viter) (find_entry (platform_target platform_str)) of
                  Inl e \<Rightarrow> (Inl e, w)
                | Inr None \<Rightarrow> (Inr None, w)
                | Inr (Some digest) \<Rightarrow>
                    (case fetch_manifest (ev_net E) (ev_date E) cl w repository (str_of digest) of
                       (r, cl, waits, w) \<Rightarrow> (rbind r (\<lambda>m. Inr (Some m)), w)))))"

definition load_digest_cache :: "bytes option \<Rightarrow> pyval res" where
  "load_digest_cache file =
     (case file of
        None \<Rightarrow> Inr (PDict [])
      | Some raw \<Rightarrow> (case load_text raw of Inl e \<Rightarrow> if is_json_error e then Inr (PDict []) else Inl e | Inr v \<Rightarrow> Inr v))"

definition save_digest_cache :: "pyval \<Rightarrow> bytes" where
  "save_digest_cache v = py_encode (json_pretty 0 v)"

text \<open>Whether the image changed since the last time, which is logged, and the file afterwards.\<close>

definition check_manifest_changed :: "bytes option \<Rightarrow> string \<Rightarrow> string \<Rightarrow> bool res \<times> bytes option" where
  "check_manifest_changed file image_key new_digest =
     (case rbind (load_digest_cache file) (\<lambda>digests.
           rbind (vget digests image_key PNone) (\<lambda>previous.
           rbind (vset digests image_key (PStr new_digest)) (\<lambda>digests.
           Inr (truthy previous \<and> previous \<noteq> PStr new_digest, digests)))) of
        Inl e \<Rightarrow> (Inl e, file)
      | Inr (changed, digests) \<Rightarrow> (Inr changed, Some (save_digest_cache digests)))"

definition fetched_digest :: "dict \<Rightarrow> string" where
  "fetched_digest manifest =
     ''sha256:'' @ sha256_hex (py_encode (json_dumps True (PDict (filter (\<lambda>(k, v). k \<noteq> ''_buncker'') manifest))))"

definition image_key_of :: "string \<Rightarrow> string \<Rightarrow> string \<Rightarrow> string \<Rightarrow> string" where
  "image_key_of registry repository tag platform_str = registry @ ''/'' @ repository @ '':'' @ tag @ ''/'' @ platform_str"

text \<open>The body of the \<open>try\<close> block for one image; \<open>None\<close> where no entry is for the platform.\<close>

definition fetch_image ::
  "'w online_env \<Rightarrow> dict \<Rightarrow> 'w online \<Rightarrow> string \<Rightarrow> string \<Rightarrow> string \<Rightarrow> string \<Rightarrow> fetched_manifest option res \<times> 'w online" where
  "fetch_image E config S registry repository tag platform_str =
     (case load_credentials (ev_environ E) config registry of
        Inl e \<Rightarrow> (Inl e, S)
      | Inr credentials \<Rightarrow>
          (case platform_manifest E (new_client registry credentials) (on_world S) repository tag platform_str of
             (Inl e, w) \<Rightarrow> (Inl e, S\<lparr>on_world := w\<rparr>)
           | (Inr None, w) \<Rightarrow> (Inr None, S\<lparr>on_world := w\<rparr>)
           | (Inr (Some (PDict manifest)), w) \<Rightarrow>
               (let d = fetched_digest manifest in
                case check_manifest_changed (on_digests S) (image_key_of registry repository tag platform_str) d of
                  (Inl e, f) \<Rightarrow> (Inl e, S\<lparr>on_world := w, on_digests := f\<rparr>)
                | (Inr changed, f) \<Rightarrow>
                    (Inr (Some \<lparr>fm_registry = registry, fm_repository = repository, fm_tag = tag,
                       fm_platform = replace_char CHR ''/'' CHR ''-'' platform_str,
                       fm_manifest = dset manifest ''_buncker''
                         (PDict [(''cached_at'', PStr (isoformat (ev_now E))), (''source_digest'', PStr d)])\<rparr>),
                     S\<lparr>on_world := w, on_digests := f\<rparr>))
           | (Inr (Some v), w) \<Rightarrow> (Inl (attr_error v ''items''), S\<lparr>on_world := w\<rparr>)))"

text \<open>The loop over the images: an exception in the block skips the image.\<close>

fun fetch_images :: "'w online_env \<Rightarrow> dict \<Rightarrow> 'w online \<Rightarrow> pyval list \<Rightarrow> fetched_manifest list res \<times> 'w online" where
  "fetch_images E config S [] = (Inr [], S)"
| "fetch_images E config S (img # imgs) =
     (case rbind (vget img ''registry'' (PStr ''docker.io'')) (\<lambda>r. rbind (vget img ''repository'' (PStr [])) (\<lambda>n.
           rbind (vget img ''tag'' (PStr ''latest'')) (\<lambda>t. rbind (vget img ''platform'' (PStr ''linux/amd64'')) (\<lambda>p. Inr (r, n, t, p))))) of
        Inl e \<Rightarrow> (Inl e, S)
      | Inr (r, n, t, p) \<Rightarrow>
          if \<not> truthy n then fetch_images E config S imgs
          else (case (as_str r, as_str n, as_str t, as_str p) of
                  (Some registry, Some repository, Some tag, Some platform_str) \<Rightarrow>
                    (case fetch_image E config S registry repository tag platform_str of
                       (Inl e, S) \<Rightarrow> if e = not_modelled then (Inl e, S) else fetch_images E config S imgs
                     | (Inr found, S) \<Rightarrow>
                         (case fetch_images E config S imgs of
                            (Inl e, S) \<Rightarrow> (Inl e, S)
                          | (Inr ms, S) \<Rightarrow> (Inr ((case found of None \<Rightarrow> ms | Some m \<Rightarrow> m # ms)), S)))
                | _ \<Rightarrow> (Inl not_modelled, S)))"

definition fetch_manifests :: "'w online_env \<Rightarrow> dict \<Rightarrow> 'w online \<Rightarrow> pyval \<Rightarrow> fetched_manifest list res \<times> 'w online" where
  "fetch_manifests E config S images =
     (if \<not> truthy images then (Inr [], S)
      else (case viter images of Inl e \<Rightarrow> (Inl e, S) | Inr imgs \<Rightarrow> fetch_images E config S imgs))"

section \<open>The blobs the manifests name\<close>

text \<open>\<open>{b.get ("digest") for b in blobs}\<close>.\<close>

definition known_digests :: "pyval list \<Rightarrow> pyval list res" where
  "known_digests blobs = rmap (\<lambda>b. rbind (vget b ''digest'' PNone) (\<lambda>d. rbind (check_hash d) (\<lambda>_. Inr d))) blobs"

text \<open>\<open>v + w\<close> where \<open>w\<close> is a list.\<close>

definition concat_list :: "pyval \<Rightarrow> unit res" where
  "concat_list v =
     (case v of
        PList _ \<Rightarrow> Inr ()
      | _ \<Rightarrow> Inl (type_error (''unsupported operand type(s) for +: '' @ [CHR 0x27] @ type_name v @ [CHR 0x27] @ '' and '' @ [CHR 0x27] @ ''list'' @ [CHR 0x27])))"

definition manifest_layers :: "dict \<Rightarrow> pyval list res" where
  "manifest_layers manifest =
     (let layers = dget_or manifest ''layers'' (PList []); config = dget_or manifest ''config'' (PDict []) in
      rbind (concat_list layers) (\<lambda>_. rbind (viter layers) (\<lambda>ls. Inr (ls @ [config]))))"

text \<open>The descriptors to add, and the digests known behind them.\<close>

fun add_layers :: "string \<Rightarrow> string \<Rightarrow> pyval list \<Rightarrow> pyval list \<Rightarrow> (dict list \<times> pyval list) res" where
  "add_layers registry repository known [] = Inr ([], known)"
| "add_layers registry repository known (layer # layers) =
     rbind (vget layer ''digest'' (PStr [])) (\<lambda>digest.
     rbind (vget layer ''size'' (PInt 0)) (\<lambda>n.
     rbind (if truthy digest then check_hash digest else Inr ()) (\<lambda>_.
     if truthy digest \<and> digest \<notin> set known then
       rbind (add_layers registry repository (known @ [digest]) layers) (\<lambda>(bs, known).
       Inr ([(''digest'', digest), (''size'', n), (''registry'', PStr registry), (''repository'', PStr repository)] # bs, known))
     else add_layers registry repository known layers)))"

fun manifest_blobs :: "pyval list \<Rightarrow> fetched_manifest list \<Rightarrow> dict list res" where
  "manifest_blobs known [] = Inr []"
| "manifest_blobs known (m # ms) =
     rbind (manifest_layers (fm_manifest m)) (\<lambda>layers.
     rbind (add_layers (fm_registry m) (fm_repository m) known layers) (\<lambda>(bs, known).
     rbind (manifest_blobs known ms) (\<lambda>bs'. Inr (bs @ bs'))))"

section \<open>The command fetch\<close>

record fetch_args =
  fa_request :: "(string \<times> bytes) option"
  fa_output :: "string option"
  fa_deb :: "(string \<times> bytes option) option"

text \<open>What else the command finds: the request files of a directory by age, and its own directory.\<close>

record found =
  fo_requests :: "string \<Rightarrow> (string \<times> bytes) list"
  fo_cwd :: string
  fo_nonce :: bytes
  fo_tar :: tar_codec

text \<open>A transfer path that is no string raises.\<close>

definition transfer_path :: "dict \<Rightarrow> string option res" where
  "transfer_path config =
     (let tp = dget_or config ''transfer_path'' (PStr []) in
      if \<not> truthy tp then Inr None
      else (case tp of PStr s \<Rightarrow> Inr (Some s) | _ \<Rightarrow> Inl (type_error ''argument should be a str or an os.PathLike object'')))"

definition request_file :: "dict \<Rightarrow> fetch_args \<Rightarrow> found \<Rightarrow> (string + (string \<times> bytes)) res" where
  "request_file config args fo =
     (case fa_request args of
        Some f \<Rightarrow> Inr (Inr f)
      | None \<Rightarrow>
          rbind (transfer_path config) (\<lambda>tp.
          case tp of
            None \<Rightarrow> Inr (Inl ''No request file specified and transfer_path not configured'')
          | Some dir \<Rightarrow>
              if fo_requests fo dir = [] then Inr (Inl (''No *.json.enc files found in '' @ dir))
              else Inr (Inr (last (fo_requests fo dir)))))"

definition no_results :: fetch_result where
  "no_results = \<lparr>downloaded = [], skipped = [], errors = []\<rparr>"

text \<open>Everything a request asks for: the descriptors, the manifests and the results of the downloads.\<close>

definition fetch_all ::
  "'w online_env \<Rightarrow> dict \<Rightarrow> 'w online \<Rightarrow> pyval \<Rightarrow> pyval \<Rightarrow> (dict list \<times> fetched_manifest list \<times> fetch_result) res \<times> 'w online" where
  "fetch_all E config S blobs images =
     (case rbind (viter blobs) (\<lambda>bs. rbind (group_blobs bs []) (\<lambda>groups. Inr (bs, groups))) of
        Inl e \<Rightarrow> (Inl e, S)
      | Inr (bs, groups) \<Rightarrow>
          (case fetch_registries E config S groups no_results of
             (Inl e, S) \<Rightarrow> (Inl e, S)
           | (Inr res, S) \<Rightarrow>
               (case fetch_manifests E config S images of
                  (Inl e, S) \<Rightarrow> (Inl e, S)
                | (Inr manifests, S) \<Rightarrow>
                    (case rbind (known_digests bs) (\<lambda>known. rbind (manifest_blobs known manifests) (\<lambda>extra.
                          rbind (group_blobs (map PDict extra) []) (\<lambda>extra_groups. Inr (extra, extra_groups)))) of
                       Inl e \<Rightarrow> (Inl e, S)
                     | Inr (extra, extra_groups) \<Rightarrow>
                         (case fetch_registries E config S extra_groups res of
                            (Inl e, S) \<Rightarrow> (Inl e, S)
                          | (Inr res, S) \<Rightarrow>
                              (case rbind (if extra = [] then Inr () else concat_list blobs) (\<lambda>_.
                                    rmap (\<lambda>b. case b of PDict d \<Rightarrow> Inr d | v \<Rightarrow> Inl not_modelled) bs) of
                                 Inl e \<Rightarrow> (Inl e, S)
                               | Inr ds \<Rightarrow> (Inr (ds @ extra, manifests, res), S)))))))"

definition summary_of :: "fetch_result \<Rightarrow> pyval list \<Rightarrow> string \<Rightarrow> dict" where
  "summary_of res errs response_path =
     [(''status'', PStr ''success''), (''downloaded'', PInt (int (length (downloaded res)))),
      (''skipped'', PInt (int (length (skipped res)))), (''errors'', PInt (int (length errs))),
      (''response_file'', PStr response_path)]"

text \<open>The response: the path written and its contents, and the summary, whose errors are those of the response.\<close>

definition write_response ::
  "aead \<Rightarrow> 'w online_env \<Rightarrow> found \<Rightarrow> dict \<Rightarrow> bytes \<Rightarrow> bytes \<Rightarrow> string \<Rightarrow> fetch_args \<Rightarrow> cache \<Rightarrow> dict list \<Rightarrow> fetched_manifest list \<Rightarrow>
   fetch_result \<Rightarrow> (outcome \<times> (string \<times> bytes) option) res" where
  "write_response A E fo config aes_key hmac_key source_id args c blobs manifests res =
     rbind (case fa_output args of Some dir \<Rightarrow> Inr dir
            | None \<Rightarrow> rbind (transfer_path config) (\<lambda>tp. Inr (case tp of Some dir \<Rightarrow> dir | None \<Rightarrow> fo_cwd fo))) (\<lambda>output_dir.
     case fa_deb args of
       Some (path, None) \<Rightarrow> Inr (Refused (''.deb file not found: '' @ path), None)
     | deb \<Rightarrow>
         rbind (build_response A (fo_tar fo) (fo_nonce fo) (ev_now E) c blobs (map PDict (errors res)) aes_key hmac_key source_id
                  (case deb of Some (path, Some data) \<Rightarrow> Some (drop (nat (rfind CHR ''/'' path + 1)) path, data) | _ \<Rightarrow> None) manifests)
           (\<lambda>(filename, encrypted, errs).
         let response_path = output_dir @ ''/'' @ filename
         in Inr (Printed (summary_of res errs response_path), Some (response_path, encrypted))))"

definition cmd_fetch ::
  "aead \<Rightarrow> 'w online_env \<Rightarrow> found \<Rightarrow> string \<Rightarrow> bytes option \<Rightarrow> string \<Rightarrow> fetch_args \<Rightarrow> 'w online \<Rightarrow>
   (outcome \<times> (string \<times> bytes) option) res \<times> 'w online" where
  "cmd_fetch A E fo config_path raw line args S =
     (case open_config A config_path raw line of
        Inl e \<Rightarrow> (Inl e, S)
      | Inr (config, aes_key, hmac_key) \<Rightarrow>
          (case request_file config args fo of
             Inl e \<Rightarrow> (Inl e, S)
           | Inr (Inl m) \<Rightarrow> (Inr (Refused m, None), S)
           | Inr (Inr (path, encrypted_data)) \<Rightarrow>
               (case rbind (process_request A encrypted_data aes_key hmac_key path) (\<lambda>rd.
                     rbind (vget rd ''blobs'' (PList [])) (\<lambda>blobs. rbind (vget rd ''images'' (PList [])) (\<lambda>images.
                     rbind (vget rd ''source_id'' (PStr ''unknown'')) (\<lambda>source_id. Inr (blobs, images, source_id))))) of
                  Inl e \<Rightarrow> (Inl e, S)
                | Inr (blobs, images, source_id) \<Rightarrow>
                    if \<not> truthy blobs \<and> \<not> truthy images then
                      (Inr (Printed [(''status'', PStr ''success''), (''message'', PStr ''No blobs to fetch'')], None), S)
                    else
                      (case fetch_all E config S blobs images of
                         (Inl e, S) \<Rightarrow> (Inl e, S)
                       | (Inr (ds, manifests, res), S) \<Rightarrow>
                           (write_response A E fo config aes_key hmac_key (str_of source_id) args (on_cache S) ds manifests res, S)))))"

section \<open>The cache\<close>

definition stats_dict :: "cache_stats \<Rightarrow> dict" where
  "stats_dict st =
     (let time = (\<lambda>t. case t of None \<Rightarrow> PNone | Some u \<Rightarrow> PStr (isoformat (nat u)))
      in [(''blob_count'', PInt (int (blob_count st))), (''total_size'', PInt (int (total_size st))),
          (''oldest'', time (oldest st)), (''newest'', time (newest st))])"

definition cmd_status :: "cache \<Rightarrow> outcome" where
  "cmd_status c = Printed (stats_dict (stats c))"

definition cmd_cache_clean :: "cache \<Rightarrow> instant \<Rightarrow> string \<Rightarrow> outcome \<times> cache" where
  "cmd_cache_clean c now older_than =
     (if \<not> endswith older_than ''d'' then (Refused ''--older-than must be in format Nd (e.g., 30d)'', c)
      else case py_int (butlast older_than) of
        None \<Rightarrow> (Refused (''Invalid number in --older-than: '' @ older_than), c)
      | Some days \<Rightarrow> (case cache_clean c now days of (result, c) \<Rightarrow> (Printed result, c)))"

text \<open>\<open>main\<close>: the exit status of a command; an exception that is none of the program's own is not caught.\<close>

definition exit_status :: "outcome res \<Rightarrow> int res" where
  "exit_status r =
     (case r of
        Inr (Printed d) \<Rightarrow> Inr 0
      | Inr (Refused m) \<Rightarrow> Inr 1
      | Inl (BunckerError k m c) \<Rightarrow> Inr 1
      | Inl e \<Rightarrow> Inl e)"

end
