(* ===== verification/Pairing.thy ===== *)
theory Pairing
  imports Setup_Props Fetch_Main
begin

text \<open>
  The two sides of the air gap have the same keys: the mnemonic the setup of the daemon shows, typed
  at the pairing of the online side, opens there what the daemon encrypts.
\<close>

declare map_of_eq_Some_iff [simp del]

section \<open>The words of a mnemonic\<close>

lemma generated_words:
  fixes entropy salt_bytes
  defines "ws \<equiv> map (\<lambda>i. WORDLIST ! i) (entropy_to_indices entropy @ salt_to_indices salt_bytes)"
  shows "split_ws (generate_mnemonic entropy salt_bytes) = ws" "length ws = 16" "set ws \<subseteq> set WORDLIST"
proof -
  have g: "generate_mnemonic entropy salt_bytes = join '' '' ws"
    unfolding generate_mnemonic_def ws_def Let_def by (rule refl)
  have w: "\<forall>w \<in> set ws. w \<noteq> [] \<and> (\<forall>c \<in> set w. \<not> is_space c)"
    using mnemonic_indices_bound[of entropy salt_bytes] nth_WORDLIST_word unfolding ws_def by auto
  show "split_ws (generate_mnemonic entropy salt_bytes) = ws" unfolding g by (rule split_ws_join[OF w])
  show "length ws = 16" by (simp add: ws_def)
  have "length WORDLIST = 2048" by (rule length_WORDLIST)
  then show "set ws \<subseteq> set WORDLIST" using mnemonic_indices_bound[of entropy salt_bytes] by (auto simp: ws_def)
qed

lemma generated_stripped: "strip (generate_mnemonic entropy salt_bytes) = generate_mnemonic entropy salt_bytes"
  unfolding generate_mnemonic_def Let_def
  by (rule strip_join) (use mnemonic_indices_bound[of entropy salt_bytes] nth_WORDLIST_word in auto)

section \<open>Pairing\<close>

text \<open>AES-GCM and PBKDF2 as documented: a key of 32 bytes is accepted, sealing succeeds, the derived key has the 64 bytes asked for.\<close>

definition aead_works :: "aead \<Rightarrow> bool" where
  "aead_works A = (aead_inverse A \<and> (\<forall>k. length k = 32 \<longrightarrow> aes_new A k = Inr ())
     \<and> (\<forall>k n p. length k = 32 \<longrightarrow> length n = 12 \<longrightarrow> (\<exists>c. aes_seal A k n p = Inr c)) \<and> (\<forall>s i m. length (pbkdf2 A s i 64 m) = 64))"

lemma encrypt_works: "aead_works A \<Longrightarrow> length k = 32 \<Longrightarrow> length nonce = 12 \<Longrightarrow> \<exists>c. encrypt A nonce data k = Inr c"
  unfolding aead_works_def encrypt_def by (metis rbind.simps(2))

lemma derived_length: "aead_works A \<Longrightarrow> length (fst (derive_keys A m s i)) = 32"
  by (simp add: aead_works_def derive_keys_def Let_def)

definition paired_config :: "dict \<Rightarrow> bytes \<Rightarrow> bytes \<Rightarrow> dict" where
  "paired_config config salt check = dset (dset config ''salt'' (PStr (b64encode salt))) ''derived_key_check'' (PStr (b64encode check))"

lemma pair_succeeds:
  assumes "aead_works A" "length nonce = 12" "strip line = generate_mnemonic entropy salt_bytes"
    and "split_mnemonic (strip line) = Inr (m12, salt)" "fetch_load_config cpath raw = Inr config"
  shows "\<exists>d check. encrypt A nonce PAIR_MARKER (fst (derive_keys A m12 salt FETCH_ITERATIONS)) = Inr check
    \<and> cmd_pair A nonce line cpath raw = (Inr (Printed d), Some (fetch_save_config (paired_config config salt check)))"
proof -
  obtain aes_key hmac_key where k: "derive_keys A m12 salt FETCH_ITERATIONS = (aes_key, hmac_key)" by fastforce
  then have "length aes_key = 32" using derived_length[OF assms(1), of m12 salt FETCH_ITERATIONS] by simp
  from encrypt_works[OF assms(1) this assms(2)] obtain check where check: "encrypt A nonce PAIR_MARKER aes_key = Inr check" by blast
  have "find (\<lambda>w. w \<notin> set WORDLIST) (split_ws (strip line)) = None"
    using generated_words(3) unfolding assms(3) generated_words(1) find_None_iff by blast
  moreover have "length (split_ws (strip line)) = 16" using generated_words(1,2) unfolding assms(3) by simp
  ultimately show ?thesis
    using check by (simp add: cmd_pair_def Let_def assms(4,5) k paired_config_def)
qed

lemma paired_opens:
  assumes "aead_works A" "length nonce = 12" "encrypt A nonce PAIR_MARKER (fst (derive_keys A m12 salt FETCH_ITERATIONS)) = Inr check"
    and "fetch_load_config cpath raw = Inr config" "wf_json (PDict config)" "salt \<noteq> []" "split_mnemonic (strip line) = Inr (m12, salt)"
  shows "open_config A cpath (Some (fetch_save_config (paired_config config salt check))) line
    = Inr (paired_config config salt check, derive_keys A m12 salt FETCH_ITERATIONS)"
proof -
  let ?c = "paired_config config salt check"
  obtain aes_key hmac_key where k: "derive_keys A m12 salt FETCH_ITERATIONS = (aes_key, hmac_key)" by fastforce
  have a: "aead_inverse A" using assms(1) by (simp add: aead_works_def)
  have "check \<noteq> []" using assms(2,3) by (auto simp: encrypt_def rbind_Inr_iff)
  then have t: "b64encode check \<noteq> []" "b64encode salt \<noteq> []" using b64encode_nonempty assms(6) by blast+
  have "extends FETCH_DEFAULTS ?c"
    unfolding paired_config_def by (intro extends_dset fetch_loaded_extends[OF assms(4)])
  moreover have "wf_json (PDict ?c)" unfolding paired_config_def using assms(5) by (intro wf_dset) auto
  ultimately have l: "fetch_load_config cpath (Some (fetch_save_config ?c)) = Inr ?c" by (rule fetch_saved_loads)
  have v: "fetch_validate_config ?c = Inr ()" using t by (simp add: fetch_validate_config_def paired_config_def dget_or_def)
  have d: "decrypt A check aes_key = Inr PAIR_MARKER" using decrypt_inverts[OF a assms(2)] assms(3) k by simp
  have "dindex ?c ''derived_key_check'' = Inr (PStr (b64encode check))" by (simp add: dindex_def paired_config_def)
  then have "derive_keys_from_config A ?c line = Inr (aes_key, hmac_key)"
    by (simp add: derive_keys_from_config_def assms(7) k d)
  with l v k show ?thesis by (simp add: open_config_def)
qed

text \<open>
  C13. Pairing works with what the setup showed: typed at the online side, the mnemonic of a setup is
  accepted, and the configuration written opens with the same mnemonic to the very keys the daemon
  serves with.
\<close>

theorem paired_sides_share_keys:
  assumes "cmd_setup A rv km H config_arg store_arg = (Inr mnemonic, H')" "config_file (config_path_of config_arg)"
    and "length (rv_nonce rv) = 12" "store_arg \<noteq> Some []"
    and "aead_works A" "length nonce = 12" "strip line = mnemonic" "strip line' = mnemonic"
    and "fetch_load_config cpath raw = Inr config" "wf_json (PDict config)"
  shows "\<exists>d raw' config' keys v srv H''. cmd_pair A nonce line cpath raw = (Inr (Printed d), Some raw')
    \<and> open_config A cpath (Some raw') line' = Inr (config', keys)
    \<and> cmd_serve A version H' [v] stdin config_arg False = (Inr srv, H'') \<and> se_crypto_keys (bs_settings srv) = Some keys"
proof -
  have a: "aead_inverse A" using assms(5) by (simp add: aead_works_def)
  have m: "mnemonic = generate_mnemonic (rv_entropy rv) (rv_salt rv)"
    using assms(1) by (auto simp: cmd_setup_def Let_def split: if_splits sum.splits)
  obtain v m12 salt srv H'' where s: "split_mnemonic mnemonic = Inr (m12, salt)"
    "cmd_serve A version H' [v] stdin config_arg False = (Inr srv, H'')"
    "se_crypto_keys (bs_settings srv) = Some (derive_keys A m12 salt MNEMONIC_ITERATIONS)"
    using setup_serves[OF assms(1,2) a assms(3,4)] by blast
  have "salt = sha256 (be_bytes 6 (int_from_be (rv_salt rv) mod 2 ^ 44))" using s(1) unfolding m split_generate_mnemonic by simp
  then have n: "salt \<noteq> []" using length_sha256 by (metis list.size(3) zero_neq_numeral)
  obtain d check where p: "encrypt A nonce PAIR_MARKER (fst (derive_keys A m12 salt FETCH_ITERATIONS)) = Inr check"
    "cmd_pair A nonce line cpath raw = (Inr (Printed d), Some (fetch_save_config (paired_config config salt check)))"
    using pair_succeeds[OF assms(5,6) _ _ assms(9)] assms(7) m s(1) by metis
  have "open_config A cpath (Some (fetch_save_config (paired_config config salt check))) line'
    = Inr (paired_config config salt check, derive_keys A m12 salt FETCH_ITERATIONS)"
    using paired_opens[OF assms(5,6) p(1) assms(9,10) n] s(1) assms(8) by simp
  moreover have "MNEMONIC_ITERATIONS = FETCH_ITERATIONS" by (simp add: MNEMONIC_ITERATIONS_def FETCH_ITERATIONS_def)
  ultimately show ?thesis using p(2) s(2,3) by metis
qed

lemma toy_aead_works: "aead_works toy_aead"
  unfolding aead_works_def using toy_aead_inverse by (simp add: toy_aead_def)

theorem paired_sides_share_keys_witness:
  "\<exists>d raw' config' keys v srv H''. cmd_pair toy_aead (replicate 12 CHR ''n'') demo_mnemonic ''c'' None = (Inr (Printed d), Some raw')
     \<and> open_config toy_aead ''c'' (Some raw') demo_mnemonic = Inr (config', keys)
     \<and> cmd_serve toy_aead ''1'' after_setup [v] None None False = (Inr srv, H'') \<and> se_crypto_keys (bs_settings srv) = Some keys"
proof -
  have s: "strip demo_mnemonic = demo_mnemonic" unfolding demo_mnemonic_def by (rule generated_stripped)
  have c: "fetch_load_config ''c'' None = Inr FETCH_DEFAULTS" by (simp add: fetch_load_config_def)
  have w: "wf_json (PDict FETCH_DEFAULTS)" by (simp add: FETCH_DEFAULTS_def)
  have n: "length (rv_nonce demo_random) = 12" "length (replicate 12 CHR ''n'') = 12" by (simp_all add: demo_random_def)
  show ?thesis by (rule paired_sides_share_keys[OF demo_setup default_config_file n(1) _ toy_aead_works n(2) s s c w]) simp
qed

end
