(* ===== verification/Dockerfile_Props.thy ===== *)
theory Dockerfile_Props
  imports Dockerfile
begin

text \<open>
  Properties of the Dockerfile parser: substitution inverts the writing of templates, and the loop over the lines
  is a specification of the file as a whole, its stages read on their own and related by their names.
\<close>

section \<open>Templates\<close>

datatype token = Lit string | Ref var_ref

fun ref_text :: "var_ref \<Rightarrow> string" where
  "ref_text (VarOp var op fallback) = ''${'' @ var @ op @ fallback @ ''}''"
| "ref_text (VarPlain var) = ''${'' @ var @ ''}''"

definition token_text :: "token \<Rightarrow> string" where
  "token_text t = (case t of Lit s \<Rightarrow> s | Ref v \<Rightarrow> ref_text v)"

definition template_text :: "token list \<Rightarrow> string" where
  "template_text ts = concat (map token_text ts)"

definition word :: "string \<Rightarrow> bool" where
  "word w = (w \<noteq> [] \<and> list_all is_word w)"

fun token_ok :: "token \<Rightarrow> bool" where
  "token_ok (Lit s) = (CHR ''$'' \<notin> set s)"
| "token_ok (Ref (VarOp var op fallback)) = (word var \<and> op \<in> {'':-'', '':+''} \<and> CHR ''}'' \<notin> set fallback)"
| "token_ok (Ref (VarPlain var)) = word var"

definition token_value :: "arg_map \<Rightarrow> build_args \<Rightarrow> nat \<Rightarrow> token \<Rightarrow> string res" where
  "token_value args build_args n t = (case t of Lit s \<Rightarrow> Inr s | Ref v \<Rightarrow> replacer args build_args n v)"

lemma token_value_simps [simp]:
  "token_value args ba n (Lit s) = Inr s" "token_value args ba n (Ref v) = replacer args ba n v"
  by (simp_all add: token_value_def)

lemma not_word_punct [simp]: "\<not> is_word CHR '':''" "\<not> is_word CHR ''}''" "\<not> is_word CHR ''{''" "\<not> is_word CHR ''$''"
  by code_simp+

lemma takeWhile_word:
  "list_all P w \<Longrightarrow> \<not> P c \<Longrightarrow> takeWhile P (w @ c # s) = w \<and> dropWhile P (w @ c # s) = c # s"
  by (induction w) auto

lemma match_braced_plain: "word w \<Longrightarrow> match_braced (w @ CHR ''}'' # s) = Some (VarPlain w, s)"
  using takeWhile_word[of is_word w "CHR ''}''" s] by (simp add: match_braced_def word_def)

lemma match_braced_op:
  assumes "word w" "op = '':-'' \<or> op = '':+''" "CHR ''}'' \<notin> set d"
  shows "match_braced (w @ op @ d @ CHR ''}'' # s) = Some (VarOp w op d, s)"
proof -
  obtain c where c: "op = [CHR '':'', c]" "c = CHR ''-'' \<or> c = CHR ''+''" using assms(2) by blast
  have "takeWhile is_word (w @ CHR '':'' # c # d @ CHR ''}'' # s) = w
      \<and> dropWhile is_word (w @ CHR '':'' # c # d @ CHR ''}'' # s) = CHR '':'' # c # d @ CHR ''}'' # s"
    by (rule takeWhile_word) (use assms(1) in \<open>auto simp: word_def\<close>)
  then show ?thesis
    using assms c by (auto simp: match_braced_def word_def)
qed

lemma substitute_lit:
  "CHR ''$'' \<notin> set w \<Longrightarrow>
     substitute_args args ba n (w @ s) = rbind (substitute_args args ba n s) (\<lambda>y. Inr (w @ y))"
proof (induction w)
  case Nil
  then show ?case by (cases "substitute_args args ba n s") simp_all
next
  case (Cons c w)
  then show ?case by (cases "substitute_args args ba n s") auto
qed

lemma substitute_ref:
  assumes "token_ok (Ref v)"
  shows "substitute_args args ba n (ref_text v @ s) =
    rbind (replacer args ba n v) (\<lambda>x. rbind (substitute_args args ba n s) (\<lambda>y. Inr (x @ y)))"
proof (cases v)
  case (VarOp w op d)
  with assms match_braced_op[of w op d s] show ?thesis by (auto simp: match_var_def)
next
  case (VarPlain w)
  with assms match_braced_plain[of w s] show ?thesis by (simp add: match_var_def)
qed

text \<open>
  C20. Substitution inverts the writing of templates: a text written from literals and braced
  variable references becomes the concatenation of their values, in order, or the first
  reference's error.
\<close>

theorem substitute_template:
  assumes "list_all token_ok ts"
  shows "substitute_args args ba n (template_text ts) =
    rbind (rmap (token_value args ba n) ts) (\<lambda>vs. Inr (concat vs))"
  using assms
proof (induction ts)
  case Nil
  then show ?case by (simp add: template_text_def)
next
  case (Cons t ts)
  then have ih: "substitute_args args ba n (template_text ts) = rbind (rmap (token_value args ba n) ts) (\<lambda>vs. Inr (concat vs))"
    by simp
  have e: "template_text (t # ts) = token_text t @ template_text ts" by (simp add: template_text_def)
  show ?case
  proof (cases t)
    case (Lit w)
    then show ?thesis
      using Cons.prems by (cases "rmap (token_value args ba n) ts")
        (simp_all add: e[unfolded Lit] token_text_def substitute_lit ih)
  next
    case (Ref v)
    with Cons.prems have "token_ok (Ref v)" by simp
    from substitute_ref[OF this, of args ba n "template_text ts"] Ref show ?thesis
      by (cases "replacer args ba n v"; cases "rmap (token_value args ba n) ts")
        (simp_all add: e[unfolded Ref] token_text_def ih)
  qed
qed

theorem substitute_template_witness:
  "substitute_args [(''V'', Some ''1.25'')] [] 3 (template_text [Lit ''nginx:'', Ref (VarPlain ''V''), Ref (VarOp ''W'' '':-'' ''-x'')])
     = Inr ''nginx:1.25-x''"
proof -
  have "list_all token_ok [Lit ''nginx:'', Ref (VarPlain ''V''), Ref (VarOp ''W'' '':-'' ''-x'')]"
    by code_simp
  from substitute_template[OF this, of "[(''V'', Some ''1.25'')]" "[]" 3] show ?thesis
    by (simp add: arg_value_def some_truthy_def dget_or_def)
qed

section \<open>Stages\<close>

text \<open>
  A Dockerfile read as a whole: its \<open>FROM\<close> lines, the values of the \<open>ARG\<close> lines before the first of them,
  and the three parts of each: platform, reference and name.
\<close>

definition is_from :: "nat \<times> string \<Rightarrow> bool" where
  "is_from x = startswith (upper (strip (snd x))) ''FROM ''"

definition is_arg :: "nat \<times> string \<Rightarrow> bool" where
  "is_arg x = startswith (upper (strip (snd x))) ''ARG ''"

definition read_args :: "build_args \<Rightarrow> arg_map \<Rightarrow> (nat \<times> string) list \<Rightarrow> arg_map" where
  "read_args ba args lines = foldl (\<lambda>args x. parse_arg (strip (snd x)) args ba) args (filter is_arg (takeWhile (\<lambda>x. \<not> is_from x) lines))"

record stage =
  sg_line :: nat
  sg_platform :: "string option"
  sg_reference :: string
  sg_name :: "string option"

definition from_parts :: "arg_map \<Rightarrow> build_args \<Rightarrow> nat \<times> string \<Rightarrow> stage res" where
  "from_parts args ba x =
     (let rest = strip (drop 5 (strip (snd x)));
          (platform, rest) = (case match_platform rest of Some (p, r) \<Rightarrow> (Some p, r) | None \<Rightarrow> (None, rest)) in
      rbind (case platform of
               None \<Rightarrow> Inr None
             | Some p \<Rightarrow> rbind (substitute_args args ba (fst x) p) (\<lambda>p. Inr (Some p))) (\<lambda>platform.
      rbind (substitute_args args ba (fst x) rest) (\<lambda>rest.
      Inr (case match_alias [] rest of
             Some (r, a) \<Rightarrow> \<lparr>sg_line = fst x, sg_platform = platform, sg_reference = strip r, sg_name = Some a\<rparr>
           | None \<Rightarrow> \<lparr>sg_line = fst x, sg_platform = platform, sg_reference = rest, sg_name = None\<rparr>))))"

definition from_scratch :: "stage \<Rightarrow> bool" where
  "from_scratch sg = (lower (sg_reference sg) = ''scratch'')"

text \<open>The image of a stage, which is internal or not.\<close>

definition stage_image :: "string list \<Rightarrow> bool \<Rightarrow> stage \<Rightarrow> resolved_image" where
  "stage_image priv internal sg =
     (case parse_image_ref (sg_reference sg) of
        (registry, repository, tag, digest) \<Rightarrow>
          \<lparr>ri_raw = sg_reference sg, ri_resolved = build_resolved registry repository tag digest,
           ri_registry = registry, ri_repository = repository, ri_tag = tag, ri_digest = digest,
           ri_platform = sg_platform sg, ri_alias = sg_name sg, ri_is_internal = internal,
           ri_is_private = is_private registry priv, ri_line_number = sg_line sg\<rparr>)"

text \<open>The reference of a stage is the name of one of others, ignoring case.\<close>

definition stage_names :: "stage \<Rightarrow> string list" where
  "stage_names sg = (if some_truthy (sg_name sg) then [lower (the (sg_name sg))] else [])"

definition refers_to :: "stage \<Rightarrow> string list \<Rightarrow> bool" where
  "refers_to sg names = (lower (sg_reference sg) \<in> set names)"

text \<open>The whole specification: the images of the stages that do not start from \<open>scratch\<close>.\<close>

definition dockerfile_images :: "string list \<Rightarrow> stage list \<Rightarrow> resolved_image list" where
  "dockerfile_images priv sgs =
     map (\<lambda>i. stage_image priv (refers_to (sgs ! i) (concat (map stage_names (take i sgs)))) (sgs ! i)) [0..<length sgs]"

lemma parse_from_parts:
  "parse_from (strip l) n args ba aliases priv = rbind (from_parts args ba (n, l)) (\<lambda>sg.
     Inr (if from_scratch sg then None else Some (stage_image priv (refers_to sg aliases) sg)))"
proof -
  obtain platform rest where pr: "(case match_platform (strip (drop 5 (strip l))) of Some (p, r) \<Rightarrow> (Some p, r)
      | None \<Rightarrow> (None, strip (drop 5 (strip l)))) = (platform, rest)" by fastforce
  define pf where "pf = (case platform of None \<Rightarrow> Inr None | Some p \<Rightarrow> rbind (substitute_args args ba n p) (\<lambda>p. Inr (Some p)))"
  show ?thesis
    unfolding parse_from_def from_parts_def Let_def fst_conv snd_conv pr case_prod_conv pf_def[symmetric]
    by (cases pf; cases "substitute_args args ba n rest"; cases "match_alias [] (projr (substitute_args args ba n rest))")
      (auto simp: from_scratch_def stage_image_def refers_to_def split: prod.split)
qed

text \<open>The loop, from its middle: with the names seen so far.\<close>

fun images_from :: "string list \<Rightarrow> string list \<Rightarrow> stage list \<Rightarrow> resolved_image list" where
  "images_from priv names [] = []"
| "images_from priv names (sg # sgs) = stage_image priv (refers_to sg names) sg # images_from priv (stage_names sg @ names) sgs"

lemma images_from_nth:
  "images_from priv names sgs =
     map (\<lambda>i. stage_image priv (refers_to (sgs ! i) (concat (map stage_names (take i sgs)) @ names)) (sgs ! i)) [0..<length sgs]"
proof (induction sgs arbitrary: names)
  case (Cons sg sgs)
  have "refers_to x (concat (map stage_names (take i sgs)) @ stage_names sg @ names)
      = refers_to x (concat (map stage_names (take (Suc i) (sg # sgs))) @ names)" for x i
    by (auto simp: refers_to_def)
  with Cons show ?case by (simp add: upt_conv_Cons map_Suc_upt[symmetric] del: upt_Suc)
qed simp

lemma upper_hash: "upper_char CHR ''#'' \<noteq> CHR ''F''" "upper_char CHR ''#'' \<noteq> CHR ''A''"
  by code_simp+

lemma line_kinds: "strip l = [] \<or> startswith (strip l) ''#'' \<Longrightarrow> \<not> is_from (n, l) \<and> \<not> is_arg (n, l)"
  by (auto simp: is_from_def is_arg_def upper_def startswith_Nil upper_hash dest!: startswithE)

lemma arg_not_from: "is_arg x \<Longrightarrow> \<not> is_from x"
  by (auto simp: is_from_def is_arg_def startswith_iff)

lemma stage_names_image: "(if some_truthy (ri_alias (stage_image priv b sg)) then lower (the (ri_alias (stage_image priv b sg))) # names else names)
    = stage_names sg @ names"
  by (simp add: stage_image_def stage_names_def split: prod.split)

lemma parse_lines_from:
  assumes "is_from (n, l)"
  shows "parse_lines ba priv args aliases seen ((n, l) # lines) = rbind (from_parts args ba (n, l)) (\<lambda>sg.
    if from_scratch sg then parse_lines ba priv args aliases True lines
    else rbind (parse_lines ba priv args (stage_names sg @ aliases) True lines)
      (\<lambda>ims. Inr (stage_image priv (refers_to sg aliases) sg # ims)))"
proof -
  have "strip l \<noteq> []" "\<not> startswith (strip l) ''#''" using assms line_kinds by blast+
  moreover have "\<not> startswith (upper (strip l)) ''ARG ''" "startswith (upper (strip l)) ''FROM ''"
    using assms arg_not_from[of "(n, l)"] by (auto simp: is_from_def is_arg_def)
  ultimately show ?thesis
    by (cases "from_parts args ba (n, l)") (simp_all add: Let_def parse_from_parts stage_names_image)
qed

lemma parse_lines_seen:
  "parse_lines ba priv args aliases True lines =
     rbind (rmap (from_parts args ba) (filter is_from lines)) (\<lambda>sgs. Inr (images_from priv aliases (filter (\<lambda>sg. \<not> from_scratch sg) sgs)))"
proof (induction lines arbitrary: aliases)
  case (Cons x lines)
  obtain n l where x: "x = (n, l)" by (cases x)
  show ?case
  proof (cases "is_from x")
    case True
    with parse_lines_from[of n l ba priv args aliases True lines] show ?thesis
      by (cases "from_parts args ba (n, l)"; cases "rmap (from_parts args ba) (filter is_from lines)") (simp_all add: x Cons)
  next
    case False
    then have "parse_lines ba priv args aliases True (x # lines) = parse_lines ba priv args aliases True lines"
      by (simp add: x Let_def is_from_def)
    with False Cons show ?thesis by simp
  qed
qed simp

lemma parse_lines_spec:
  "parse_lines ba priv args [] False lines =
     rbind (rmap (from_parts (read_args ba args lines) ba) (filter is_from lines))
       (\<lambda>sgs. Inr (dockerfile_images priv (filter (\<lambda>sg. \<not> from_scratch sg) sgs)))"
proof (induction lines arbitrary: args)
  case Nil
  then show ?case by (simp add: dockerfile_images_def)
next
  case (Cons x lines)
  obtain n l where x: "x = (n, l)" by (cases x)
  have images: "images_from priv [] sgs = dockerfile_images priv sgs" for sgs
    by (simp add: images_from_nth dockerfile_images_def)
  show ?case
  proof (cases "is_from x")
    case True
    then have "read_args ba args (x # lines) = args" by (simp add: read_args_def)
    with True parse_lines_from[of n l ba priv args "[]" False lines] show ?thesis
      by (cases "from_parts args ba (n, l)"; cases "rmap (from_parts args ba) (filter is_from lines)")
        (auto simp: x parse_lines_seen simp flip: images)
  next
    case False
    have "parse_lines ba priv args [] False (x # lines) = parse_lines ba priv (if is_arg x then parse_arg (strip l) args ba else args) [] False lines"
      using False line_kinds[of l n] by (auto simp: x Let_def is_from_def is_arg_def)
    moreover have "read_args ba args (x # lines) = read_args ba (if is_arg x then parse_arg (strip l) args ba else args) lines"
      using False by (simp add: read_args_def x)
    ultimately show ?thesis using False Cons by simp
  qed
qed

lemma join_lines_sorted:
  "sorted_wrt (<) (map fst (join_lines i ls)) \<and> (\<forall>x \<in> set (join_lines i ls). i < fst x)"
proof (induction i ls rule: join_lines.induct)
  case (2 i line ls)
  obtain joined rest where j: "join_line line ls = (joined, rest)" by fastforce
  from "2.IH"[OF j[symmetric] refl] show ?case by (auto simp: j)
qed simp

text \<open>
  C37. Parsing a Dockerfile is reading its \<open>FROM\<close> lines: every one of them, in order, is read into a platform, a
  reference and a name under the values of the \<open>ARG\<close> lines before the first, the first that cannot be
  read being the error; and each that does not start from \<open>scratch\<close> gives an image, with the parts and the full
  form of its reference, its line and its private mark, internal exactly when its reference is the name of an
  earlier stage that does not start from \<open>scratch\<close>, ignoring case. The lines come in increasing order.
\<close>

theorem parse_dockerfile_stages:
  "parse_dockerfile path (Some content) ba priv = rbind (read_text content) (\<lambda>text.
     let lines = join_continuations text in
     rbind (rmap (from_parts (read_args ba [] lines) ba) (filter is_from lines)) (\<lambda>sgs.
     Inr (dockerfile_images priv (filter (\<lambda>sg. \<not> from_scratch sg) sgs))))
   \<and> sorted_wrt (<) (map fst (filter is_from (join_continuations text)))"
proof -
  have "sorted_wrt (<) (map fst (join_continuations text))" using join_lines_sorted by (simp add: join_continuations_def)
  then have "sorted_wrt (<) (map fst (filter is_from (join_continuations text)))"
    by (simp add: sorted_wrt_map sorted_wrt_filter)
  then show ?thesis by (simp add: parse_dockerfile_def parse_lines_spec Let_def)
qed

definition demo_dockerfile :: string where
  "demo_dockerfile = ''ARG V=1.25'' @ [CHR 0x0A] @ ''FROM nginx:$V AS Base'' @ [CHR 0x0A] @ ''FROM base'' @ [CHR 0x0A]"

definition demo_image :: resolved_image where
  "demo_image = \<lparr>ri_raw = ''nginx:1.25'', ri_resolved = ''docker.io/library/nginx:1.25'', ri_registry = ''docker.io'',
     ri_repository = ''library/nginx'', ri_tag = Some ''1.25'', ri_digest = None, ri_platform = None,
     ri_alias = Some ''Base'', ri_is_internal = False, ri_is_private = False, ri_line_number = 2\<rparr>"

definition demo_image2 :: resolved_image where
  "demo_image2 = \<lparr>ri_raw = ''base'', ri_resolved = ''docker.io/library/base:latest'', ri_registry = ''docker.io'',
     ri_repository = ''library/base'', ri_tag = Some ''latest'', ri_digest = None, ri_platform = None,
     ri_alias = None, ri_is_internal = True, ri_is_private = False, ri_line_number = 3\<rparr>"

lemma demo_images: "parse_dockerfile ''/Dockerfile'' (Some demo_dockerfile) [] [] = Inr [demo_image, demo_image2]"
  by code_simp

text \<open>
  A stage built from \<open>scratch\<close> leaves no name behind, so a later stage that starts from it is taken for an
  image of the default registry.
\<close>

lemma scratch_stage_forgotten:
  "case parse_dockerfile ''/Dockerfile'' (Some (''FROM scratch AS base'' @ [CHR 0x0A] @ ''FROM base'')) [] [] of
     Inr [im] \<Rightarrow> \<not> ri_is_internal im \<and> ri_resolved im = ''docker.io/library/base:latest'' | _ \<Rightarrow> False"
  by code_simp

end
