(* ===== verification/Resolver_Props.thy ===== *)
theory Resolver_Props
  imports Resolver Dockerfile_Props Store_Spec
begin

text \<open>
  Properties of the resolver, proved once for any environment whose missing blobs are the ones a
  predicate says it does not have, and instantiated with the blob store and the manifest cache.
\<close>

section \<open>The contract of the blob index\<close>

definition size_of :: "missing_blob \<Rightarrow> int" where
  "size_of b = (case as_int (mb_size b) of Some i \<Rightarrow> i | None \<Rightarrow> 0)"

definition missing_digests :: "analysis \<Rightarrow> string list" where
  "missing_digests a = map mb_digest (an_missing a)"

text \<open>The digests an image needs: those of its manifest, none when it is built here, private or not cached.\<close>

definition image_needs :: "resolver_env \<Rightarrow> string \<Rightarrow> resolved_image \<Rightarrow> string list" where
  "image_needs env default_platform im =
     (if ri_is_internal im \<or> ri_is_private im then []
      else case image_manifest env default_platform im of
        Inr (Some m) \<Rightarrow> (case manifest_digests m of Inr ds \<Rightarrow> ds | Inl _ \<Rightarrow> [])
      | _ \<Rightarrow> [])"

lemma add_missing_ok:
  "add_missing im m ds a = Inr a' \<Longrightarrow>
     \<exists>bs. an_missing a' = an_missing a @ bs \<and> map mb_digest bs = ds
       \<and> an_total_missing_size a' = an_total_missing_size a + sum_list (map size_of bs)
       \<and> an_present a' = an_present a \<and> an_images a' = an_images a \<and> an_warnings a' = an_warnings a"
proof (induction ds arbitrary: a)
  case (Cons d ds)
  then obtain info sz mt total where i: "vadd sz (an_total_missing_size a) = Inr total"
    "add_missing im m ds (a\<lparr>an_missing := an_missing a @ [\<lparr>mb_registry = ri_registry im, mb_repository = ri_repository im,
            mb_digest = d, mb_size = sz, mb_media_type = mt\<rparr>], an_total_missing_size := total\<rparr>) = Inr a'"
    by (auto simp: rbind_Inr_iff)
  from Cons.IH[OF i(2)] obtain bs where bs: "an_missing a' = an_missing a @
      \<lparr>mb_registry = ri_registry im, mb_repository = ri_repository im, mb_digest = d, mb_size = sz, mb_media_type = mt\<rparr> # bs"
    "map mb_digest bs = ds" "an_total_missing_size a' = total + sum_list (map size_of bs)"
    "an_present a' = an_present a" "an_images a' = an_images a" "an_warnings a' = an_warnings a" by auto
  moreover have "total = an_total_missing_size a + size_of
      \<lparr>mb_registry = ri_registry im, mb_repository = ri_repository im, mb_digest = d, mb_size = sz, mb_media_type = mt\<rparr>"
    using i(1) by (auto simp: vadd_def size_of_def split: option.splits)
  ultimately show ?case
    by (intro exI[of _ "\<lparr>mb_registry = ri_registry im, mb_repository = ri_repository im, mb_digest = d,
        mb_size = sz, mb_media_type = mt\<rparr> # bs"]) simp
qed simp

text \<open>The parts of an analysis that warnings and staleness leave alone.\<close>

definition same_blobs :: "analysis \<Rightarrow> analysis \<Rightarrow> bool" where
  "same_blobs a b = (an_present a = an_present b \<and> an_missing a = an_missing b
     \<and> an_total_missing_size a = an_total_missing_size b \<and> an_images a = an_images b)"

lemma same_blobs_warn [simp]: "same_blobs (warn msg a) a"
  by (simp add: same_blobs_def warn_def)

lemma same_blobs_trans: "same_blobs a b \<Longrightarrow> same_blobs b c \<Longrightarrow> same_blobs a c"
  by (simp add: same_blobs_def)

lemma warn_latest_same [simp]: "same_blobs (warn_latest im a) a"
  by (simp add: warn_latest_def same_blobs_def warn_def)

lemma check_staleness_same: "check_staleness env im tag platform ttl a = Inr a' \<Longrightarrow> same_blobs a' a"
proof -
  assume c: "check_staleness env im tag platform ttl a = Inr a'"
  obtain stale where st: "env_is_stale env (ri_registry im) (ri_repository im) tag platform ttl = Inr stale"
    using c by (auto simp: check_staleness_def rbind_Inr_iff)
  show ?thesis
  proof (cases "stale = Some True")
    case False
    with c st show ?thesis by (simp add: check_staleness_def same_blobs_def)
  next
    case True
    with c st obtain msg sm where "a' = (warn msg a)\<lparr>an_stale := an_stale a @ [sm]\<rparr>"
      unfolding check_staleness_def by (auto simp only: rbind_Inr_iff sum.inject rbind.simps if_False simp_thms)
    then show ?thesis by (simp add: same_blobs_def warn_def)
  qed
qed

text \<open>What a successful step does: nothing to the blobs, or the new digests of the manifest split by the store.\<close>

lemma resolve_image_blobs_cases:
  assumes r: "resolve_image_blobs env dp ttl im (a, seen) = Inr (a', seen')"
  obtains (none) "same_blobs a' a" "seen' = seen" "image_needs env dp im = []"
    | (some) a1 m where "same_blobs a1 a" "record_layers env im m (image_needs env dp im) a1 seen = Inr (a', seen')"
proof (cases "ri_is_internal im \<or> ri_is_private im")
  case True
  then show thesis using r none
    by (auto simp: resolve_image_blobs_def image_needs_def same_blobs_def warn_def split: if_splits)
next
  case pub: False
  with r obtain found where f: "image_manifest env dp im = Inr found"
    by (auto simp: resolve_image_blobs_def Let_def rbind_Inr_iff)
  show thesis
  proof (cases found)
    case None
    have w: "same_blobs (warn msg (warn_latest im a)) a" for msg
      by (rule same_blobs_trans[OF same_blobs_warn warn_latest_same])
    show thesis using None r f pub
      by (intro none) (auto simp: resolve_image_blobs_def Let_def image_needs_def intro: w)
  next
    case (Some m)
    with r f pub obtain a1 ds where m: "(if 0 < ttl \<and> some_truthy (ri_tag im)
           then check_staleness env im (the (ri_tag im)) (image_platform dp im) ttl (warn_latest im a)
           else Inr (warn_latest im a)) = Inr a1"
      "manifest_digests m = Inr ds" "record_layers env im m ds a1 seen = Inr (a', seen')"
      unfolding resolve_image_blobs_def Let_def by (auto simp: rbind_Inr_iff)
    have "same_blobs a1 a"
    proof (cases "0 < ttl \<and> some_truthy (ri_tag im)")
      case True
      with m(1) show ?thesis by (auto intro: same_blobs_trans[OF check_staleness_same])
    next
      case False
      with m(1) show ?thesis by auto
    qed
    moreover have "image_needs env dp im = ds" using f Some m(2) pub by (simp add: image_needs_def)
    ultimately show thesis using m(3) some by blast
  qed
qed

lemma record_layers_ok:
  assumes "record_layers env im m ds a seen = Inr (a', seen')"
  defines "new \<equiv> filter (\<lambda>d. d \<notin> seen) ds"
  shows "\<exists>bs. an_missing a' = an_missing a @ bs \<and> map mb_digest bs = (if new = [] then [] else env_list_missing env new)
     \<and> an_total_missing_size a' = an_total_missing_size a + sum_list (map size_of bs)
     \<and> an_present a' = an_present a \<union> (if new = [] then {} else set new - set (env_list_missing env new))
     \<and> seen' = seen \<union> set ds"
proof (cases "new = []")
  case True
  then have "set ds \<subseteq> seen" by (auto simp: new_def filter_empty_conv)
  with True assms(1) show ?thesis by (auto simp: record_layers_def new_def)
next
  case False
  with assms(1) have a: "add_missing im m (env_list_missing env new)
      (a\<lparr>an_present := an_present a \<union> (set new - set (env_list_missing env new))\<rparr>) = Inr a'" "seen' = seen \<union> set new"
    by (auto simp: record_layers_def new_def[symmetric] rbind_Inr_iff Let_def)
  from add_missing_ok[OF a(1)] a(2) False show ?thesis by (auto simp: new_def)
qed

locale blob_index =
  fixes env :: resolver_env and has :: "string \<Rightarrow> bool"
  assumes list_missing: "env_list_missing env ds = filter (\<lambda>d. \<not> has d) ds"
begin

definition analysis_inv :: "analysis \<Rightarrow> string set \<Rightarrow> bool" where
  "analysis_inv a seen =
     ((\<forall>d \<in> an_present a. has d) \<and> (\<forall>d \<in> set (missing_digests a). \<not> has d)
     \<and> an_total_missing_size a = sum_list (map size_of (an_missing a))
     \<and> set (missing_digests a) \<subseteq> seen \<and> seen \<subseteq> an_present a \<union> set (missing_digests a))"

lemma inv_same: "same_blobs a' a \<Longrightarrow> analysis_inv a seen \<Longrightarrow> analysis_inv a' seen"
  by (simp add: same_blobs_def analysis_inv_def missing_digests_def)

text \<open>The blobs of one manifest: they are all accounted for, on the side the index says.\<close>

lemma record_layers_inv:
  assumes "analysis_inv a seen" "record_layers env im m ds a seen = Inr (a', seen')"
  shows "analysis_inv a' seen' \<and> seen' = seen \<union> set ds
    \<and> missing_digests a' = missing_digests a @ filter (\<lambda>d. d \<notin> seen \<and> \<not> has d) ds
    \<and> an_present a' = an_present a \<union> {d \<in> set ds. d \<notin> seen \<and> has d}"
proof -
  let ?new = "filter (\<lambda>d. d \<notin> seen) ds"
  obtain bs where bs: "an_missing a' = an_missing a @ bs"
    "map mb_digest bs = (if ?new = [] then [] else env_list_missing env ?new)"
    "an_total_missing_size a' = an_total_missing_size a + sum_list (map size_of bs)"
    "an_present a' = an_present a \<union> (if ?new = [] then {} else set ?new - set (env_list_missing env ?new))"
    "seen' = seen \<union> set ds"
    using record_layers_ok[OF assms(2)] by blast
  have m: "map mb_digest bs = filter (\<lambda>d. d \<notin> seen \<and> \<not> has d) ds"
    using bs(2) by (auto simp: list_missing filter_empty_conv conj_commute intro: filter_cong split: if_splits)
  have p: "an_present a' = an_present a \<union> {d \<in> set ds. d \<notin> seen \<and> has d}"
    unfolding bs(4) list_missing by (auto simp: filter_empty_conv)
  show ?thesis
    using assms(1) unfolding analysis_inv_def missing_digests_def bs(1,3,5) p map_append m by auto
qed

lemma resolve_image_blobs_inv:
  assumes "analysis_inv a seen" "resolve_image_blobs env dp ttl im (a, seen) = Inr (a', seen')"
  shows "analysis_inv a' seen' \<and> seen' = seen \<union> set (image_needs env dp im)
    \<and> missing_digests a' = missing_digests a @ filter (\<lambda>d. d \<notin> seen \<and> \<not> has d) (image_needs env dp im)
    \<and> an_present a' = an_present a \<union> {d \<in> set (image_needs env dp im). d \<notin> seen \<and> has d}"
  using assms(2)
proof (cases rule: resolve_image_blobs_cases)
  case none
  then show ?thesis using inv_same[OF none(1) assms(1)] by (simp add: same_blobs_def missing_digests_def)
next
  case (some a1 m)
  have "missing_digests a1 = missing_digests a" "an_present a1 = an_present a" using some(1)
    by (simp_all add: same_blobs_def missing_digests_def)
  with record_layers_inv[OF inv_same[OF some(1) assms(1)] some(2)] show ?thesis by auto
qed

text \<open>The digests the images need, each manifest without what was seen before it.\<close>

fun missing_of :: "string \<Rightarrow> string set \<Rightarrow> resolved_image list \<Rightarrow> string list" where
  "missing_of dp seen [] = []"
| "missing_of dp seen (im # ims) =
     filter (\<lambda>d. d \<notin> seen \<and> \<not> has d) (image_needs env dp im)
     @ missing_of dp (seen \<union> set (image_needs env dp im)) ims"

lemma resolve_images_inv:
  "analysis_inv a seen \<Longrightarrow> resolve_images env dp ttl ims (a, seen) = Inr (a', seen') \<Longrightarrow>
     analysis_inv a' seen' \<and> seen' = seen \<union> (\<Union>im \<in> set ims. set (image_needs env dp im))
     \<and> missing_digests a' = missing_digests a @ missing_of dp seen ims
     \<and> an_present a' = an_present a \<union> {d \<in> (\<Union>im \<in> set ims. set (image_needs env dp im)). d \<notin> seen \<and> has d}"
proof (induction ims arbitrary: a seen)
  case (Cons im ims)
  then obtain a1 seen1 where s: "resolve_image_blobs env dp ttl im (a, seen) = Inr (a1, seen1)"
    "resolve_images env dp ttl ims (a1, seen1) = Inr (a', seen')"
    by (auto simp: rbind_Inr_iff)
  note one = resolve_image_blobs_inv[OF Cons.prems(1) s(1)]
  from Cons.IH[OF conjunct1[OF one] s(2)] one show ?case by auto
qed simp

lemma missing_of_set: "set (missing_of dp seen ims) = {d \<in> (\<Union>im \<in> set ims. set (image_needs env dp im)). d \<notin> seen \<and> \<not> has d}"
  by (induction ims arbitrary: seen) auto

lemma missing_of_distinct:
  "\<forall>im \<in> set ims. distinct (image_needs env dp im) \<Longrightarrow> distinct (missing_of dp seen ims)"
  by (induction ims arbitrary: seen) (auto simp: missing_of_set)

lemma new_analysis_inv: "analysis_inv (new_analysis p ba ims) {}"
  by (simp add: analysis_inv_def new_analysis_def missing_digests_def)

lemma new_analysis_missing: "missing_digests (new_analysis p ba ims) = []"
  by (simp add: new_analysis_def missing_digests_def)

lemma new_analysis_present: "an_present (new_analysis p ba ims) = {}"
  by (simp add: new_analysis_def)

text \<open>The analysis of a Dockerfile.\<close>

lemma resolve_dockerfile_ok:
  assumes "resolve_dockerfile env path content ba priv dp ttl = Inr a"
  shows "\<exists>ims. parse_dockerfile path content ba priv = Inr ims
    \<and> an_present a = {d \<in> (\<Union>im \<in> set ims. set (image_needs env dp im)). has d}
    \<and> missing_digests a = missing_of dp {} ims
    \<and> an_total_missing_size a = sum_list (map size_of (an_missing a))"
proof -
  from assms obtain ims seen where i: "parse_dockerfile path content ba priv = Inr ims"
    "resolve_images env dp ttl ims (new_analysis path ba ims, {}) = Inr (a, seen)"
    by (auto simp: resolve_dockerfile_def rbind_Inr_iff)
  note inv = resolve_images_inv[OF new_analysis_inv i(2), unfolded new_analysis_missing new_analysis_present]
  have "an_present a = {d \<in> (\<Union>im \<in> set ims. set (image_needs env dp im)). has d}"
    "missing_digests a = missing_of dp {} ims" using inv by simp_all
  moreover have "an_total_missing_size a = sum_list (map size_of (an_missing a))"
    using inv by (simp add: analysis_inv_def)
  ultimately show ?thesis using i(1) by blast
qed

text \<open>Merging the analysis of a service's Dockerfile.\<close>

lemma merge_missing_inv:
  "analysis_inv a seen \<Longrightarrow> \<forall>b \<in> set bs. \<not> has (mb_digest b) \<Longrightarrow> merge_missing bs a seen = Inr (a', seen') \<Longrightarrow>
     analysis_inv a' seen'"
proof (induction bs arbitrary: a seen)
  case (Cons b bs)
  show ?case
  proof (cases "mb_digest b \<in> seen")
    case True
    with Cons show ?thesis by simp
  next
    case False
    with Cons.prems(3) obtain total where t: "vadd (mb_size b) (an_total_missing_size a) = Inr total"
      "merge_missing bs (a\<lparr>an_missing := an_missing a @ [b], an_total_missing_size := total\<rparr>) (insert (mb_digest b) seen) = Inr (a', seen')"
      by (auto simp: rbind_Inr_iff)
    have "total = an_total_missing_size a + size_of b"
      using t(1) by (auto simp: vadd_def size_of_def split: option.splits)
    then have "analysis_inv (a\<lparr>an_missing := an_missing a @ [b], an_total_missing_size := total\<rparr>) (insert (mb_digest b) seen)"
      using Cons.prems(1,2) by (auto simp: analysis_inv_def missing_digests_def)
    from Cons.IH[OF this _ t(2)] Cons.prems(2) show ?thesis by simp
  qed
qed simp

lemma merge_analysis_inv:
  assumes "analysis_inv a seen" "\<forall>d \<in> an_present sub. has d" "\<forall>d \<in> set (missing_digests sub). \<not> has d"
    and "merge_analysis sub (a, seen) = Inr (a', seen')"
  shows "analysis_inv a' seen'"
proof -
  let ?a = "a\<lparr>an_images := an_images a @ an_images sub, an_present := an_present a \<union> an_present sub\<rparr>"
  obtain a1 where m: "merge_missing (an_missing sub) ?a seen = Inr (a1, seen')"
    "a' = a1\<lparr>an_warnings := an_warnings a1 @ an_warnings sub\<rparr>"
    using assms(4) by (auto simp: merge_analysis_def rbind_Inr_iff)
  have "analysis_inv ?a seen" using assms(1,2) by (auto simp: analysis_inv_def missing_digests_def)
  from merge_missing_inv[OF this _ m(1)] assms(3) have "analysis_inv a1 seen'" by (simp add: missing_digests_def)
  then show ?thesis by (simp add: m(2) analysis_inv_def missing_digests_def)
qed

lemma resolve_dockerfile_sides:
  assumes "resolve_dockerfile env path content ba priv dp ttl = Inr a"
  shows "(\<forall>d \<in> an_present a. has d) \<and> (\<forall>d \<in> set (missing_digests a). \<not> has d)"
  using resolve_dockerfile_ok[OF assms] by (auto simp: missing_of_set)

lemma resolve_services_inv:
  "analysis_inv (fst z) (snd z) \<Longrightarrow> resolve_services env files ba priv dp ttl svcs refs z = Inr (a', seen') \<Longrightarrow>
     analysis_inv a' seen'"
proof (induction svcs arbitrary: refs z)
  case (Cons svc svcs)
  obtain a seen where z: "z = (a, seen)" by fastforce
  let ?go = "resolve_services env files ba priv dp ttl svcs"
  show ?case
  proof (cases "some_truthy (cs_image_ref svc)")
    case img: True
    let ?r = "the (cs_image_ref svc)" and ?im = "resolve_image_ref (the (cs_image_ref svc)) priv"
    show ?thesis
    proof (cases "?r \<in> set refs")
      case True
      with Cons.prems img have "?go refs z = Inr (a', seen')" by simp
      with Cons.IH Cons.prems(1) show ?thesis by blast
    next
      case False
      with Cons.prems(2) img obtain a1 seen1 where s:
        "resolve_image_blobs env dp ttl ?im (a\<lparr>an_images := an_images a @ [?im]\<rparr>, seen) = Inr (a1, seen1)"
        "?go (?r # refs) (a1, seen1) = Inr (a', seen')"
        by (auto simp: z Let_def rbind_Inr_iff)
      have "analysis_inv (a\<lparr>an_images := an_images a @ [?im]\<rparr>) seen"
        using Cons.prems(1) by (simp add: z analysis_inv_def missing_digests_def)
      from resolve_image_blobs_inv[OF this s(1)] have "analysis_inv (fst (a1, seen1)) (snd (a1, seen1))" by auto
      from Cons.IH[OF this s(2)] show ?thesis .
    qed
  next
    case noimg: False
    show ?thesis
    proof (cases "some_truthy (cs_dockerfile_path svc)")
      case False
      with Cons.prems noimg have "?go refs z = Inr (a', seen')" by simp
      with Cons.IH Cons.prems(1) show ?thesis by blast
    next
      case df: True
      let ?p = "the (cs_dockerfile_path svc)"
      show ?thesis
      proof (cases "resolve_dockerfile env ?p (files ?p) ba priv dp ttl")
        case (Inr sub)
        with Cons.prems(2) noimg df obtain a1 seen1 where s: "merge_analysis sub (a, seen) = Inr (a1, seen1)"
          "?go refs (a1, seen1) = Inr (a', seen')"
          by (auto simp: z rbind_Inr_iff)
        from resolve_dockerfile_sides[OF Inr] merge_analysis_inv[OF _ _ _ s(1)] Cons.prems(1)
        have "analysis_inv (fst (a1, seen1)) (snd (a1, seen1))" by (simp add: z)
        from Cons.IH[OF this s(2)] show ?thesis .
      next
        case (Inl e)
        with Cons.prems(2) noimg df obtain msg where s: "?go refs (warn msg a, seen) = Inr (a', seen')"
          by (auto simp: z split: exc.splits error_kind.splits)
        have "analysis_inv (fst (warn msg a, seen)) (snd (warn msg a, seen))"
          using inv_same[OF same_blobs_warn, of a seen msg] Cons.prems(1) by (simp add: z)
        from Cons.IH[OF this s] show ?thesis .
      qed
    qed
  qed
qed simp

lemma resolve_compose_ok:
  assumes "resolve_compose env files svcs ba priv dp ttl = Inr a"
  shows "(\<forall>d \<in> an_present a. has d) \<and> (\<forall>d \<in> set (missing_digests a). \<not> has d)
    \<and> an_total_missing_size a = sum_list (map size_of (an_missing a))"
proof -
  from assms obtain seen where
    "resolve_services env files ba priv dp ttl svcs [] (new_analysis ''compose'' ba [], {}) = Inr (a, seen)"
    by (auto simp: resolve_compose_def rbind_Inr_iff)
  moreover have "analysis_inv (fst (new_analysis ''compose'' ba [], {})) (snd (new_analysis ''compose'' ba [], {}))"
    unfolding fst_conv snd_conv by (rule new_analysis_inv)
  ultimately have "analysis_inv a seen" using resolve_services_inv by blast
  then show ?thesis unfolding analysis_inv_def by blast
qed

end

interpretation st: blob_index "store_env s now" "has_blob s" for s now
  by unfold_locales (simp add: store_env_def list_missing_def)

lemma dockerfile_split:
  assumes "resolve_dockerfile (store_env s now) path content ba priv dp ttl = Inr a"
    and "parse_dockerfile path content ba priv = Inr ims"
  defines "needs \<equiv> (\<Union>im \<in> set ims. set (image_needs (store_env s now) dp im))"
  shows "an_present a = {d \<in> needs. has_blob s d}" and "set (missing_digests a) = {d \<in> needs. \<not> has_blob s d}"
proof -
  have i: "an_present a = {d \<in> needs. has_blob s d}" "missing_digests a = st.missing_of s now dp {} ims"
    using st.resolve_dockerfile_ok[OF assms(1)] assms(2) unfolding needs_def by (metis sum.inject(2))+
  show "an_present a = {d \<in> needs. has_blob s d}" by (rule i(1))
  show "set (missing_digests a) = {d \<in> needs. \<not> has_blob s d}"
    unfolding i(2) st.missing_of_set needs_def by simp
qed

end
