(* ===== verification/Resolver_Spec.thy ===== *)
theory Resolver_Spec
  imports Resolver_Props Manifest_Cache_Props
begin

text \<open>
  Properties of the resolver across components: importing what an analysis lists as missing
  completes it, and the analysis of a Compose file keeps the store's split.
\<close>

section \<open>A small registry for the witnesses\<close>

definition demo_config :: dict where
  "demo_config = [(''config'', PDict [(''digest'', PStr demo_digest), (''size'', PInt 5)])]"

definition demo_registry :: store where
  "demo_registry = snd (cache_manifest (store_init (empty_disk ''/var'')) 7 ''docker.io'' ''library/nginx'' ''1.25''
     ''linux/amd64'' demo_config)"

lemma demo_registry_cached:
  "cache_manifest (store_init (empty_disk ''/var'')) 7 ''docker.io'' ''library/nginx'' ''1.25'' ''linux/amd64'' demo_config
     = (Inr [''docker.io'', ''library'', ''nginx'', ''1.25'', ''linux-amd64.json''], demo_registry)"
  by (simp add: demo_registry_def cache_manifest_def man_entries_def store_init_def empty_disk_def cache_path_of_def
      cache_dir_of_def path_join_def path_parts_def platform_safe_def replace_char_def Let_def)

lemma demo_registry_get:
  "get_manifest demo_registry ''docker.io'' ''library/nginx'' ''1.25'' ''linux/amd64'' = Inr (Some (PDict (cached_form 7 demo_config)))"
proof -
  have "dget (man_entries demo_registry) [''docker.io'', ''library'', ''nginx'', ''1.25'', ''linux-amd64.json'']
      = Some (JsonFile (PDict (cached_form 7 demo_config)))"
    by (rule cache_manifest_entries[OF demo_registry_cached, THEN conjunct2, THEN conjunct1])
  moreover have "cache_path_of ''docker.io'' ''library/nginx'' ''1.25'' ''linux/amd64''
      = [''docker.io'', ''library'', ''nginx'', ''1.25'', ''linux-amd64.json'']"
    by (rule cache_manifest_entries[OF demo_registry_cached, THEN conjunct1, symmetric])
  ultimately show ?thesis by (simp add: get_manifest_def)
qed

lemma demo_registry_steps: "reachable ''/var'' demo_registry"
proof -
  have "demo_registry = (store_init (empty_disk ''/var''))\<lparr>st_manifests := st_manifests demo_registry\<rparr>"
    by (simp add: demo_registry_def cache_manifest_def man_entries_def store_init_def empty_disk_def cache_path_of_def
      cache_dir_of_def path_join_def path_parts_def platform_safe_def replace_char_def Let_def)
  then show ?thesis
    by (metis reachable.init reachable.step store_step.manifests)
qed

lemma demo_no_blob: "\<not> has_blob demo_registry d"
  by (simp add: has_blob_def entry_exists_def demo_registry_def cache_manifest_def man_entries_def store_init_def empty_disk_def
      Let_def split: sum.split)

lemma demo_analysis:
  "\<exists>a. resolve_dockerfile (store_env demo_registry 8) ''/Dockerfile'' (Some demo_dockerfile) [] [] ''linux/amd64'' 0 = Inr a
     \<and> missing_digests a = [demo_digest] \<and> an_total_missing_size a = 5
     \<and> (\<forall>b \<in> set (an_missing a). mb_size b = PInt 5 \<and> (\<exists>t. mb_media_type b = PStr t))"
proof -
  have d: "dget (cached_form 7 demo_config) ''config'' = Some (PDict [(''digest'', PStr demo_digest), (''size'', PInt 5)])"
    "dget (cached_form 7 demo_config) ''layers'' = None"
    by (simp_all add: cached_form_def demo_config_def)
  have m: "image_manifest (store_env demo_registry 8) ''linux/amd64'' demo_image = Inr (Some (PDict (cached_form 7 demo_config)))"
    using demo_registry_get by (simp add: image_manifest_def demo_image_def some_truthy_def image_platform_def store_env_def)
  have g: "manifest_digests (PDict (cached_form 7 demo_config)) = Inr [demo_digest]"
    using d by (simp add: manifest_digests_def extract_layer_digests_def dget_or_def as_digest_def)
  have l: "list_missing demo_registry [demo_digest] = [demo_digest]" by (simp add: list_missing_def demo_no_blob)
  show ?thesis
    using m g d l
    by (simp add: resolve_dockerfile_def demo_images resolve_image_blobs_def demo_image_def demo_image2_def warn_latest_def
        record_layers_def store_env_def find_layer_info_def dget_or_def new_analysis_def missing_digests_def)
qed

section \<open>Analysis\<close>

text \<open>
  C8. The analysis of a Dockerfile splits what its images need. The digests of the cached manifests of the
  images that are neither built by the file nor private are either stored, and listed as present, or not stored, and
  listed as missing; the total is the sum of the missing sizes.
\<close>

theorem dockerfile_analysis_exact:
  assumes "resolve_dockerfile (store_env s now) path content ba priv dp ttl = Inr a"
  shows "\<exists>ims. parse_dockerfile path content ba priv = Inr ims \<and>
    (let needs = (\<Union>im \<in> set ims. set (image_needs (store_env s now) dp im)) in
      an_present a = {d \<in> needs. has_blob s d} \<and> set (missing_digests a) = {d \<in> needs. \<not> has_blob s d})
    \<and> an_total_missing_size a = sum_list (map size_of (an_missing a))"
proof -
  obtain ims where i: "parse_dockerfile path content ba priv = Inr ims"
    "an_total_missing_size a = sum_list (map size_of (an_missing a))"
    using st.resolve_dockerfile_ok[OF assms] by blast
  with dockerfile_split[OF assms i(1)] show ?thesis unfolding Let_def by blast
qed

theorem dockerfile_analysis_exact_witness:
  "\<exists>a. resolve_dockerfile (store_env demo_registry 8) ''/Dockerfile'' (Some demo_dockerfile) [] [] ''linux/amd64'' 0 = Inr a
     \<and> (\<exists>ims. parse_dockerfile ''/Dockerfile'' (Some demo_dockerfile) [] [] = Inr ims \<and>
        (let needs = (\<Union>im \<in> set ims. set (image_needs (store_env demo_registry 8) ''linux/amd64'' im)) in
          an_present a = {d \<in> needs. has_blob demo_registry d} \<and> set (missing_digests a) = {d \<in> needs. \<not> has_blob demo_registry d})
        \<and> an_total_missing_size a = sum_list (map size_of (an_missing a)))"
  using demo_analysis dockerfile_analysis_exact by blast

section \<open>Analysing again\<close>

definition same_sources :: "resolver_env \<Rightarrow> resolver_env \<Rightarrow> bool" where
  "same_sources e e' = (env_get_manifest e = env_get_manifest e' \<and> env_is_stale e = env_is_stale e' \<and> env_now e = env_now e')"

lemma same_sources_needs: "same_sources e e' \<Longrightarrow> image_manifest e = image_manifest e' \<and> image_needs e = image_needs e'"
proof -
  assume e: "same_sources e e'"
  have m: "image_manifest e = image_manifest e'"
    using e by (intro ext) (simp add: image_manifest_def same_sources_def split: option.split)
  moreover have "image_needs e = image_needs e'" by (intro ext) (simp add: image_needs_def m)
  ultimately show ?thesis by blast
qed

lemma manifest_age_same: "env_now e = env_now e' \<Longrightarrow> manifest_age e = manifest_age e'"
proof (intro ext)
  fix m
  assume e: "env_now e = env_now e'"
  show "manifest_age e m = manifest_age e' m" unfolding manifest_age_def e ..
qed

lemma check_staleness_again:
  assumes "same_sources e e'" "check_staleness e im tag platform ttl a = Inr a'"
  shows "\<exists>b'. check_staleness e' im tag platform ttl b = Inr b' \<and> same_blobs b' b"
proof -
  from assms obtain stale where st: "env_is_stale e' (ri_registry im) (ri_repository im) tag platform ttl = Inr stale"
    by (auto simp: check_staleness_def same_sources_def rbind_Inr_iff)
  have "\<exists>b'. check_staleness e' im tag platform ttl b = Inr b'"
  proof (cases "stale = Some True")
    case False
    with st show ?thesis by (simp add: check_staleness_def)
  next
    case True
    with assms st obtain m age where "env_get_manifest e' (ri_registry im) (ri_repository im) tag platform = Inr m"
      "manifest_age e' m = Inr age"
      using manifest_age_same[of e e'] by (auto simp: check_staleness_def same_sources_def rbind_Inr_iff)
    with st True show ?thesis by (simp add: check_staleness_def)
  qed
  then show ?thesis using check_staleness_same by blast
qed

text \<open>A step that succeeded for one index succeeds for one that has all the new blobs, and lists nothing.\<close>

lemma resolve_image_blobs_again:
  assumes e: "same_sources e e'" and all: "\<And>ds. env_list_missing e' ds = filter (\<lambda>d. \<not> has d) ds"
    and r: "resolve_image_blobs e dp ttl im (a, seen) = Inr (a', seen')"
    and has: "\<forall>d \<in> set (image_needs e dp im). has d"
  shows "\<exists>b'. resolve_image_blobs e' dp ttl im (b, seen) = Inr (b', seen') \<and> an_missing b' = an_missing b"
proof (cases "ri_is_internal im \<or> ri_is_private im")
  case True
  then show ?thesis using r by (auto simp: resolve_image_blobs_def warn_def split: if_splits)
next
  case pub: False
  note n = same_sources_needs[OF e]
  from r pub obtain found where f: "image_manifest e dp im = Inr found"
    by (auto simp: resolve_image_blobs_def Let_def rbind_Inr_iff)
  then have f': "image_manifest e' dp im = Inr found" using n by simp
  show ?thesis
  proof (cases found)
    case None
    with r f f' pub show ?thesis
      by (auto simp: resolve_image_blobs_def Let_def warn_def warn_latest_def)
  next
    case (Some m)
    with r f pub obtain a1 ds where m: "(if 0 < ttl \<and> some_truthy (ri_tag im)
           then check_staleness e im (the (ri_tag im)) (image_platform dp im) ttl (warn_latest im a)
           else Inr (warn_latest im a)) = Inr a1"
      "manifest_digests m = Inr ds" "record_layers e im m ds a1 seen = Inr (a', seen')"
      unfolding resolve_image_blobs_def Let_def by (auto simp: rbind_Inr_iff)
    obtain b1 where b1: "(if 0 < ttl \<and> some_truthy (ri_tag im)
           then check_staleness e' im (the (ri_tag im)) (image_platform dp im) ttl (warn_latest im b)
           else Inr (warn_latest im b)) = Inr b1" "same_blobs b1 (warn_latest im b)"
    proof (cases "0 < ttl \<and> some_truthy (ri_tag im)")
      case True
      with m(1) have "check_staleness e im (the (ri_tag im)) (image_platform dp im) ttl (warn_latest im a) = Inr a1" by simp
      from check_staleness_again[OF e this, of "warn_latest im b"] True show thesis using that by auto
    next
      case False
      then show thesis using that[of "warn_latest im b"] by (auto simp: same_blobs_def)
    qed
    have b: "an_missing b1 = an_missing b" using same_blobs_trans[OF b1(2) warn_latest_same] by (simp add: same_blobs_def)
    have "image_needs e dp im = ds" using f Some m(2) pub by (simp add: image_needs_def)
    with has have no: "env_list_missing e' (filter (\<lambda>d. d \<notin> seen) ds) = []" unfolding all by (auto simp: filter_empty_conv)
    have "\<exists>b'. record_layers e' im m ds b1 seen = Inr (b', seen \<union> set ds) \<and> an_missing b' = an_missing b1"
    proof (cases "filter (\<lambda>d. d \<notin> seen) ds = []")
      case True
      then have "seen = seen \<union> set ds" by (auto simp: filter_empty_conv)
      with True show ?thesis by (simp add: record_layers_def)
    next
      case False
      have "seen \<union> set (filter (\<lambda>d. d \<notin> seen) ds) = seen \<union> set ds" by auto
      with False show ?thesis by (simp add: record_layers_def no Let_def)
    qed
    then obtain b' where "record_layers e' im m ds b1 seen = Inr (b', seen \<union> set ds)" "an_missing b' = an_missing b1"
      by blast
    moreover have "seen' = seen \<union> set ds" using record_layers_ok[OF m(3)] by blast
    ultimately show ?thesis
      using f' Some m(2) b1(1) pub b by (simp add: resolve_image_blobs_def Let_def)
  qed
qed

lemma resolve_images_again:
  assumes e: "same_sources e e'" and all: "\<And>ds. env_list_missing e' ds = filter (\<lambda>d. \<not> has d) ds"
  shows "resolve_images e dp ttl ims (a, seen) = Inr (a', seen') \<Longrightarrow>
    \<forall>im \<in> set ims. \<forall>d \<in> set (image_needs e dp im). has d \<Longrightarrow>
    \<exists>b'. resolve_images e' dp ttl ims (b, seen) = Inr (b', seen') \<and> an_missing b' = an_missing b"
proof (induction ims arbitrary: a b seen)
  case (Cons im ims)
  then obtain a1 seen1 where s: "resolve_image_blobs e dp ttl im (a, seen) = Inr (a1, seen1)"
    "resolve_images e dp ttl ims (a1, seen1) = Inr (a', seen')"
    by (auto simp: rbind_Inr_iff)
  from resolve_image_blobs_again[OF e all s(1), of b] Cons.prems(2) obtain b1 where
    b1: "resolve_image_blobs e' dp ttl im (b, seen) = Inr (b1, seen1)" "an_missing b1 = an_missing b" by auto
  from Cons.IH[OF s(2), of b1] Cons.prems(2) b1 show ?case by auto
qed simp

section \<open>After a transfer\<close>

lemma import_blob_manifests: "st_manifests (snd (import_blob s now data dg mt r)) = st_manifests s"
  by (simp add: import_blob_def write_sidecar_def Let_def split: option.split node.split sum.split)

lemma put_all_manifests: "st_manifests (snd (bs.put_all mt r s xs)) = st_manifests s"
proof (induction xs arbitrary: s)
  case (Cons x xs)
  then show ?case by (cases x) (simp add: bs.put_all_Cons import_blob_manifests del: bs.put_all.simps)
qed simp

lemma store_env_same: "st_manifests s' = st_manifests s \<Longrightarrow> same_sources (store_env s now) (store_env s' now)"
  by (simp add: same_sources_def store_env_def fun_eq_iff get_manifest_def is_stale_def lookup_by_digest_def man_entries_def)

lemma has_blob_file: "reachable p s \<Longrightarrow> has_blob s d \<longleftrightarrow> file_bytes (st_blobs s) (strip_prefix d) \<noteq> None"
  by (simp only: has_blob_abs[OF reachable_inv] abs_store_dom[OF reachable_inv])

text \<open>
  C24. A transfer completes an analysis: once blobs that match the digests listed as missing have been imported, the same
  analysis succeeds and lists nothing as missing.
\<close>

theorem analysis_after_transfer:
  assumes r: "reachable p s" and a: "resolve_dockerfile (store_env s now) path content ba priv dp ttl = Inr a"
    and xs: "bs.all_fit xs" "list_all bs.matching xs"
    and covers: "set (missing_digests a) \<subseteq> set (map (\<lambda>(t, data, dg). dg) xs)"
  shows "\<exists>a'. resolve_dockerfile (store_env (snd (bs.put_all mt ref s xs)) now) path content ba priv dp ttl = Inr a'
    \<and> an_missing a' = []"
proof -
  let ?s = "snd (bs.put_all mt ref s xs)"
  note inv = reachable_inv[OF r]
  from a obtain ims seen where i: "parse_dockerfile path content ba priv = Inr ims"
    "resolve_images (store_env s now) dp ttl ims (new_analysis path ba ims, {}) = Inr (a, seen)"
    by (auto simp: resolve_dockerfile_def rbind_Inr_iff)
  have needs: "d \<in> an_present a \<union> set (missing_digests a)" if "im \<in> set ims" "d \<in> set (image_needs (store_env s now) dp im)" for im d
    using dockerfile_split[OF a i(1)] that by (auto simp: Let_def)
  have has: "has_blob ?s d" if "im \<in> set ims" "d \<in> set (image_needs (store_env s now) dp im)" for im d
  proof (cases "has_blob s d")
    case True
    then obtain b where "file_bytes (st_blobs s) (strip_prefix d) = Some b" using has_blob_file[OF r] by auto
    from bs.put_all_kept[OF inv xs(1) this] show ?thesis by (auto simp: has_blob_def intro: file_bytes_exists)
  next
    case False
    with needs[OF that] dockerfile_split[OF a i(1)] have "d \<in> set (missing_digests a)" by auto
    with covers obtain t data where x: "(t, data, d) \<in> set xs" by auto
    then have "sha256_hex data = blob_key d" using xs(2) by (auto simp: list_all_iff bs.matching_def)
    from bs.put_all_stored[OF inv xs(1) x this] show ?thesis
      by (auto simp: has_blob_def strip_prefix_key intro: file_bytes_exists)
  qed
  have "\<exists>b'. resolve_images (store_env ?s now) dp ttl ims (new_analysis path ba ims, {}) = Inr (b', seen)
      \<and> an_missing b' = an_missing (new_analysis path ba ims)"
    by (rule resolve_images_again[OF store_env_same[OF put_all_manifests] st.list_missing i(2)]) (use has in blast)
  with i(1) show ?thesis by (auto simp: resolve_dockerfile_def new_analysis_def)
qed

theorem analysis_after_transfer_witness:
  "\<exists>a'. resolve_dockerfile (store_env (snd (bs.put_all ''t'' None demo_registry [(9, demo_blob, demo_digest)])) 8)
     ''/Dockerfile'' (Some demo_dockerfile) [] [] ''linux/amd64'' 0 = Inr a' \<and> an_missing a' = []"
proof -
  obtain a where a: "resolve_dockerfile (store_env demo_registry 8) ''/Dockerfile'' (Some demo_dockerfile) [] [] ''linux/amd64'' 0 = Inr a"
    "missing_digests a = [demo_digest]" using demo_analysis by blast
  show ?thesis
  proof (rule analysis_after_transfer[OF demo_registry_steps a(1)])
    show "bs.all_fit [(9, demo_blob, demo_digest)]"
      by (simp add: bs.all_fit_def fits_def demo_blob_def max_rw_count_def max_instant_def)
    show "list_all bs.matching [(9, demo_blob, demo_digest)]"
      by (simp add: bs.matching_def strip_prefix_key[symmetric])
  qed (simp add: a(2))
qed

text \<open>
  The analysis of a Compose file: whatever its services are, images or Dockerfiles, every digest listed as present is
  stored, every digest listed as missing is not, and the total is the sum of the missing sizes.
\<close>

theorem compose_analysis_sides:
  assumes "resolve_compose (store_env s now) files svcs ba priv dp ttl = Inr a"
  shows "(\<forall>d \<in> an_present a. has_blob s d) \<and> (\<forall>d \<in> set (missing_digests a). \<not> has_blob s d)
    \<and> an_total_missing_size a = sum_list (map size_of (an_missing a))"
  by (rule st.resolve_compose_ok[OF assms])

definition demo_service :: compose_service where
  "demo_service = \<lparr>cs_name = ''web'', cs_image_ref = None, cs_dockerfile_path = Some ''/Dockerfile''\<rparr>"

lemma demo_compose:
  "\<exists>a. resolve_compose (store_env demo_registry 8) (\<lambda>p. Some demo_dockerfile) [demo_service] [] [] ''linux/amd64'' 0 = Inr a
     \<and> missing_digests a = [demo_digest]"
proof -
  obtain a where a: "resolve_dockerfile (store_env demo_registry 8) ''/Dockerfile'' (Some demo_dockerfile) [] [] ''linux/amd64'' 0 = Inr a"
    "missing_digests a = [demo_digest]" "an_total_missing_size a = 5" using demo_analysis by blast
  then obtain b where b: "an_missing a = [b]" "mb_digest b = demo_digest" by (auto simp: missing_digests_def)
  have "size_of b = 5"
    using a(1,3) st.resolve_dockerfile_ok[OF a(1)] b(1) by auto
  then obtain v where "as_int (mb_size b) = Some v" by (auto simp: size_of_def split: option.splits)
  then have "vadd (mb_size b) 0 = Inr v" by (simp add: vadd_def)
  with a(1) b show ?thesis
    by (simp add: resolve_compose_def demo_service_def some_truthy_def merge_analysis_def new_analysis_def missing_digests_def)
qed

theorem compose_analysis_sides_witness:
  "\<exists>a. resolve_compose (store_env demo_registry 8) (\<lambda>p. Some demo_dockerfile) [demo_service] [] [] ''linux/amd64'' 0 = Inr a
     \<and> an_total_missing_size a = sum_list (map size_of (an_missing a)) \<and> \<not> has_blob demo_registry demo_digest"
proof -
  obtain a where a: "resolve_compose (store_env demo_registry 8) (\<lambda>p. Some demo_dockerfile) [demo_service] [] [] ''linux/amd64'' 0 = Inr a"
    "missing_digests a = [demo_digest]" using demo_compose by blast
  from compose_analysis_sides[OF a(1)] a show ?thesis by simp
qed

text \<open>
  A manifest that names a layer twice has it listed, and its size counted, twice: what was seen is updated only
  after the manifest's digests have been filtered.
\<close>

lemma duplicate_layer_listed_twice:
  assumes "st.analysis_inv s a seen" "record_layers (store_env s now) im m [d, d] a seen = Inr (a', seen')"
    and "d \<notin> seen" "\<not> has_blob s d"
  shows "missing_digests a' = missing_digests a @ [d, d]"
  using st.record_layers_inv[OF assms(1,2)] assms(3,4) by simp

text \<open>The stale manifests of a service's Dockerfile are dropped when its analysis is merged.\<close>

lemma merge_drops_stale:
  assumes "merge_analysis sub (a, seen) = Inr (a', seen')"
  shows "an_stale a' = an_stale a"
proof -
  have "an_stale a' = an_stale a" if "merge_missing bs a seen = Inr (a', seen')" for bs a a' seen seen'
    using that by (induction bs a seen rule: merge_missing.induct) (auto simp: rbind_Inr_iff split: if_splits)
  from this[of "an_missing sub"] show ?thesis using assms by (fastforce simp: merge_analysis_def rbind_Inr_iff)
qed

end
