(* ===== verification/Offline_CLI_Props.thy ===== *)
theory Offline_CLI_Props
  imports Offline_CLI Handler_Props Pairing Resolver_Spec
begin

text \<open>
  What the daemon's own command line does over plain HTTP: stopped where the daemon asks for tokens,
  and what its commands write and delete where it does not.
\<close>

declare map_of_eq_Some_iff [simp del] json_dumps.simps [simp del]

section \<open>A call as a request\<close>

text \<open>A target below \<open>/admin/\<close>, as the commands write them.\<close>

definition admin_target :: "string \<Rightarrow> string \<Rightarrow> bool" where
  "admin_target p t = (plain_path p \<and> startswith p ''/admin/'' \<and> (t = p \<or> (\<exists>q. q \<noteq> [] \<and> t = p @ ''?'' @ q)))"

definition target_request :: "string \<Rightarrow> string \<Rightarrow> (string \<times> string) list \<Rightarrow> http_request" where
  "target_request command t headers =
     \<lparr>rq_path = t, rq_command = command, rq_client = ''127.0.0.1'', rq_environ = call_environ command t headers\<rparr>"

lemma make_call_request:
  "make_request (call_environ command t headers) =
     Inr \<lparr>rq_path = (if after CHR ''?'' t = [] then before CHR ''?'' t else before CHR ''?'' t @ ''?'' @ after CHR ''?'' t),
       rq_command = command, rq_client = ''127.0.0.1'', rq_environ = call_environ command t headers\<rparr>"
  by (simp add: make_request_def call_environ_def dindex_def dget_or_def Let_def)

lemma make_target_request:
  assumes "admin_target p t"
  shows "make_request (call_environ command t headers) = Inr (target_request command t headers)"
proof -
  have pl: "plain_path p" using assms by (simp add: admin_target_def)
  have q: "CHR ''?'' \<notin> set p" by (rule plain_path_facts[OF pl])
  have d: "dropWhile (\<lambda>x. x \<noteq> CHR ''?'') (p @ r) = dropWhile (\<lambda>x. x \<noteq> CHR ''?'') r" for r
    using q by (intro dropWhile_append2) auto
  have "after CHR ''?'' p = []" by (simp only: after_def d[of "[]", unfolded append_Nil2] dropWhile.simps drop_Nil)
  moreover have "before CHR ''?'' (p @ ''?'' @ r) = p" "after CHR ''?'' (p @ ''?'' @ r) = r" for r
    using d[of "''?'' @ r"] q by (simp_all add: before_def after_def takeWhile_notin)
  ultimately have a: "before CHR ''?'' p = p" "after CHR ''?'' p = []" "before CHR ''?'' (p @ ''?'' @ r) = p" "after CHR ''?'' (p @ ''?'' @ r) = r" for r
    using before_id[OF q] by blast+
  from assms consider "t = p" | r where "r \<noteq> []" "t = p @ ''?'' @ r" unfolding admin_target_def by blast
  then show ?thesis
  proof cases
    case 1
    show ?thesis unfolding make_call_request target_request_def 1 a by simp
  next
    case 2
    show ?thesis unfolding make_call_request target_request_def 2 a using 2(1) by simp
  qed
qed

lemma target_plain: "admin_target p t \<Longrightarrow> plain_request (target_request command t headers) p"
  by (auto simp: admin_target_def plain_request_def target_request_def)

lemma target_authorization:
  "fst ` set headers \<subseteq> {''CONTENT_TYPE'', ''CONTENT_LENGTH''} \<Longrightarrow> authorization (target_request command t headers) = []"
proof -
  assume h: "fst ` set headers \<subseteq> {''CONTENT_TYPE'', ''CONTENT_LENGTH''}"
  have n: "''HTTP_'' @ replace_char CHR ''-'' CHR ''_'' (upper ''Authorization'') = ''HTTP_AUTHORIZATION''" by code_simp
  have l: "lower ''Authorization'' = ''authorization''" by code_simp
  have "dget headers ''HTTP_AUTHORIZATION'' = None" using h by (auto simp: map_of_eq_None_iff)
  then have "dget (call_environ command t headers) ''HTTP_AUTHORIZATION'' = None" by (simp add: call_environ_def)
  then show ?thesis by (simp add: authorization_def header_get_def target_request_def n[simplified] l)
qed

section \<open>Where tokens are asked for\<close>

definition guards :: "server_state \<Rightarrow> bool" where
  "guards sv = (sv_api_enabled sv \<and> sv_api_tokens sv \<noteq> None)"

text \<open>The document of an error, as the daemon answers it and the commands print it.\<close>

definition error_doc :: "pyval \<Rightarrow> bool" where
  "error_doc v = (\<exists>m c. v = PDict [(''error'', PStr m), (''code'', PStr c)])"

text \<open>No token where one is asked for, or too many requests.\<close>

definition stopped :: "server_state \<Rightarrow> int \<Rightarrow> bool" where
  "stopped sv now = (guards sv \<or> \<not> fst (is_allowed (sv_rate sv) now ''127.0.0.1''))"

lemma check_refuses:
  assumes "stopped sv now" "rq_client rq = ''127.0.0.1''" "authorization rq = []" "before CHR ''?'' (rq_path rq) = p" "startswith p ''/admin/''"
  shows "\<exists>x sv'. check_auth sv now rq = (Inr (verdict.Refused x), sv') \<and> x \<in> {TooManyRequests, BadCredentials 401 ''Authentication required'' ''AUTH_REQUIRED''}
    \<and> (guards sv \<longrightarrow> guards sv')"
proof -
  obtain ok rl where al: "is_allowed (sv_rate sv) now (rq_client rq) = (ok, rl)" by fastforce
  show ?thesis
  proof (cases ok)
    case False
    then show ?thesis using al by (simp add: check_auth_def guards_def)
  next
    case True
    then obtain ts where ts: "sv_api_tokens sv = Some ts" "sv_api_enabled sv" using assms(1,2) al by (auto simp: stopped_def guards_def)
    obtain r where "get_required_level p (rq_command rq) = Some r"
      using assms(5) unfolding get_required_level_def by (metis (full_types))
    then have "required_level (sv_oci_restrict sv) (rq_path rq) (rq_command rq) = Some r"
      using not_v2[OF assms(5)] assms(4) by (simp add: required_level_def)
    then have "authenticate_request (rq_path rq) (rq_command rq) [] (Some ts) True (sv_oci_restrict sv) = Inl auth_required"
      by (simp add: authenticate_required check_token_def)
    then show ?thesis using ts al assms(3) by (simp add: check_auth_def guards_def auth_required_def Let_def)
  qed
qed

lemma dispatch_refuses:
  assumes "stopped sv now" "rq_client rq = ''127.0.0.1''" "authorization rq = []" "plain_request rq p" "startswith p ''/admin/''"
    and "rq_command rq \<in> {''GET'', ''POST''}"
  shows "\<exists>x sv'. dispatch ok sv now rq = (Inr (Rejected x, Local), sv') \<and> (guards sv \<longrightarrow> guards sv')
    \<and> x \<in> {TooManyRequests, BadCredentials 401 ''Authentication required'' ''AUTH_REQUIRED''}"
proof -
  note u = plain_request_paths[OF assms(4)]
  obtain x sv' where c: "check_auth sv now rq = (Inr (verdict.Refused x), sv')" "guards sv \<longrightarrow> guards sv'"
    "x \<in> {TooManyRequests, BadCredentials 401 ''Authentication required'' ''AUTH_REQUIRED''}"
    using check_refuses[OF assms(1-3) u(2) assms(5)] by blast
  then show ?thesis using assms(5,6) not_v2[OF assms(5)] u(1)[of ok]
    by (auto simp: dispatch_def do_GET_def do_POST_def guarded_def)
qed

lemma refuse_document:
  assumes "x \<in> {TooManyRequests, BadCredentials 401 m c}"
  shows "\<exists>v. error_doc v \<and> rs_status (refuse path x) \<in> {429, 401} \<and> json_loads_bytes (rs_body (refuse path x)) = Inr v"
proof -
  have w: "wf_json (PDict [(''error'', PStr a), (''code'', PStr b)])" for a b by simp
  show ?thesis using assms json_loads_bytes_dumps[OF w]
    by (auto simp: refuse_def respond_def error_doc_def Let_def simp del: wf_json.simps)
qed

text \<open>A call of a command that the daemon refuses: an error as the document, and nothing else happens.\<close>

definition refused_call :: "(link_state \<Rightarrow> pyval res \<times> link_state) \<Rightarrow> bool" where
  "refused_call c = (\<forall>w. guards (lk_server w) \<longrightarrow>
     (\<exists>v w'. c w = (Inr v, w') \<and> error_doc v \<and> lk_daemon w' = lk_daemon w \<and> guards (lk_server w')))"

lemma link_refuses:
  assumes "stopped (lk_server w) (clock (lk_calls w))" "admin_target p t" "\<exists>ct b. c \<in> {GetCall (base @ t), PostCall (base @ t) ct b}"
  shows "\<exists>status body v w'. plain_http Ws clock S base c w = (AnsweredError status body, w') \<and> error_body body = Inr v \<and> error_doc v
    \<and> lk_daemon w' = lk_daemon w \<and> (guards (lk_server w) \<longrightarrow> guards (lk_server w'))"
proof -
  obtain command headers body where c: "call_request base c = (call_environ command t headers, body)" "command \<in> {''GET'', ''POST''}"
    "fst ` set headers \<subseteq> {''CONTENT_TYPE'', ''CONTENT_LENGTH''}" using assms(3) by auto
  let ?rq = "target_request command t headers"
  have p: "startswith p ''/admin/''" "rq_command ?rq \<in> {''GET'', ''POST''}" and cl: "rq_client ?rq = ''127.0.0.1''"
    using assms(2) c(2) by (simp_all add: admin_target_def target_request_def)
  let ?W = "Ws (lk_calls w)" and ?now = "clock (lk_calls w)"
  obtain x sv' where d: "dispatch (wd_bracket_ok ?W) (lk_server w) ?now ?rq = (Inr (Rejected x, Local), sv')" "guards (lk_server w) \<longrightarrow> guards sv'"
    "x \<in> {TooManyRequests, BadCredentials 401 ''Authentication required'' ''AUTH_REQUIRED''}"
    using dispatch_refuses[OF assms(1) cl target_authorization[OF c(3)] target_plain[OF assms(2)] p] by blast
  obtain v where v: "error_doc v" "rs_status (refuse p x) \<in> {429, 401}" "json_loads_bytes (rs_body (refuse p x)) = Inr v"
    using refuse_document[OF d(3)] by blast
  have "serve ?W S 0 (lk_server w) ?now (lk_daemon w) ?rq body = (Inr (refuse p x), sv', lk_daemon w)"
    using plain_request_paths(1)[OF target_plain[OF assms(2)]] by (simp add: serve_def d(1) run_endpoint_def)
  then have "plain_http Ws clock S base c w
      = (AnsweredError (rs_status (refuse p x)) (rs_body (refuse p x)), \<lparr>lk_server = sv', lk_daemon = lk_daemon w, lk_calls = Suc (lk_calls w)\<rparr>)"
    using v(2) by (auto simp: plain_http_def c(1) make_target_request[OF assms(2)] http_answer_def)
  with v d(2) show ?thesis by (simp add: error_body_def)
qed

text \<open>What the terminal keeps: the daemon's state and the files, and only errors are shown.\<close>

definition held :: "link_state terminal \<Rightarrow> link_state terminal \<Rightarrow> bool" where
  "held T T' = (guards (lk_server (tm_link T')) \<and> lk_daemon (tm_link T') = lk_daemon (tm_link T) \<and> tm_host T' = tm_host T
     \<and> (\<exists>vs. tm_shown T' = tm_shown T @ vs \<and> list_all error_doc vs))"

lemma held_refl: "guards (lk_server (tm_link T)) \<Longrightarrow> held T T"
  by (simp add: held_def)

lemma held_trans: "held T T1 \<Longrightarrow> held T1 T2 \<Longrightarrow> held T T2"
  by (fastforce simp: held_def)

lemma held_print: "held T T1 \<Longrightarrow> error_doc v \<Longrightarrow> held T (print_json v T1)"
  by (fastforce simp: held_def print_json_def)

lemma calling_held:
  assumes "guards (lk_server (tm_link T))" "refused_call c" "\<And>v T1. held T T1 \<Longrightarrow> error_doc v \<Longrightarrow> held T (snd (k v T1))"
  shows "held T (snd (calling c T k))"
proof -
  obtain v w where w: "c (tm_link T) = (Inr v, w)" "error_doc v" "lk_daemon w = lk_daemon (tm_link T)" "guards (lk_server w)"
    using assms(1,2) unfolding refused_call_def by blast
  then have "held T (T\<lparr>tm_link := w\<rparr>)" by (simp add: held_def)
  from assms(3)[OF this w(2)] show ?thesis by (simp add: calling_def w(1))
qed

text \<open>The calls of the commands.\<close>

abbreviation daemon_at :: "(nat \<Rightarrow> world) \<Rightarrow> (nat \<Rightarrow> int) \<Rightarrow> settings \<Rightarrow> dict \<Rightarrow> link_state daemon_link" where
  "daemon_at Ws clock S config \<equiv> plain_http Ws clock S (base_url config)"

lemma admin_targets:
  "admin_target ''/admin/analyze'' ''/admin/analyze''" "admin_target ''/admin/generate-manifest'' ''/admin/generate-manifest''"
  "admin_target ''/admin/import'' ''/admin/import''" "admin_target ''/admin/status'' ''/admin/status''"
  "admin_target ''/admin/gc/impact'' ''/admin/gc/impact''" "admin_target ''/admin/gc/execute'' ''/admin/gc/execute''"
  unfolding admin_target_def by (intro conjI disjI1 refl; code_simp)+

lemma report_target: "admin_target ''/admin/gc/report'' (''/admin/gc/report?inactive_days='' @ int_str n)"
proof -
  have "plain_path ''/admin/gc/report'' \<and> startswith ''/admin/gc/report'' ''/admin/''" by code_simp
  moreover have "''/admin/gc/report?inactive_days='' @ int_str n = ''/admin/gc/report'' @ ''?'' @ (''inactive_days='' @ int_str n)" by simp
  moreover have "''inactive_days='' @ int_str n \<noteq> []" by simp
  ultimately show ?thesis unfolding admin_target_def by blast
qed

lemma refused_answer:
  assumes "admin_target p t" "\<exists>ct b. c \<in> {GetCall (base @ t), PostCall (base @ t) ct b}"
  shows "refused_call (\<lambda>w. case plain_http Ws clock S base c w of (a, w) \<Rightarrow> (json_answer a, w))"
  unfolding refused_call_def
proof (intro allI impI)
  fix w :: link_state
  assume g: "guards (lk_server w)"
  then have "stopped (lk_server w) (clock (lk_calls w))" by (simp add: stopped_def)
  from link_refuses[where clock = clock and Ws = Ws, OF this assms] g obtain status body v w' where
    "plain_http Ws clock S base c w = (AnsweredError status body, w')" "error_body body = Inr v" "error_doc v"
    "lk_daemon w' = lk_daemon w" "guards (lk_server w')" by blast
  then show "\<exists>v w'. (case plain_http Ws clock S base c w of (a, w) \<Rightarrow> (json_answer a, w)) = (Inr v, w') \<and> error_doc v
      \<and> lk_daemon w' = lk_daemon w \<and> guards (lk_server w')" by (simp add: json_answer_def)
qed

lemma refused_calls:
  assumes "admin_target p t"
  shows "refused_call (admin_get (plain_http Ws clock S base) (base @ t))" "refused_call (admin_post (plain_http Ws clock S base) (base @ t) data)"
    "refused_call (admin_post_binary (plain_http Ws clock S base) (base @ t) bs)"
  unfolding admin_get_def admin_post_def admin_post_binary_def post_json_def by (rule refused_answer[OF assms]; blast)+

lemma refused_raw:
  assumes "admin_target p t" "guards (lk_server w)"
  shows "\<exists>v w'. admin_post_raw (plain_http Ws clock S base) (base @ t) data w = (Inr (Inr v), w') \<and> error_doc v
    \<and> lk_daemon w' = lk_daemon w \<and> guards (lk_server w')"
proof -
  have "\<exists>ct b. post_json (base @ t) data \<in> {GetCall (base @ t), PostCall (base @ t) ct b}" by (simp add: post_json_def)
  moreover have "stopped (lk_server w) (clock (lk_calls w))" using assms(2) by (simp add: stopped_def)
  ultimately obtain status body v w' where
    "plain_http Ws clock S base (post_json (base @ t) data) w = (AnsweredError status body, w')" "error_body body = Inr v" "error_doc v"
    "lk_daemon w' = lk_daemon w" "guards (lk_server w')" using link_refuses[OF _ assms(1)] assms(2) by blast
  then show ?thesis by (simp add: admin_post_raw_def raw_answer_def json_answer_def)
qed

section \<open>The commands where tokens are asked for\<close>

lemma error_doc_fields:
  assumes "error_doc v"
  shows "analysis_shown v = Inl (sys_exit 1)" "disk_shown v = Inr ()" "impact_lines v = Inr ()"
    "vget v ''update_deb'' PNone = Inr PNone" "vget v ''imported'' (PInt 0) = Inr (PInt 0)" "request_shown E config output (Inr v) T = (Inl (sys_exit 1), T)"
  using assms by (auto simp: error_doc_def analysis_shown_def disk_shown_def impact_lines_def vin_def vget_def dget_or_def vpositive_def request_shown_def)

lemma import_shown_error: "error_doc v \<Longrightarrow> import_shown p cleanup v T = (Inr (), print_json v T)"
  by (simp add: import_shown_def error_doc_fields vpositive_def)

lemma raw_held:
  assumes "admin_target p t" "guards (lk_server (tm_link T))" "\<And>v T1. held T T1 \<Longrightarrow> error_doc v \<Longrightarrow> held T (snd (k (Inr v) T1))"
  shows "held T (snd (calling (admin_post_raw (plain_http Ws clock S base) (base @ t) data) T k))"
proof -
  obtain v w where w: "admin_post_raw (plain_http Ws clock S base) (base @ t) data (tm_link T) = (Inr (Inr v), w)" "error_doc v"
    "lk_daemon w = lk_daemon (tm_link T)" "guards (lk_server w)" using refused_raw[OF assms(1,2)] by blast
  then have "held T (T\<lparr>tm_link := w\<rparr>)" by (simp add: held_def)
  from assms(3)[OF this w(2)] show ?thesis by (simp add: calling_def w(1))
qed

lemma proxy_held:
  assumes g: "guards (lk_server (tm_link T))"
  shows "held T (snd (proxy_analyze (daemon_at Ws clock S config) (base_url config) E f bas T))"
    and "held T (snd (proxy_generate (daemon_at Ws clock S config) (base_url config) E config i r out T))"
    and "held T (snd (proxy_import (daemon_at Ws clock S config) (base_url config) E config arg cleanup T))"
    and "held T (snd (proxy_status (daemon_at Ws clock S config) (base_url config) T))"
proof -
  note c = calling_held[OF g]
  show "held T (snd (proxy_analyze (daemon_at Ws clock S config) (base_url config) E f bas T))"
    unfolding proxy_analyze_def by (rule c[OF refused_calls(2)[OF admin_targets(1)]]) (simp add: held_print)
  show "held T (snd (proxy_status (daemon_at Ws clock S config) (base_url config) T))"
    unfolding proxy_status_def by (rule c[OF refused_calls(1)[OF admin_targets(4)]]) (simp add: held_print)
  show "held T (snd (proxy_generate (daemon_at Ws clock S config) (base_url config) E config i r out T))"
    unfolding proxy_generate_def by (rule raw_held[OF admin_targets(2) g]) (simp add: held_print)
  have "held T (snd (calling (admin_post_binary (daemon_at Ws clock S config) (base_url config @ ''/admin/import'') b) T (import_shown q cleanup)))" for b q
    by (rule c[OF refused_calls(3)[OF admin_targets(3)]]) (simp add: import_shown_error held_print)
  then show "held T (snd (proxy_import (daemon_at Ws clock S config) (base_url config) E config arg cleanup T))"
    using held_refl[OF g] by (simp add: proxy_import_def split: sum.split option.split)
qed

lemma prepare_held:
  assumes g: "guards (lk_server (tm_link T))" and config: "read_host_config (tm_host T) (config_path_of (ce_config E)) = Inr config"
  shows "held T (snd (cmd_prepare E (daemon_at Ws clock S config) f bas out T))"
  unfolding cmd_prepare_def config sum.case
  by (rule calling_held[OF g refused_calls(2)[OF admin_targets(1)]]) (simp add: error_doc_fields)

lemma gc_steps_held:
  assumes g: "guards (lk_server (tm_link T))"
  shows "held T (snd (gc_report_shown (daemon_at Ws clock S config) (base_url config) a T))"
    and "held T (snd (gc_impact_shown (daemon_at Ws clock S config) (base_url config) ds T))"
proof -
  show "held T (snd (gc_report_shown (daemon_at Ws clock S config) (base_url config) a T))"
    unfolding gc_report_shown_def using held_refl[OF g] calling_held[OF g refused_calls(1)[OF report_target]] by (simp add: held_print)
  show "held T (snd (gc_impact_shown (daemon_at Ws clock S config) (base_url config) ds T))"
    unfolding gc_impact_shown_def using held_refl[OF g] calling_held[OF g refused_calls(2)[OF admin_targets(5)]] by (simp add: error_doc_fields)
qed

lemma held_guards: "held T T1 \<Longrightarrow> guards (lk_server (tm_link T1))"
  by (simp add: held_def)

lemma gc_held:
  assumes g: "guards (lk_server (tm_link T))"
  shows "held T (snd (proxy_gc (daemon_at Ws clock S config) (base_url config) E a T))"
proof -
  have x: "held U (snd (gc_execution (daemon_at Ws clock S config) (base_url config) E a U))" if u: "guards (lk_server (tm_link U))" for U
  proof -
    let ?ds = "case ga_digests a of None \<Rightarrow> [] | Some ds \<Rightarrow> ds"
    obtain r U1 where i: "gc_impact_shown (daemon_at Ws clock S config) (base_url config) ?ds U = (r, U1)" by fastforce
    then have h: "held U U1" using gc_steps_held(2)[OF u] by (metis snd_conv)
    have "held U1 (snd (calling (admin_post (daemon_at Ws clock S config) (base_url config @ ''/admin/gc/execute'') d) U1
        (\<lambda>result T. (Inr (), print_json result T))))" for d
      by (rule calling_held[OF held_guards[OF h] refused_calls(2)[OF admin_targets(6)]]) (simp add: held_print)
    then have "held U (snd (calling (admin_post (daemon_at Ws clock S config) (base_url config @ ''/admin/gc/execute'') d) U1
        (\<lambda>result T. (Inr (), print_json result T))))" for d using held_trans[OF h] by blast
    with h show ?thesis unfolding gc_execution_def Let_def i prod.case by (simp split: sum.split)
  qed
  obtain r T1 where r: "gc_report_shown (daemon_at Ws clock S config) (base_url config) a T = (r, T1)" by fastforce
  then have h: "held T T1" using gc_steps_held(1)[OF g] by (metis snd_conv)
  from held_trans[OF h x[OF held_guards[OF h]]] h show ?thesis
    unfolding proxy_gc_def r prod.case by (simp split: sum.split)
qed

lemma command_held:
  assumes g: "guards (lk_server (tm_link T))" and config: "read_host_config (tm_host T) (config_path_of (ce_config E)) = Inr config"
  shows "held T (snd (run_command E (daemon_at Ws clock S config) c T))"
  using proxy_held[OF g] prepare_held[OF g config] gc_held[OF g] by (cases c) (simp_all add: run_command_def cmd_proxy_def config)

text \<open>A host without a configuration file, and a daemon on it that asks for no token.\<close>

definition bare_host :: host where
  "bare_host = \<lparr>ho_files = [(''/in.tar.enc'', demo_sealed)], ho_disk = (\<lambda>p. (demo_offline, []))\<rparr>"

definition demo_cli :: cli_env where
  "demo_cli = \<lparr>ce_config = None, ce_resolve = (\<lambda>p. p), ce_cwd = ''/tmp'', ce_archives = (\<lambda>d. []), ce_input = Some ''Y ''\<rparr>"

definition open_daemon :: server_state where
  "open_daemon = demo_server\<lparr>sv_api_enabled := False\<rparr>"

definition demo_terminal :: "server_state \<Rightarrow> daemon \<Rightarrow> link_state terminal" where
  "demo_terminal sv D = \<lparr>tm_link = \<lparr>lk_server = sv, lk_daemon = D, lk_calls = 0\<rparr>, tm_host = bare_host, tm_shown = []\<rparr>"

lemma bare_config: "read_host_config (tm_host (demo_terminal sv D)) (config_path_of (ce_config demo_cli)) = Inr DEFAULTS"
proof -
  have "validate_config DEFAULTS = Inr ()"
    by (simp add: validate_config_def DEFAULTS_def dget_or_def int_between_def check_field_def LOG_LEVELS_def Let_def)
  then show ?thesis by (simp add: demo_terminal_def read_host_config_def load_config_def bare_host_def demo_cli_def config_path_of_def)
qed

definition demo_gc :: gc_args where
  "demo_gc = \<lparr>ga_report = False, ga_execute = True, ga_inactive_days = 90, ga_operator = Some ''admin'', ga_digests = None, ga_yes = False\<rparr>"

text \<open>
  C12. Where the daemon asks for tokens, the commands of its own host are refused, since they send none:
  whatever the command, the daemon's state and the host's files stay as they are, and all that is
  shown are errors.
\<close>

theorem tokens_stop_commands:
  assumes "sv_api_enabled (lk_server (tm_link T))" "sv_api_tokens (lk_server (tm_link T)) = Some tokens"
    and "read_host_config (tm_host T) (config_path_of (ce_config E)) = Inr config"
    and "run_command E (plain_http Ws clock S (base_url config)) c T = (r, T')"
  shows "lk_daemon (tm_link T') = lk_daemon (tm_link T) \<and> tm_host T' = tm_host T
    \<and> (\<exists>vs. tm_shown T' = tm_shown T @ vs \<and> (\<forall>v \<in> set vs. \<exists>m c. v = PDict [(''error'', PStr m), (''code'', PStr c)]))"
proof -
  have "guards (lk_server (tm_link T))" using assms(1,2) by (simp add: guards_def)
  from command_held[OF this assms(3), of Ws clock S c] show ?thesis
    unfolding assms(4) snd_conv held_def error_doc_def list_all_iff by blast
qed

theorem tokens_stop_commands_witness:
  "\<exists>r T'. run_command demo_cli (plain_http (\<lambda>i. demo_world) (\<lambda>i. 0) demo_settings (base_url DEFAULTS)) (Gc demo_gc) (demo_terminal demo_server demo_start) = (r, T')
     \<and> lk_daemon (tm_link T') = demo_start \<and> tm_host T' = bare_host"
proof -
  let ?T = "demo_terminal demo_server demo_start"
  obtain r T' where r: "run_command demo_cli (plain_http (\<lambda>i. demo_world) (\<lambda>i. 0) demo_settings (base_url DEFAULTS)) (Gc demo_gc) ?T = (r, T')" by fastforce
  have "sv_api_enabled (lk_server (tm_link ?T))" "sv_api_tokens (lk_server (tm_link ?T)) = Some [(''readonly'', PStr ''ro''), (''admin'', PStr ''ad'')]"
    by (simp_all add: demo_terminal_def demo_server_def)
  from tokens_stop_commands[OF this bare_config r] r show ?thesis by (auto simp: demo_terminal_def)
qed

section \<open>Where they are not\<close>

lemma py_int_nat_str:
  assumes "length (nat_str n) \<le> int_limit"
  shows "py_int (nat_str n) = Some (int n)"
proof -
  have d: "list_all is_digit (nat_str n)" "nat_str n \<noteq> []" "digits_val (nat_str n) = n" using nat_str_digits[of n] by simp_all
  have x: "is_digit c \<Longrightarrow> \<not> is_space c \<and> c \<noteq> CHR ''_'' \<and> c \<noteq> CHR ''-'' \<and> c \<noteq> CHR ''+''" for c
    by (auto simp: is_digit_def is_space_def code_def)
  have m: "hd (nat_str n) \<in> set (nat_str n)" "last (nat_str n) \<in> set (nat_str n)" using d(2) by simp_all
  then have "\<not> is_space (hd (nat_str n))" "\<not> is_space (last (nat_str n))" "hd (nat_str n) \<notin> {CHR ''-'', CHR ''+''}"
    using d(1) x by (auto simp: list_all_iff)
  then have s: "strip (nat_str n) = nat_str n" "\<not> startswith (nat_str n) ''-''" "\<not> startswith (nat_str n) ''+''"
    using d(2) strip_by_id[of "nat_str n" is_space] by (auto simp: startswith_def) (cases "nat_str n"; simp)+
  have "CHR ''_'' \<notin> set (nat_str n)" using d(1) x by (auto simp: list_all_iff)
  then have "split_on CHR ''_'' (nat_str n) = [nat_str n]" by (rule split_on_notin)
  then show ?thesis using d assms by (simp add: py_int_def s int_digits_def)
qed

definition post_headers :: "string \<Rightarrow> bytes \<Rightarrow> (string \<times> string) list" where
  "post_headers ct body = [(''CONTENT_TYPE'', ct), (''CONTENT_LENGTH'', nat_str (length body))]"

lemma posted_length:
  assumes "int (length body) < 10 ^ 18"
  shows "content_length (target_request ''POST'' t (post_headers ct body)) = Some (int (length body))"
proof -
  have l: "lower ''Content-Length'' = ''content-length''" by code_simp
  have "length (nat_str (length body)) \<le> int_limit" using wf_small_int[of "int (length body)"] assms by simp
  moreover have "nat_str (length body) \<noteq> []" using nat_str_digits[of "length body"] by simp
  ultimately show ?thesis
    by (simp add: content_length_def header_get_def target_request_def call_environ_def post_headers_def l dget_or_def py_int_nat_str)
qed

lemma read_posted:
  assumes "wd_broken W = None" "wf_json (PDict d)" "body = py_encode (json_dumps False (PDict d))" "int (length body) \<le> MAX_JSON_BODY_SIZE"
  shows "read_json_body W (target_request ''POST'' t (post_headers ct body)) body = Inr (Inr (PDict d))"
proof -
  have "json_dumps False (PDict d) \<noteq> []" by (simp add: json_dumps.simps Let_def)
  then have n: "body \<noteq> []" using py_decode_encode[of "json_dumps False (PDict d)"] unfolding assms(3) by (metis sum.sel(2) py_encode_Nil py_decode_encode)
  have "int (length body) < 10 ^ 18" using assms(4) by (simp add: MAX_JSON_BODY_SIZE_def)
  from posted_length[OF this, of t ct] n assms(4) show ?thesis
    by (simp add: read_json_body_def read_body_def assms(1) assms(3)[symmetric] json_loads_bytes_dumps[OF assms(2), folded assms(3)])
qed

lemma dispatch_grants:
  assumes "\<not> guards sv" "is_allowed (sv_rate sv) now (rq_client rq) = (True, rl)" "plain_request rq p" "startswith p ''/admin/''"
    and "rq_command rq = ''POST''"
  shows "dispatch ok sv now rq = (Inr (admin_post_route p, Local), sv\<lparr>sv_rate := rl\<rparr>)"
proof -
  note u = plain_request_paths[OF assms(3)]
  have "authenticate_request (rq_path rq) m h (sv_api_tokens sv) (sv_api_enabled sv) oci = Inr Local" for m h oci
    using assms(1) not_v2[OF assms(4)] u(2) by (auto simp: authenticate_request_def guards_def split: option.split)
  then show ?thesis using assms(2,4,5) u(1) by (simp add: dispatch_def do_POST_def guarded_def check_auth_def)
qed

lemma link_serves:
  assumes "\<not> guards (lk_server w)" "is_allowed (sv_rate (lk_server w)) (clock (lk_calls w)) ''127.0.0.1'' = (True, rl)" "admin_target p p"
    and "run_endpoint (Ws (lk_calls w)) S 0 (lk_daemon w) (target_request ''POST'' p (post_headers ct body)) body (admin_post_route p) = (x, D)"
  shows "plain_http Ws clock S base (PostCall (base @ p) ct body) w
    = (http_answer x, \<lparr>lk_server = (lk_server w)\<lparr>sv_rate := rl\<rparr>, lk_daemon = D, lk_calls = Suc (lk_calls w)\<rparr>)"
proof -
  have a: "startswith p ''/admin/''" using assms(3) by (simp add: admin_target_def)
  have r: "rq_client (target_request ''POST'' p (post_headers ct body)) = ''127.0.0.1''" "rq_command (target_request ''POST'' p (post_headers ct body)) = ''POST''"
    by (simp_all add: target_request_def)
  note d = dispatch_grants[OF assms(1) assms(2)[folded r(1)] target_plain[OF assms(3)] a r(2)]
  show ?thesis
    by (simp add: plain_http_def make_target_request[OF assms(3), of "''POST''" "post_headers ct body", unfolded post_headers_def]
      serve_def d[unfolded post_headers_def] assms(4)[unfolded post_headers_def])
qed

section \<open>Prepare\<close>

lemma build_args_wf: "wf_json (PDict (parse_build_args bas))"
proof -
  have "wf_json (PDict d) \<Longrightarrow> wf_json (PDict (foldl (\<lambda>d ba. dset d (before CHR ''='' ba) (PStr (after CHR ''='' ba))) d bas))" for d
  proof (induction bas arbitrary: d)
    case (Cons ba bas)
    have "wf_json (PDict (dset d (before CHR ''='' ba) (PStr (after CHR ''='' ba))))" by (intro wf_dset Cons.prems) simp
    from Cons.IH[OF this] show ?case by (simp only: foldl.simps)
  qed (simp only: foldl.simps)
  from this[of "[]"] show ?thesis by (simp add: parse_build_args_def)
qed

text \<open>What the daemon reads of the first call of \<open>prepare\<close>.\<close>

lemma analyze_data_cases:
  "analyze_data [(''dockerfile'', PStr p)] bas =
     (if parse_build_args bas = [] then [(''dockerfile'', PStr p)] else [(''dockerfile'', PStr p), (''build_args'', PDict (parse_build_args bas))])"
  by (simp add: analyze_data_def)

lemma analyze_data_wf: "wf_json (PDict (analyze_data [(''dockerfile'', PStr p)] bas))"
  using build_args_wf[of bas] by (simp add: analyze_data_cases)

lemma analyze_data_fields:
  "dget_or (analyze_data [(''dockerfile'', PStr p)] bas) ''dockerfile_content'' PNone = PNone"
  "dget_or (analyze_data [(''dockerfile'', PStr p)] bas) ''dockerfile'' PNone = PStr p"
  "dget_or (analyze_data [(''dockerfile'', PStr p)] bas) ''compose_content'' PNone = PNone"
  "dget_or (analyze_data [(''dockerfile'', PStr p)] bas) ''compose_path'' PNone = PNone"
  "dget_or (analyze_data [(''dockerfile'', PStr p)] bas) ''build_args'' (PDict []) = PDict (parse_build_args bas)"
  by (simp_all add: analyze_data_cases dget_or_def)

lemma analyze_answers:
  assumes "read_json_body W rq input = Inr (Inr (PDict (analyze_data [(''dockerfile'', PStr p)] bas)))" "p \<noteq> []"
    and "rq_client rq = ''127.0.0.1''" "fs_read (wd_fs W) (fs_resolve (wd_fs W) p) = Some bs"
    and "run_resolver W S D (fs_resolve (wd_fs W) p) (Some bs) (PDict (parse_build_args bas)) = Inr (Inr a)"
  shows "handle_admin_analyze W S D rq input
    = (Inr (send_json 200 (analysis_report (wd_set_order W) (wd_uuid W) a)), D\<lparr>dm_last_analysis := Some (wd_uuid W, a)\<rparr>)"
  using assms(2-5) unfolding handle_admin_analyze_def assms(1) sum.case pyval.case Let_def analyze_data_fields
  by (simp add: analyze_dockerfile_def is_localhost_def)

lemma images_shown_all: "images_shown (PList (map image_dict ims)) = Inr ()"
proof -
  have "\<exists>us. rmap (\<lambda>img. rbind (vget img ''is_internal'' PNone) (\<lambda>v. Inr ())) (map image_dict ims) = Inr us"
    by (induction ims) (auto simp: image_dict_def vget_def)
  then show ?thesis by (auto simp: images_shown_def)
qed

lemma report_shown:
  "wf_json (PInt (an_total_missing_size a)) \<Longrightarrow> \<forall>b \<in> set (an_missing a). wf_json (mb_size b) \<and> wf_json (mb_media_type b) \<Longrightarrow>
     wf_json (analysis_report so u a)"
  "analysis_shown (analysis_report so u a) = Inr (PStr u)"
proof -
  assume "wf_json (PInt (an_total_missing_size a))" "\<forall>b \<in> set (an_missing a). wf_json (mb_size b) \<and> wf_json (mb_media_type b)"
  then show "wf_json (analysis_report so u a)"
    by (auto simp: analysis_report_def list_all_iff image_dict_def missing_dict_def stale_dict_def opt_str_def simp del: wf_json.simps(2)
        split: option.split)
next
  show "analysis_shown (analysis_report so u a) = Inr (PStr u)"
    using images_shown_all[of "an_images a"] by (simp add: analysis_shown_def analysis_report_def vin_def vget_def dget_or_def vlen_def)
qed

lemma json_call:
  assumes "wf_json (PDict d)"
  shows "json_answer (http_answer (Inr (send_json 200 (PDict d)))) = Inr (PDict d)"
  using json_loads_bytes_dumps[OF assms] by (simp add: json_answer_def http_answer_def send_json_def respond_def Let_def)

text \<open>The request comes back as it was sealed.\<close>

lemma generated_response:
  assumes "read_json_body W rq input = Inr (Inr (PDict body))" "dget_or body ''analysis_id'' PNone = PStr i" "i \<noteq> []"
    and "\<not> truthy (dget_or body ''refresh_stale'' (PBool False))" "dm_last_analysis D = Some (i, a)" "an_missing a \<noteq> []"
    and "se_crypto_keys S = Some (aes_key, hmac_key)" "aead_works (wd_aead W)" "length (wd_nonce W) = 12" "length aes_key = 32"
  obtains c where "handle_admin_generate_manifest W S D rq input = (Inr (request_response (wd_now W) S c), D\<lparr>dm_last_analysis := None\<rparr>)"
proof -
  obtain images seen where im: "request_images (an_images a) [] = (images, seen)" by fastforce
  obtain c where c: "seal (wd_aead W) (wd_nonce W) (py_encode (json_dumps False (request_document (wd_now W) S images (an_missing a)))) aes_key hmac_key = Inr c"
    unfolding seal_def Let_def using encrypt_works[OF assms(8,10,9)] by blast
  have "generate_from W S False a = Inr (request_response (wd_now W) S c, True)"
    using assms(6) c by (simp add: generate_from_def im assms(7))
  moreover have "truthy (dget_or body ''refresh_stale'' (PBool False)) = False" using assms(4) by simp
  ultimately have "handle_admin_generate_manifest W S D rq input = (Inr (request_response (wd_now W) S c), D\<lparr>dm_last_analysis := None\<rparr>)"
    using assms(3) unfolding handle_admin_generate_manifest_def assms(1) sum.case pyval.case assms(2,5) Let_def option.case prod.case by simp
  then show thesis by (rule that)
qed

lemma raw_call: "raw_answer (http_answer (Inr (request_response now S c))) = Inr (Inl c)"
proof -
  have "\<not> str_in ''application/json'' ''application/octet-stream''" by code_simp
  then show ?thesis by (simp add: raw_answer_def http_answer_def request_response_def respond_def end_headers_def dget_or_def Let_def)
qed

text \<open>The two calls of \<open>prepare\<close>, where the daemon grants them.\<close>

definition analyze_body :: "cli_env \<Rightarrow> string \<Rightarrow> string list \<Rightarrow> bytes" where
  "analyze_body E f bas = py_encode (json_dumps False (PDict (analyze_data [(''dockerfile'', PStr (ce_resolve E f))] bas)))"

definition generate_body_of :: "string \<Rightarrow> bytes" where
  "generate_body_of i = py_encode (json_dumps False (PDict [(''analysis_id'', PStr i)]))"

lemma posted: "post_json url d = PostCall url ''application/json'' (py_encode (json_dumps False (PDict d)))"
  by (simp add: post_json_def)

lemma analyze_call:
  assumes "\<not> guards (lk_server w)" "is_allowed (sv_rate (lk_server w)) (clock (lk_calls w)) ''127.0.0.1'' = (True, rl)"
    and "W = Ws (lk_calls w)" "wd_broken W = None" "int (length (analyze_body E f bas)) \<le> MAX_JSON_BODY_SIZE"
    and "ce_resolve E f \<noteq> []" "fs_read (wd_fs W) (fs_resolve (wd_fs W) (ce_resolve E f)) = Some bs"
    and "run_resolver W S (lk_daemon w) (fs_resolve (wd_fs W) (ce_resolve E f)) (Some bs) (PDict (parse_build_args bas)) = Inr (Inr a)"
    and "wf_json (PInt (an_total_missing_size a))" "\<forall>b \<in> set (an_missing a). wf_json (mb_size b) \<and> wf_json (mb_media_type b)"
  shows "admin_post (plain_http Ws clock S base) (base @ ''/admin/analyze'') (analyze_data [(''dockerfile'', PStr (ce_resolve E f))] bas) w
    = (Inr (analysis_report (wd_set_order W) (wd_uuid W) a),
       \<lparr>lk_server = (lk_server w)\<lparr>sv_rate := rl\<rparr>, lk_daemon = (lk_daemon w)\<lparr>dm_last_analysis := Some (wd_uuid W, a)\<rparr>, lk_calls = Suc (lk_calls w)\<rparr>)"
proof -
  let ?rq = "target_request ''POST'' ''/admin/analyze'' (post_headers ''application/json'' (analyze_body E f bas))"
  have c: "rq_client ?rq = ''127.0.0.1''" by (simp add: target_request_def)
  note h = analyze_answers[OF read_posted[OF assms(4) analyze_data_wf analyze_body_def assms(5)] assms(6) c assms(7,8)]
  have r: "admin_post_route ''/admin/analyze'' = AdminAnalyze" by (simp add: admin_post_route_def)
  have e: "run_endpoint (Ws (lk_calls w)) S 0 (lk_daemon w) ?rq (analyze_body E f bas) (admin_post_route ''/admin/analyze'')
      = (Inr (send_json 200 (analysis_report (wd_set_order W) (wd_uuid W) a)), (lk_daemon w)\<lparr>dm_last_analysis := Some (wd_uuid W, a)\<rparr>)"
    unfolding r run_endpoint_def route.case Let_def using h assms(3) by simp
  obtain d where d: "analysis_report (wd_set_order W) (wd_uuid W) a = PDict d" by (simp add: analysis_report_def)
  have w: "wf_json (PDict d)" unfolding d[symmetric] by (rule report_shown(1)[OF assms(9,10)])
  show ?thesis
    using link_serves[where Ws = Ws and clock = clock and base = base, OF assms(1,2) admin_targets(1) e] json_call[OF w]
    by (simp add: admin_post_def posted analyze_body_def[symmetric] d)
qed

lemma generate_call:
  assumes "\<not> guards (lk_server w)" "is_allowed (sv_rate (lk_server w)) (clock (lk_calls w)) ''127.0.0.1'' = (True, rl)"
    and "W = Ws (lk_calls w)" "wd_broken W = None" "int (length (generate_body_of i)) \<le> MAX_JSON_BODY_SIZE"
    and "i \<noteq> []" "dm_last_analysis (lk_daemon w) = Some (i, a)" "an_missing a \<noteq> []"
    and "\<forall>b \<in> set (an_missing a). wf_json (mb_size b) \<and> wf_json (mb_media_type b)"
    and "se_crypto_keys S = Some (aes_key, hmac_key)" "aead_works (wd_aead W)" "length (wd_nonce W) = 12" "length aes_key = 32"
  obtains c d images where "admin_post_raw (plain_http Ws clock S base) (base @ ''/admin/generate-manifest'') [(''analysis_id'', PStr i)] w
      = (Inr (Inl c), \<lparr>lk_server = (lk_server w)\<lparr>sv_rate := rl\<rparr>, lk_daemon = (lk_daemon w)\<lparr>dm_last_analysis := None\<rparr>, lk_calls = Suc (lk_calls w)\<rparr>)"
    "process_request (wd_aead W) c aes_key hmac_key p = Inr (PDict d)" "dget d ''blobs'' = Some (PList (map missing_dict (an_missing a)))"
    "dget d ''images'' = Some (PList (map PDict images))" "set (map entry_key images) = image_key ` {im \<in> set (an_images a). external im}"
proof -
  let ?rq = "target_request ''POST'' ''/admin/generate-manifest'' (post_headers ''application/json'' (generate_body_of i))"
  let ?d = "[(''analysis_id'', PStr i)]" and ?D = "lk_daemon w"
  have "wf_json (PDict ?d)" by simp
  note rj = read_posted[OF assms(4) this generate_body_of_def assms(5)]
  have b: "dget_or ?d ''analysis_id'' PNone = PStr i" "\<not> truthy (dget_or ?d ''refresh_stale'' (PBool False))" by (simp_all add: dget_or_def)
  obtain c where c: "handle_admin_generate_manifest W S ?D ?rq (generate_body_of i) = (Inr (request_response (wd_now W) S c), ?D\<lparr>dm_last_analysis := None\<rparr>)"
    by (rule generated_response[OF rj b(1) assms(6) b(2) assms(7,8,10-13)])
  have ai: "aead_inverse (wd_aead W)" using assms(11) by (simp add: aead_works_def)
  from generated_request_data[OF rj b(1) assms(6) b(2) assms(7-10) ai assms(12) c, of p] obtain d images where
    d: "process_request (wd_aead W) (rs_body (request_response (wd_now W) S c)) aes_key hmac_key p = Inr (PDict d)"
    "dget d ''blobs'' = Some (PList (map missing_dict (an_missing a)))" "dget d ''images'' = Some (PList (map PDict images))"
    "set (map entry_key images) = image_key ` {im \<in> set (an_images a). external im}" by blast
  have bd: "rs_body (request_response (wd_now W) S c) = c" by (simp add: request_response_def respond_def Let_def)
  have r: "admin_post_route ''/admin/generate-manifest'' = AdminGenerateManifest" by (simp add: admin_post_route_def)
  have e: "run_endpoint (Ws (lk_calls w)) S 0 ?D ?rq (generate_body_of i) (admin_post_route ''/admin/generate-manifest'')
      = (Inr (request_response (wd_now W) S c), ?D\<lparr>dm_last_analysis := None\<rparr>)"
    unfolding r run_endpoint_def route.case Let_def using c assms(3) by simp
  have "admin_post_raw (plain_http Ws clock S base) (base @ ''/admin/generate-manifest'') ?d w
      = (Inr (Inl c), \<lparr>lk_server = (lk_server w)\<lparr>sv_rate := rl\<rparr>, lk_daemon = ?D\<lparr>dm_last_analysis := None\<rparr>, lk_calls = Suc (lk_calls w)\<rparr>)"
    using link_serves[where Ws = Ws and clock = clock and base = base, OF assms(1,2) admin_targets(2) e] raw_call
    by (simp add: admin_post_raw_def posted generate_body_of_def[symmetric])
  from that[OF this d(1)[unfolded bd] d(2-4)] show thesis .
qed

text \<open>
  C11. On a daemon that asks for no token, \<open>prepare\<close> returns, and the file it writes is a request that
  the online side opens: it lists exactly the blobs the analysis of the Dockerfile misses and the
  images that are neither internal nor private. The analysis is used up and the store is as it was.
\<close>

theorem prepare_writes_request:
  assumes link: "tm_link T = \<lparr>lk_server = sv, lk_daemon = D, lk_calls = n\<rparr>" "\<not> (sv_api_enabled sv \<and> sv_api_tokens sv \<noteq> None)"
      "is_allowed (sv_rate sv) (clock n) ''127.0.0.1'' = (True, rl)" "is_allowed rl (clock (Suc n)) ''127.0.0.1'' = (True, rl')"
    and config: "read_host_config (tm_host T) (config_path_of (ce_config E)) = Inr config" "output_dir E config out = Inr dir"
    and source: "ce_resolve E f \<noteq> []" "fs_read (wd_fs (Ws n)) (fs_resolve (wd_fs (Ws n)) (ce_resolve E f)) = Some bs"
      "run_resolver (Ws n) S D (fs_resolve (wd_fs (Ws n)) (ce_resolve E f)) (Some bs) (PDict (parse_build_args bas)) = Inr (Inr a)"
    and missing: "an_missing a \<noteq> []" "wf_json (PInt (an_total_missing_size a))"
      "\<forall>b \<in> set (an_missing a). wf_json (mb_size b) \<and> wf_json (mb_media_type b)"
    and world: "wd_broken (Ws n) = None" "wd_broken (Ws (Suc n)) = None" "wd_uuid (Ws n) \<noteq> []"
      "int (length (analyze_body E f bas)) \<le> MAX_JSON_BODY_SIZE" "int (length (generate_body_of (wd_uuid (Ws n)))) \<le> MAX_JSON_BODY_SIZE"
    and keys: "se_crypto_keys S = Some (aes_key, hmac_key)" "aead_works (wd_aead (Ws (Suc n)))" "length (wd_nonce (Ws (Suc n))) = 12"
      "length aes_key = 32"
  shows "\<exists>T' raw d images. run_command E (plain_http Ws clock S (base_url config)) (Prepare f bas out) T = (Inr (), T')
    \<and> dget (ho_files (tm_host T')) (in_dir dir ''buncker-request.json.enc'') = Some raw
    \<and> process_request (wd_aead (Ws (Suc n))) raw aes_key hmac_key p = Inr (PDict d)
    \<and> dget d ''blobs'' = Some (PList (map missing_dict (an_missing a))) \<and> dget d ''images'' = Some (PList (map PDict images))
    \<and> set (map entry_key images) = image_key ` {im \<in> set (an_images a). external im}
    \<and> dm_store (lk_daemon (tm_link T')) = dm_store D \<and> dm_last_analysis (lk_daemon (tm_link T')) = None \<and> tm_shown T' = tm_shown T"
proof -
  let ?w = "\<lparr>lk_server = sv, lk_daemon = D, lk_calls = n\<rparr>"
  let ?D1 = "D\<lparr>dm_last_analysis := Some (wd_uuid (Ws n), a)\<rparr>"
  let ?w1 = "\<lparr>lk_server = sv\<lparr>sv_rate := rl\<rparr>, lk_daemon = ?D1, lk_calls = Suc n\<rparr>"
  let ?link = "plain_http Ws clock S (base_url config)"
  have g: "\<not> guards (lk_server ?w)" "\<not> guards (lk_server ?w1)" using link(2) by (simp_all add: guards_def)
  have a1: "admin_post ?link (base_url config @ ''/admin/analyze'') (analyze_data [(''dockerfile'', PStr (ce_resolve E f))] bas) ?w
      = (Inr (analysis_report (wd_set_order (Ws n)) (wd_uuid (Ws n)) a), ?w1)"
    using analyze_call[where w = ?w and W = "Ws n" and Ws = Ws and clock = clock and base = "base_url config", OF g(1) _ _ world(1,4) source(1,2) _ missing(2,3)]
      link(3) source(3) by simp
  obtain c d images where a2: "admin_post_raw ?link (base_url config @ ''/admin/generate-manifest'') [(''analysis_id'', PStr (wd_uuid (Ws n)))] ?w1
      = (Inr (Inl c), \<lparr>lk_server = (lk_server ?w1)\<lparr>sv_rate := rl'\<rparr>, lk_daemon = (lk_daemon ?w1)\<lparr>dm_last_analysis := None\<rparr>, lk_calls = Suc (lk_calls ?w1)\<rparr>)"
    and d: "process_request (wd_aead (Ws (Suc n))) c aes_key hmac_key p = Inr (PDict d)" "dget d ''blobs'' = Some (PList (map missing_dict (an_missing a)))"
      "dget d ''images'' = Some (PList (map PDict images))" "set (map entry_key images) = image_key ` {im \<in> set (an_images a). external im}"
    by (rule generate_call[where w = ?w1 and W = "Ws (Suc n)" and Ws = Ws and clock = clock and base = "base_url config" and p = p and a = a,
          OF g(2) _ _ world(2,5,3) _ missing(1,3) keys]) (use link(4) in simp_all)
  have "run_command E ?link (Prepare f bas out) T
      = (Inr (), T\<lparr>tm_link := (tm_link T)\<lparr>lk_server := sv\<lparr>sv_rate := rl'\<rparr>, lk_daemon := ?D1\<lparr>dm_last_analysis := None\<rparr>, lk_calls := Suc (Suc n)\<rparr>,
           tm_host := put_file (tm_host T) (in_dir dir ''buncker-request.json.enc'') c\<rparr>)"
    using config(2) by (simp add: run_command_def cmd_prepare_def config(1) calling_def link(1) a1 a2 report_shown(2) request_shown_def save_request_def)
  then show ?thesis using d by (intro exI[of _ "_ :: link_state terminal"] exI[of _ c] exI[of _ d] exI[of _ images] conjI) (assumption | simp add: put_file_def)+
qed

lemma open_daemon_allows:
  "\<exists>rl rl'. is_allowed (sv_rate open_daemon) 0 ''127.0.0.1'' = (True, rl) \<and> is_allowed rl 0 ''127.0.0.1'' = (True, rl')"
  by (simp add: open_daemon_def demo_server_def new_limiter_def is_allowed_def RATE_LIMIT_MAX_def RATE_LIMIT_WINDOW_def Let_def dget_or_def)

definition prepare_world :: world where
  "prepare_world = demo_world\<lparr>wd_now := 8, wd_fs := \<lparr>fs_resolve = (\<lambda>p. p), fs_read = (\<lambda>p. Some demo_dockerfile)\<rparr>\<rparr>"

theorem prepare_writes_request_witness:
  "\<exists>T' raw d. run_command demo_cli (plain_http (\<lambda>i. prepare_world) (\<lambda>i. 0) demo_settings (base_url DEFAULTS)) (Prepare ''/Dockerfile'' [] None)
       (demo_terminal open_daemon (new_daemon demo_registry)) = (Inr (), T')
     \<and> dget (ho_files (tm_host T')) ''/tmp/buncker-request.json.enc'' = Some raw
     \<and> process_request toy_aead raw (replicate 32 CHR ''k'') ''hm'' ''f'' = Inr (PDict d)
     \<and> (\<exists>b. dget d ''blobs'' = Some (PList [missing_dict b]) \<and> mb_digest b = demo_digest)"
proof -
  let ?D = "new_daemon demo_registry"
  let ?T = "demo_terminal open_daemon ?D"
  obtain a where a: "resolve_dockerfile (store_env demo_registry 8) ''/Dockerfile'' (Some demo_dockerfile) [] [] ''linux/amd64'' 0 = Inr a"
    "missing_digests a = [demo_digest]" "an_total_missing_size a = 5" "\<forall>b \<in> set (an_missing a). mb_size b = PInt 5 \<and> (\<exists>t. mb_media_type b = PStr t)"
    using demo_analysis by blast
  obtain b where b: "an_missing a = [b]" "mb_digest b = demo_digest" using a(2) by (auto simp: missing_digests_def)
  have r: "run_resolver prepare_world demo_settings ?D ''/Dockerfile'' (Some demo_dockerfile) (PDict (parse_build_args [])) = Inr (Inr a)"
    using a(1) by (simp add: run_resolver_def build_args_of_def parse_build_args_def prepare_world_def demo_settings_def new_daemon_def)
  obtain rl rl' where al: "is_allowed (sv_rate open_daemon) 0 ''127.0.0.1'' = (True, rl)" "is_allowed rl 0 ''127.0.0.1'' = (True, rl')"
    using open_daemon_allows by blast
  have t: "tm_link ?T = \<lparr>lk_server = open_daemon, lk_daemon = ?D, lk_calls = 0\<rparr>" by (simp add: demo_terminal_def)
  have o: "\<not> (sv_api_enabled open_daemon \<and> sv_api_tokens open_daemon \<noteq> None)" by (simp add: open_daemon_def)
  have od: "output_dir demo_cli DEFAULTS None = Inr ''/tmp''"
    by (simp add: output_dir_def resolve_transfer_path_def DEFAULTS_def dget_or_def demo_cli_def)
  have src: "ce_resolve demo_cli ''/Dockerfile'' \<noteq> []"
    "fs_read (wd_fs prepare_world) (fs_resolve (wd_fs prepare_world) (ce_resolve demo_cli ''/Dockerfile'')) = Some demo_dockerfile"
    "run_resolver prepare_world demo_settings ?D (fs_resolve (wd_fs prepare_world) (ce_resolve demo_cli ''/Dockerfile'')) (Some demo_dockerfile)
       (PDict (parse_build_args [])) = Inr (Inr a)"
    using r by (simp_all add: demo_cli_def prepare_world_def)
  have m: "an_missing a \<noteq> []" "wf_json (PInt (an_total_missing_size a))" "\<forall>b \<in> set (an_missing a). wf_json (mb_size b) \<and> wf_json (mb_media_type b)"
    using b a(3,4) wf_small_int[of 5] by auto
  have "length (analyze_body demo_cli ''/Dockerfile'' []) < 100" "length (generate_body_of ''id'') < 100" by code_simp+
  then have w: "wd_broken prepare_world = None" "wd_broken prepare_world = None" "wd_uuid prepare_world \<noteq> []"
    "int (length (analyze_body demo_cli ''/Dockerfile'' [])) \<le> MAX_JSON_BODY_SIZE" "int (length (generate_body_of (wd_uuid prepare_world))) \<le> MAX_JSON_BODY_SIZE"
    by (simp_all add: prepare_world_def demo_world_def MAX_JSON_BODY_SIZE_def)
  have k: "se_crypto_keys demo_settings = Some (replicate 32 CHR ''k'', ''hm'')" "aead_works (wd_aead prepare_world)" "length (wd_nonce prepare_world) = 12"
    "length (replicate 32 CHR ''k'') = 32" "wd_aead prepare_world = toy_aead"
    using toy_aead_works by (simp_all add: demo_settings_def prepare_world_def demo_world_def)
  have d: "in_dir ''/tmp'' ''buncker-request.json.enc'' = ''/tmp/buncker-request.json.enc''" by code_simp
  from prepare_writes_request[where Ws = "\<lambda>i. prepare_world" and clock = "\<lambda>i. 0" and p = "''f''", OF t o al bare_config od src m w k(1-4)]
  show ?thesis unfolding d k(5) b list.map using b(2) by blast
qed

section \<open>Import\<close>

text \<open>
  C15. \<open>import\<close> hands the whole file to the daemon and shows the summary of the import. With \<open>--cleanup\<close>
  the file is removed as soon as one blob was imported, whatever errors the summary lists, and kept
  otherwise.
\<close>

theorem import_command:
  assumes link: "tm_link T = \<lparr>lk_server = sv, lk_daemon = D, lk_calls = n\<rparr>" "\<not> (sv_api_enabled sv \<and> sv_api_tokens sv \<noteq> None)"
      "is_allowed (sv_rate sv) (clock n) ''127.0.0.1'' = (True, rl)"
    and config: "read_host_config (tm_host T) (config_path_of (ce_config E)) = Inr config"
    and archive: "import_file E config arg = Inr q" "dget (ho_files (tm_host T)) q = Some data" "data \<noteq> []" "int (length data) \<le> MAX_IMPORT_SIZE"
    and world: "wd_broken (Ws n) = None" "int (length data) * 2 \<le> int (du_free (wd_disk (Ws n)))" "se_crypto_keys S = Some keys"
    and imported: "import_response (wd_aead (Ws n)) (wd_tar (Ws n)) (wd_py312 (Ws n)) (wd_ls (Ws n)) (wd_clock (Ws n)) (dm_offline D)
        (wd_tmp (Ws n)) data (fst keys) (snd keys) True = (Inr summary, off)" "wf_json (PDict (summary_dict summary))"
  shows "\<exists>T'. run_command E (plain_http Ws clock S (base_url config)) (Import arg cleanup) T = (Inr (), T')
    \<and> dm_offline (lk_daemon (tm_link T')) = off \<and> tm_shown T' = tm_shown T @ [PDict (summary_dict summary)]
    \<and> ho_files (tm_host T') = (if cleanup \<and> 0 < is_imported summary then ddel (ho_files (tm_host T)) q else ho_files (tm_host T))"
proof -
  let ?w = "\<lparr>lk_server = sv, lk_daemon = D, lk_calls = n\<rparr>"
  let ?rq = "target_request ''POST'' ''/admin/import'' (post_headers ''application/octet-stream'' data)"
  let ?w1 = "\<lparr>lk_server = sv\<lparr>sv_rate := rl\<rparr>, lk_daemon = D\<lparr>dm_offline := off\<rparr>, lk_calls = Suc n\<rparr>"
  have g: "\<not> guards (lk_server ?w)" using link(2) by (simp add: guards_def)
  have al: "is_allowed (sv_rate (lk_server ?w)) (clock (lk_calls ?w)) ''127.0.0.1'' = (True, rl)" using link(3) by simp
  have "int (length data) < 10 ^ 18" using archive(4) by (simp add: MAX_IMPORT_SIZE_def)
  note len = posted_length[OF this, of "''/admin/import''" "''application/octet-stream''"]
  have "handle_admin_import (Ws n) S D ?rq data = (Inr (send_json 200 (PDict (summary_dict summary))), D\<lparr>dm_offline := off\<rparr>)"
    using archive(3,4) world imported(1)
    by (simp add: handle_admin_import_def len check_disk_space_def read_body_def run_import_def Let_def)
  then have e: "run_endpoint (Ws (lk_calls ?w)) S 0 (lk_daemon ?w) ?rq data (admin_post_route ''/admin/import'')
      = (Inr (send_json 200 (PDict (summary_dict summary))), D\<lparr>dm_offline := off\<rparr>)"
    by (simp add: admin_post_route_def run_endpoint_def)
  have post: "admin_post_binary (plain_http Ws clock S (base_url config)) (base_url config @ ''/admin/import'') data ?w
      = (Inr (PDict (summary_dict summary)), ?w1)"
    using link_serves[where Ws = Ws and clock = clock and base = "base_url config", OF g al admin_targets(3) e] json_call[OF imported(2)]
    by (simp add: admin_post_binary_def)
  have i: "vget (PDict (summary_dict summary)) ''imported'' (PInt 0) = Inr (PInt (int (is_imported summary)))"
    "\<exists>v. vget (PDict (summary_dict summary)) ''update_deb'' PNone = Inr v"
    by (simp_all add: vget_def summary_dict_def dget_or_def)
  show ?thesis
    using i archive(1,2) post
    by (auto simp: run_command_def cmd_proxy_def config proxy_import_def calling_def link(1) import_shown_def print_json_def vpositive_def)
qed

theorem import_command_witness:
  "\<exists>T'. run_command demo_cli (plain_http (\<lambda>i. demo_world) (\<lambda>i. 0) demo_settings (base_url DEFAULTS)) (Import (Some ''/in.tar.enc'') True)
       (demo_terminal open_daemon demo_start) = (Inr (), T')
     \<and> file_bytes (st_blobs (dm_store (lk_daemon (tm_link T')))) (sha256_hex demo_blob) = Some demo_blob \<and> ho_files (tm_host T') = []"
proof -
  let ?T = "demo_terminal open_daemon demo_start" and ?keys = "(replicate 32 CHR ''k'', ''hm'')"
  obtain s where s: "import_response toy_aead (wd_tar demo_world) False (\<lambda>t. t) (\<lambda>i. 7) demo_offline ''/tmp/a'' demo_sealed (replicate 32 CHR ''k'') ''hm'' True
      = (Inr \<lparr>is_imported = 1, is_skipped = 0, is_errors = [], is_update_deb = None\<rparr>, demo_offline\<lparr>off_store := s\<rparr>)"
    "file_bytes (st_blobs s) (sha256_hex demo_blob) = Some demo_blob" by (rule demo_imported)
  obtain rl where al: "is_allowed (sv_rate open_daemon) 0 ''127.0.0.1'' = (True, rl)" using open_daemon_allows by blast
  have i: "import_response (wd_aead demo_world) (wd_tar demo_world) (wd_py312 demo_world) (wd_ls demo_world) (wd_clock demo_world)
      (dm_offline demo_start) (wd_tmp demo_world) demo_sealed (fst ?keys) (snd ?keys) True
      = (Inr \<lparr>is_imported = 1, is_skipped = 0, is_errors = [], is_update_deb = None\<rparr>, demo_offline\<lparr>off_store := s\<rparr>)"
    using s(1) by (simp add: demo_world_def demo_start_def new_daemon_def demo_offline_def)
  have t: "tm_link ?T = \<lparr>lk_server = open_daemon, lk_daemon = demo_start, lk_calls = 0\<rparr>" by (simp add: demo_terminal_def)
  have o: "\<not> (sv_api_enabled open_daemon \<and> sv_api_tokens open_daemon \<noteq> None)" by (simp add: open_daemon_def)
  have f: "import_file demo_cli DEFAULTS (Some ''/in.tar.enc'') = Inr ''/in.tar.enc''" "dget (ho_files (tm_host ?T)) ''/in.tar.enc'' = Some demo_sealed"
    "demo_sealed \<noteq> []" "int (length demo_sealed) \<le> MAX_IMPORT_SIZE"
    using demo_sealed_facts(2) by (auto simp: import_file_def demo_terminal_def bare_host_def MAX_IMPORT_SIZE_def)
  have w: "wd_broken demo_world = None" "int (length demo_sealed) * 2 \<le> int (du_free (wd_disk demo_world))" "se_crypto_keys demo_settings = Some ?keys"
    using demo_sealed_facts(2) by (simp_all add: demo_world_def demo_settings_def)
  have j: "wf_json (PDict (summary_dict \<lparr>is_imported = 1, is_skipped = 0, is_errors = [], is_update_deb = None\<rparr>))"
    using wf_small_int[of 1] wf_small_int[of 0] by (simp add: summary_dict_def del: wf_json.simps(2))
  have "ho_files (tm_host ?T) = [(''/in.tar.enc'', demo_sealed)]" by (simp add: demo_terminal_def bare_host_def)
  then have d: "(if True \<and> 0 < is_imported \<lparr>is_imported = 1, is_skipped = 0, is_errors = [], is_update_deb = None\<rparr>
      then ddel (ho_files (tm_host ?T)) ''/in.tar.enc'' else ho_files (tm_host ?T)) = []" by simp
  obtain T' where T': "run_command demo_cli (plain_http (\<lambda>i. demo_world) (\<lambda>i. 0) demo_settings (base_url DEFAULTS)) (Import (Some ''/in.tar.enc'') True) ?T
      = (Inr (), T')" "dm_offline (lk_daemon (tm_link T')) = demo_offline\<lparr>off_store := s\<rparr>" "ho_files (tm_host T') = []"
    using import_command[where Ws = "\<lambda>i. demo_world" and clock = "\<lambda>i. 0" and S = demo_settings and cleanup = True, OF t o al bare_config f w i j]
    unfolding d by blast
  then have "st_blobs (dm_store (lk_daemon (tm_link T'))) = st_blobs s" by simp
  with T'(1,3) s(2) show ?thesis by auto
qed

section \<open>Deleting without digests\<close>

definition gc_body :: "string \<Rightarrow> bytes" where
  "gc_body operator = py_encode (json_dumps False (PDict [(''digests'', PList []), (''operator'', PStr operator)]))"

lemma empty_gc_call:
  assumes "wd_broken (Ws (lk_calls w)) = None" "int (length (gc_body operator)) \<le> MAX_JSON_BODY_SIZE"
  shows "\<exists>v w'. admin_post (plain_http Ws clock S base) (base @ ''/admin/gc/execute'') [(''digests'', PList []), (''operator'', PStr operator)] w = (Inr v, w')
    \<and> error_doc v \<and> lk_daemon w' = lk_daemon w"
proof -
  let ?d = "[(''digests'', PList []), (''operator'', PStr operator)]"
  have p: "post_json (base @ ''/admin/gc/execute'') ?d = PostCall (base @ ''/admin/gc/execute'') ''application/json'' (gc_body operator)"
    by (simp add: post_json_def gc_body_def)
  show ?thesis
  proof (cases "stopped (lk_server w) (clock (lk_calls w))")
    case True
    have "\<exists>ct b. post_json (base @ ''/admin/gc/execute'') ?d \<in> {GetCall (base @ ''/admin/gc/execute''), PostCall (base @ ''/admin/gc/execute'') ct b}"
      by (simp add: p)
    from link_refuses[where clock = clock and Ws = Ws, OF True admin_targets(6) this] obtain status body v w' where
      "plain_http Ws clock S base (post_json (base @ ''/admin/gc/execute'') ?d) w = (AnsweredError status body, w')"
      "error_body body = Inr v" "error_doc v" "lk_daemon w' = lk_daemon w" by blast
    then show ?thesis by (simp add: admin_post_def json_answer_def)
  next
    case False
    then obtain rl where g: "\<not> guards (lk_server w)" "is_allowed (sv_rate (lk_server w)) (clock (lk_calls w)) ''127.0.0.1'' = (True, rl)"
      by (cases "is_allowed (sv_rate (lk_server w)) (clock (lk_calls w)) ''127.0.0.1''") (auto simp: stopped_def)
    have wf: "wf_json (PDict ?d)" "wf_json (PDict [(''error'', PStr a), (''code'', PStr b)])" for a b by simp_all
    let ?rq = "target_request ''POST'' ''/admin/gc/execute'' (post_headers ''application/json'' (gc_body operator))"
    have "handle_admin_gc_execute (Ws (lk_calls w)) (lk_daemon w) ?rq (gc_body operator) = (Inr digests_required, lk_daemon w)"
      unfolding handle_admin_gc_execute_def read_posted[OF assms(1) wf(1) gc_body_def assms(2)] by (simp add: dget_or_def)
    then have e: "run_endpoint (Ws (lk_calls w)) S 0 (lk_daemon w) ?rq (gc_body operator) (admin_post_route ''/admin/gc/execute'')
        = (Inr digests_required, lk_daemon w)" by (simp add: admin_post_route_def run_endpoint_def)
    have "json_answer (http_answer (Inr digests_required))
        = Inr (PDict [(''error'', PStr ''digests array required''), (''code'', PStr ''MISSING_FIELD'')])"
      using json_loads_bytes_dumps[OF wf(2)]
      by (simp add: digests_required_def send_admin_error_def send_json_def respond_def json_answer_def http_answer_def error_body_def Let_def
          del: wf_json.simps)
    with link_serves[where Ws = Ws and clock = clock and base = base, OF g admin_targets(6) e] show ?thesis
      by (simp add: admin_post_def p error_doc_def)
  qed
qed

text \<open>
  C31. \<open>gc --execute\<close> without digests, which the help calls deleting the reported blobs, deletes nothing:
  after the confirmation the daemon answers with an error, whether it asks for tokens or not, and its
  state stays as it was.
\<close>

theorem gc_without_digests:
  assumes "ga_execute a" "\<not> ga_report a" "ga_digests a \<in> {None, Some []}" "ga_operator a = Some operator" "operator \<noteq> []" "confirmed E a"
    and "read_host_config (tm_host T) (config_path_of (ce_config E)) = Inr config"
    and "wd_broken (Ws (lk_calls (tm_link T))) = None" "int (length (gc_body operator)) \<le> MAX_JSON_BODY_SIZE"
  shows "\<exists>T' m c. run_command E (plain_http Ws clock S (base_url config)) (Gc a) T = (Inr (), T')
    \<and> lk_daemon (tm_link T') = lk_daemon (tm_link T) \<and> tm_shown T' = tm_shown T @ [PDict [(''error'', PStr m), (''code'', PStr c)]]"
proof -
  have ds: "(case ga_digests a of None \<Rightarrow> [] | Some ds \<Rightarrow> ds) = []" using assms(3) by auto
  obtain v w where c: "admin_post (plain_http Ws clock S (base_url config)) (base_url config @ ''/admin/gc/execute'')
      [(''digests'', PList []), (''operator'', PStr operator)] (tm_link T) = (Inr v, w)" "error_doc v" "lk_daemon w = lk_daemon (tm_link T)"
    using empty_gc_call[where Ws = Ws, OF assms(8,9)] by blast
  have "gc_execution (plain_http Ws clock S (base_url config)) (base_url config) E a T = (Inr (), print_json v (T\<lparr>tm_link := w\<rparr>))"
    unfolding gc_execution_def ds Let_def using assms(4,5,6) c(1) by (simp add: gc_impact_shown_def calling_def)
  then have "run_command E (plain_http Ws clock S (base_url config)) (Gc a) T = (Inr (), print_json v (T\<lparr>tm_link := w\<rparr>))"
    using assms(1,2) by (simp add: run_command_def cmd_proxy_def assms(7) proxy_gc_def gc_report_shown_def)
  with c(2,3) show ?thesis by (auto simp: print_json_def error_doc_def)
qed

theorem gc_without_digests_witness:
  "\<exists>T' m c. run_command demo_cli (plain_http (\<lambda>i. demo_world) (\<lambda>i. 0) demo_settings (base_url DEFAULTS)) (Gc demo_gc) (demo_terminal open_daemon demo_start) = (Inr (), T')
     \<and> lk_daemon (tm_link T') = demo_start \<and> tm_shown T' = [PDict [(''error'', PStr m), (''code'', PStr c)]]"
proof -
  let ?T = "demo_terminal open_daemon demo_start"
  have a: "ga_execute demo_gc" "\<not> ga_report demo_gc" "ga_digests demo_gc \<in> {None, Some []}" "ga_operator demo_gc = Some ''admin''" "''admin'' \<noteq> []"
    by (simp_all add: demo_gc_def)
  have c: "confirmed demo_cli demo_gc" by code_simp
  have w: "wd_broken demo_world = None" by (simp add: demo_world_def)
  have "length (gc_body ''admin'') < 100" by code_simp
  then have b: "int (length (gc_body ''admin'')) \<le> MAX_JSON_BODY_SIZE" by (simp add: MAX_JSON_BODY_SIZE_def)
  have t: "lk_daemon (tm_link ?T) = demo_start" "tm_shown ?T = []" by (simp_all add: demo_terminal_def)
  from gc_without_digests[where Ws = "\<lambda>i. demo_world" and clock = "\<lambda>i. 0" and S = demo_settings, OF a c bare_config[of open_daemon demo_start] w b] show ?thesis
    unfolding t append_Nil by blast
qed

end
