(* ===== verification/Logging.thy ===== *)
theory Logging
  imports Py_Json_File
begin

text \<open>
  \<open>shared/logging.py\<close>: log records as JSON lines. The logger \<open>buncker\<close> is its level and its handlers;
  a handler writes to a file or to the standard error. The loggers below it pass their records on to
  it. What \<open>logging\<close> does with a record (the check of the extra fields, the levels, the terminator)
  is that of the standard library.
\<close>

section \<open>Records\<close>

record log_record =
  lr_name :: string
  lr_level :: int
  lr_message :: string
  lr_extra :: dict

text \<open>The attributes of a record, \<open>_EXTRA_DEFAULTS\<close>.\<close>

definition EXTRA_DEFAULTS :: "string list" where
  "EXTRA_DEFAULTS = [''name'', ''msg'', ''args'', ''levelname'', ''levelno'', ''pathname'', ''filename'', ''module'', ''exc_info'',
     ''exc_text'', ''stack_info'', ''lineno'', ''funcName'', ''created'', ''msecs'', ''relativeCreated'', ''thread'', ''threadName'',
     ''processName'', ''process'', ''taskName'']"

definition LEVELS :: "(string \<times> int) list" where
  "LEVELS = [(''CRITICAL'', 50), (''FATAL'', 50), (''ERROR'', 40), (''WARN'', 30), (''WARNING'', 30), (''INFO'', 20), (''DEBUG'', 10), (''NOTSET'', 0)]"

definition level_name :: "int \<Rightarrow> string" where
  "level_name n =
     (if n = 50 then ''CRITICAL'' else if n = 40 then ''ERROR'' else if n = 30 then ''WARNING'' else if n = 20 then ''INFO''
      else if n = 10 then ''DEBUG'' else if n = 0 then ''NOTSET'' else ''Level '' @ int_str n)"

text \<open>An extra field that is an attribute of every record is refused.\<close>

definition overwrites :: "string \<Rightarrow> bool" where
  "overwrites key = (key \<in> {''message'', ''asctime''} \<or> key \<in> set EXTRA_DEFAULTS)"

definition make_record :: "string \<Rightarrow> int \<Rightarrow> string \<Rightarrow> dict \<Rightarrow> log_record res" where
  "make_record logger level m extra =
     (case find overwrites (dkeys extra) of
        Some key \<Rightarrow> Inl (PyError ''KeyError'' (''Attempt to overwrite '' @ repr_str key @ '' in LogRecord''))
      | None \<Rightarrow> Inr \<lparr>lr_name = logger, lr_level = level, lr_message = m, lr_extra = extra\<rparr>)"

text \<open>The entry of a record: its own fields first, then the extra ones, which may replace them.\<close>

definition log_entry :: "instant \<Rightarrow> log_record \<Rightarrow> dict" where
  "log_entry now r =
     foldl (\<lambda>entry (key, v). if key \<notin> set EXTRA_DEFAULTS \<and> key \<notin> {''message'', ''msg'', ''args''} then dset entry key v else entry)
       [(''ts'', PStr (isoformat now)), (''event'', PStr (lr_message r)), (''level'', PStr (level_name (lr_level r))), (''logger'', PStr (lr_name r))]
       (lr_extra r)"

definition format_record :: "instant \<Rightarrow> log_record \<Rightarrow> string" where
  "format_record now r = json_dumps False (PDict (log_entry now r))"

section \<open>The logger\<close>

datatype log_sink = LogFile string | Stderr

record log_handler =
  lh_sink :: log_sink
  lh_level :: int

record logging =
  lg_level :: int
  lg_handlers :: "log_handler list"
  lg_files :: "(string \<times> bytes) list"
  lg_stderr :: bytes

text \<open>\<open>logging._checkLevel\<close>.\<close>

definition check_level :: "pyval \<Rightarrow> int res" where
  "check_level level =
     (case level of
        PInt n \<Rightarrow> Inr n
      | PBool b \<Rightarrow> Inr (if b then 1 else 0)
      | PStr s \<Rightarrow> (case dget LEVELS s of Some n \<Rightarrow> Inr n | None \<Rightarrow> Inl (value_error (''Unknown level: '' @ repr_str s)))
      | v \<Rightarrow> Inl (type_error (''Level not an integer or a valid string: '' @ repr v)))"

text \<open>Opening a file for appending creates it.\<close>

definition open_append :: "string \<Rightarrow> (string \<times> bytes) list \<Rightarrow> (string \<times> bytes) list" where
  "open_append p files = (case dget files p of None \<Rightarrow> dset files p [] | Some b \<Rightarrow> files)"

definition setup_logging :: "pyval \<Rightarrow> string option \<Rightarrow> logging \<Rightarrow> unit res \<times> logging" where
  "setup_logging level output_path L =
     (case check_level level of
        Inl e \<Rightarrow> (Inl e, L)
      | Inr n \<Rightarrow>
          (Inr (),
           L\<lparr>lg_level := n,
             lg_handlers := (case output_path of None \<Rightarrow> [] | Some p \<Rightarrow> [\<lparr>lh_sink = LogFile p, lh_level = n\<rparr>])
               @ [\<lparr>lh_sink = Stderr, lh_level = 40\<rparr>],
             lg_files := (case output_path of None \<Rightarrow> lg_files L | Some p \<Rightarrow> open_append p (lg_files L))\<rparr>))"

definition get_logger :: "string \<Rightarrow> string" where
  "get_logger name = ''buncker.'' @ name"

definition log_line :: "instant \<Rightarrow> log_record \<Rightarrow> bytes" where
  "log_line now r = py_encode (format_record now r) @ [CHR 0x0A]"

definition emit :: "instant \<Rightarrow> log_record \<Rightarrow> log_handler \<Rightarrow> logging \<Rightarrow> logging" where
  "emit now r h L =
     (if lr_level r < lh_level h then L
      else case lh_sink h of
        LogFile p \<Rightarrow> L\<lparr>lg_files := dset (lg_files L) p (dget_or (lg_files L) p [] @ log_line now r)\<rparr>
      | Stderr \<Rightarrow> L\<lparr>lg_stderr := lg_stderr L @ log_line now r\<rparr>)"

text \<open>The level in effect: a logger without one of its own asks the root, which stands at WARNING.\<close>

definition effective_level :: "logging \<Rightarrow> int" where
  "effective_level L = (if lg_level L = 0 then 30 else lg_level L)"

definition log_event :: "instant \<Rightarrow> string \<Rightarrow> int \<Rightarrow> string \<Rightarrow> dict \<Rightarrow> logging \<Rightarrow> unit res \<times> logging" where
  "log_event now logger level m extra L =
     (if level < effective_level L then (Inr (), L)
      else case make_record logger level m extra of
        Inl e \<Rightarrow> (Inl e, L)
      | Inr r \<Rightarrow> (Inr (), foldl (\<lambda>L h. emit now r h L) L (lg_handlers L)))"

end
