(* ===== verification/Logging_Props.thy ===== *)
theory Logging_Props
  imports Logging Handler_Props
begin

text \<open>
  What is logged is read: the lines a configured logger writes into its file are the entries the log
  query of the daemon finds there.
\<close>

declare map_of_eq_Some_iff [simp del] json_dumps.simps [simp del]

section \<open>The file of a logger\<close>

text \<open>An event as the program gives it: the time, the logger, the level, the message and the extra fields.\<close>

type_synonym event = "instant \<times> string \<times> int \<times> string \<times> dict"

fun log_all :: "event list \<Rightarrow> logging \<Rightarrow> unit res \<times> logging" where
  "log_all [] L = (Inr (), L)"
| "log_all ((now, logger, level, m, extra) # es) L =
     (case log_event now logger level m extra L of
        (x, L) \<Rightarrow> (case x of Inl e \<Rightarrow> (Inl e, L) | Inr _ \<Rightarrow> log_all es L))"

definition event_dict :: "event \<Rightarrow> dict" where
  "event_dict = (\<lambda>(now, logger, level, m, extra). log_entry now \<lparr>lr_name = logger, lr_level = level, lr_message = m, lr_extra = extra\<rparr>)"

definition event_message :: "event \<Rightarrow> string" where
  "event_message = (\<lambda>(now, logger, level, m, extra). m)"

definition recorded :: "int \<Rightarrow> event \<Rightarrow> bool" where
  "recorded n = (\<lambda>(now, logger, level, m, extra). (if n = 0 then 30 else n) \<le> level)"

definition event_text :: "event \<Rightarrow> string" where
  "event_text e = json_dumps False (PDict (event_dict e))"

definition log_text :: "event list \<Rightarrow> string" where
  "log_text es = concat (map (\<lambda>e. event_text e @ [CHR 0x0A]) es)"

text \<open>A logger as \<open>setup_logging\<close> leaves it for a file.\<close>

definition logs_to :: "string \<Rightarrow> int \<Rightarrow> logging \<Rightarrow> bool" where
  "logs_to p n L = (lg_level L = n \<and> lg_handlers L = [\<lparr>lh_sink = LogFile p, lh_level = n\<rparr>, \<lparr>lh_sink = Stderr, lh_level = 40\<rparr>])"

lemma py_encode_append: "py_encode (s @ t) = py_encode s @ py_encode t"
  by (simp add: py_encode_def)

lemma emit_keeps: "lg_level (emit now r h L) = lg_level L" "lg_handlers (emit now r h L) = lg_handlers L"
  by (simp_all add: emit_def split: log_sink.split)

lemma emit_file:
  "lh_sink h = LogFile p \<Longrightarrow> dget (lg_files L) p = Some b \<Longrightarrow>
     dget (lg_files (emit now r h L)) p = Some (if lr_level r < lh_level h then b else b @ log_line now r)"
  by (simp add: emit_def dget_or_def)

lemma emit_stderr: "lh_sink h = Stderr \<Longrightarrow> lg_files (emit now r h L) = lg_files L"
  by (simp add: emit_def)

lemma event_recorded:
  assumes "log_event now logger level m extra L = (Inr (), L')" "logs_to p n L" "dget (lg_files L) p = Some (py_encode t)"
    and e: "e = (now, logger, level, m, extra)"
  shows "logs_to p n L' \<and> dget (lg_files L') p = Some (py_encode (t @ (if recorded n e then log_text [e] else [])))"
proof -
  have lv: "level < effective_level L \<longleftrightarrow> \<not> recorded n e" "recorded n e \<Longrightarrow> \<not> level < n"
    using assms(2) by (auto simp: recorded_def e logs_to_def effective_level_def split: if_splits)
  show ?thesis
  proof (cases "recorded n e")
    case True
    let ?r = "\<lparr>lr_name = logger, lr_level = level, lr_message = m, lr_extra = extra\<rparr>"
    have "L' = foldl (\<lambda>L h. emit now ?r h L) L (lg_handlers L)"
      using assms(1) lv True by (auto simp: log_event_def make_record_def split: option.splits)
    then have L': "L' = emit now ?r \<lparr>lh_sink = Stderr, lh_level = 40\<rparr> (emit now ?r \<lparr>lh_sink = LogFile p, lh_level = n\<rparr> L)"
      using assms(2) by (simp add: logs_to_def)
    have "py_encode [CHR 0x0A] = [CHR 0x0A]" by code_simp
    then have "log_line now ?r = py_encode (log_text [e])"
      by (simp add: log_line_def format_record_def log_text_def event_text_def event_dict_def e py_encode_append)
    with lv(2)[OF True] True assms(2,3) show ?thesis by (simp add: L' logs_to_def emit_keeps emit_stderr emit_file py_encode_append)
  next
    case False
    then have "L' = L" using assms(1) lv(1) by (simp add: log_event_def)
    with False assms(2,3) show ?thesis by simp
  qed
qed

lemma all_recorded:
  "log_all es L = (Inr (), L') \<Longrightarrow> logs_to p n L \<Longrightarrow> dget (lg_files L) p = Some (py_encode t) \<Longrightarrow>
     dget (lg_files L') p = Some (py_encode (t @ log_text (filter (recorded n) es)))"
proof (induction es arbitrary: L t)
  case Nil
  then show ?case by (simp add: log_text_def)
next
  case (Cons e es)
  obtain now logger level m extra where e: "e = (now, logger, level, m, extra)" by (cases e)
  obtain x L1 where x: "log_event now logger level m extra L = (x, L1)" by fastforce
  have "x = Inr () \<and> log_all es L1 = (Inr (), L')" using Cons.prems(1) unfolding e log_all.simps x prod.case by (cases x) simp_all
  then have l: "log_event now logger level m extra L = (Inr (), L1)" "log_all es L1 = (Inr (), L')" using x by blast+
  define u where "u = (if recorded n e then log_text [e] else [])"
  have "logs_to p n L1 \<and> dget (lg_files L1) p = Some (py_encode (t @ u))"
    unfolding u_def by (rule event_recorded[OF l(1) Cons.prems(2,3) e])
  then have "dget (lg_files L') p = Some (py_encode ((t @ u) @ log_text (filter (recorded n) es)))"
    using Cons.IH[OF l(2)] by blast
  moreover have "(t @ u) @ log_text (filter (recorded n) es) = t @ log_text (filter (recorded n) (e # es))"
    by (simp add: u_def log_text_def)
  ultimately show ?case by (simp only:)
qed

section \<open>The lines of the file\<close>

lemma log_entry_keys:
  assumes "wf_json (PDict extra)"
  shows "wf_json (PDict (log_entry now \<lparr>lr_name = logger, lr_level = level, lr_message = m, lr_extra = extra\<rparr>))"
proof -
  have "wf_json (PDict d) \<Longrightarrow> \<forall>(k, v) \<in> set xs. wf_json v \<Longrightarrow>
      wf_json (PDict (foldl (\<lambda>entry (key, v). if key \<notin> set EXTRA_DEFAULTS \<and> key \<notin> {''message'', ''msg'', ''args''} then dset entry key v else entry) d xs))"
    for d xs
  proof (induction xs arbitrary: d)
    case (Cons x xs)
    obtain k v where x: "x = (k, v)" by (cases x)
    have "wf_json (PDict (dset d k v))" using Cons.prems by (intro wf_dset) (auto simp: x)
    then show ?case using Cons by (simp add: x del: wf_json.simps)
  qed simp
  moreover have "wf_json (PDict [(''ts'', PStr a), (''event'', PStr b), (''level'', PStr c), (''logger'', PStr d)])" for a b c d by simp
  moreover have "\<forall>(k, v) \<in> set extra. wf_json v" using assms by (auto simp: list_all_iff)
  ultimately show ?thesis by (simp add: log_entry_def del: wf_json.simps)
qed

lemma strip_dict: "wf_json (PDict d) \<Longrightarrow> strip (json_dumps False (PDict d)) = json_dumps False (PDict d)"
proof -
  have "json_dumps False (PDict d) \<noteq> []" "hd (json_dumps False (PDict d)) = CHR ''{''" "last (json_dumps False (PDict d)) = CHR ''}''"
    by (simp_all add: json_dumps.simps Let_def)
  moreover have "\<not> is_space CHR ''{''" "\<not> is_space CHR ''}''" by code_simp+
  ultimately show ?thesis by (intro strip_by_id) simp_all
qed

lemma split_log: "\<forall>e \<in> set es. CHR 0x0A \<notin> set (event_text e) \<Longrightarrow> split_on CHR 0x0A (log_text es) = map event_text es @ [[]]"
  by (induction es) (auto simp: log_text_def split_on_append)

text \<open>The filter on the event, and what it lets through.\<close>

definition matching :: "string option \<Rightarrow> event \<Rightarrow> bool" where
  "matching event_filter e = (case event_filter of None \<Rightarrow> True | Some m \<Rightarrow> event_message e = m)"

lemma entry_event:
  assumes "''event'' \<notin> set (dkeys extra)"
  shows "dget (log_entry now \<lparr>lr_name = logger, lr_level = level, lr_message = m, lr_extra = extra\<rparr>) ''event'' = Some (PStr m)"
proof -
  have h: "\<forall>(k, v) \<in> set xs. k \<noteq> ''event'' \<Longrightarrow>
      dget (foldl (\<lambda>entry (key, v). if key \<notin> set EXTRA_DEFAULTS \<and> key \<notin> {''message'', ''msg'', ''args''} then dset entry key v else entry) d xs) ''event''
        = dget d ''event''" for d xs
    by (induction xs arbitrary: d) (auto split: prod.splits)
  have "\<forall>(k, v) \<in> set extra. k \<noteq> ''event''" using assms by (force simp: image_iff)
  from h[OF this] show ?thesis by (simp add: log_entry_def)
qed

lemma event_line:
  assumes "wf_json (PDict (event_dict e))"
  shows "strip (event_text e) = event_text e" "json_loads (event_text e) = Inr (PDict (event_dict e))"
  unfolding event_text_def using strip_dict[OF assms] json_loads_dumps[OF assms] by simp_all

lemma passing_event:
  assumes "wf_json (PDict (event_dict e))" "dget (event_dict e) ''event'' = Some (PStr (event_message e))"
  shows "passing event_filter None (event_text e) = (if matching event_filter e then Some (PDict (event_dict e)) else None)"
proof -
  have "event_text e \<noteq> []" by (simp add: event_text_def json_dumps.simps Let_def)
  then show ?thesis using assms(2)
    by (simp add: event_line[OF assms(1)] passing_def entry_passes_def matching_def vget_def dget_or_def split: option.split)
qed

lemma log_entries_total:
  "\<forall>l \<in> set ls. strip l = [] \<or> (\<exists>d. json_loads (strip l) = Inr (PDict d)) \<Longrightarrow> \<exists>es. log_entries event_filter None limit taken ls = Inr es"
proof (induction ls arbitrary: taken)
  case (Cons l ls)
  have ls: "\<And>k. \<exists>es. log_entries event_filter None limit k ls = Inr es" using Cons by simp
  show ?case
  proof (cases "strip l = []")
    case False
    then obtain d where d: "json_loads (strip l) = Inr (PDict d)" using Cons.prems by auto
    have b: "entry_passes event_filter None (PDict d) = Inr (case event_filter of None \<Rightarrow> True | Some m \<Rightarrow> dget_or d ''event'' PNone = PStr m)"
      by (cases event_filter) (simp_all add: entry_passes_def vget_def)
    show ?thesis using False d b ls[of taken] ls[of "Suc taken"] by auto
  qed (use ls in simp)
qed simp

section \<open>What is logged is read\<close>

lemma logged_lines:
  assumes "setup_logging level (Some p) L = (Inr (), L0)" "dget (lg_files L) p = None" "check_level level = Inr n"
    and "log_all es L0 = (Inr (), L1)"
  shows "dget (lg_files L1) p = Some (py_encode (log_text (filter (recorded n) es)))"
proof -
  have "logs_to p n L0" "dget (lg_files L0) p = Some (py_encode [])"
    using assms(1,2,3) by (auto simp: setup_logging_def logs_to_def open_append_def)
  from all_recorded[OF assms(4) this] show ?thesis by simp
qed

text \<open>
  C22. The events that a freshly configured logger accepts are what the log query of the daemon gives for
  its file: each at or above the level, in the order they were logged, with its time, message, level,
  logger and extra fields, filtered by the message asked for and cut at the limit.
\<close>

theorem logged_events_read:
  assumes "setup_logging level (Some p) L = (Inr (), L0)" "dget (lg_files L) p = None" "check_level level = Inr n"
    and "log_all es L0 = (Inr (), L1)"
    and extras: "\<forall>(now, logger, lvl, m, extra) \<in> set es. wf_json (PDict extra) \<and> ''event'' \<notin> set (dkeys extra)"
    and "wd_log W = dget (lg_files L1) p"
  shows "read_log W event_filter None limit =
     Inr (send_json 200 (PList (take (max 1 (nat limit))
       (map (\<lambda>e. PDict (event_dict e)) (filter (\<lambda>e. recorded n e \<and> matching event_filter e) es)))))"
proof -
  let ?es = "filter (recorded n) es"
  have ok: "wf_json (PDict (event_dict e)) \<and> dget (event_dict e) ''event'' = Some (PStr (event_message e))" if "e \<in> set ?es" for e
  proof -
    obtain now logger lvl m extra where e: "e = (now, logger, lvl, m, extra)" by (cases e)
    then have "wf_json (PDict extra)" "''event'' \<notin> set (dkeys extra)" using extras that by auto
    then show ?thesis using log_entry_keys entry_event by (simp add: e event_dict_def event_message_def del: wf_json.simps)
  qed
  have "CHR 0x0A \<notin> set (event_text e)" if "e \<in> set ?es" for e
    unfolding event_text_def using no_control_dumps[OF control_cr(2)] ok[OF that] by blast
  then have sp: "split_on CHR 0x0A (log_text ?es) = map event_text ?es @ [[]]" by (intro split_log) blast
  have cr: "CHR 0x0D \<notin> set (log_text ?es)"
    using no_control_dumps[OF control_cr(1)] ok by (auto simp: log_text_def event_text_def)
  have rt: "read_text (py_encode (log_text ?es)) = Inr (log_text ?es)" by (simp add: read_text_def universal_newlines_id cr)
  have sn: "strip [] = []" by code_simp
  have "\<forall>l \<in> set (map event_text ?es @ [[]]). strip l = [] \<or> (\<exists>d. json_loads (strip l) = Inr (PDict d))"
    using sn by (auto simp: event_line ok simp del: wf_json.simps)
  then obtain entries where en: "log_entries event_filter None limit 0 (map event_text ?es @ [[]]) = Inr entries"
    using log_entries_total by blast
  have nil: "passing event_filter None [] = None" by (simp add: passing_def sn)
  have mf: "List.map_filter (passing event_filter None) (map event_text xs) = map (\<lambda>e. PDict (event_dict e)) (filter (matching event_filter) xs)"
    if "set xs \<subseteq> set ?es" for xs
    using that
  proof (induction xs)
    case (Cons e xs)
    then have "passing event_filter None (event_text e) = (if matching event_filter e then Some (PDict (event_dict e)) else None)"
      using passing_event[of e] ok[of e] by simp
    with Cons show ?case by (simp add: map_filter_simps del: filter_set)
  qed (simp add: map_filter_simps)
  have "List.map_filter (passing event_filter None) (map event_text ?es @ [[]])
      = map (\<lambda>e. PDict (event_dict e)) (filter (matching event_filter) ?es)"
    using mf[OF subset_refl] by (simp add: List.map_filter_def nil)
  with log_entries_take[OF en] have "entries = take (max 1 (nat limit)) (map (\<lambda>e. PDict (event_dict e)) (filter (matching event_filter) ?es))"
    by simp
  moreover have "wd_log W = Some (py_encode (log_text ?es))" using assms(6) logged_lines[OF assms(1-4)] by simp
  ultimately show ?thesis by (simp add: read_log_def rt sp en conj_commute)
qed

definition demo_events :: "event list" where
  "demo_events = [(5, get_logger ''server'', 20, ''server_started'', [(''port'', PInt 5000)]), (6, get_logger ''x'', 10, ''quiet'', []),
     (7, get_logger ''handler'', 30, ''rate_limited'', [(''client_ip'', PStr ''::1'')])]"

definition quiet_logger :: logging where
  "quiet_logger = \<lparr>lg_level = 0, lg_handlers = [], lg_files = [], lg_stderr = []\<rparr>"

theorem logged_events_read_witness:
  "\<exists>L0 L1. setup_logging (PStr ''INFO'') (Some ''l'') quiet_logger = (Inr (), L0) \<and> log_all demo_events L0 = (Inr (), L1)
     \<and> read_log (demo_world\<lparr>wd_log := dget (lg_files L1) ''l''\<rparr>) (Some ''rate_limited'') None 9
         = Inr (send_json 200 (PList [PDict (event_dict (demo_events ! 2))]))"
proof -
  obtain L0 where s: "setup_logging (PStr ''INFO'') (Some ''l'') quiet_logger = (Inr (), L0)"
    by (simp add: setup_logging_def check_level_def LEVELS_def)
  have n: "dget (lg_files quiet_logger) ''l'' = None" "check_level (PStr ''INFO'') = Inr 20"
    by (simp_all add: quiet_logger_def check_level_def LEVELS_def)
  have h: "effective_level L0 = 20" using s by (auto simp: setup_logging_def check_level_def LEVELS_def effective_level_def)
  have a: "effective_level (emit t r k L) = effective_level L" for t r k L by (simp add: effective_level_def emit_keeps)
  have b: "effective_level (foldl (\<lambda>L k. emit t r k L) L ks) = effective_level L" for t r ks L
    by (induction ks arbitrary: L) (simp_all add: a)
  have m: "make_record l v m [] = Inr \<lparr>lr_name = l, lr_level = v, lr_message = m, lr_extra = []\<rparr>"
    "make_record l v m [(''port'', PInt 5000)] = Inr \<lparr>lr_name = l, lr_level = v, lr_message = m, lr_extra = [(''port'', PInt 5000)]\<rparr>"
    "make_record l v m [(''client_ip'', PStr ''::1'')] = Inr \<lparr>lr_name = l, lr_level = v, lr_message = m, lr_extra = [(''client_ip'', PStr ''::1'')]\<rparr>"
    for l v m by (simp_all add: make_record_def overwrites_def EXTRA_DEFAULTS_def)
  obtain L1 where l: "log_all demo_events L0 = (Inr (), L1)"
    by (simp add: demo_events_def log_event_def h b m)
  have x: "\<forall>(now, logger, lvl, m, extra) \<in> set demo_events. wf_json (PDict extra) \<and> ''event'' \<notin> set (dkeys extra)"
    by (simp add: demo_events_def wf_small_int del: wf_json.simps(2))
  have w: "wd_log (demo_world\<lparr>wd_log := dget (lg_files L1) ''l''\<rparr>) = dget (lg_files L1) ''l''" by simp
  have f: "filter (\<lambda>e. recorded 20 e \<and> matching (Some ''rate_limited'') e) demo_events = [demo_events ! 2]"
    by (simp add: demo_events_def recorded_def matching_def event_message_def)
  from logged_events_read[OF s n l x w, of "Some ''rate_limited''" 9] s l show ?thesis unfolding f by auto
qed

end
