(* ===== verification/Server_Pool.thy ===== *)
theory Server_Pool
  imports Py_Errors "HOL-Library.Multiset"
begin

text \<open>
  \<open>buncker/server.py\<close>: the bounded server and its end. A connection the listening loop accepts is
  submitted to a pool of at most \<open>max_workers\<close> threads, which take the oldest submission first. To
  stop, the loop ends, the pool takes no more, what is queued is cancelled and what runs is waited
  for. The pool is that of the standard library; the events are what its threads may do, in any order.
\<close>

record pool =
  pl_max :: nat
  pl_accepting :: bool
  pl_shutdown :: bool
  pl_queue :: "nat list"
  pl_running :: "nat list"
  pl_started :: "nat list"
  pl_answered :: "nat list"
  pl_cancelled :: "nat list"

definition new_pool :: "nat \<Rightarrow> pool" where
  "new_pool max_workers = \<lparr>pl_max = max_workers, pl_accepting = True, pl_shutdown = False, pl_queue = [], pl_running = [],
     pl_started = [], pl_answered = [], pl_cancelled = []\<rparr>"

text \<open>\<open>process_request\<close> of the server: one submission.\<close>

definition submit_request :: "nat \<Rightarrow> pool \<Rightarrow> pool res" where
  "submit_request c p =
     (if pl_shutdown p then Inl (PyError ''RuntimeError'' ''cannot schedule new futures after shutdown'')
      else Inr (p\<lparr>pl_queue := pl_queue p @ [c]\<rparr>))"

text \<open>\<open>shutdown\<close> ends the loop that accepts.\<close>

definition end_loop :: "pool \<Rightarrow> pool" where
  "end_loop p = p\<lparr>pl_accepting := False\<rparr>"

text \<open>\<open>server_close\<close>, up to the waiting.\<close>

definition close_pool :: "pool \<Rightarrow> pool" where
  "close_pool p = p\<lparr>pl_shutdown := True, pl_cancelled := pl_cancelled p @ pl_queue p, pl_queue := []\<rparr>"

text \<open>\<open>stop\<close>: what it does before it waits for the requests that run.\<close>

definition stop_server :: "pool \<Rightarrow> pool" where
  "stop_server p = close_pool (end_loop p)"

datatype pool_event = Arrives nat | Starts | Ends nat | Stop

text \<open>
  What the pool of the standard library does with its submissions: the oldest is taken first, by one of at most
  \<open>max_workers\<close> threads. An event that is not possible in a state has no result.
\<close>

fun pool_do :: "pool_event \<Rightarrow> pool \<Rightarrow> pool option" where
  "pool_do (Arrives c) p =
     (if pl_accepting p then (case submit_request c p of Inl e \<Rightarrow> Some p | Inr p \<Rightarrow> Some p) else None)"
| "pool_do Starts p =
     (case pl_queue p of
        [] \<Rightarrow> None
      | c # cs \<Rightarrow>
          if length (pl_running p) < pl_max p
          then Some (p\<lparr>pl_queue := cs, pl_running := pl_running p @ [c], pl_started := pl_started p @ [c]\<rparr>) else None)"
| "pool_do (Ends c) p =
     (if c \<in> set (pl_running p) then Some (p\<lparr>pl_running := remove1 c (pl_running p), pl_answered := pl_answered p @ [c]\<rparr>) else None)"
| "pool_do Stop p = (if pl_shutdown p then None else Some (stop_server p))"

fun pool_run :: "pool_event list \<Rightarrow> pool \<Rightarrow> pool option" where
  "pool_run [] p = Some p"
| "pool_run (e # es) p = (case pool_do e p of None \<Rightarrow> None | Some p \<Rightarrow> pool_run es p)"

fun arrivals :: "pool_event list \<Rightarrow> nat list" where
  "arrivals [] = []"
| "arrivals (Arrives c # es) = c # arrivals es"
| "arrivals (_ # es) = arrivals es"

section \<open>The invariant of a pool\<close>

definition pool_inv :: "nat list \<Rightarrow> pool \<Rightarrow> bool" where
  "pool_inv seen p =
     (length (pl_running p) \<le> pl_max p \<and> seen = pl_started p @ pl_queue p @ pl_cancelled p
      \<and> mset (pl_started p) = mset (pl_running p) + mset (pl_answered p)
      \<and> (pl_shutdown p \<longrightarrow> \<not> pl_accepting p \<and> pl_queue p = []) \<and> (\<not> pl_shutdown p \<longrightarrow> pl_accepting p \<and> pl_cancelled p = []))"

lemma pool_inv_new: "pool_inv [] (new_pool n)"
  by (simp add: pool_inv_def new_pool_def)

lemmas pool_defs = pool_inv_def submit_request_def stop_server_def close_pool_def end_loop_def

lemma pool_inv_step: "pool_inv seen p \<Longrightarrow> pool_do e p = Some p' \<Longrightarrow> pool_inv (seen @ arrivals [e]) p' \<and> pl_max p' = pl_max p"
  by (cases e) (auto simp: pool_defs length_remove1 split: if_splits list.splits)

lemma pool_inv_run: "pool_inv seen p \<Longrightarrow> pool_run es p = Some p' \<Longrightarrow> pool_inv (seen @ arrivals es) p' \<and> pl_max p' = pl_max p"
proof (induction es arbitrary: seen p)
  case (Cons e es)
  then obtain q where q: "pool_do e p = Some q" "pool_run es q = Some p'" by (auto split: option.splits)
  have "arrivals (e # es) = arrivals [e] @ arrivals es" by (cases e) simp_all
  with pool_inv_step[OF Cons.prems(1) q(1)] Cons.IH[OF _ q(2)] show ?case by fastforce
qed simp

section \<open>Stopping\<close>

lemma ends_all: "mset cs = mset (pl_running p) \<Longrightarrow>
    pool_run (map Ends cs) p = Some (p\<lparr>pl_running := [], pl_answered := pl_answered p @ cs\<rparr>)"
proof (induction cs arbitrary: p)
  case (Cons c cs)
  have c: "c \<in> set (pl_running p)" using Cons.prems by (metis list.set_intros(1) mset_eq_setD)
  have "mset cs = mset (remove1 c (pl_running p))" using Cons.prems by (simp add: mset_remove1) (metis add_mset_remove_trivial)
  with c Cons.IH[of "p\<lparr>pl_running := remove1 c (pl_running p), pl_answered := pl_answered p @ [c]\<rparr>"] show ?case by simp
qed simp

lemma remove1_Suc: "x \<in> set xs \<Longrightarrow> Suc (length (remove1 x xs)) = length xs"
  by (induction xs) auto

lemma stopped_step:
  "pool_do e p = Some p' \<Longrightarrow> pl_shutdown p \<Longrightarrow> \<not> pl_accepting p \<Longrightarrow> pl_queue p = [] \<Longrightarrow>
     (\<exists>c. e = Ends c) \<and> length (pl_running p) = Suc (length (pl_running p')) \<and> pl_shutdown p' \<and> \<not> pl_accepting p' \<and> pl_queue p' = []"
  by (cases e) (auto simp: remove1_Suc split: if_splits)

lemma stopped_run:
  "pool_run es p = Some p' \<Longrightarrow> pl_shutdown p \<Longrightarrow> \<not> pl_accepting p \<Longrightarrow> pl_queue p = [] \<Longrightarrow>
     length es + length (pl_running p') = length (pl_running p)"
proof (induction es arbitrary: p)
  case (Cons e es)
  then obtain q where q: "pool_do e p = Some q" "pool_run es q = Some p'" by (auto split: option.splits)
  from stopped_step[OF q(1) Cons.prems(2-4)] Cons.IH[OF q(2)] show ?case by auto
qed simp

text \<open>
  C21. A server that is stopped comes to an end: whatever its threads then do takes at most as many
  events as requests were running, in whichever order they end, and at the end each of those has been
  answered. The connections that were waiting are dropped, with no answer.
\<close>

theorem pool_stops:
  assumes "pool_run es (new_pool n) = Some p" "\<not> pl_shutdown p"
  shows "\<exists>q. pool_do Stop p = Some q \<and> pl_running q = pl_running p \<and> pl_cancelled q = pl_queue p
    \<and> (\<forall>fs r. pool_run fs q = Some r \<longrightarrow> length fs \<le> length (pl_running p))
    \<and> (\<forall>cs. mset cs = mset (pl_running p) \<longrightarrow> (\<exists>r. pool_run (map Ends cs) q = Some r \<and> pl_running r = []
         \<and> pl_answered r = pl_answered p @ cs \<and> pl_cancelled r = pl_queue p))"
proof -
  let ?q = "stop_server p"
  have i: "pl_cancelled p = []" using pool_inv_run[OF pool_inv_new assms(1)] assms(2) by (simp add: pool_inv_def)
  have q: "pool_do Stop p = Some ?q" "pl_shutdown ?q" "\<not> pl_accepting ?q" "pl_queue ?q = []" "pl_running ?q = pl_running p"
    "pl_answered ?q = pl_answered p" "pl_cancelled ?q = pl_queue p"
    using assms(2) i by (simp_all add: stop_server_def close_pool_def end_loop_def)
  have "length fs \<le> length (pl_running p)" if "pool_run fs ?q = Some r" for fs r
    using stopped_run[OF that q(2-4)] q(5) by simp
  moreover have "\<exists>r. pool_run (map Ends cs) ?q = Some r \<and> pl_running r = [] \<and> pl_answered r = pl_answered p @ cs \<and> pl_cancelled r = pl_queue p"
    if "mset cs = mset (pl_running p)" for cs
    using ends_all[of cs ?q] that q(5-7) by simp
  ultimately show ?thesis using q by blast
qed

theorem pool_stops_witness:
  "\<exists>p q r. pool_run [Arrives 1, Arrives 2, Starts] (new_pool 1) = Some p \<and> pool_do Stop p = Some q \<and> pool_run [Ends 1] q = Some r
     \<and> pl_running r = [] \<and> pl_answered r = [1] \<and> pl_cancelled r = [2]"
proof -
  obtain p where p: "pool_run [Arrives 1, Arrives 2, Starts] (new_pool 1) = Some p" "\<not> pl_shutdown p" "pl_running p = [1]"
    "pl_queue p = [2]" "pl_answered p = []"
    by (simp add: new_pool_def submit_request_def)
  have m: "mset [1] = mset (pl_running p)" by (simp add: p(3))
  from pool_stops[OF p(1,2)] obtain q where q: "pool_do Stop p = Some q"
    "\<forall>cs. mset cs = mset (pl_running p) \<longrightarrow> (\<exists>r. pool_run (map Ends cs) q = Some r \<and> pl_running r = []
         \<and> pl_answered r = pl_answered p @ cs \<and> pl_cancelled r = pl_queue p)" by blast
  then obtain r where "pool_run (map Ends [1]) q = Some r" "pl_running r = []" "pl_answered r = pl_answered p @ [1]" "pl_cancelled r = pl_queue p"
    using m by blast
  with p(1,4,5) q(1) show ?thesis by auto
qed

end
