(* ===== verification/Certificates.thy ===== *)
theory Certificates
  imports Server_Start
begin

text \<open>
  \<open>generate_self_signed_cert\<close> of \<open>buncker/auth.py\<close>: the two certificates \<open>api-setup\<close> makes, as the
  fields the code gives to the builder. Keys are opaque, a public key is named by its private key; the
  encoding of a signed certificate and of a key is the library's, a parameter, and the library may
  refuse. The random serial numbers are arguments.
\<close>

section \<open>Certificates\<close>

type_synonym name = "(string \<times> string) list"

datatype 'k extension =
    BasicConstraints bool "nat option"
  | KeyUsage "(string \<times> bool) list"
  | SubjectKeyIdentifier 'k
  | AuthorityKeyIdentifier 'k
  | SubjectAlternativeName "string list" "string list"

record 'k certificate =
  cf_subject :: name
  cf_issuer :: name
  cf_public_key :: 'k
  cf_serial :: nat
  cf_not_before :: instant
  cf_not_after :: instant
  cf_extensions :: "('k extension \<times> bool) list"
  cf_signed_by :: 'k

record 'k x509 =
  xl_sign :: "'k certificate \<Rightarrow> bytes res"
  xl_key_pem :: "'k \<Rightarrow> bytes"
  xl_not_after :: "bytes \<Rightarrow> instant res"

definition CA_NAME :: name where
  "CA_NAME = [(''CN'', ''Buncker CA''), (''O'', ''Buncker'')]"

definition SERVER_NAME :: name where
  "SERVER_NAME = [(''CN'', ''buncker''), (''O'', ''Buncker'')]"

definition ten_years :: nat where
  "ten_years = 3650 * 86400000000"

definition CA_USAGE :: "(string \<times> bool) list" where
  "CA_USAGE = [(''digital_signature'', False), (''content_commitment'', False), (''key_encipherment'', False), (''data_encipherment'', False),
     (''key_agreement'', False), (''key_cert_sign'', True), (''crl_sign'', True), (''encipher_only'', False), (''decipher_only'', False)]"

definition ca_certificate :: "instant \<Rightarrow> 'k \<Rightarrow> nat \<Rightarrow> 'k certificate" where
  "ca_certificate now ca_key serial =
     \<lparr>cf_subject = CA_NAME, cf_issuer = CA_NAME, cf_public_key = ca_key, cf_serial = serial, cf_not_before = now,
      cf_not_after = now + ten_years,
      cf_extensions = [(BasicConstraints True (Some 0), True), (KeyUsage CA_USAGE, True), (SubjectKeyIdentifier ca_key, False)],
      cf_signed_by = ca_key\<rparr>"

definition server_certificate :: "instant \<Rightarrow> 'k \<Rightarrow> 'k \<Rightarrow> nat \<Rightarrow> 'k certificate" where
  "server_certificate now ca_key server_key serial =
     \<lparr>cf_subject = SERVER_NAME, cf_issuer = CA_NAME, cf_public_key = server_key, cf_serial = serial, cf_not_before = now,
      cf_not_after = now + ten_years,
      cf_extensions = [(SubjectAlternativeName [''buncker'', ''localhost''] [''127.0.0.1''], False), (AuthorityKeyIdentifier ca_key, False)],
      cf_signed_by = ca_key\<rparr>"

text \<open>\<open>now + ten_years\<close> past the end of the calendar is an error. The files are written by \<open>write_certs\<close>.\<close>

definition generate_self_signed_cert :: "'k x509 \<Rightarrow> instant \<Rightarrow> 'k \<Rightarrow> 'k \<Rightarrow> nat \<Rightarrow> nat \<Rightarrow> certificates res" where
  "generate_self_signed_cert X now ca_key server_key ca_serial server_serial =
     (if max_instant \<le> now + ten_years then Inl (PyError ''OverflowError'' ''date value out of range'')
      else
        rbind (xl_sign X (ca_certificate now ca_key ca_serial)) (\<lambda>ca_pem.
        rbind (xl_sign X (server_certificate now ca_key server_key server_serial)) (\<lambda>cert_pem.
        Inr \<lparr>ce_ca = ca_pem, ce_ca_key = xl_key_pem X ca_key, ce_cert = cert_pem, ce_key = xl_key_pem X server_key\<rparr>)))"

section \<open>What the daemon finds\<close>

text \<open>A certificate read back has its end of validity, in whole seconds.\<close>

definition x509_reads :: "'k x509 \<Rightarrow> bool" where
  "x509_reads X = (\<forall>c b. xl_sign X c = Inr b \<longrightarrow> xl_not_after X b = Inr (cf_not_after c - cf_not_after c mod 1000000))"

text \<open>One certificate vouches for another: as RFC 5280 chains them.\<close>

definition issued_by :: "'k certificate \<Rightarrow> 'k certificate \<Rightarrow> bool" where
  "issued_by c ca =
     (cf_issuer c = cf_subject ca \<and> cf_signed_by c = cf_public_key ca \<and> cf_not_before ca \<le> cf_not_before c \<and> cf_not_after c \<le> cf_not_after ca
      \<and> (\<exists>n crit. (BasicConstraints True n, crit) \<in> set (cf_extensions ca))
      \<and> (\<exists>us crit. (KeyUsage us, crit) \<in> set (cf_extensions ca) \<and> dget us ''key_cert_sign'' = Some True)
      \<and> (\<forall>k crit. (AuthorityKeyIdentifier k, crit) \<in> set (cf_extensions c) \<longrightarrow> (\<exists>crit. (SubjectKeyIdentifier k, crit) \<in> set (cf_extensions ca))))"

lemma server_issued: "issued_by (server_certificate now ca_key server_key serial) (ca_certificate now ca_key ca_serial)"
  by (auto simp: issued_by_def server_certificate_def ca_certificate_def CA_USAGE_def)

lemma no_warning_iff:
  "check_tls_cert_expiry now' (Some (Inr t)) = None \<longleftrightarrow> now' + 31 * 86400000000 \<le> t"
proof -
  define x :: int where "x = int t - int now'"
  define q r where "q = x div 86400000000" and "r = x mod 86400000000"
  have "x = 86400000000 * q + r" "0 \<le> r" "r < 86400000000" by (simp_all add: q_def r_def)
  then have "q \<le> 30 \<longleftrightarrow> x < 31 * 86400000000" by (intro iffI; linarith)
  then show ?thesis by (auto simp: check_tls_cert_expiry_def Let_def TLS_EXPIRY_WARNING_DAYS_def x_def[symmetric] q_def[symmetric]) (auto simp: x_def)
qed

text \<open>
  C40. The certificates \<open>api-setup\<close> makes: the file the server loads is issued by the one it exports,
  names the local host, and stands until ten years later; the daemon starts without a warning about it
  until thirty-one days before that moment, and with one from then on.
\<close>

theorem fresh_certificate:
  assumes "generate_self_signed_cert X now ca_key server_key ca_serial server_serial = Inr ce" "x509_reads X"
  shows "\<exists>ca cert ca_pem cert_pem. dget (ho_files (write_certs H store_path ce)) (tls_file store_path ''ca.pem'') = Some ca_pem
    \<and> dget (ho_files (write_certs H store_path ce)) (tls_file store_path ''server.pem'') = Some cert_pem
    \<and> xl_sign X ca = Inr ca_pem \<and> xl_sign X cert = Inr cert_pem \<and> issued_by cert ca \<and> issued_by ca ca
    \<and> (\<exists>ds is crit. (SubjectAlternativeName ds is, crit) \<in> set (cf_extensions cert) \<and> ''localhost'' \<in> set ds)
    \<and> (check_tls_cert_expiry now' (Some (xl_not_after X cert_pem)) = None
        \<longleftrightarrow> now' + 31 * 86400000000 \<le> now + ten_years - (now + ten_years) mod 1000000)"
proof -
  let ?ca = "ca_certificate now ca_key ca_serial" and ?cert = "server_certificate now ca_key server_key server_serial"
  obtain ca_pem cert_pem where g: "xl_sign X ?ca = Inr ca_pem" "xl_sign X ?cert = Inr cert_pem" "ce_ca ce = ca_pem" "ce_cert ce = cert_pem"
    using assms(1) by (auto simp: generate_self_signed_cert_def rbind_Inr_iff split: if_splits)
  have f: "dget (ho_files (write_certs H store_path ce)) (tls_file store_path ''ca.pem'') = Some ca_pem"
    "dget (ho_files (write_certs H store_path ce)) (tls_file store_path ''server.pem'') = Some cert_pem"
    by (simp_all add: write_certs_def put_file_def tls_file_def g)
  have na: "xl_not_after X cert_pem = Inr (now + ten_years - (now + ten_years) mod 1000000)"
    using assms(2) g(2) unfolding x509_reads_def by (force simp: server_certificate_def)
  have ca: "issued_by ?ca ?ca" by (auto simp: issued_by_def ca_certificate_def CA_USAGE_def)
  have "(SubjectAlternativeName [''buncker'', ''localhost''] [''127.0.0.1''], False) \<in> set (cf_extensions ?cert)" "''localhost'' \<in> set [''buncker'', ''localhost'']"
    by (simp_all add: server_certificate_def)
  then have san: "\<exists>ds is crit. (SubjectAlternativeName ds is, crit) \<in> set (cf_extensions ?cert) \<and> ''localhost'' \<in> set ds" by blast
  show ?thesis
    by (rule exI[of _ ?ca], rule exI[of _ ?cert], rule exI[of _ ca_pem], rule exI[of _ cert_pem])
      (intro conjI f g(1,2) server_issued ca san; simp only: na no_warning_iff)
qed

definition toy_x509 :: "nat x509" where
  "toy_x509 = \<lparr>xl_sign = (\<lambda>c. Inr (nat_str (cf_not_after c - cf_not_after c mod 1000000))), xl_key_pem = nat_str, xl_not_after = (\<lambda>b. Inr (digits_val b))\<rparr>"

theorem fresh_certificate_witness:
  "\<exists>ce pem. generate_self_signed_cert toy_x509 0 1 2 3 4 = Inr ce
     \<and> dget (ho_files (write_certs \<lparr>ho_files = [], ho_disk = \<lambda>p. (dm_offline (new_daemon (store_init (empty_disk p))), [])\<rparr> ''/s'' ce)) (tls_file ''/s'' ''server.pem'') = Some pem
     \<and> check_tls_cert_expiry 5 (Some (xl_not_after toy_x509 pem)) = None"
proof -
  have x: "x509_reads toy_x509" using nat_str_digits by (simp add: x509_reads_def toy_x509_def)
  obtain ce where g: "generate_self_signed_cert toy_x509 0 (1 :: nat) 2 3 4 = Inr ce"
    by (simp add: generate_self_signed_cert_def toy_x509_def max_instant_def ten_years_def)
  have "(5 :: nat) + 31 * 86400000000 \<le> 0 + ten_years - (0 + ten_years) mod 1000000" by (simp add: ten_years_def)
  with fresh_certificate[OF g x, of "\<lparr>ho_files = [], ho_disk = \<lambda>p. (dm_offline (new_daemon (store_init (empty_disk p))), [])\<rparr>" "''/s''" 5] g show ?thesis by blast
qed

end
