(* ===== verification/Fetcher_Props.thy ===== *)
theory Fetcher_Props
  imports Fetcher "HOL-Library.Multiset"
begin

text \<open>
  What a fetch leaves behind: every blob of the list is in the cache or reported, and nothing in
  the cache is lost or damaged.
\<close>

section \<open>One download\<close>

text \<open>The successive results of downloading one blob.\<close>

fun replies :: "('c \<Rightarrow> string \<Rightarrow> string \<Rightarrow> bytes res \<times> 'c) \<Rightarrow> 'c \<Rightarrow> string \<Rightarrow> string \<Rightarrow> nat \<Rightarrow> bytes res list" where
  "replies fetch_blob cl repository digest 0 = []"
| "replies fetch_blob cl repository digest (Suc n) =
     (case fetch_blob cl repository digest of (r, cl') \<Rightarrow> r # replies fetch_blob cl' repository digest n)"

definition good_reply :: "string \<Rightarrow> bytes res \<Rightarrow> bool" where
  "good_reply digest r = (\<exists>data. r = Inr data \<and> sha256_hex data = blob_key digest)"

definition bad_data :: "string \<Rightarrow> bytes res \<Rightarrow> bool" where
  "bad_data digest r = (\<exists>data. r = Inr data \<and> sha256_hex data \<noteq> blob_key digest)"

lemma store_blob_matching: "sha256_hex data = blob_key digest \<Longrightarrow> \<exists>p. fst (store_blob c now digest data) = Inr p"
  by (simp add: store_blob_def blob_key_def Let_def)

lemma fetch_attempts_iff:
  "fst (fetch_attempts fetch_blob n cl c now repository digest) = Inr () \<longleftrightarrow>
     (let rs = dropWhile (bad_data digest) (replies fetch_blob cl repository digest n) in rs \<noteq> [] \<and> good_reply digest (hd rs))"
proof (induction n arbitrary: cl)
  case (Suc n)
  obtain r cl' where f: "fetch_blob cl repository digest = (r, cl')" by fastforce
  show ?case
  proof (cases r)
    case (Inl e)
    then show ?thesis by (simp add: f Let_def bad_data_def good_reply_def)
  next
    case (Inr data)
    show ?thesis
    proof (cases "sha256_hex data = blob_key digest")
      case True
      obtain p c' where "store_blob c now digest data = (Inr p, c')"
        using store_blob_matching[OF True, of c now] by (metis prod.collapse)
      then show ?thesis using True by (simp add: f Inr Let_def bad_data_def good_reply_def blob_key_def)
    next
      case False
      then show ?thesis using Suc by (simp add: f Inr Let_def bad_data_def blob_key_def)
    qed
  qed
qed simp

text \<open>A client whose downloads fit in one write.\<close>

definition small_downloads :: "('c \<Rightarrow> string \<Rightarrow> string \<Rightarrow> bytes res \<times> 'c) \<Rightarrow> bool" where
  "small_downloads fetch_blob = (\<forall>cl r d data. fst (fetch_blob cl r d) = Inr data \<longrightarrow> length data \<le> max_rw_count)"

text \<open>What every step of the pool keeps of the cache.\<close>

definition grows :: "cache \<Rightarrow> cache \<Rightarrow> bool" where
  "grows c c' = (cache_inv c' \<and> (\<forall>h b. cache_bytes c h = Some b \<longrightarrow> cache_bytes c' h = Some b)
     \<and> (\<forall>h b. cache_bytes c' h = Some b \<longrightarrow> cache_bytes c h = Some b \<or> length b \<le> max_rw_count))"

lemma grows_refl: "cache_inv c \<Longrightarrow> grows c c"
  by (simp add: grows_def)

lemma grows_trans: "grows a b \<Longrightarrow> grows b c \<Longrightarrow> grows a c"
  unfolding grows_def by blast

lemma grows_has: "cache_inv c \<Longrightarrow> grows c c' \<Longrightarrow> cache_has_blob c d \<Longrightarrow> cache_has_blob c' d"
  unfolding grows_def cache_has_blob_def using cache_bytes_exists by blast

lemma fetch_attempts_ok:
  assumes "cache_inv c" "small_downloads fetch_blob" "fetch_attempts fetch_blob n cl c now r d = (res, cl', c')"
  shows "grows c c' \<and> (res = Inr () \<longrightarrow> cache_has_blob c' d)"
  using assms(3)
proof (induction n arbitrary: cl)
  case 0
  then show ?case using assms(1) by (auto simp: grows_refl)
next
  case (Suc n)
  obtain x cl1 where f: "fetch_blob cl r d = (x, cl1)" by fastforce
  show ?case
  proof (cases x)
    case (Inl e)
    then show ?thesis using Suc.prems f assms(1) by (auto simp: grows_refl)
  next
    case (Inr data)
    show ?thesis
    proof (cases "sha256_hex data = removeprefix d ''sha256:''")
      case True
      then have k: "sha256_hex data = blob_key d" by (simp add: blob_key_def)
      have ft: "cache_fits now data" using assms(2) f Inr unfolding small_downloads_def cache_fits_def by (metis fst_conv)
      obtain p c1 where s: "store_blob c now d data = (Inr p, c1)"
        using store_blob_matching[OF k, of c now] by (metis prod.collapse)
      have c': "c' = c1" using Suc.prems f Inr True s by auto
      have g: "grows c c'" using fc.put_inv[OF assms(1) ft, of d] fc.put_kept[OF assms(1) ft, of _ _ d] fc.put_get[OF assms(1) ft k] ft s
        by (simp add: grows_def c' cache_fits_def)
      have "cache_bytes c' (blob_key d) \<noteq> None" using fc.put_stored[OF assms(1) ft k] s by (simp add: c')
      then have "cache_has_blob c' d" using cache_bytes_exists g by (auto simp: cache_has_blob_def blob_key_def grows_def)
      with g show ?thesis by simp
    next
      case False
      then show ?thesis using Suc.IH[of cl1] Suc.prems f Inr by simp
    qed
  qed
qed

lemma fetch_one_ok:
  assumes "cache_inv c" "small_downloads fetch_blob" "fetch_one fetch_blob cl c now b = (res, cl', c')"
  shows "grows c c' \<and> (\<forall>d. res = Inr () \<longrightarrow> str_field b ''digest'' = Inr d \<longrightarrow> cache_has_blob c' d)"
proof (cases "rbind (str_field b ''digest'') (\<lambda>d. rbind (str_field b ''repository'') (\<lambda>r. Inr (d, r)))")
  case (Inl e)
  then show ?thesis using assms by (auto simp: fetch_one_def grows_refl)
next
  case (Inr dr)
  then obtain d r where "dr = (d, r)" "str_field b ''digest'' = Inr d" by (auto simp: rbind_Inr_iff)
  then show ?thesis using fetch_attempts_ok[OF assms(1,2)] assms(3) Inr by (simp add: fetch_one_def)
qed

section \<open>The pool\<close>

lemma run_pool_ok:
  assumes "cache_inv c" "small_downloads fetch_blob" "run_pool fetch_blob cl c now bs = (rs, cl', c')"
  shows "grows c c' \<and> map fst rs = bs \<and>
    (\<forall>b d. (b, Inr ()) \<in> set rs \<longrightarrow> str_field b ''digest'' = Inr d \<longrightarrow> cache_has_blob c' d)"
  using assms(1,3)
proof (induction bs arbitrary: cl c rs cl' c')
  case Nil
  then show ?case by (auto simp: grows_refl)
next
  case (Cons b bs)
  obtain r cl1 c1 where f: "fetch_one fetch_blob cl c now b = (r, cl1, c1)" by (metis prod_cases3)
  obtain rs1 cl2 c2 where p: "run_pool fetch_blob cl1 c1 now bs = (rs1, cl2, c2)" by (metis prod_cases3)
  note one = fetch_one_ok[OF Cons.prems(1) assms(2) f]
  then have i: "cache_inv c1" by (simp add: grows_def)
  have e: "rs = (b, r) # rs1" "c' = c2" using Cons.prems(2) f p by auto
  note rest = Cons.IH[OF i p, folded e(2)]
  have "grows c c'" using one rest grows_trans by blast
  moreover have "cache_has_blob c' d" if "(x, Inr ()) \<in> set rs" "str_field x ''digest'' = Inr d" for x d
  proof (cases "(x, Inr ()) \<in> set rs1")
    case True
    then show ?thesis using rest that(2) e by blast
  next
    case False
    then have "x = b" "r = Inr ()" using that(1) e by auto
    then show ?thesis using one that(2) rest e grows_has[OF i] by blast
  qed
  ultimately show ?case using rest e by simp
qed

lemma collect_ok:
  assumes "collect rs res = Inr res'"
  shows "skipped res' = skipped res
    \<and> length (downloaded res') + length (errors res') = length (downloaded res) + length (errors res) + length rs
    \<and> set (downloaded res') = set (downloaded res) \<union> {d. \<exists>b. (b, Inr ()) \<in> set rs \<and> str_field b ''digest'' = Inr d}
    \<and> set (errors res') = set (errors res) \<union> {[(''digest'', PStr d), (''error'', PStr (exc_str e))] | d e. \<exists>b. (b, Inl e) \<in> set rs \<and> str_field b ''digest'' = Inr d}"
  using assms
proof (induction rs arbitrary: res)
  case (Cons x rs)
  obtain b r where x: "x = (b, r)" by fastforce
  obtain d where d: "str_field b ''digest'' = Inr d" using Cons.prems by (auto simp: x rbind_Inr_iff)
  show ?case
  proof (cases r)
    case (Inl e)
    then have c: "collect rs (res\<lparr>errors := errors res @ [[(''digest'', PStr d), (''error'', PStr (exc_str e))]]\<rparr>) = Inr res'"
      using Cons.prems by (auto simp: x d split: if_splits)
    show ?thesis using Cons.IH[OF c] d by (auto simp: x Inl)
  next
    case (Inr u)
    then have c: "collect rs (res\<lparr>downloaded := downloaded res @ [d]\<rparr>) = Inr res'" using Cons.prems by (simp add: x d)
    show ?thesis using Cons.IH[OF c] d by (auto simp: x Inr)
  qed
qed simp

lemma check_cache_ok:
  "check_cache c bs = Inr (present, todo) \<Longrightarrow>
     length present + length todo = length bs \<and> set todo \<subseteq> set bs \<and> list_all (cache_has_blob c) present
     \<and> (\<forall>b \<in> set bs. \<exists>d. str_field b ''digest'' = Inr d \<and> (b \<in> set todo \<or> d \<in> set present))"
  by (induction bs arbitrary: present todo) (fastforce simp: rbind_Inr_iff split: if_splits)+

text \<open>A fetch that returns accounts for every blob of its list.\<close>

lemma fetch_accounts_if:
  assumes "cache_inv c" "small_downloads fetch_blob" "\<forall>bs. mset (order bs) = mset bs"
    and "fetch fetch_blob order cl c now blobs = (Inr res, cl', c')"
  shows "grows c c'
    \<and> length (downloaded res) + length (skipped res) + length (errors res) = length blobs
    \<and> (\<forall>d \<in> set (downloaded res) \<union> set (skipped res). cache_has_blob c' d)
    \<and> (\<forall>b \<in> set blobs. \<exists>d. str_field b ''digest'' = Inr d \<and>
        (cache_has_blob c' d \<or> (\<exists>m. [(''digest'', PStr d), (''error'', PStr m)] \<in> set (errors res))))"
proof -
  from assms(4) obtain present todo where k: "check_cache c blobs = Inr (present, todo)"
    by (auto simp: fetch_def split: sum.splits)
  note k' = check_cache_ok[OF k]
  have present: "\<forall>d \<in> set present. cache_has_blob c d" using k' by (simp add: list_all_iff)
  show ?thesis
  proof (cases "todo = []")
    case True
    with assms(1,4) k k' present show ?thesis by (fastforce simp: fetch_def grows_refl)
  next
    case False
    obtain rs cl1 c1 where p: "run_pool fetch_blob cl c now (order todo) = (rs, cl1, c1)" by (metis prod_cases3)
    have r: "collect rs \<lparr>downloaded = [], skipped = present, errors = []\<rparr> = Inr res" "c' = c1"
      using assms(4) k False p by (auto simp: fetch_def)
    note pool = run_pool_ok[OF assms(1,2) p, folded r(2)]
    note col = collect_ok[OF r(1), simplified]
    have "length rs = length todo" using pool assms(3) by (metis length_map size_mset)
    moreover have "\<exists>d. str_field b ''digest'' = Inr d \<and>
        (cache_has_blob c' d \<or> (\<exists>m. [(''digest'', PStr d), (''error'', PStr m)] \<in> set (errors res)))" if b: "b \<in> set blobs" for b
    proof -
      obtain d where d: "str_field b ''digest'' = Inr d" "b \<in> set todo \<or> d \<in> set present" using bspec[OF k'[THEN conjunct2, THEN conjunct2, THEN conjunct2] b] by blast
      show ?thesis
      proof (cases "b \<in> set todo")
        case True
        then have "b \<in> fst ` set rs" using pool assms(3) by (metis list.set_map set_mset_mset)
        then obtain x where x: "(b, x) \<in> set rs" by auto
        show ?thesis
        proof (cases x)
          case (Inl e)
          then have "[(''digest'', PStr d), (''error'', PStr (exc_str e))] \<in> set (errors res)" using col x d(1) by blast
          with d(1) show ?thesis by blast
        next
          case (Inr u)
          with pool x d(1) show ?thesis by simp
        qed
      next
        case False
        with d present grows_has[OF assms(1)] pool show ?thesis by blast
      qed
    qed
    moreover have "cache_has_blob c' d" if "d \<in> set (downloaded res) \<union> set (skipped res)" for d
      using that col pool present grows_has[OF assms(1)] by auto
    ultimately show ?thesis using k' pool col by simp
  qed
qed

text \<open>Descriptors with their fields, and the errors a client raises.\<close>

definition descriptor :: "dict \<Rightarrow> bool" where
  "descriptor b = (\<exists>d r. str_field b ''digest'' = Inr d \<and> str_field b ''repository'' = Inr r)"

definition raised_by :: "('c \<Rightarrow> string \<Rightarrow> string \<Rightarrow> bytes res \<times> 'c) \<Rightarrow> exc \<Rightarrow> bool" where
  "raised_by fetch_blob e = (\<exists>cl r d. fst (fetch_blob cl r d) = Inl e)"

lemma fetch_attempts_raises:
  "fetch_attempts fetch_blob n cl c now r d = (Inl e, cl', c') \<Longrightarrow> caught e \<or> raised_by fetch_blob e"
proof (induction n arbitrary: cl)
  case (Suc n)
  obtain x cl1 where f: "fetch_blob cl r d = (x, cl1)" by fastforce
  show ?case
  proof (cases x)
    case (Inl y)
    with Suc.prems f have "fst (fetch_blob cl r d) = Inl e" by simp
    then show ?thesis unfolding raised_by_def by blast
  next
    case (Inr data)
    show ?thesis
    proof (cases "sha256_hex data = removeprefix d ''sha256:''")
      case True
      then obtain q c1 where "store_blob c now d data = (Inr q, c1)"
        using store_blob_matching[of data d c now] by (metis blob_key_def prod.collapse)
      with Suc.prems f Inr True show ?thesis by simp
    next
      case False
      with Suc.prems f Inr have "fetch_attempts fetch_blob n cl1 c now r d = (Inl e, cl', c')" by simp
      from Suc.IH[OF this] show ?thesis .
    qed
  qed
qed (auto simp: caught_def)

lemma fetch_one_raises:
  "descriptor b \<Longrightarrow> fetch_one fetch_blob cl c now b = (Inl e, cl', c') \<Longrightarrow> caught e \<or> raised_by fetch_blob e"
  by (auto simp: fetch_one_def descriptor_def dest: fetch_attempts_raises)

lemma run_pool_raises:
  "\<forall>b \<in> set bs. descriptor b \<Longrightarrow> run_pool fetch_blob cl c now bs = (rs, cl', c') \<Longrightarrow>
     \<forall>(b, r) \<in> set rs. descriptor b \<and> (\<forall>e. r = Inl e \<longrightarrow> caught e \<or> raised_by fetch_blob e)"
proof (induction bs arbitrary: cl c rs)
  case (Cons b bs)
  obtain r cl1 c1 where f: "fetch_one fetch_blob cl c now b = (r, cl1, c1)" by (metis prod_cases3)
  obtain rs1 cl2 c2 where p: "run_pool fetch_blob cl1 c1 now bs = (rs1, cl2, c2)" by (metis prod_cases3)
  have e: "rs = (b, r) # rs1" "(cl', c') = (cl2, c2)" using Cons.prems(2) f p by auto
  have "\<forall>(b, r) \<in> set rs1. descriptor b \<and> (\<forall>e. r = Inl e \<longrightarrow> caught e \<or> raised_by fetch_blob e)"
    using Cons.IH[of cl1 c1 rs1] Cons.prems(1) p e(2) by simp
  moreover have "\<forall>e. r = Inl e \<longrightarrow> caught e \<or> raised_by fetch_blob e" using fetch_one_raises[of b fetch_blob cl c now] f Cons.prems(1) by auto
  ultimately show ?case using Cons.prems(1) by (simp add: e(1))
qed simp

lemma check_cache_total: "\<forall>b \<in> set bs. descriptor b \<Longrightarrow> \<exists>x. check_cache c bs = Inr x"
  by (induction bs) (auto simp: descriptor_def)

lemma collect_raises:
  "\<forall>(b, r) \<in> set rs. descriptor b \<Longrightarrow> collect rs res = Inl e \<Longrightarrow> \<not> caught e \<and> (\<exists>b. (b, Inl e) \<in> set rs)"
proof (induction rs arbitrary: res)
  case (Cons x rs)
  obtain b r where x: "x = (b, r)" by fastforce
  with Cons.prems(1) obtain d where "str_field b ''digest'' = Inr d" by (auto simp: descriptor_def)
  with Cons x show ?case by (cases r) (auto split: if_splits)
qed simp

section \<open>Every descriptor once\<close>

definition digest_of :: "dict \<Rightarrow> string" where
  "digest_of b = (case str_field b ''digest'' of Inr d \<Rightarrow> d | Inl e \<Rightarrow> [])"

lemma digest_of_error [simp]: "digest_of [(''digest'', PStr d), (''error'', m)] = d"
  by (simp add: digest_of_def str_field_def)

lemma check_cache_digests:
  "check_cache c bs = Inr (present, todo) \<Longrightarrow> mset present + image_mset digest_of (mset todo) = image_mset digest_of (mset bs)"
  by (induction bs arbitrary: present todo) (auto simp: rbind_Inr_iff digest_of_def split: if_splits)

lemma collect_digests:
  "collect rs res = Inr res' \<Longrightarrow>
     mset (downloaded res') + image_mset digest_of (mset (errors res'))
       = mset (downloaded res) + image_mset digest_of (mset (errors res)) + image_mset digest_of (mset (map fst rs))"
proof (induction rs arbitrary: res)
  case (Cons x rs)
  obtain b r where x: "x = (b, r)" by fastforce
  obtain d where d: "str_field b ''digest'' = Inr d" using Cons.prems by (auto simp: x rbind_Inr_iff)
  then have b: "digest_of b = d" by (simp add: digest_of_def)
  show ?case
  proof (cases r)
    case (Inl e)
    then have "collect rs (res\<lparr>errors := errors res @ [[(''digest'', PStr d), (''error'', PStr (exc_str e))]]\<rparr>) = Inr res'"
      using Cons.prems by (auto simp: x d split: if_splits)
    from Cons.IH[OF this] show ?thesis by (simp add: x b)
  next
    case (Inr u)
    then have "collect rs (res\<lparr>downloaded := downloaded res @ [d]\<rparr>) = Inr res'" using Cons.prems by (simp add: x d)
    from Cons.IH[OF this] show ?thesis by (simp add: x b)
  qed
qed simp

lemma fetch_digests:
  assumes "cache_inv c" "small_downloads fetch_blob" "\<forall>bs. mset (order bs) = mset bs"
    and "fetch fetch_blob order cl c now blobs = (Inr res, cl', c')"
  shows "mset (downloaded res) + mset (skipped res) + image_mset digest_of (mset (errors res)) = image_mset digest_of (mset blobs)"
proof -
  from assms(4) obtain present todo where k: "check_cache c blobs = Inr (present, todo)"
    by (auto simp: fetch_def split: sum.splits)
  note k' = check_cache_digests[OF k]
  show ?thesis
  proof (cases "todo = []")
    case True
    with assms(4) k k' show ?thesis by (auto simp: fetch_def)
  next
    case False
    obtain rs cl1 c1 where p: "run_pool fetch_blob cl c now (order todo) = (rs, cl1, c1)" by (metis prod_cases3)
    have r: "collect rs \<lparr>downloaded = [], skipped = present, errors = []\<rparr> = Inr res"
      using assms(4) k False p by (auto simp: fetch_def)
    have "mset (map fst rs) = mset todo" using run_pool_ok[OF assms(1,2) p] assms(3) by simp
    with collect_digests[OF r] collect_ok[OF r] have "mset (downloaded res) + image_mset digest_of (mset (errors res)) = image_mset digest_of (mset todo)"
      "skipped res = present" by simp_all
    with k' show ?thesis by (metis add.assoc add.commute)
  qed
qed

lemma fetch_raises:
  assumes "cache_inv c" "small_downloads fetch_blob" "\<forall>bs. mset (order bs) = mset bs" "\<forall>b \<in> set blobs. descriptor b"
    and "fetch fetch_blob order cl c now blobs = (Inl e, cl', c')"
  shows "\<not> caught e \<and> raised_by fetch_blob e \<and> grows c c'"
proof -
  obtain present todo where k: "check_cache c blobs = Inr (present, todo)" using check_cache_total[OF assms(4), of c] by auto
  have "set (order todo) \<subseteq> set blobs" using check_cache_ok[OF k] assms(3) by (metis set_mset_mset)
  then have ds: "\<forall>b \<in> set (order todo). descriptor b" using assms(4) by blast
  obtain rs cl1 c1 where p: "run_pool fetch_blob cl c now (order todo) = (rs, cl1, c1)" by (metis prod_cases3)
  have r: "collect rs \<lparr>downloaded = [], skipped = present, errors = []\<rparr> = Inl e" "c' = c1"
    using assms(5) k p by (auto simp: fetch_def Let_def split: if_splits)
  note raises = run_pool_raises[OF ds p]
  have "\<forall>(b, r) \<in> set rs. descriptor b" using raises by auto
  from collect_raises[OF this r(1)] raises have "\<not> caught e \<and> raised_by fetch_blob e" by auto
  with run_pool_ok[OF assms(1,2) p] r(2) show ?thesis by simp
qed

text \<open>
  C16. A fetch of a list of descriptors either returns and accounts for each of them exactly once, in whatever order
  the downloads complete: the digests it reports as downloaded, as skipped and as failed are together those of the
  list, those downloaded or skipped are in the cache, and the others are reported with their error. Or it ends in an
  exception a download has raised that is neither a registry's nor a store's error. In both cases no cached blob is
  lost or changed and every cached blob matches its name. The descriptors have a digest and a
  repository, and no download is larger than one write call.
\<close>

theorem fetch_accounts:
  assumes "cache_inv c" "small_downloads fetch_blob" "\<forall>bs. mset (order bs) = mset bs" "\<forall>b \<in> set blobs. descriptor b"
  shows "\<exists>r cl' c'. fetch fetch_blob order cl c now blobs = (r, cl', c')
    \<and> cache_inv c' \<and> (\<forall>h data. cache_bytes c h = Some data \<longrightarrow> cache_bytes c' h = Some data)
    \<and> (case r of
         Inr res \<Rightarrow>
           mset (downloaded res) + mset (skipped res) + image_mset digest_of (mset (errors res)) = image_mset digest_of (mset blobs)
           \<and> (\<forall>d \<in> set (downloaded res) \<union> set (skipped res). cache_has_blob c' d)
           \<and> (\<forall>b \<in> set blobs. cache_has_blob c' (digest_of b)
                \<or> (\<exists>m. [(''digest'', PStr (digest_of b)), (''error'', PStr m)] \<in> set (errors res)))
       | Inl e \<Rightarrow> \<not> caught e \<and> raised_by fetch_blob e)"
proof -
  obtain r cl' c' where f: "fetch fetch_blob order cl c now blobs = (r, cl', c')" by (metis prod_cases3)
  show ?thesis
  proof (cases r)
    case (Inl e)
    with fetch_raises[OF assms(1-4) f[unfolded Inl]] f show ?thesis by (simp add: grows_def)
  next
    case (Inr res)
    note a = fetch_accounts_if[OF assms(1-3) f[unfolded Inr]] and d = fetch_digests[OF assms(1-3) f[unfolded Inr]]
    have "cache_has_blob c' (digest_of b) \<or> (\<exists>m. [(''digest'', PStr (digest_of b)), (''error'', PStr m)] \<in> set (errors res))"
      if "b \<in> set blobs" for b
      using a that by (fastforce simp: digest_of_def)
    with a d f Inr show ?thesis by (simp add: grows_def)
  qed
qed

text \<open>A registry that serves one blob and does not know the other.\<close>

definition demo_registry :: "nat \<Rightarrow> string \<Rightarrow> string \<Rightarrow> bytes res \<times> nat" where
  "demo_registry n repository digest =
     (if digest = ''sha256:x'' then Inl (RegistryError ''HTTP 404'' []) else Inr ''layer'', Suc n)"

definition demo_wanted :: "dict list" where
  "demo_wanted = [[(''digest'', PStr (''sha256:'' @ sha256_hex ''layer'')), (''repository'', PStr ''library/nginx'')],
     [(''digest'', PStr ''sha256:x''), (''repository'', PStr ''library/nginx'')]]"

theorem fetch_accounts_witness:
  "\<exists>r cl' c'. fetch demo_registry rev 0 [] 7 demo_wanted = (Inr r, cl', c') \<and> cache_inv c'
     \<and> mset (downloaded r) + mset (skipped r) + image_mset digest_of (mset (errors r)) = {#''sha256:'' @ sha256_hex ''layer'', ''sha256:x''#}"
proof -
  have c: "cache_inv []" by (simp add: cache_inv_def)
  have s: "small_downloads demo_registry" by (auto simp: small_downloads_def demo_registry_def max_rw_count_def)
  have o: "\<forall>bs :: dict list. mset (rev bs) = mset bs" by simp
  have d: "\<forall>b \<in> set demo_wanted. descriptor b" by (simp add: demo_wanted_def descriptor_def str_field_def dindex_def)
  have w: "image_mset digest_of (mset demo_wanted) = {#''sha256:'' @ sha256_hex ''layer'', ''sha256:x''#}"
    by (simp add: demo_wanted_def digest_of_def str_field_def dindex_def del: append.simps)
  have "\<not> (\<not> caught e \<and> raised_by demo_registry e)" for e
    by (auto simp: raised_by_def demo_registry_def caught_def split: if_splits)
  note polite = this
  obtain r cl' c' where f: "fetch demo_registry rev 0 [] 7 demo_wanted = (r, cl', c')" by (metis prod_cases3)
  note a = fetch_accounts[OF c s o d, of 0 7, unfolded f w prod.inject]
  show ?thesis
  proof (cases r)
    case (Inl e)
    with a polite show ?thesis by auto
  next
    case (Inr res)
    with a f show ?thesis by (auto simp del: append.simps)
  qed
qed

lemma length_replies: "length (replies fetch_blob cl r d n) = n"
  by (induction n arbitrary: cl) (simp_all split: prod.split)

lemma dropWhile_hd:
  "(\<And>x. Q x \<Longrightarrow> \<not> P x) \<Longrightarrow>
     (dropWhile P xs \<noteq> [] \<and> Q (hd (dropWhile P xs))) = (\<exists>k < length xs. Q (xs ! k) \<and> (\<forall>j < k. P (xs ! j)))"
proof (induction xs)
  case (Cons x xs)
  show ?case
  proof (cases "P x")
    case True
    then have "(\<exists>k < length xs. Q (xs ! k) \<and> (\<forall>j < k. P (xs ! j))) = (\<exists>k < length (x # xs). Q ((x # xs) ! k) \<and> (\<forall>j < k. P ((x # xs) ! j)))"
      using Cons.prems[of x] by (auto simp: Ex_less_Suc2 All_less_Suc2)
    with Cons True show ?thesis by simp
  next
    case False
    then show ?thesis by (simp add: Ex_less_Suc2 All_less_Suc2)
  qed
qed simp

text \<open>
  A download succeeds exactly when the registry serves data with the wanted hash within three
  attempts, all earlier ones having served data with another hash; it fails when an attempt raises.
\<close>

theorem fetch_one_succeeds:
  "fst (fetch_one fetch_blob cl c now [(''digest'', PStr d), (''repository'', PStr r)]) = Inr () \<longleftrightarrow>
     (\<exists>k < 3. good_reply d (replies fetch_blob cl r d 3 ! k) \<and> (\<forall>j < k. bad_data d (replies fetch_blob cl r d 3 ! j)))"
proof -
  have "fst (fetch_one fetch_blob cl c now [(''digest'', PStr d), (''repository'', PStr r)]) = Inr ()
      \<longleftrightarrow> fst (fetch_attempts fetch_blob 3 cl c now r d) = Inr ()"
    by (simp add: fetch_one_def str_field_def MAX_SHA_RETRIES_def)
  also have "\<dots> \<longleftrightarrow> (\<exists>k < 3. good_reply d (replies fetch_blob cl r d 3 ! k) \<and> (\<forall>j < k. bad_data d (replies fetch_blob cl r d 3 ! j)))"
    using dropWhile_hd[of "good_reply d" "bad_data d" "replies fetch_blob cl r d 3"]
    by (auto simp: fetch_attempts_iff length_replies Let_def good_reply_def bad_data_def)
  finally show ?thesis .
qed

end
