(* ===== verification/Fetch_Main_Props.thy ===== *)
theory Fetch_Main_Props
  imports Fetch_Main Fetcher_Props
begin

text \<open>
  What the command \<open>fetch\<close> does between the request and the response: the descriptors are split by
  registry, the manifests' own blobs are added, and everything asked for is in the cache or reported.
\<close>

declare map_of_eq_Some_iff [simp del]

section \<open>Blobs by registry\<close>

definition registry_of :: "dict \<Rightarrow> pyval" where
  "registry_of b = dget_or b ''registry'' (PStr ''docker.io'')"

definition of_registry :: "string \<Rightarrow> dict list \<Rightarrow> dict list" where
  "of_registry reg ds = filter (\<lambda>b. registry_of b = PStr reg) ds"

lemma group_blobs_spec:
  "group_blobs vs g = Inr groups \<Longrightarrow> distinct (dkeys g) \<Longrightarrow>
     \<exists>ds. vs = map PDict ds \<and> distinct (dkeys groups)
       \<and> (\<forall>reg. dget_or groups reg [] = dget_or g reg [] @ of_registry reg ds)
       \<and> (\<forall>reg. reg \<in> set (dkeys groups) \<longleftrightarrow> reg \<in> set (dkeys g) \<or> of_registry reg ds \<noteq> [])"
proof (induction vs arbitrary: g)
  case (Cons v vs)
  from Cons.prems(1) obtain blob reg where v: "v = PDict blob" "registry_of blob = PStr reg"
    and r: "group_blobs vs (dset g reg (dget_or g reg [] @ [blob])) = Inr groups"
    by (auto simp: registry_of_def rbind_Inr_iff split: pyval.splits)
  have "distinct (dkeys (dset g reg (dget_or g reg [] @ [blob])))" using Cons.prems(2) by simp
  from Cons.IH[OF r this] obtain ds where d: "vs = map PDict ds" "distinct (dkeys groups)"
    "\<forall>q. dget_or groups q [] = dget_or (dset g reg (dget_or g reg [] @ [blob])) q [] @ of_registry q ds"
    "\<forall>q. q \<in> set (dkeys groups) \<longleftrightarrow> q \<in> set (dkeys (dset g reg (dget_or g reg [] @ [blob]))) \<or> of_registry q ds \<noteq> []"
    by blast
  show ?case
    using v d by (intro exI[of _ "blob # ds"]) (auto simp: of_registry_def dget_or_update dom_update)
qed (auto simp: of_registry_def)

text \<open>
  Splitting by registry is a partition: the groups are the descriptors of each registry that
  occurs, each in the order of the request, and nothing else.
\<close>

theorem group_blobs_partition:
  assumes "group_blobs (map PDict ds) [] = Inr groups"
  shows "distinct (dkeys groups) \<and> (\<forall>reg bs. (reg, bs) \<in> set groups \<longleftrightarrow> bs = of_registry reg ds \<and> bs \<noteq> [])"
proof -
  have inj: "map PDict xs = map PDict ys \<longleftrightarrow> xs = ys" for xs ys by (simp add: inj_map_eq_map inj_def)
  from group_blobs_spec[OF assms] have g: "distinct (dkeys groups)" "\<And>reg. dget_or groups reg [] = of_registry reg ds"
    "\<And>reg. reg \<in> set (dkeys groups) \<longleftrightarrow> of_registry reg ds \<noteq> []" by (auto simp: inj dget_or_def)
  have "(reg, bs) \<in> set groups \<longleftrightarrow> bs = of_registry reg ds \<and> bs \<noteq> []" for reg bs
  proof (cases "dget groups reg")
    case None
    then have "reg \<notin> set (dkeys groups)" by (simp add: map_of_eq_None_iff)
    then show ?thesis using g(3)[of reg] in_set_dget[OF g(1), of reg bs] None by auto
  next
    case (Some x)
    then have "reg \<in> set (dkeys groups)" by (force dest: dget_in_set)
    then show ?thesis using g(2)[of reg] g(3)[of reg] in_set_dget[OF g(1), of reg bs] Some by (auto simp: dget_or_def)
  qed
  with g(1) show ?thesis by blast
qed

theorem group_blobs_partition_witness:
  "\<exists>groups. group_blobs (map PDict [[(''registry'', PStr ''ghcr.io'')], [], [(''registry'', PStr ''ghcr.io''), (''size'', PInt 1)]]) [] = Inr groups
     \<and> (''docker.io'', [[]]) \<in> set groups
     \<and> (''ghcr.io'', [[(''registry'', PStr ''ghcr.io'')], [(''registry'', PStr ''ghcr.io''), (''size'', PInt 1)]]) \<in> set groups"
proof -
  let ?ds = "[[(''registry'', PStr ''ghcr.io'')], [], [(''registry'', PStr ''ghcr.io''), (''size'', PInt 1)]]"
  obtain groups where g: "group_blobs (map PDict ?ds) [] = Inr groups" by (simp add: dget_or_def)
  from group_blobs_partition[OF g] have "(reg, bs) \<in> set groups \<longleftrightarrow> bs = of_registry reg ?ds \<and> bs \<noteq> []" for reg bs by blast
  with g show ?thesis by (intro exI[of _ groups]) (simp add: of_registry_def registry_of_def dget_or_def)
qed

section \<open>The platform\<close>

text \<open>An entry that is an attestation is skipped by the command and unknown to \<open>select_platform\<close>.\<close>

definition no_attestation :: "pyval \<Rightarrow> bool" where
  "no_attestation entry =
     (\<exists>d. entry = PDict d \<and> (case dget d ''annotations'' of None \<Rightarrow> True
        | Some (PDict a) \<Rightarrow> dget a ''vnd.docker.reference.type'' \<noteq> Some (PStr ''attestation-manifest'') | _ \<Rightarrow> False))"

lemma vindex_Inr: "vindex p k = Inr x \<Longrightarrow> \<exists>d. p = PDict d \<and> dget d k = Some x"
  by (cases p) (auto simp: vindex_def dindex_Inr_iff)

lemma find_entry_step:
  assumes "parse_entry v = Inr e" "no_attestation v"
  shows "find_entry target (v # vs) =
    (if \<exists>p. oe_platform e = Some p \<and> platform_matches target p then Inr (Some (oe_digest e)) else find_entry target vs)"
proof -
  obtain d where v: "v = PDict d" using assms(2) by (auto simp: no_attestation_def)
  have dg: "dget d ''digest'' = Some (oe_digest e)" using assms(1) by (auto simp: v parse_entry_def rbind_Inr_iff dindex_Inr_iff)
  have "\<exists>a. dget_or d ''annotations'' (PDict []) = PDict a \<and> dget_or a ''vnd.docker.reference.type'' PNone \<noteq> PStr ''attestation-manifest''"
    using assms(2) by (auto simp: v no_attestation_def dget_or_def split: option.splits pyval.splits)
  then obtain a where a: "dget_or d ''annotations'' (PDict []) = PDict a" "dget_or a ''vnd.docker.reference.type'' PNone \<noteq> PStr ''attestation-manifest''"
    by blast
  show ?thesis
  proof (cases "dget d ''platform''")
    case None
    then have "oe_platform e = None" using assms(1) by (auto simp: v parse_entry_def rbind_Inr_iff)
    then show ?thesis using a None by (simp add: v dget_or_def[of d "''platform''"]) (simp add: dget_or_def)
  next
    case (Some pv)
    then obtain p where p: "parse_platform pv = Inr p" "oe_platform e = Some p"
      using assms(1) by (auto simp: v parse_entry_def rbind_Inr_iff)
    then obtain pd where pd: "pv = PDict pd" "dget pd ''architecture'' = Some (pl_architecture p)" "dget pd ''os'' = Some (pl_os p)"
      "pl_variant p = none_if_null (dget_or pd ''variant'' PNone)"
      by (auto simp: parse_platform_def rbind_Inr_iff dest!: vindex_Inr)
    then show ?thesis
      using a Some p(2) dg by (cases "pl_variant target")
        (auto simp: v dget_or_Some platform_matches_def none_if_null_def)
  qed
qed

text \<open>
  C34. The two implementations of the choice of a platform agree: on an index that parses and has no
  attestations, the loop of \<open>fetch\<close> takes the digest \<open>select_platform\<close> gives, and finds none exactly
  when \<open>select_platform\<close> raises.
\<close>

theorem find_entry_selects:
  assumes "rmap parse_entry vs = Inr (oi_manifests ix)" and "\<forall>v \<in> set vs. no_attestation v"
  shows "find_entry target vs = (case select_platform ix target of Inr d \<Rightarrow> Inr (Some d) | Inl e \<Rightarrow> Inr None)"
proof -
  have "find_entry target vs = (case select_entry es target of Inr d \<Rightarrow> Inr (Some d) | Inl e \<Rightarrow> Inr None)"
    if "rmap parse_entry vs = Inr es" "\<forall>v \<in> set vs. no_attestation v" for vs es
    using that
  proof (induction vs arbitrary: es)
    case (Cons v vs)
    then obtain e es' where e: "parse_entry v = Inr e" "rmap parse_entry vs = Inr es'" "es = e # es'"
      by (auto simp: rbind_Inr_iff)
    have n: "no_attestation v" using Cons.prems(2) by simp
    show ?case using Cons.IH[OF e(2)] Cons.prems(2)
      by (simp add: find_entry_step[OF e(1) n] e(3) del: find_entry.simps split: option.split)
  qed simp
  from this[OF assms] show ?thesis by (simp add: select_platform_def)
qed

theorem find_entry_selects_witness:
  "find_entry (platform_target ''linux/arm64'') (map (\<lambda>e. PDict (entry_dict e)) (oi_manifests demo_index)) = Inr (Some (PStr ''sha256:aa''))"
proof -
  have p: "rmap parse_entry (map (\<lambda>e. PDict (entry_dict e)) (oi_manifests demo_index)) = Inr (oi_manifests demo_index)"
    by (simp add: demo_index_def demo_entry_def parse_entry_dict demo_platform_def)
  have "\<forall>v \<in> set (map (\<lambda>e. PDict (entry_dict e)) (oi_manifests demo_index)). no_attestation v"
    by (simp add: demo_index_def demo_entry_def no_attestation_def entry_dict_def)
  moreover have "select_platform demo_index (platform_target ''linux/arm64'') = Inr (PStr ''sha256:aa'')"
    by (simp add: select_platform_def demo_index_def demo_entry_def demo_platform_def platform_target_def platform_matches_def Let_def)
  ultimately show ?thesis using find_entry_selects[OF p, of "platform_target ''linux/arm64''"] by simp
qed

section \<open>The blobs the manifests name\<close>

definition digest_of :: "dict \<Rightarrow> pyval" where
  "digest_of b = dget_or b ''digest'' PNone"

text \<open>The descriptor of a layer of a manifest.\<close>

definition layer_blob :: "fetched_manifest \<Rightarrow> pyval \<Rightarrow> dict \<Rightarrow> bool" where
  "layer_blob m layer b =
     (\<exists>d n. vget layer ''digest'' (PStr []) = Inr d \<and> truthy d \<and> vget layer ''size'' (PInt 0) = Inr n
        \<and> b = [(''digest'', d), (''size'', n), (''registry'', PStr (fm_registry m)), (''repository'', PStr (fm_repository m))])"

lemma layer_blob_digest: "layer_blob m layer b \<Longrightarrow> vget layer ''digest'' (PStr []) = Inr (digest_of b) \<and> truthy (digest_of b)"
  by (auto simp: layer_blob_def digest_of_def dget_or_def)

lemma add_layers_spec:
  "add_layers (fm_registry m) (fm_repository m) known layers = Inr (bs, known') \<Longrightarrow>
     set known' = set known \<union> digest_of ` set bs \<and> distinct (map digest_of bs) \<and> set (map digest_of bs) \<inter> set known = {}
     \<and> (\<forall>b \<in> set bs. \<exists>layer \<in> set layers. layer_blob m layer b)
     \<and> (\<forall>layer \<in> set layers. \<exists>d. vget layer ''digest'' (PStr []) = Inr d \<and> (truthy d \<longrightarrow> d \<in> set known'))"
proof (induction layers arbitrary: known bs)
  case (Cons l ls)
  from Cons.prems obtain d n where l: "vget l ''digest'' (PStr []) = Inr d" "vget l ''size'' (PInt 0) = Inr n"
    by (auto simp: rbind_Inr_iff)
  show ?case
  proof (cases "truthy d \<and> d \<notin> set known")
    case True
    let ?b = "[(''digest'', d), (''size'', n), (''registry'', PStr (fm_registry m)), (''repository'', PStr (fm_repository m))]"
    from Cons.prems l True obtain bs' where b: "add_layers (fm_registry m) (fm_repository m) (known @ [d]) ls = Inr (bs', known')" "bs = ?b # bs'"
      by (auto simp: rbind_Inr_iff)
    have lb: "layer_blob m l ?b" using l True by (simp add: layer_blob_def)
    have dg: "digest_of ?b = d" by (simp add: digest_of_def dget_or_def)
    show ?thesis using Cons.IH[OF b(1)] True l(1) lb unfolding b(2) list.map by (auto simp: dg)
  next
    case False
    then have "add_layers (fm_registry m) (fm_repository m) known ls = Inr (bs, known')"
      using Cons.prems l by (auto simp: rbind_Inr_iff split: if_splits)
    from Cons.IH[OF this] False l(1) show ?thesis by auto
  qed
qed auto

lemma manifest_blobs_spec:
  "manifest_blobs known ms = Inr bs \<Longrightarrow>
     distinct (map digest_of bs) \<and> set (map digest_of bs) \<inter> set known = {}
     \<and> (\<forall>b \<in> set bs. \<exists>m \<in> set ms. \<exists>ls. manifest_layers (fm_manifest m) = Inr ls \<and> (\<exists>layer \<in> set ls. layer_blob m layer b))
     \<and> (\<forall>m \<in> set ms. \<exists>ls. manifest_layers (fm_manifest m) = Inr ls \<and> (\<forall>layer \<in> set ls. \<exists>d. vget layer ''digest'' (PStr []) = Inr d
          \<and> (truthy d \<longrightarrow> d \<in> set known \<union> digest_of ` set bs)))"
proof (induction ms arbitrary: known bs)
  case (Cons m ms)
  from Cons.prems obtain ls bs1 known1 bs2 where s: "manifest_layers (fm_manifest m) = Inr ls"
    "add_layers (fm_registry m) (fm_repository m) known ls = Inr (bs1, known1)" "manifest_blobs known1 ms = Inr bs2" "bs = bs1 @ bs2"
    by (auto simp: rbind_Inr_iff)
  note a = add_layers_spec[OF s(2)] and b = Cons.IH[OF s(3)]
  have k: "set known1 = set known \<union> digest_of ` set bs1" using a by blast
  have new: "digest_of ` set bs2 \<inter> (set known \<union> digest_of ` set bs1) = {}" using b k by (metis set_map)
  have rest: "\<exists>ls. manifest_layers (fm_manifest m') = Inr ls \<and> (\<forall>layer \<in> set ls. \<exists>d. vget layer ''digest'' (PStr []) = Inr d
        \<and> (truthy d \<longrightarrow> d \<in> set known \<union> digest_of ` set bs))" if "m' \<in> set (m # ms)" for m'
  proof (cases "m' = m")
    case True
    then show ?thesis using s(1) a k unfolding s(4) by (auto 4 4)
  next
    case False
    then have "m' \<in> set ms" using that by simp
    with b k show ?thesis unfolding s(4) by (metis (no_types, lifting) UnCI UnE image_Un set_append)
  qed
  have "\<exists>m' \<in> set (m # ms). \<exists>ls. manifest_layers (fm_manifest m') = Inr ls \<and> (\<exists>layer \<in> set ls. layer_blob m' layer x)" if "x \<in> set bs" for x
    using that a b s(1) unfolding s(4) by (auto 4 4)
  moreover have "distinct (map digest_of bs) \<and> set (map digest_of bs) \<inter> set known = {}"
    using a b new unfolding s(4) by auto
  ultimately show ?case using rest by blast
qed simp

text \<open>
  C35. The blobs added for the manifests are exactly those that were missing from the request: every
  layer and configuration a fetched manifest names is in the request or among them, each once, under
  the registry and repository of a manifest that names it, and none of them was in the request.
\<close>

theorem manifest_blobs_complete:
  assumes "manifest_blobs known ms = Inr bs"
  shows "distinct (map digest_of bs) \<and> set (map digest_of bs) \<inter> set known = {}
    \<and> (\<forall>m \<in> set ms. \<forall>ls d. manifest_layers (fm_manifest m) = Inr ls \<longrightarrow>
          (\<exists>layer \<in> set ls. vget layer ''digest'' (PStr []) = Inr d) \<longrightarrow> truthy d \<longrightarrow> d \<in> set known \<union> digest_of ` set bs)
    \<and> (\<forall>b \<in> set bs. \<exists>m \<in> set ms. \<exists>ls. manifest_layers (fm_manifest m) = Inr ls \<and> (\<exists>layer \<in> set ls. layer_blob m layer b))"
  using manifest_blobs_spec[OF assms] by (metis sum.inject(2))

definition demo_fetched :: fetched_manifest where
  "demo_fetched = \<lparr>fm_registry = ''docker.io'', fm_repository = ''library/nginx'', fm_tag = ''latest'', fm_platform = ''linux-amd64'',
     fm_manifest = [(''config'', PDict [(''digest'', PStr ''sha256:cc'')]),
       (''layers'', PList [PDict [(''digest'', PStr ''sha256:aa'')], PDict [(''digest'', PStr ''sha256:bb''), (''size'', PInt 3)]])]\<rparr>"

theorem manifest_blobs_complete_witness:
  "\<exists>bs. manifest_blobs [PStr ''sha256:aa''] [demo_fetched] = Inr bs
     \<and> PStr ''sha256:bb'' \<in> digest_of ` set bs \<and> PStr ''sha256:aa'' \<notin> digest_of ` set bs \<and> distinct (map digest_of bs)"
proof -
  obtain bs where b: "manifest_blobs [PStr ''sha256:aa''] [demo_fetched] = Inr bs"
    by (simp add: demo_fetched_def manifest_layers_def dget_or_def concat_list_def)
  have l: "\<exists>ls. manifest_layers (fm_manifest demo_fetched) = Inr ls \<and> (\<exists>layer \<in> set ls. vget layer ''digest'' (PStr []) = Inr (PStr ''sha256:bb''))"
    by (simp add: demo_fetched_def manifest_layers_def dget_or_def concat_list_def)
  have t: "truthy (PStr ''sha256:bb'')" by simp
  from manifest_blobs_complete[OF b] l t have "PStr ''sha256:bb'' \<in> set [PStr ''sha256:aa''] \<union> digest_of ` set bs" by (metis list.set_intros(1))
  with manifest_blobs_complete[OF b] b show ?thesis by auto
qed

section \<open>What a fetch of all registries leaves\<close>

text \<open>What holds after the groups so far: the cache only grew, and every descriptor is in it or reported.\<close>

definition accounted :: "cache \<Rightarrow> dict list \<Rightarrow> dict \<Rightarrow> bool" where
  "accounted c errs b =
     (\<exists>d. str_field b ''digest'' = Inr d \<and> (cache_has_blob c d \<or> (\<exists>m. [(''digest'', PStr d), (''error'', PStr m)] \<in> set errs)))"

lemma cache_has_bytes: "cache_inv c \<Longrightarrow> cache_has_blob c d \<longleftrightarrow> cache_bytes c (blob_key d) \<noteq> None"
  using cache_bytes_exists by (simp add: cache_has_blob_def blob_key_def)

lemma accounted_grows:
  "accounted c errs b \<Longrightarrow> cache_inv c \<Longrightarrow> cache_inv c' \<Longrightarrow> (\<forall>h data. cache_bytes c h = Some data \<longrightarrow> cache_bytes c' h = Some data) \<Longrightarrow>
     accounted c' (errs @ es) b"
  by (auto simp: accounted_def cache_has_bytes)

lemma fetch_registry_accounts:
  assumes "cache_inv (on_cache S)" "small_downloads (blob_source E)" "\<forall>bs. mset (ev_order E bs) = mset bs"
    and "fetch_registry E config S registry blobs = (Inr res, S')"
  shows "grows (on_cache S) (on_cache S') \<and> on_digests S' = on_digests S
    \<and> length (downloaded res) + length (skipped res) + length (errors res) = length blobs
    \<and> (\<forall>b \<in> set blobs. accounted (on_cache S') (errors res) b)"
proof -
  obtain credentials cl w c where f: "fetch (blob_source E) (ev_order E) (new_client registry credentials, on_world S) (on_cache S) (ev_now E) blobs
      = (Inr res, (cl, w), c)" "S' = S\<lparr>on_cache := c, on_world := w\<rparr>"
    using assms(4) by (auto simp: fetch_registry_def split: sum.splits prod.splits)
  from fetch_accounts_if[OF assms(1,2,3) f(1)] show ?thesis by (auto simp: f(2) accounted_def)
qed

lemma fetch_registries_accounts:
  assumes "cache_inv (on_cache S)" "small_downloads (blob_source E)" "\<forall>bs. mset (ev_order E bs) = mset bs"
    and "fetch_registries E config S groups acc = (Inr res, S')"
  shows "grows (on_cache S) (on_cache S') \<and> on_digests S' = on_digests S \<and> (\<exists>es. errors res = errors acc @ es)
    \<and> length (downloaded res) + length (skipped res) + length (errors res)
        = length (downloaded acc) + length (skipped acc) + length (errors acc) + length (concat (map snd groups))
    \<and> (\<forall>b \<in> set (concat (map snd groups)). accounted (on_cache S') (errors res) b)"
  using assms(1,4)
proof (induction groups arbitrary: S acc)
  case (Cons g groups)
  obtain registry blobs where g: "g = (registry, blobs)" by (cases g)
  obtain r S1 where r: "fetch_registry E config S registry blobs = (Inr r, S1)"
    using Cons.prems(2) by (auto simp: g split: prod.splits sum.splits)
  note one = fetch_registry_accounts[OF Cons.prems(1) assms(2,3) r]
  have inv: "cache_inv (on_cache S1)" using one by (simp add: grows_def)
  let ?acc = "\<lparr>downloaded = downloaded acc @ downloaded r, skipped = skipped acc @ skipped r, errors = errors acc @ errors r\<rparr>"
  have "fetch_registries E config S1 groups ?acc = (Inr res, S')" using Cons.prems(2) r by (simp add: g)
  from Cons.IH[OF inv this] have rest: "grows (on_cache S1) (on_cache S')" "on_digests S' = on_digests S1"
    "\<exists>es. errors res = (errors acc @ errors r) @ es"
    "length (downloaded res) + length (skipped res) + length (errors res)
       = length (downloaded acc @ downloaded r) + length (skipped acc @ skipped r) + length (errors acc @ errors r) + length (concat (map snd groups))"
    "\<forall>b \<in> set (concat (map snd groups)). accounted (on_cache S') (errors res) b" by simp_all
  then obtain es where es: "errors res = (errors acc @ errors r) @ es" by blast
  have "accounted (on_cache S') (errors res) b" if "b \<in> set blobs" for b
  proof -
    have "accounted (on_cache S1) (errors r) b" using one that by blast
    then have "accounted (on_cache S') (errors r @ es) b"
      using accounted_grows inv rest(1) by (auto simp: grows_def)
    then show ?thesis by (auto simp: accounted_def es)
  qed
  then show ?case using one rest es by (auto simp: g dest: grows_trans)
qed (simp_all add: grows_refl)

end
