(* ===== verification/Fetch_Delivery.thy ===== *)
theory Fetch_Delivery
  imports Fetch_Main_Props Pairing Handler_Props
begin

text \<open>
  The command \<open>fetch\<close> and the import of what it writes: every blob of the request arrives in the store
  of the offline side or is reported.
\<close>

declare map_of_eq_Some_iff [simp del]

section \<open>Errors\<close>

definition error_entry :: "dict \<Rightarrow> bool" where
  "error_entry e = (\<exists>d m. e = [(''digest'', PStr d), (''error'', PStr m)])"

lemma collect_entries: "collect rs res = Inr res' \<Longrightarrow> list_all error_entry (errors res) \<Longrightarrow> list_all error_entry (errors res')"
proof (induction rs arbitrary: res)
  case (Cons x rs)
  obtain b r where x: "x = (b, r)" by (cases x)
  show ?case
  proof (cases r)
    case (Inl e)
    with Cons show ?thesis by (auto simp: x rbind_Inr_iff error_entry_def split: if_splits)
  next
    case (Inr u)
    with Cons show ?thesis by (auto simp: x rbind_Inr_iff)
  qed
qed simp

lemma fetch_entries: "fetch f order cl c now blobs = (Inr res, cl', c') \<Longrightarrow> list_all error_entry (errors res)"
  by (auto simp: fetch_def Let_def split: sum.splits if_splits prod.splits intro: collect_entries)

lemma fetch_registries_entries:
  "fetch_registries E config S groups acc = (Inr res, S') \<Longrightarrow> list_all error_entry (errors acc) \<Longrightarrow> list_all error_entry (errors res)"
proof (induction groups arbitrary: S acc)
  case (Cons g groups)
  obtain registry blobs where g: "g = (registry, blobs)" by (cases g)
  obtain r S1 where r: "fetch_registry E config S registry blobs = (Inr r, S1)"
    using Cons.prems(1) by (auto simp: g split: prod.splits sum.splits)
  then have "list_all error_entry (errors r)"
    by (auto simp: fetch_registry_def split: sum.splits prod.splits dest: fetch_entries)
  then show ?case using Cons.IH[of S1] Cons.prems r by (simp add: g)
qed simp

lemma error_entries_dicts: "list_all error_entry es \<Longrightarrow> list_all error_dict (map PDict es)"
  by (fastforce simp: list_all_iff error_entry_def error_dict_def)

section \<open>Names\<close>

text \<open>The names of the manifests an image list can give, of which the archive is made.\<close>

definition image_path :: "string \<Rightarrow> string \<Rightarrow> string \<Rightarrow> string \<Rightarrow> string" where
  "image_path registry repository tag platform_str =
     manifest_path \<lparr>fm_registry = registry, fm_repository = repository, fm_tag = tag,
       fm_platform = replace_char CHR ''/'' CHR ''-'' platform_str, fm_manifest = []\<rparr>"

definition image_paths :: "pyval list \<Rightarrow> string set" where
  "image_paths imgs = {image_path r n t p | r n t p. \<exists>img \<in> set imgs.
     vget img ''registry'' (PStr ''docker.io'') = Inr (PStr r) \<and> vget img ''repository'' (PStr []) = Inr (PStr n)
     \<and> vget img ''tag'' (PStr ''latest'') = Inr (PStr t) \<and> vget img ''platform'' (PStr ''linux/amd64'') = Inr (PStr p)}"

definition images_ok :: "pyval list \<Rightarrow> bool" where
  "images_ok imgs = ((\<forall>p \<in> image_paths imgs. safe_name p \<and> CHR 0x00 \<notin> set p) \<and> prefix_free (path_parts ` image_paths imgs))"

lemma fetch_image_path:
  "fetch_image E config S r n t p = (Inr (Some m), S') \<Longrightarrow> manifest_path m = image_path r n t p"
  by (auto simp: fetch_image_def image_path_def manifest_path_def Let_def
    split: sum.splits prod.splits option.splits pyval.splits)

lemma fetch_image_cache: "fetch_image E config S r n t p = (x, S') \<Longrightarrow> on_cache S' = on_cache S"
  by (auto simp: fetch_image_def Let_def split: sum.splits prod.splits option.splits pyval.splits)

lemma fetch_images_paths:
  "fetch_images E config S imgs = (Inr ms, S') \<Longrightarrow> manifest_path ` set ms \<subseteq> image_paths imgs \<and> on_cache S' = on_cache S"
proof (induction imgs arbitrary: S ms)
  case (Cons img imgs)
  have mono: "image_paths imgs \<subseteq> image_paths (img # imgs)" unfolding image_paths_def by fastforce
  from Cons.prems obtain r n t p where f: "vget img ''registry'' (PStr ''docker.io'') = Inr r" "vget img ''repository'' (PStr []) = Inr n"
    "vget img ''tag'' (PStr ''latest'') = Inr t" "vget img ''platform'' (PStr ''linux/amd64'') = Inr p"
    by (auto simp: rbind_Inr_iff rbind_Inl_iff split: sum.splits)
  show ?case
  proof (cases "truthy n")
    case False
    then have "fetch_images E config S imgs = (Inr ms, S')" using Cons.prems f by simp
    from Cons.IH[OF this] mono show ?thesis by blast
  next
    case True
    then obtain rs ns ts ps where s: "r = PStr rs" "n = PStr ns" "t = PStr ts" "p = PStr ps"
      using Cons.prems f by (auto simp: as_str_iff split: option.splits)
    obtain x S1 where x: "fetch_image E config S rs ns ts ps = (x, S1)" by fastforce
    note c = fetch_image_cache[OF x]
    show ?thesis
    proof (cases x)
      case (Inl e)
      then have "fetch_images E config S1 imgs = (Inr ms, S')" using Cons.prems f s True x by (simp split: if_splits)
      from Cons.IH[OF this] mono c show ?thesis by auto
    next
      case (Inr found)
      then obtain ms1 where ms: "fetch_images E config S1 imgs = (Inr ms1, S')" "ms = (case found of None \<Rightarrow> ms1 | Some m \<Rightarrow> m # ms1)"
        using Cons.prems f s True x by (auto split: prod.splits sum.splits)
      have "manifest_path m \<in> image_paths (img # imgs)" if "found = Some m" for m
        using fetch_image_path[of E config S rs ns ts ps m S1] x Inr that f s unfolding image_paths_def by auto
      with Cons.IH[OF ms(1)] mono c ms(2) show ?thesis by (auto split: option.splits)
    qed
  qed
qed simp

lemma fetched_manifests_ok:
  assumes "fetch_manifests E config S (PList imgs) = (Inr ms, S')" "images_ok imgs"
  shows "manifests_ok ms \<and> on_cache S' = on_cache S"
proof -
  have m: "manifest_path ` set ms \<subseteq> image_paths imgs \<and> on_cache S' = on_cache S"
  proof (cases "imgs = []")
    case False
    then show ?thesis using assms(1) fetch_images_paths by (simp add: fetch_manifests_def)
  qed (use assms(1) in \<open>simp add: fetch_manifests_def\<close>)
  then have "(\<lambda>m. path_parts (manifest_path m)) ` set ms \<subseteq> path_parts ` image_paths imgs" by blast
  then show ?thesis using assms(2) m unfolding images_ok_def manifests_ok_def prefix_free_def by blast
qed

section \<open>The command\<close>

definition small_cache :: "cache \<Rightarrow> bool" where
  "small_cache c = (\<forall>h b. cache_bytes c h = Some b \<longrightarrow> length b \<le> max_rw_count)"

lemma grows_small: "grows c c' \<Longrightarrow> small_cache c \<Longrightarrow> small_cache c'"
  unfolding grows_def small_cache_def by blast

text \<open>The environment of the command: whole downloads of a size one write takes, each blob of a list tried once.\<close>

definition sane_env :: "'w online_env \<Rightarrow> bool" where
  "sane_env E = (small_downloads (blob_source E) \<and> (\<forall>bs. mset (ev_order E bs) = mset bs))"

lemma fetch_all_facts:
  assumes "fetch_all E config S (PList bs) (PList imgs) = (Inr (ds, manifests, res), S')"
    and "cache_inv (on_cache S)" "small_cache (on_cache S)" "sane_env E" "images_ok imgs"
  shows "cache_inv (on_cache S') \<and> small_cache (on_cache S') \<and> list_all error_entry (errors res) \<and> manifests_ok manifests
    \<and> (\<exists>ds' extra. bs = map PDict ds' \<and> ds = ds' @ extra)"
proof -
  note E = assms(4)[unfolded sane_env_def, THEN conjunct1] assms(4)[unfolded sane_env_def, THEN conjunct2]
  obtain groups res1 S1 S2 known extra extra_groups S3 ds' where
    g: "group_blobs bs [] = Inr groups" and r1: "fetch_registries E config S groups no_results = (Inr res1, S1)"
    and m: "fetch_manifests E config S1 (PList imgs) = (Inr manifests, S2)"
    and r2: "fetch_registries E config S2 extra_groups res1 = (Inr res, S')" and ds: "ds = ds' @ extra"
    "rmap (\<lambda>b. case b of PDict d \<Rightarrow> Inr d | v \<Rightarrow> Inl not_modelled) bs = Inr ds'"
    using assms(1) by (auto simp: fetch_all_def viter_def rbind_Inr_iff split: sum.splits prod.splits)
  have e0: "list_all error_entry (errors no_results)" by (simp add: no_results_def)
  from group_blobs_spec[OF g] obtain ds0 where ds0: "bs = map PDict ds0" by auto
  have "rmap (\<lambda>b. case b of PDict d \<Rightarrow> Inr d | v \<Rightarrow> Inl not_modelled) (map PDict xs) = Inr xs" for xs by (induction xs) simp_all
  with ds ds0 have ds': "bs = map PDict ds'" by simp
  have a: "grows (on_cache S) (on_cache S1)" using fetch_registries_accounts[OF assms(2) E r1] by blast
  have b: "manifests_ok manifests" "on_cache S2 = on_cache S1" using fetched_manifests_ok[OF m assms(5)] by simp_all
  have i: "cache_inv (on_cache S2)" using a b(2) by (simp add: grows_def)
  have c: "grows (on_cache S2) (on_cache S')" using fetch_registries_accounts[OF i E r2] by blast
  have "small_cache (on_cache S')" using grows_small[OF c] grows_small[OF a assms(3)] b(2) by simp
  moreover have "cache_inv (on_cache S')" using c by (simp add: grows_def)
  moreover have "list_all error_entry (errors res)"
    by (rule fetch_registries_entries[OF r2 fetch_registries_entries[OF r1 e0]])
  ultimately show ?thesis using b(1) ds(1) ds' by blast
qed

definition deb_file :: "fetch_args \<Rightarrow> (string \<times> bytes) option" where
  "deb_file args = (case fa_deb args of Some (path, Some data) \<Rightarrow> Some (drop (nat (rfind CHR ''/'' path + 1)) path, data) | _ \<Rightarrow> None)"

lemma write_response_built:
  "write_response A E fo config aes_key hmac_key source_id args c blobs manifests res = Inr (out, Some (path, encrypted)) \<Longrightarrow>
     \<exists>filename errs. build_response A (fo_tar fo) (fo_nonce fo) (ev_now E) c blobs (map PDict (errors res)) aes_key hmac_key source_id
       (deb_file args) manifests = Inr (filename, encrypted, errs)"
  by (cases "fa_deb args") (auto simp: write_response_def deb_file_def rbind_Inr_iff Let_def split: option.splits)

text \<open>What a response written by the command does to an offline side, over what the command asked for.\<close>

lemma written_response_delivers:
  assumes "aead_inverse A" "tar_inverse (fo_tar fo)" "length (fo_nonce fo) = 12" "listing ls"
    and "cache_inv c" "small_cache c" "store_inv (off_store off)" "\<forall>i. clock i < max_instant"
    and "list_all error_entry (errors res)" "manifests_ok manifests" "deb_ok (deb_file args)"
    and w: "write_response A E fo config aes_key hmac_key source_id args c blobs manifests res = Inr (out, Some (path, encrypted))"
    and i: "import_response A (fo_tar fo) py312 ls clock off p encrypted aes_key hmac_key with_cache = (Inr r, off')"
    and "b \<in> set blobs"
  shows "\<exists>d. dget b ''digest'' = Some (PStr d)
    \<and> ((\<exists>x. file_bytes (st_blobs (off_store off')) (blob_key d) = Some x \<and> sha256_hex x = blob_key d)
       \<or> (\<exists>m. blob_error d m \<in> set (is_errors r)))"
proof -
  obtain filename errs where f: "build_response A (fo_tar fo) (fo_nonce fo) (ev_now E) c blobs (map PDict (errors res)) aes_key hmac_key source_id
       (deb_file args) manifests = Inr (filename, encrypted, errs)" using write_response_built[OF w] by blast
  note es = error_entries_dicts[OF assms(9)]
  from delivered_errors[OF assms(1-5) es assms(10,11) f i] have
    errs: "set errs \<subseteq> set (is_errors r)"
    and all: "\<forall>b \<in> set blobs. \<exists>d. dget b ''digest'' = Some (PStr d) \<and> (cache_bytes c (blob_key d) = None \<longrightarrow> (\<exists>m. blob_error d m \<in> set errs))"
    by (rule conjunct1, rule conjunct2)
  from bspec[OF all assms(14)] errs obtain d where
    d: "dget b ''digest'' = Some (PStr d)" "cache_bytes c (blob_key d) = None \<longrightarrow> (\<exists>m. blob_error d m \<in> set errs)" "set errs \<subseteq> set (is_errors r)"
    by (elim exE conjE)
  show ?thesis
  proof (cases "cache_bytes c (blob_key d)")
    case None
    with d show ?thesis by blast
  next
    case (Some data)
    from delivered_blob[OF assms(1-5) assms(6)[unfolded small_cache_def] assms(7,8) es assms(10,11) f i assms(14) d(1) Some] d(1)
    show ?thesis by blast
  qed
qed

text \<open>
  C2. From the request file to the offline store: when the command \<open>fetch\<close> has written a response for
  a request and the response is imported, every blob of the request is in the store under its own
  hash or is among the errors the import reports, whatever the registries answered.
\<close>

theorem fetch_command_delivers:
  assumes "aead_inverse A" "tar_inverse (fo_tar fo)" "length (fo_nonce fo) = 12"
    and "cache_inv (on_cache S)" "small_cache (on_cache S)" "sane_env E"
    and "open_config A config_path raw line = Inr (config, aes_key, hmac_key)"
    and "request_file config args fo = Inr (Inr (rpath, sealed))"
    and "process_request A sealed aes_key hmac_key rpath = Inr (PDict rd)"
    and "dget_or rd ''blobs'' (PList []) = PList bs" "dget_or rd ''images'' (PList []) = PList imgs" "images_ok imgs"
    and "deb_ok (deb_file args)"
    and "cmd_fetch A E fo config_path raw line args S = (Inr (out, Some (path, encrypted)), S')"
    and "listing ls" "store_inv (off_store off)" "\<forall>i. clock i < max_instant"
    and "import_response A (fo_tar fo) py312 ls clock off p encrypted aes_key hmac_key with_cache = (Inr r, off')"
    and "v \<in> set bs"
  shows "\<exists>b d. v = PDict b \<and> dget b ''digest'' = Some (PStr d)
    \<and> ((\<exists>x. file_bytes (st_blobs (off_store off')) (blob_key d) = Some x \<and> sha256_hex x = blob_key d)
       \<or> (\<exists>m. blob_error d m \<in> set (is_errors r)))"
proof -
  obtain ds manifests res source_id where
    f: "fetch_all E config S (PList bs) (PList imgs) = (Inr (ds, manifests, res), S')"
    and w: "write_response A E fo config aes_key hmac_key source_id args (on_cache S') ds manifests res = Inr (out, Some (path, encrypted))"
    using assms(14) unfolding cmd_fetch_def assms(7) sum.case prod.case assms(8) assms(9)
    by (auto simp: assms(10,11) rbind_Inr_iff split: sum.splits prod.splits if_splits)
  from fetch_all_facts[OF f assms(4,5,6,12)] obtain ds' extra where
    a: "cache_inv (on_cache S')" "small_cache (on_cache S')" "list_all error_entry (errors res)" "manifests_ok manifests"
       "bs = map PDict ds'" "ds = ds' @ extra" by blast
  from assms(19) a(5) obtain b where b: "v = PDict b" "b \<in> set ds'" by auto
  then have "b \<in> set ds" using a(6) by simp
  from written_response_delivers[OF assms(1-3,15) a(1,2) assms(16,17) a(3,4) assms(13) w assms(18) this] b(1) show ?thesis by blast
qed

text \<open>An online side without a network, paired with the demonstration's setup, with one blob in its cache.\<close>

definition dead_net :: "unit net" where
  "dead_net = \<lparr>urlopen = (\<lambda>w r. (Broken unicode_error, w)), opener = (\<lambda>w r. (Broken unicode_error, w))\<rparr>"

definition demo_env :: "unit online_env" where
  "demo_env = \<lparr>ev_net = dead_net, ev_date = (\<lambda>s. None), ev_environ = [], ev_now = 5, ev_order = (\<lambda>bs. bs)\<rparr>"

definition demo_online :: "unit online" where
  "demo_online = \<lparr>on_cache = demo_cache, on_digests = None, on_world = ()\<rparr>"

definition demo_found :: found where
  "demo_found = \<lparr>fo_requests = (\<lambda>d. []), fo_cwd = ''/tmp'', fo_nonce = replicate 12 CHR ''n'', fo_tar = toy_tar\<rparr>"

definition demo_args :: "bytes \<Rightarrow> fetch_args" where
  "demo_args sealed = \<lparr>fa_request = Some (''r.json.enc'', sealed), fa_output = None, fa_deb = None\<rparr>"

definition asked :: dict where
  "asked = [(''digest'', PStr demo_digest)]"

lemma demo_env_sane: "sane_env demo_env"
proof -
  have "\<exists>e. fst (fetch_blob dead_net d cl w r g) = Inl e" for d cl w r g
    by (simp add: fetch_blob_def request_def build_request_def get_token_def dead_net_def MAX_RETRIES_def numeral_3_eq_3 Let_def
        split: option.split)
  then show ?thesis
    by (auto simp: sane_env_def small_downloads_def blob_source_def demo_env_def split: prod.splits) (metis fst_conv sum.distinct(1) rbind.simps(1))
qed

lemma demo_paired:
  obtains raw salt check aes_key hmac_key where
    "open_config toy_aead ''c'' (Some raw) demo_mnemonic = Inr (paired_config FETCH_DEFAULTS salt check, aes_key, hmac_key)" "length aes_key = 32"
proof -
  obtain m12 salt where s: "split_mnemonic demo_mnemonic = Inr (m12, salt)" "salt \<noteq> []"
    unfolding demo_mnemonic_def split_generate_mnemonic using length_sha256 by (metis list.size(3) zero_neq_numeral)
  have t: "strip demo_mnemonic = demo_mnemonic" unfolding demo_mnemonic_def by (rule generated_stripped)
  have n: "length (replicate 12 CHR ''n'') = 12" by simp
  have c: "fetch_load_config ''c'' None = Inr FETCH_DEFAULTS" by (simp add: fetch_load_config_def)
  have w: "wf_json (PDict FETCH_DEFAULTS)" by (simp add: FETCH_DEFAULTS_def)
  have sp: "split_mnemonic (strip demo_mnemonic) = Inr (m12, salt)" using s(1) t by simp
  obtain aes_key hmac_key where k: "derive_keys toy_aead m12 salt FETCH_ITERATIONS = (aes_key, hmac_key)" by fastforce
  have l: "length aes_key = 32" using derived_length[OF toy_aead_works, of m12 salt FETCH_ITERATIONS] k by simp
  obtain check where "encrypt toy_aead (replicate 12 CHR ''n'') PAIR_MARKER (fst (derive_keys toy_aead m12 salt FETCH_ITERATIONS)) = Inr check"
    using encrypt_works[OF toy_aead_works _ n] l k by (metis fst_conv)
  from paired_opens[OF toy_aead_works n this c w s(2) sp] k l that show thesis by simp
qed

lemma demo_fetch_all:
  "fetch_all demo_env (paired_config FETCH_DEFAULTS salt check) demo_online (PList [PDict asked]) (PList [])
     = (Inr ([asked], [], \<lparr>downloaded = [], skipped = [demo_digest], errors = []\<rparr>), demo_online)"
proof -
  have h: "cache_has_blob demo_cache demo_digest" using cache_has_bytes[OF demo_cache_inv] by (simp add: demo_cache_bytes demo_key)
  have c: "load_credentials [] (paired_config FETCH_DEFAULTS salt check) ''docker.io'' = Inr None"
    by (simp add: load_credentials_def paired_config_def FETCH_DEFAULTS_def dget_or_def)
  have r: "fetch_registry demo_env (paired_config FETCH_DEFAULTS salt check) demo_online ''docker.io'' [asked]
    = (Inr \<lparr>downloaded = [], skipped = [demo_digest], errors = []\<rparr>, demo_online)"
    using h by (simp add: fetch_registry_def c demo_env_def demo_online_def fetch_def asked_def str_field_def dindex_def)
  show ?thesis
    by (simp add: fetch_all_def viter_def dget_or_def r no_results_def fetch_manifests_def known_digests_def asked_def)
      (simp add: r[unfolded asked_def] fetch_manifests_def known_digests_def)
qed

theorem fetch_command_delivers_witness:
  "\<exists>sealed raw out path encrypted S' r off'.
     cmd_fetch toy_aead demo_env demo_found ''c'' (Some raw) demo_mnemonic (demo_args sealed) demo_online = (Inr (out, Some (path, encrypted)), S')
     \<and> (\<exists>aes_key hmac_key. import_response toy_aead toy_tar True (\<lambda>t. t) (\<lambda>i. 7) demo_offline ''f'' encrypted aes_key hmac_key False = (Inr r, off'))
     \<and> ((\<exists>x. file_bytes (st_blobs (off_store off')) (blob_key demo_digest) = Some x \<and> sha256_hex x = blob_key demo_digest)
        \<or> (\<exists>m. blob_error demo_digest m \<in> set (is_errors r)))"
proof -
  obtain raw salt check aes_key hmac_key where
    o: "open_config toy_aead ''c'' (Some raw) demo_mnemonic = Inr (paired_config FETCH_DEFAULTS salt check, aes_key, hmac_key)"
    and l: "length aes_key = 32" by (rule demo_paired)
  let ?doc = "request_data 5 ''1'' ''site'' [PDict asked]"
  obtain sealed where s: "seal toy_aead (replicate 12 CHR ''n'') (py_encode (json_dumps False ?doc)) aes_key hmac_key = Inr sealed"
    using l by (simp add: seal_def encrypt_def Let_def toy_aead_def)
  have n: "length (replicate 12 CHR ''n'') = 12" by simp
  have d: "request_doc ?doc"
    using wf_request_data[of "[PDict asked]"] by (simp add: request_doc_def request_data_def dget_or_def vlen_def asked_def)
  obtain rd where rd: "?doc = PDict rd" "dget_or rd ''blobs'' (PList []) = PList [PDict asked]" "dget_or rd ''images'' (PList []) = PList []"
    by (simp add: request_data_def dget_or_def)
  have p: "process_request toy_aead sealed aes_key hmac_key ''r.json.enc'' = Inr (PDict rd)"
    using process_sealed[OF toy_aead_inverse n d s] rd(1) by simp
  obtain source_id where si: "dget_or rd ''source_id'' (PStr ''unknown'') = PStr source_id" using rd(1) by (auto simp: request_data_def dget_or_def)
  have a: "dget asked ''digest'' = Some (PStr demo_digest)" by (simp add: asked_def)
  obtain filename encrypted errs' where b: "build_response toy_aead toy_tar (replicate 12 CHR ''n'') 5 demo_cache [asked] []
       aes_key hmac_key source_id None [] = Inr (filename, encrypted, errs')" using demo_build_keys[OF a l] by blast
  have rq: "request_file config (demo_args sealed) demo_found = Inr (Inr (''r.json.enc'', sealed))" for config
    by (simp add: request_file_def demo_args_def)
  have tp: "transfer_path (paired_config FETCH_DEFAULTS salt check) = Inr None"
    by (simp add: transfer_path_def paired_config_def FETCH_DEFAULTS_def dget_or_def)
  obtain out path where c: "cmd_fetch toy_aead demo_env demo_found ''c'' (Some raw) demo_mnemonic (demo_args sealed) demo_online
      = (Inr (out, Some (path, encrypted)), demo_online)"
    using b by (simp add: cmd_fetch_def o rq p rd(2,3) si demo_fetch_all)
      (simp add: write_response_def demo_args_def tp demo_found_def demo_env_def demo_online_def Let_def str_of_def)
  obtain t where t: "response_tree toy_aead toy_tar True encrypted aes_key hmac_key ''f'' = Inr t" "fetch_errors t = Inr errs'"
    "\<And>s clock. \<exists>q s'. import_blobs s clock t = (Inr q, s')"
    by (rule built_response[OF toy_aead_inverse toy_tar_inverse n listing_id demo_cache_inv _ _ _ b, of True "''f''"])
      (auto simp: manifests_ok_def prefix_free_def deb_ok_def)
  obtain q s' where i: "import_blobs (off_store demo_offline) (\<lambda>i. 7) t = (Inr q, s')" using t(3) by blast
  obtain r off' where im: "import_response toy_aead toy_tar True (\<lambda>t. t) (\<lambda>i. 7) demo_offline ''f'' encrypted aes_key hmac_key False = (Inr r, off')"
    using import_response_ok[OF t(1), where ls = "\<lambda>t. t", OF t(2) i] by blast
  have clock: "\<forall>i. (7 :: nat) < max_instant" by (simp add: max_instant_def)
  have x: "cache_inv (on_cache demo_online)" "small_cache (on_cache demo_online)" "tar_inverse (fo_tar demo_found)"
    "length (fo_nonce demo_found) = 12" "fo_tar demo_found = toy_tar" "deb_ok (deb_file (demo_args sealed))" "images_ok []" "PDict asked \<in> set [PDict asked]"
    using demo_cache_inv demo_cache_small toy_tar_inverse
    by (simp_all add: demo_online_def small_cache_def demo_found_def deb_file_def demo_args_def deb_ok_def images_ok_def image_paths_def prefix_free_def)
  from fetch_command_delivers[OF toy_aead_inverse x(3,4,1,2) demo_env_sane o rq p rd(2,3) x(7,6) c listing_id demo_offline_store(1) clock
      im[folded x(5)] x(8)] a
  have "(\<exists>x. file_bytes (st_blobs (off_store off')) (blob_key demo_digest) = Some x \<and> sha256_hex x = blob_key demo_digest)
        \<or> (\<exists>m. blob_error demo_digest m \<in> set (is_errors r))" by auto
  with c im show ?thesis by blast
qed

end
