(* ===== verification/Registry_Client_Props.thy ===== *)
theory Registry_Client_Props
  imports Registry_Client
begin

text \<open>
  The retries of the registry client are bounded: in the requests they make and in the time they
  sleep, whatever the registry answers. The token of a scope is not sent to another host.
\<close>

section \<open>Bounded retries\<close>

text \<open>
  The network with two counters in its world: of the requests of the retry loop, and of those for a token,
  which are sent by \<open>urlopen\<close>.
\<close>

definition counted :: "'w net \<Rightarrow> ('w \<times> nat \<times> nat) net" where
  "counted N = \<lparr>urlopen = (\<lambda>(w, k, t) rq. case urlopen N w rq of (a, w) \<Rightarrow> (a, (w, k, Suc t))),
                opener = (\<lambda>(w, k, t) rq. case opener N w rq of (a, w) \<Rightarrow> (a, (w, Suc k, t)))\<rparr>"

lemma exchange_token_counted:
  "exchange_token (counted N) cl (w, k, t) realm service scope = (r, cl', v) \<Longrightarrow> \<exists>w' t'. v = (w', k, t') \<and> t' \<le> Suc t"
  by (auto simp: exchange_token_def counted_def Let_def split: prod.splits answer.splits sum.splits)

lemma get_token_counted: "get_token (counted N) cl (w, k, t) scope = (r, cl', v) \<Longrightarrow> \<exists>w' t'. v = (w', k, t') \<and> t' \<le> t + 2"
  by (auto simp: get_token_def Let_def counted_def split: prod.splits answer.splits sum.splits option.splits if_splits
      dest!: exchange_token_counted[unfolded counted_def])

lemma build_request_counted:
  "build_request (counted N) cl (w, k, t) path scope extra = (r, cl', v) \<Longrightarrow> \<exists>w' t'. v = (w', k, t') \<and> t' \<le> t + 2"
  by (auto simp: build_request_def split: prod.splits sum.splits dest: get_token_counted)

lemma parse_retry_after_min: "parse_retry_after dd v = Some q \<Longrightarrow> 1 \<le> q"
  by (auto simp: parse_retry_after_def split: if_splits option.splits float_value.splits)

text \<open>A sleep of the loop: at least a second, and no longer than the limit.\<close>

definition sleep_ok :: "rat \<Rightarrow> bool" where
  "sleep_ok q = (1 \<le> q \<and> q \<le> 120)"

lemma backoff_ok: "attempt < 2 \<Longrightarrow> sleep_ok (BACKOFF_BASE * 3 ^ attempt)"
  by (cases attempt; cases "attempt - 1") (auto simp: sleep_ok_def BACKOFF_BASE_def)

lemma rate_wait_ok: "wait_allowed (parse_retry_after dd v) \<Longrightarrow> sleep_ok (the (parse_retry_after dd v))"
  using parse_retry_after_min[of dd v] by (auto simp: wait_allowed_def sleep_ok_def MAX_RATE_LIMIT_WAIT_def split: option.splits)

text \<open>The token requests a loop may make: it authenticates again on its first attempt only.\<close>

definition again :: "nat \<Rightarrow> nat" where
  "again left = (if left = MAX_RETRIES then 2 else 0)"

lemma request_loop_bounded:
  "request_loop (counted N) dd left cl (w, k, t) req path scope extra = (r, cl', ws, v) \<Longrightarrow> left \<le> MAX_RETRIES \<Longrightarrow>
     (\<exists>w' k' t'. v = (w', k', t') \<and> k' \<le> k + left \<and> t' \<le> t + again left) \<and> length ws \<le> left - 1 \<and> list_all sleep_ok ws"
proof (induction left arbitrary: cl w k t req ws r cl' v)
  case 0
  then show ?case by auto
next
  case (Suc left)
  let ?attempt = "MAX_RETRIES - Suc left"
  have l: "left \<le> MAX_RETRIES" and none: "again left = 0" using Suc.prems(2) by (simp_all add: again_def)
  obtain a w1 where o: "opener N w req = (a, w1)" by fastforce
  have oc: "opener (counted N) (w, k, t) req = (a, (w1, Suc k, t))" using o by (simp add: counted_def)
  have more: "(\<exists>w' k' t'. v = (w', k', t') \<and> k' \<le> k + Suc left \<and> t' \<le> t + again (Suc left)) \<and> length ws \<le> Suc left - 1 \<and> list_all sleep_ok ws"
    if "request_loop (counted N) dd left cl1 (w2, Suc k, t1) req1 path scope extra = (r, cl', ws', v)" "t1 \<le> t + again (Suc left)"
      "ws = q # ws' \<and> sleep_ok q \<and> 0 < left \<or> ws = ws'" for cl1 w2 t1 req1 ws' q
    using Suc.IH[OF that(1) l] that(2,3) none by auto
  have pos: "?attempt < 2 \<Longrightarrow> 0 < left" using Suc.prems(2) by (simp add: MAX_RETRIES_def)
  note p = Suc.prems(1)[unfolded request_loop.simps Let_def oc prod.case]
  show ?case
  proof (cases a)
    case (Answer data)
    with p show ?thesis by auto
  next
    case (HttpError status hs)
    note h = p[unfolded HttpError answer.case]
    consider (auth) "status = 401 \<and> ?attempt = 0" | (limited) "status = 429" | (server) "500 \<le> status" "?attempt < 2"
      | (other) "\<not> (status = 401 \<and> ?attempt = 0)" "status \<noteq> 429" "\<not> (500 \<le> status \<and> ?attempt < 2)" by blast
    then show ?thesis
    proof cases
      case auth
      then have two: "again (Suc left) = 2" using Suc.prems(2) by (simp add: again_def)
      obtain b cl1 v1 where b: "build_request (counted N) (cl\<lparr>rc_tokens := ddel (rc_tokens cl) scope\<rparr>) (w1, Suc k, t) path scope extra = (b, cl1, v1)"
        by (metis prod_cases3)
      from build_request_counted[OF b] obtain w2 t1 where v1: "v1 = (w2, Suc k, t1)" "t1 \<le> t + 2" by blast
      show ?thesis
      proof (cases b)
        case (Inl e)
        with h auth b v1 two show ?thesis by auto
      next
        case (Inr rq)
        with h auth b v1 have "request_loop (counted N) dd left cl1 (w2, Suc k, t1) rq path scope extra = (r, cl', ws, v)" by auto
        from more[OF this] v1(2) two show ?thesis by simp
      qed
    next
      case limited
      show ?thesis
      proof (cases "?attempt < MAX_RETRIES - 1 \<and> wait_allowed (parse_retry_after dd (dget_or hs ''Retry-After'' []))")
        case True
        obtain r1 cl1 ws1 v1 where q: "request_loop (counted N) dd left cl (w1, Suc k, t) req path scope extra = (r1, cl1, ws1, v1)"
          by (metis prod_cases4)
        with h limited True have e: "r = r1" "cl' = cl1" "v = v1" "ws = the (parse_retry_after dd (dget_or hs ''Retry-After'' [])) # ws1" by auto
        have "0 < left" using True pos by (simp add: MAX_RETRIES_def)
        show ?thesis by (rule more[OF q[folded e(1-3)] le_add1 disjI1, OF conjI[OF e(4) conjI[OF rate_wait_ok[OF conjunct2[OF True]] \<open>0 < left\<close>]]])
      next
        case False
        with h limited show ?thesis by auto
      qed
    next
      case server
      obtain r1 cl1 ws1 v1 where q: "request_loop (counted N) dd left cl (w1, Suc k, t) req path scope extra = (r1, cl1, ws1, v1)"
        by (metis prod_cases4)
      with h server have e: "r = r1" "cl' = cl1" "v = v1" "ws = BACKOFF_BASE * 3 ^ ?attempt # ws1" by (auto simp: MAX_RETRIES_def)
      show ?thesis by (rule more[OF q[folded e(1-3)] le_add1 disjI1, OF conjI[OF e(4) conjI[OF backoff_ok[OF server(2)] pos[OF server(2)]]]])
    next
      case other
      with h show ?thesis by (auto simp: MAX_RETRIES_def)
    qed
  next
    case (UrlError m)
    show ?thesis
    proof (cases "?attempt < 2")
      case True
      obtain r1 cl1 ws1 v1 where q: "request_loop (counted N) dd left cl (w1, Suc k, t) req path scope extra = (r1, cl1, ws1, v1)"
        by (metis prod_cases4)
      with p UrlError True have e: "r = r1" "cl' = cl1" "v = v1" "ws = BACKOFF_BASE * 3 ^ ?attempt # ws1" by (auto simp: MAX_RETRIES_def)
      show ?thesis by (rule more[OF q[folded e(1-3)] le_add1 disjI1, OF conjI[OF e(4) conjI[OF backoff_ok[OF True] pos[OF True]]]])
    next
      case False
      with p UrlError show ?thesis by (auto simp: MAX_RETRIES_def)
    qed
  next
    case (Broken e)
    with p show ?thesis by auto
  qed
qed

text \<open>
  C28. Whatever the registry answers, a request of the client returns after at most seven requests in all: three for
  the resource itself and, to find and get a token, four others, two before the first attempt and two when that is
  answered with 401. It sleeps at most twice, each time between one second and two minutes. Redirects that the
  library follows within one request are not counted.
\<close>

theorem request_bounded:
  assumes "request (counted N) dd cl (w, k, t) path scope extra = (r, cl', ws, (w', k', t'))"
  shows "k' \<le> k + 3 \<and> t' \<le> t + 4 \<and> length ws \<le> 2 \<and> sum_list ws \<le> 240 \<and> (\<forall>q \<in> set ws. 1 \<le> q \<and> q \<le> 120)"
proof -
  obtain b cl1 v1 where b: "build_request (counted N) cl (w, k, t) path scope extra = (b, cl1, v1)" by (metis prod_cases3)
  from build_request_counted[OF b] obtain w1 t1 where v1: "v1 = (w1, k, t1)" "t1 \<le> t + 2" by blast
  have "k' \<le> k + 3 \<and> t' \<le> t + 4 \<and> length ws \<le> 2 \<and> list_all sleep_ok ws"
  proof (cases b)
    case (Inl e)
    with assms b v1 show ?thesis by (auto simp: request_def)
  next
    case (Inr rq)
    then have "request_loop (counted N) dd MAX_RETRIES cl1 (w1, k, t1) rq path scope extra = (r, cl', ws, (w', k', t'))"
      using assms b v1 by (simp add: request_def)
    from request_loop_bounded[OF this] v1(2) show ?thesis by (auto simp: MAX_RETRIES_def again_def)
  qed
  moreover have "list_all sleep_ok xs \<Longrightarrow> sum_list xs \<le> 120 * of_nat (length xs)" for xs
    by (induction xs) (auto simp: sleep_ok_def algebra_simps)
  moreover have "of_nat (length ws) \<le> (2 :: rat)" if "length ws \<le> 2" using that by (metis of_nat_le_iff of_nat_numeral)
  ultimately show ?thesis by (force simp: list_all_iff sleep_ok_def)
qed

text \<open>A registry that always asks to authenticate, gives tokens, and refuses them: every request is made.\<close>

definition demanding_net :: "unit net" where
  "demanding_net = \<lparr>urlopen = (\<lambda>w rq. if req_url rq = ''https://r.io/v2/''
       then (HttpError 401 [(''Www-Authenticate'', ''Bearer realm='' @ [CHR 0x22] @ ''t'' @ [CHR 0x22])], w)
       else (Answer (''{'' @ [CHR 0x22] @ ''token'' @ [CHR 0x22] @ '':'' @ [CHR 0x22] @ ''x'' @ [CHR 0x22] @ ''}''), w)),
     opener = (\<lambda>w rq. (HttpError 401 [], w))\<rparr>"

definition demo_client :: client where
  "demo_client = \<lparr>rc_registry = ''r.io'', rc_credentials = None, rc_tokens = []\<rparr>"

theorem request_bounded_witness:
  "case request (counted demanding_net) (\<lambda>_. None) demo_client ((), 0, 0) ''/v2/'' ''s'' [] of
     (r, cl', ws, (w', k', t')) \<Rightarrow> k' \<le> 3 \<and> t' \<le> 4 \<and> sum_list ws \<le> 240 \<and> k' = 2 \<and> t' = 4 \<and> ws = []"
proof -
  obtain r cl' ws w' k' t' where r: "request (counted demanding_net) (\<lambda>_. None) demo_client ((), 0, 0) ''/v2/'' ''s'' [] = (r, cl', ws, (w', k', t'))"
    by (metis prod_cases4 prod_cases3)
  have "case request (counted demanding_net) (\<lambda>_. None) demo_client ((), 0, 0) ''/v2/'' ''s'' [] of
     (r, cl', ws, (w', k', t')) \<Rightarrow> k' = 2 \<and> t' = 4 \<and> ws = []" by code_simp
  with request_bounded[OF r] r show ?thesis by simp
qed

end
