(* ===== verification/Spec2Isabelle.thy ===== *)
theory Spec2Isabelle
  imports Offline_CLI_Props Logging_Props Server_Pool Certificates Oci Fetch_Delivery Crypto Store_GC_Spec Manifest_Cache_Props Resolver_Spec Handler_Routes_Props Fetcher_Props Registry_Client_Props Handler_Props
begin

text \<open>
  Buncker, an offline container registry. A daemon behind an air gap (\<open>src/buncker\<close>) keeps blobs and
  manifests, analyses Dockerfiles and Compose files for the blobs it lacks and serves what it has
  through the OCI distribution API. It writes what it lacks into an encrypted request file. On the
  online side (\<open>src/buncker_fetch\<close>) a command line opens the request, fetches the blobs from their
  registries into a cache and seals them into an encrypted response, which the daemon imports.
  \<open>src/shared\<close> is what both sides use.

  Python in HOL. A \<open>str\<close> and a \<open>bytes\<close> are both Isabelle strings; a character stands for a code
  point below 256, and a code path that needs one beyond, or that leaves the model in another way,
  ends in the error \<open>not_modelled\<close>, never in a result. A \<open>dict\<close> is an association list in insertion
  order with \<open>dget\<close>, \<open>dset\<close> and \<open>ddel\<close>; a value of unknown type is a \<open>pyval\<close>, and the operations on
  it raise the \<open>TypeError\<close> or \<open>AttributeError\<close> of Python. Integers are unbounded, SHA-256 is written out
  on 32-bit words. A function that may raise gives a \<open>'a res\<close>, the exception or the value; one with
  effects also gives the state it leaves, on the error branches too.

  Foundations: \<open>Py_Prelude\<close> (values, dictionaries, strings, and the hints of all proofs), \<open>Py_Errors\<close>
  (exceptions, with \<open>shared/exceptions.py\<close>), \<open>Py_Codec\<close> (UTF-8, bytes, hexadecimal), \<open>Py_Time\<close>
  (\<open>datetime\<close>, with \<open>fromisoformat\<close> as Python 3.11 and later read it), \<open>Py_Url\<close> and \<open>Py_Query\<close> (\<open>urlparse\<close>, \<open>parse_qs\<close>, \<open>int\<close>), \<open>Py_Json\<close>, \<open>Py_Json_Loads\<close> and
  \<open>Py_Json_File\<close> (the two directions of \<open>json\<close>, their round trip, JSON files), \<open>Py_Files\<close> (directories),
  \<open>Sha256\<close>, and \<open>Wordlist\<close> with \<open>WL_1\<close> to \<open>WL_16\<close> (\<open>shared/wordlist.py\<close>).

  Shared: \<open>Crypto\<close> (\<open>shared/crypto.py\<close>: mnemonics, key derivation, sealing), \<open>Oci\<close> (\<open>shared/oci.py\<close>:
  manifests, indexes, the image layout), \<open>Config\<close> (both \<open>config.py\<close>), \<open>Archive\<close> (extraction as
  \<open>tarfile\<close> and the code's own checks do it), \<open>Content_Store\<close> (the contract of a content-addressed
  store, a locale that the blob store and the online cache both interpret).

  The daemon: \<open>Blob_Store\<close> and \<open>Store_GC\<close> (\<open>store.py\<close>), with \<open>Blob_Store_Props\<close>, \<open>Store_Spec\<close> and
  \<open>Store_GC_Spec\<close> for the invariant, the abstract store it refines, and the steps and reachable
  states; \<open>Manifest_Cache\<close> (\<open>registry_client.py\<close>); \<open>Image_Ref\<close>, \<open>Dockerfile\<close>, \<open>Resolver\<close> and \<open>Compose\<close>
  (\<open>resolver.py\<close>, \<open>compose.py\<close>), where the locale \<open>blob_index\<close> is what the analysis needs of a store;
  \<open>Transfer_Server\<close> (\<open>transfer.py\<close>) with the locale \<open>channel\<close> for what is sealed and opened;
  \<open>Auth\<close> (\<open>auth.py\<close>, the locale \<open>access_policy\<close>) and \<open>Rate_Limiter\<close> (\<open>server.py\<close>);
  \<open>Handler_Routes\<close>, \<open>Handler_OCI\<close>, \<open>Handler_State\<close>, \<open>Handler_Analysis\<close>, \<open>Handler_Import\<close> and \<open>Handler_Admin\<close>
  (\<open>handler.py\<close>: from the WSGI environment to the endpoint, every endpoint as a step of the record
  \<open>daemon\<close>, and \<open>serve\<close>, one whole request); \<open>Daemon\<close> (the daemon as a transition system whose steps
  are requests, streams and restarts); \<open>Server_Setup\<close>, \<open>Server_Start\<close> and \<open>Certificates\<close> (\<open>__main__.py\<close>,
  \<open>auth.py\<close>: the setup commands over the files of a host, the start of the daemon, the certificates);
  \<open>Server_Pool\<close> (\<open>server.py\<close>: submissions to the pool of threads and its end; what the pool does with
  them, \<open>pool_do\<close>, is the standard library's \<open>ThreadPoolExecutor\<close>); \<open>Logging\<close> (\<open>shared/logging.py\<close>);
  \<open>Offline_CLI\<close> (\<open>__main__.py\<close>: the commands that call the daemon, over a link that is a parameter, and
  the link to the modelled daemon over plain HTTP).

  The online side: \<open>Fetch_Cache\<close> (\<open>cache.py\<close>), \<open>Registry_Client\<close> (\<open>registry_client.py\<close>), \<open>Fetcher\<close>
  (\<open>fetcher.py\<close>), \<open>Transfer_Fetch\<close> (\<open>transfer.py\<close>) and \<open>Fetch_Main\<close> (\<open>__main__.py\<close>: pair, inspect, fetch,
  status, cache clean).

  Lemmas. A theory \<open>X_Props\<close> holds the properties of the component \<open>X\<close>: of the store, that every
  operation keeps its invariant and refines an update of a finite map; of the rate limiter, its bound,
  which is weaker by the time a call waits between the clock and the lock, and its recovery; of the handler, that an endpoint is reached only past the access check, and where
  that fails; of the resolver, that an analysis splits what an image needs exactly by what the store
  has; of the Dockerfile parser, that its loop is a specification of the file as a whole; of the parsers and
  writers, round trips; of the configuration, exactly what loading checks; of the registry client, bounds
  on requests and waiting time; of the fetcher, that it accounts for every descriptor or ends in an
  exception of a download; of the setup commands, which mnemonics and tokens a daemon accepts then. \<open>Import_Props\<close> and \<open>Delivery\<close> follow a response from the cache it is built from to the store it
  is imported into, \<open>Pairing\<close> the keys from the setup to the pairing, \<open>Fetch_Delivery\<close> the command
  \<open>fetch\<close> as a whole, \<open>Offline_CLI_Props\<close> the commands of the daemon's host through the handler and back,
  \<open>Logging_Props\<close> a log line from the logger to the log query; this theory closes the circle with the request that started it.

  Bounds and fuel. Only the JSON decoder has fuel: \<open>json_fuel s\<close> is twice the length of the text plus
  two, and \<open>json_loads\<close> is proved never to run out of it. Loops that count are recursive functions with
  a measure, and retries recurse on \<open>MAX_RETRIES\<close>. \<open>max_rw_count\<close> is what Linux writes in one call of
  \<open>os.write\<close>, which the store does not repeat; \<open>int_limit\<close> the digits \<open>int\<close> reads; \<open>CHUNK_SIZE\<close>, the
  limits of bodies, windows and iterations are the constants of the source.

  Parameters. AES-GCM (\<open>aead\<close>, with \<open>aead_inverse\<close> where a proof needs decryption to undo encryption),
  the \<open>tarfile\<close> archive format (\<open>tar_codec\<close>, \<open>tar_inverse\<close>), \<open>yaml.safe_load\<close>, the network (answers to
  requests, over a state of its own), the file system outside the store, the clock, random values,
  the encoding of certificates, the listening socket, the order of directories, sets and completed
  downloads (list arguments that no theorem fixes). The hypotheses on them state documented behaviour; each has a
  witness with a concrete instance.

  Not modelled: the argument parsers and what is only printed, since no other part reads it; the calls
  of the logger in the other components, whose records are arguments of \<open>Logging\<close>; file modes,
  \<open>systemctl\<close>, signal handlers and the TLS handshake, which are the operating system's and the
  libraries'. A request is one step, as the handler's locks make it for the state a property
  mentions; the sequences of steps stand for the interleavings of threads. A call of the rate limiter has
  the time it read before it took the lock as its argument, so the times of a sequence need not be in order. The streams of blobs are
  steps of their own.
\<close>

declare map_of_eq_Some_iff [simp del]

section \<open>A transfer, there and back\<close>

text \<open>
  C1. A request generated from an analysis is opened on the online side; where the cache there holds
  every blob the request names, the response built from it, imported by any daemon with the same
  keys, leaves that daemon with every blob the analysis missed.
\<close>

theorem transfer_cycle:
  assumes generated: "read_json_body W rq input = Inr (Inr (PDict body))" "dget_or body ''analysis_id'' PNone = PStr i" "i \<noteq> []"
      "\<not> truthy (dget_or body ''refresh_stale'' (PBool False))" "dm_last_analysis D = Some (i, a)" "an_missing a \<noteq> []"
      "\<forall>b \<in> set (an_missing a). wf_json (mb_size b) \<and> wf_json (mb_media_type b)"
      "se_crypto_keys S = Some keys" "aead_inverse (wd_aead W)" "length (wd_nonce W) = 12"
      "handle_admin_generate_manifest W S D rq input = (Inr r, D1)"
    and opened: "process_request (wd_aead W) (rs_body r) (fst keys) (snd keys) p = Inr (PDict d)" "dget d ''blobs'' = Some (PList (map PDict blobs))"
    and online: "tar_inverse T" "length nonce = 12" "cache_inv c" "\<forall>h b. cache_bytes c h = Some b \<longrightarrow> length b \<le> max_rw_count"
      "\<forall>m \<in> set (an_missing a). cache_bytes c (blob_key (mb_digest m)) \<noteq> None"
      "list_all error_dict errs" "manifests_ok manifests" "deb_ok deb"
      "build_response (wd_aead W) T nonce now c blobs errs (fst keys) (snd keys) source_id deb manifests = Inr (filename, encrypted, errs')"
    and imported: "wd_aead W' = wd_aead W" "wd_tar W' = T" "sane_world W'" "store_inv (dm_store D2)" "run_import W' D2 path encrypted keys = (x, D3)"
    and missing: "m \<in> set (an_missing a)"
  shows "has_blob (dm_store D3) (mb_digest m) \<and> store_inv (dm_store D3)"
proof -
  obtain aes_key hmac_key where keys: "keys = (aes_key, hmac_key)" by (cases keys)
  obtain d' images where d': "process_request (wd_aead W) (rs_body r) aes_key hmac_key p = Inr (PDict d')"
    "dget d' ''blobs'' = Some (PList (map missing_dict (an_missing a)))"
    using generated_request_data[OF generated(1-7) generated(8)[unfolded keys] generated(9-11)] by blast
  then have "map PDict blobs = map missing_dict (an_missing a)" using opened by (simp add: keys)
  moreover have "missing_dict m \<in> set (map missing_dict (an_missing a))" using missing by simp
  ultimately obtain b where b: "b \<in> set blobs" "missing_dict m = PDict b" by (metis (no_types, lifting) image_iff list.set_map)
  then have dg: "dget b ''digest'' = Some (PStr (mb_digest m))" by (auto simp: missing_dict_def)
  obtain data where data: "cache_bytes c (blob_key (mb_digest m)) = Some data" using online(5) missing by blast
  obtain q off' where i: "import_response (wd_aead W') (wd_tar W') (wd_py312 W') (wd_ls W') (wd_clock W') (dm_offline D2) path encrypted
      (fst keys) (snd keys) True = (q, off')" by fastforce
  then have D3: "dm_store D3 = off_store off'" using imported(5) by (simp add: run_import_def) (metis daemon.select_convs(1) daemon.surjective daemon.update_convs(1) prod.inject)
  have w: "listing (wd_ls W')" "\<forall>i. wd_clock W' i < max_instant" using imported(3) by (simp_all add: sane_world_def)
  from delivered_blob[OF generated(9) online(1,2) w(1) online(3,4) imported(4) w(2) online(6-8,9) i[unfolded imported(1,2)] b(1) dg data]
  have "store_inv (off_store off')" "file_bytes (st_blobs (off_store off')) (blob_key (mb_digest m)) \<noteq> None" by auto
  then show ?thesis
    using has_blob_abs[of "off_store off'" "mb_digest m"] abs_store_dom[of "off_store off'" "blob_key (mb_digest m)"]
    by (simp add: D3 strip_prefix_key)
qed

theorem transfer_cycle_witness:
  "\<exists>r D1 d b encrypted x D3. handle_admin_generate_manifest demo_world demo_settings generate_start generate_rq generate_body = (Inr r, D1)
     \<and> process_request toy_aead (rs_body r) (replicate 32 CHR ''k'') ''hm'' ''f'' = Inr (PDict d) \<and> dget d ''blobs'' = Some (PList [PDict b])
     \<and> run_import (demo_world\<lparr>wd_tar := toy_tar\<rparr>) demo_start ''r'' encrypted (replicate 32 CHR ''k'', ''hm'') = (x, D3)
     \<and> \<not> has_blob (dm_store demo_start) demo_digest \<and> has_blob (dm_store D3) demo_digest"
proof -
  let ?keys = "(replicate 32 CHR ''k'', ''hm'')" and ?W = "demo_world\<lparr>wd_tar := toy_tar\<rparr>"
  note g = demo_generate_facts
  obtain r D1 where h: "handle_admin_generate_manifest demo_world demo_settings generate_start generate_rq generate_body = (Inr r, D1)"
    using demo_generated by blast
  obtain b where b: "missing_dict demo_missing = PDict b" "dget b ''digest'' = Some (PStr demo_digest)"
    by (simp add: missing_dict_def demo_missing_def)
  from generated_request_data[OF g(1-10) h, of "''f''"] obtain d where
    d: "process_request (wd_aead demo_world) (rs_body r) (fst ?keys) (snd ?keys) ''f'' = Inr (PDict d)" "dget d ''blobs'' = Some (PList (map PDict [b]))"
    unfolding g(11) by (auto simp: b(1))
  have w: "wd_aead demo_world = toy_aead" "wd_aead ?W = wd_aead demo_world" "wd_tar ?W = toy_tar" "sane_world ?W"
    using demo_world_sane by (simp_all add: demo_world_def sane_world_def)
  obtain filename encrypted errs' where e: "build_response (wd_aead demo_world) toy_tar (replicate 12 CHR ''n'') 5 demo_cache [b] []
      (fst ?keys) (snd ?keys) ''site'' None [] = Inr (filename, encrypted, errs')"
    using demo_build[OF b(2)] by (auto simp: w)
  have m: "demo_missing \<in> set (an_missing demo_result)" "mb_digest demo_missing = demo_digest"
    "\<forall>m \<in> set (an_missing demo_result). cache_bytes demo_cache (blob_key (mb_digest m)) \<noteq> None"
    by (simp_all add: g(11) demo_cache_bytes demo_key) (simp_all add: demo_missing_def demo_key)
  have ok: "list_all error_dict []" "manifests_ok []" "deb_ok None" by (simp_all add: manifests_ok_def prefix_free_def deb_ok_def)
  have s: "dm_store demo_start = off_store demo_offline" by (simp add: demo_start_def new_daemon_def demo_offline_def)
  have inv: "store_inv (dm_store demo_start)" unfolding s by (rule demo_offline_store(1))
  have n: "\<not> has_blob (dm_store demo_start) demo_digest"
    using has_blob_abs[OF inv] abs_store_dom[OF inv] demo_offline_store(2) by (simp add: s)
  obtain x D3 where x: "run_import ?W demo_start ''r'' encrypted ?keys = (x, D3)" by fastforce
  have l: "length (replicate 12 CHR ''n'') = 12" by simp
  from transfer_cycle[OF g(1-10) h d toy_tar_inverse l demo_cache_inv demo_cache_small m(3) ok e w(2-4) inv x m(1)]
  have "has_blob (dm_store D3) demo_digest" by (simp add: m(2))
  with h d x n show ?thesis unfolding w(1) by auto
qed

end
